(* ===== verification/Node_Prelude.thy ===== *)
theory Node_Prelude
  imports Main "HOL-Library.Word" "HOL-Library.FSet" "HOL-Library.Multiset"
begin

text \<open>
  Vocabulary shared by every component of the node model.

  \<^item> Rust's \<^verbatim>\<open>Result<A, E>\<close> is the sum \<^verbatim>\<open>'e + 'a\<close> (\<^verbatim>\<open>Inl\<close> is \<^verbatim>\<open>Err\<close>), with the combinators
    \<^verbatim>\<open>?\<close>, \<^verbatim>\<open>map_err\<close>, \<^verbatim>\<open>ok_or\<close> and \<^verbatim>\<open>ensure!\<close>.
  \<^item> A dispatchable of a FRAME pallet is a function from the storage to the storage it
    leaves behind and a \<^verbatim>\<open>Result\<close>.  FRAME runs the body of every \<^verbatim>\<open>#[pallet::call]\<close> function in
    \<^verbatim>\<open>with_storage_layer\<close>, which discards the storage changes of a call that returns \<^verbatim>\<open>Err\<close>;
    the locale \<^verbatim>\<open>transactional\<close> is the contract this gives to every caller.
  \<^item> Machine integers are \<^verbatim>\<open>'a word\<close>; \<^verbatim>\<open>saturating_add\<close>, \<^verbatim>\<open>saturating_sub\<close> and \<^verbatim>\<open>saturating_mul\<close>
    are the Rust methods of these names, with their values given by the \<^verbatim>\<open>unat_saturating\<close> lemmas.
  \<^item> \<^verbatim>\<open>BoundedBTreeSet\<close> and \<^verbatim>\<open>BoundedVec\<close> are finite sets and lists with the fallible
    conversions of \<^verbatim>\<open>bounded-collections\<close>.
\<close>

named_theorems step_preserves \<open>what the steps of a component keep of an invariant\<close>

type_synonym byte = "8 word"
type_synonym bytes = "8 word list"
type_synonym u16 = "16 word"
type_synonym u32 = "32 word"
type_synonym u64 = "64 word"
type_synonym u128 = "128 word"
type_synonym ('e, 'a) result = "'e + 'a"
type_synonym ('s, 'e, 'a) dispatchable = "'s \<Rightarrow> 's \<times> ('e + 'a)"

abbreviation Ok :: "'a \<Rightarrow> ('e, 'a) result" where "Ok \<equiv> Inr"
abbreviation Err :: "'e \<Rightarrow> ('e, 'a) result" where "Err \<equiv> Inl"

section \<open>Results\<close>

fun and_then :: "('e, 'a) result \<Rightarrow> ('a \<Rightarrow> ('e, 'b) result) \<Rightarrow> ('e, 'b) result" where
  "and_then (Inl e) f = Inl e"
| "and_then (Inr a) f = f a"

fun map_err :: "('e \<Rightarrow> 'f) \<Rightarrow> ('e, 'a) result \<Rightarrow> ('f, 'a) result" where
  "map_err f (Inl e) = Inl (f e)"
| "map_err f (Inr a) = Inr a"

fun map_ok :: "('a \<Rightarrow> 'b) \<Rightarrow> ('e, 'a) result \<Rightarrow> ('e, 'b) result" where
  "map_ok f (Inl e) = Inl e"
| "map_ok f (Inr a) = Inr (f a)"

fun ok_or :: "'e \<Rightarrow> 'a option \<Rightarrow> ('e, 'a) result" where
  "ok_or e None = Inl e"
| "ok_or e (Some a) = Inr a"

fun result_ok :: "('e, 'a) result \<Rightarrow> 'a option" where
  "result_ok (Inl e) = None"
| "result_ok (Inr a) = Some a"

fun is_ok :: "('e, 'a) result \<Rightarrow> bool" where
  "is_ok (Inl e) = False"
| "is_ok (Inr a) = True"

definition ensure :: "bool \<Rightarrow> 'e \<Rightarrow> ('e, unit) result" where
  "ensure b e = (if b then Inr () else Inl e)"

primrec try_map :: "('a \<Rightarrow> ('e, 'b) result) \<Rightarrow> 'a list \<Rightarrow> ('e, 'b list) result" where
  "try_map f [] = Inr []"
| "try_map f (x # xs) = and_then (f x) (\<lambda>y. and_then (try_map f xs) (\<lambda>ys. Inr (y # ys)))"

section \<open>Panics\<close>

text \<open>An \<^verbatim>\<open>expect\<close> or \<^verbatim>\<open>unwrap\<close> that fails stops the execution with its message.\<close>

datatype 'a outcome = Returns 'a | Panics string

fun expect :: "string \<Rightarrow> ('e, 'a) result \<Rightarrow> 'a outcome" where
  "expect msg (Inl e) = Panics msg"
| "expect msg (Inr a) = Returns a"

fun outcome_bind :: "'a outcome \<Rightarrow> ('a \<Rightarrow> 'b outcome) \<Rightarrow> 'b outcome" where
  "outcome_bind (Panics msg) f = Panics msg"
| "outcome_bind (Returns a) f = f a"

section \<open>Storage layers\<close>

definition with_storage_layer :: "('s, 'e, 'a) dispatchable \<Rightarrow> ('s, 'e, 'a) dispatchable" where
  "with_storage_layer f s = (case f s of (s', Inl e) \<Rightarrow> (s, Inl e) | (s', Inr a) \<Rightarrow> (s', Inr a))"

text \<open>Sequences of fallible steps on a state, where \<^verbatim>\<open>?\<close> leaves with the state reached so far.\<close>

definition st_bind ::
  "('s, 'e, 'a) dispatchable \<Rightarrow> ('a \<Rightarrow> ('s, 'e, 'b) dispatchable) \<Rightarrow> ('s, 'e, 'b) dispatchable" where
  "st_bind m f s = (case m s of (s', Inl e) \<Rightarrow> (s', Inl e) | (s', Inr a) \<Rightarrow> f a s')"

definition st_lift :: "('e, 'a) result \<Rightarrow> ('s, 'e, 'a) dispatchable" where
  "st_lift r s = (s, r)"

definition st_modify :: "('s \<Rightarrow> 's) \<Rightarrow> ('s, 'e, unit) dispatchable" where
  "st_modify f s = (f s, Inr ())"

definition st_gets :: "('s \<Rightarrow> ('e, 'a) result) \<Rightarrow> ('s, 'e, 'a) dispatchable" where
  "st_gets f s = (s, f s)"

section \<open>Machine integers\<close>

definition saturating_add :: "'a::len word \<Rightarrow> 'a word \<Rightarrow> 'a word" where
  "saturating_add a b = (if unat a + unat b < 2 ^ LENGTH('a) then a + b else - 1)"

definition saturating_sub :: "'a::len word \<Rightarrow> 'a word \<Rightarrow> 'a word" where
  "saturating_sub a b = (if b \<le> a then a - b else 0)"

definition saturating_mul :: "'a::len word \<Rightarrow> 'a word \<Rightarrow> 'a word" where
  "saturating_mul a b = (if unat a * unat b < 2 ^ LENGTH('a) then a * b else - 1)"

text \<open>Little endian bytes.\<close>

definition u64_le_bytes :: "u64 \<Rightarrow> bytes" where
  "u64_le_bytes w = map (\<lambda>i. ucast (drop_bit (8 * i) w)) [0..<8]"

definition u32_le_bytes :: "u32 \<Rightarrow> bytes" where
  "u32_le_bytes w = map (\<lambda>i. ucast (drop_bit (8 * i) w)) [0..<4]"

definition u32_of_le_bytes :: "bytes \<Rightarrow> u32 option" where
  "u32_of_le_bytes bs =
     (if 4 \<le> length bs then Some (of_nat (horner_sum unat (2 ^ 8) (take 4 bs))) else None)"

section \<open>Bounded collections\<close>

definition bounded_try_insert :: "nat \<Rightarrow> 'a \<Rightarrow> 'a fset \<Rightarrow> ('a, 'a fset \<times> bool) result" where
  "bounded_try_insert bound x s =
     (if fcard s < bound \<or> x |\<in>| s then Inr (finsert x s, x |\<notin>| s) else Inl x)"

definition bounded_vec_try_from :: "nat \<Rightarrow> 'a list \<Rightarrow> ('a list, 'a list) result" where
  "bounded_vec_try_from bound xs = (if length xs \<le> bound then Inr xs else Inl xs)"

section \<open>Origins and dispatch results\<close>

datatype ('acc, 'x) raw_origin = Root | Signed 'acc | NoneOrigin | CustomOrigin 'x

datatype 'm dispatch_error = BadOrigin | ModuleError 'm

datatype pays = PaysYes | PaysNo

record 'w post_dispatch_info =
  actual_weight :: "'w option"
  pays_fee :: pays

fun ensure_root :: "('acc, 'x) raw_origin \<Rightarrow> ('m dispatch_error, unit) result" where
  "ensure_root Root = Inr ()"
| "ensure_root _ = Inl BadOrigin"

fun ensure_signed :: "('acc, 'x) raw_origin \<Rightarrow> ('m dispatch_error, 'acc) result" where
  "ensure_signed (Signed a) = Inr a"
| "ensure_signed _ = Inl BadOrigin"

fun ensure_none :: "('acc, 'x) raw_origin \<Rightarrow> ('m dispatch_error, unit) result" where
  "ensure_none NoneOrigin = Inr ()"
| "ensure_none _ = Inl BadOrigin"

section \<open>Lemmas\<close>

lemma and_then_Inr_iff [simp]: "and_then r f = Inr b \<longleftrightarrow> (\<exists>a. r = Inr a \<and> f a = Inr b)"
  by (cases r) auto

lemma and_then_Inl_iff: "and_then r f = Inl e \<longleftrightarrow> r = Inl e \<or> (\<exists>a. r = Inr a \<and> f a = Inl e)"
  by (cases r) auto

lemma map_err_Inr_iff [simp]: "map_err f r = Inr a \<longleftrightarrow> r = Inr a"
  by (cases r) auto

lemma map_err_Inl_iff: "map_err f r = Inl e \<longleftrightarrow> (\<exists>d. r = Inl d \<and> e = f d)"
  by (cases r) auto

lemma map_ok_Inr_iff [simp]: "map_ok f r = Inr b \<longleftrightarrow> (\<exists>a. r = Inr a \<and> b = f a)"
  by (cases r) auto

lemma ok_or_Inr_iff [simp]: "ok_or e x = Inr a \<longleftrightarrow> x = Some a"
  by (cases x) auto

lemma ok_or_Inl_iff [simp]: "ok_or e x = Inl d \<longleftrightarrow> x = None \<and> d = e"
  by (cases x) auto

lemma result_ok_Some_iff [simp]: "result_ok r = Some a \<longleftrightarrow> r = Inr a"
  by (cases r) auto

lemma result_ok_None_iff [simp]: "result_ok r = None \<longleftrightarrow> (\<exists>e. r = Inl e)"
  by (cases r) auto

lemma is_ok_iff: "is_ok r \<longleftrightarrow> (\<exists>a. r = Inr a)"
  by (cases r) auto

lemma ensure_Inr_iff [simp]: "ensure b e = Inr u \<longleftrightarrow> b"
  by (simp add: ensure_def)

lemma ensure_Inl_iff [simp]: "ensure b e = Inl d \<longleftrightarrow> \<not> b \<and> d = e"
  by (auto simp: ensure_def)

lemma expect_Returns_iff [simp]: "expect msg r = Returns a \<longleftrightarrow> r = Inr a"
  by (cases r) auto

lemma outcome_bind_Returns_iff [simp]:
  "outcome_bind r f = Returns b \<longleftrightarrow> (\<exists>a. r = Returns a \<and> f a = Returns b)"
  by (cases r) auto

lemma try_map_Inr_iff: "try_map f xs = Inr ys \<longleftrightarrow> list_all2 (\<lambda>x y. f x = Inr y) xs ys"
proof (induction xs arbitrary: ys)
  case (Cons x xs)
  then show ?case by (cases ys) auto
qed auto

lemma try_map_length: "try_map f xs = Inr ys \<Longrightarrow> length ys = length xs"
  by (simp add: try_map_Inr_iff list_all2_lengthD)

lemma with_storage_layer_Inr_iff:
  "with_storage_layer f s = (s', Inr a) \<longleftrightarrow> f s = (s', Inr a)"
  by (auto simp: with_storage_layer_def split: prod.splits sum.splits)

lemma with_storage_layer_Inl_iff:
  "with_storage_layer f s = (s', Inl e) \<longleftrightarrow> s' = s \<and> (\<exists>t. f s = (t, Inl e))"
  by (auto simp: with_storage_layer_def split: prod.splits sum.splits)

lemma snd_with_storage_layer [simp]: "snd (with_storage_layer f s) = snd (f s)"
  by (auto simp: with_storage_layer_def split: prod.splits sum.splits)

lemma st_bind_Inr_iff [simp]:
  "st_bind m f s = (s', Inr b) \<longleftrightarrow> (\<exists>t a. m s = (t, Inr a) \<and> f a t = (s', Inr b))"
  by (auto simp: st_bind_def split: prod.splits sum.splits)

lemma st_bind_Inl_iff:
  "st_bind m f s = (s', Inl e) \<longleftrightarrow> m s = (s', Inl e) \<or> (\<exists>t a. m s = (t, Inr a) \<and> f a t = (s', Inl e))"
  by (auto simp: st_bind_def split: prod.splits sum.splits)

lemma st_simple_steps [simp]:
  "st_lift r s = (s', r') \<longleftrightarrow> s' = s \<and> r = r'"
  "st_modify f s = (s', u) \<longleftrightarrow> s' = f s \<and> u = Inr ()"
  "st_gets g s = (s', r') \<longleftrightarrow> s' = s \<and> g s = r'"
  by (auto simp: st_lift_def st_modify_def st_gets_def)

lemma st_bind_preserves [step_preserves]:
  assumes "\<And>s. P s \<Longrightarrow> P (fst (m s))" and "\<And>a s. P s \<Longrightarrow> P (fst (f a s))" and "P s"
  shows "P (fst (st_bind m f s))"
proof -
  obtain t r where "m s = (t, r)" by (cases "m s")
  with assms show ?thesis by (cases r) (auto simp: st_bind_def dest: assms(1) [of s])
qed

lemma st_steps_preserve [step_preserves]:
  "P s \<Longrightarrow> P (fst (st_lift r s))" "P s \<Longrightarrow> P (fst (st_gets g s))" "P (f s) \<Longrightarrow> P (fst (st_modify f s))"
  by (simp_all add: st_lift_def st_gets_def st_modify_def)

lemma ensure_root_Inr_iff [simp]: "ensure_root origin = Inr u \<longleftrightarrow> origin = Root"
  by (cases origin) auto

lemma ensure_signed_Inr_iff [simp]: "ensure_signed origin = Inr a \<longleftrightarrow> origin = Signed a"
  by (cases origin) auto

lemma ensure_none_Inr_iff [simp]: "ensure_none origin = Inr u \<longleftrightarrow> origin = NoneOrigin"
  by (cases origin) auto

lemma unat_max_word: "unat (- 1 :: 'a::len word) = 2 ^ LENGTH('a) - 1"
  by (simp add: unsigned_minus_1_eq_mask mask_eq_exp_minus_1)

lemma unat_of_nat_small: "n < 2 ^ LENGTH('a) \<Longrightarrow> unat (of_nat n :: 'a::len word) = n"
  by (simp add: unsigned_of_nat take_bit_nat_eq_self)

lemma unat_bound: "unat (w :: 'a::len word) < 2 ^ LENGTH('a)"
  by (rule unsigned_less)

lemma word_less_Suc_iff: "b \<noteq> - 1 \<Longrightarrow> a < b + 1 \<longleftrightarrow> a \<le> (b :: 'a::len word)"
proof -
  assume "b \<noteq> - 1"
  then have "unat b \<noteq> 2 ^ LENGTH('a) - 1" by (metis unat_max_word word_unat_eq_iff)
  then have "unat b + 1 < 2 ^ LENGTH('a)" using unat_bound [of b] by linarith
  then have "unat (b + 1) = unat b + 1" by (simp add: unat_word_ariths(1))
  then show ?thesis by (simp add: word_less_nat_alt word_le_nat_alt less_Suc_eq_le)
qed

lemma unat_saturating_add:
  "unat (saturating_add a (b :: 'a::len word)) = min (unat a + unat b) (2 ^ LENGTH('a) - 1)"
proof (cases "unat a + unat b < 2 ^ LENGTH('a)")
  case True
  then show ?thesis
    by (simp add: saturating_add_def unat_word_ariths(1))
next
  case False
  then show ?thesis
    by (simp add: saturating_add_def unat_max_word)
qed

lemma unat_saturating_mul:
  "unat (saturating_mul a (b :: 'a::len word)) = min (unat a * unat b) (2 ^ LENGTH('a) - 1)"
proof (cases "unat a * unat b < 2 ^ LENGTH('a)")
  case True
  then show ?thesis
    by (simp add: saturating_mul_def unat_word_ariths(2))
next
  case False
  then show ?thesis
    by (simp add: saturating_mul_def unat_max_word)
qed

lemma unat_saturating_sub: "unat (saturating_sub a b) = unat a - unat b"
  by (simp add: saturating_sub_def unat_sub word_le_nat_alt)

lemma saturating_add_ge: "a \<le> saturating_add a (b :: 'a::len word)"
proof -
  have "unat a < 2 ^ LENGTH('a)" for a :: "'a::len word"
    by (rule unsigned_less)
  then have "unat a \<le> 2 ^ LENGTH('a) - 1" for a :: "'a::len word"
    by (metis One_nat_def Suc_pred less_Suc_eq_le zero_less_numeral zero_less_power)
  then show ?thesis by (simp add: word_le_nat_alt unat_saturating_add)
qed

lemma base_256_digits: "(\<Sum>i<k. (n div 256 ^ i mod 256) * 256 ^ i) = n mod (256 :: nat) ^ k"
proof (induction k)
  case (Suc k)
  have "n mod 256 ^ Suc k = 256 ^ k * (n div 256 ^ k mod 256) + n mod 256 ^ k"
    using mod_mult2_eq [of n "256 ^ k" 256] by (simp add: mult.commute)
  with Suc show ?case by simp
qed simp

lemma u32_byte: "unat (ucast (drop_bit (8 * i) (w :: u32)) :: byte) = unat w div 256 ^ i mod 256"
proof -
  have "unat w mod 4294967296 = unat w" using unat_bound [of w] by simp
  moreover have "(256 :: nat) ^ i = 2 ^ (8 * i)" by (simp add: power_mult)
  ultimately show ?thesis
    by (simp add: unsigned_ucast_eq take_bit_eq_mod unsigned_drop_bit_eq flip: drop_bit_eq_div)
qed

lemma u32_le_bytes_roundtrip: "u32_of_le_bytes (u32_le_bytes w @ rest) = Some w"
proof -
  have "horner_sum unat (2 ^ 8) (u32_le_bytes w) = (\<Sum>i<4. (unat w div 256 ^ i mod 256) * 256 ^ i)"
    unfolding u32_le_bytes_def
    by (simp add: horner_sum_eq_sum u32_byte lessThan_atLeast0)
  also have "\<dots> = unat w" using base_256_digits [of "unat w" 4] unat_bound [of w] by simp
  finally show ?thesis by (simp add: u32_of_le_bytes_def u32_le_bytes_def)
qed

lemma bounded_try_insert_Inr_iff:
  "bounded_try_insert bound x s = Inr (t, b) \<longleftrightarrow>
     (fcard s < bound \<or> x |\<in>| s) \<and> t = finsert x s \<and> (b \<longleftrightarrow> x |\<notin>| s)"
  by (auto simp: bounded_try_insert_def)

lemma bounded_try_insert_bound:
  "bounded_try_insert bound x s = Inr (t, b) \<Longrightarrow> fcard s \<le> bound \<Longrightarrow> fcard t \<le> bound"
  by (auto simp: bounded_try_insert_def fcard_finsert_if finsert_absorb split: if_splits)

lemma bounded_vec_try_from_Inr_iff [simp]:
  "bounded_vec_try_from bound xs = Inr ys \<longleftrightarrow> ys = xs \<and> length xs \<le> bound"
  by (auto simp: bounded_vec_try_from_def)

lemma bounded_vec_try_from_Inl_iff [simp]:
  "bounded_vec_try_from bound xs = Inl ys \<longleftrightarrow> ys = xs \<and> bound < length xs"
  by (auto simp: bounded_vec_try_from_def)

lemma map_le_remove: "m \<subseteq>\<^sub>m m' \<Longrightarrow> m(k := None) \<subseteq>\<^sub>m m'"
  by (auto simp: map_le_def)

lemma map_le_SomeD: "m \<subseteq>\<^sub>m m' \<Longrightarrow> m k = Some v \<Longrightarrow> m' k = Some v"
  unfolding map_le_def by (metis domI)

section \<open>The contract of a dispatchable\<close>

locale transactional =
  fixes call :: "('s, 'e, 'a) dispatchable"
  assumes rollback: "call s = (s', Inl e) \<Longrightarrow> s' = s"
begin

lemma changed_is_ok: "call s = (s', r) \<Longrightarrow> s' \<noteq> s \<Longrightarrow> is_ok r"
  by (cases r) (auto dest: rollback)

lemma preserves:
  assumes "\<And>s s' a. P s \<Longrightarrow> call s = (s', Inr a) \<Longrightarrow> P s'" and "P s"
  shows "P (fst (call s))"
proof (cases "call s")
  case (Pair s' r)
  with assms show ?thesis by (cases r) (auto dest: rollback)
qed

end

lemma transactional_storage_layer: "transactional (with_storage_layer f)"
  by unfold_locales (simp add: with_storage_layer_Inl_iff)

end
