(* ===== verification/Federated_Authority.thy ===== *)
theory Federated_Authority
  imports Node_Prelude
begin

text \<open>
  The pallet \<^verbatim>\<open>pallets/federated-authority\<close>: governance motions that several authority bodies
  have to approve before anyone may dispatch them with the Root origin.  The first part is the
  origin manager of \<^verbatim>\<open>types.rs\<close>, the second the storage, the three dispatchables and the
  helpers of \<^verbatim>\<open>lib.rs\<close>, the third the transition system of the pallet with its invariants.

  The calls a motion carries belong to the rest of the runtime: their type, their hash, their
  weight and their dispatch are fields of the configuration record.  Weights are kept symbolic,
  as the calls to \<^verbatim>\<open>WeightInfo\<close> the code makes.
\<close>

section \<open>Origins: types.rs\<close>

type_synonym auth_id = u32

record 'o authority_body =
  body_index :: "8 word"
  try_origin :: "'o \<Rightarrow> bool"

definition body_ensure_from :: "'o authority_body \<Rightarrow> 'o \<Rightarrow> ('o, auth_id) result" where
  "body_ensure_from b origin = (if try_origin b origin then Inr (ucast (body_index b)) else Inl origin)"

fun ensure_from_bodies :: "'o authority_body list \<Rightarrow> 'o \<Rightarrow> ('o, auth_id) result" where
  "ensure_from_bodies [] origin = Inl origin"
| "ensure_from_bodies (b # bs) origin =
     (case body_ensure_from b origin of Inr a \<Rightarrow> Inr a | Inl _ \<Rightarrow> ensure_from_bodies bs origin)"

definition ensure_origin :: "'o authority_body list \<Rightarrow> 'o \<Rightarrow> ('m dispatch_error, auth_id) result" where
  "ensure_origin bodies origin = map_err (\<lambda>_. BadOrigin) (ensure_from_bodies bodies origin)"

definition reached_proportion :: "u32 \<Rightarrow> u32 \<Rightarrow> u32 \<Rightarrow> u32 \<Rightarrow> bool" where
  "reached_proportion N D n d = (n * D \<ge> N * d)"

section \<open>Storage, errors and events: lib.rs\<close>

record 'c motion_info =
  approvals :: "auth_id fset"
  ends_block :: u32
  motion_call :: 'c

datatype fa_error =
    MotionAlreadyApproved | MotionApprovalMissing | MotionApprovalExceedsBounds | MotionNotFound
  | MotionNotEnded | MotionHasEnded | MotionTooEarlyToClose | MotionAlreadyExists | MotionExpired

type_synonym 'd fa_dispatch_error = "(fa_error + 'd) dispatch_error"

datatype ('h, 'd) fa_event =
    MotionApprovedEvent 'h auth_id
  | MotionDispatchedEvent 'h "('d fa_dispatch_error, unit) result"
  | MotionExpiredEvent 'h
  | MotionRevokedEvent 'h auth_id
  | MotionRemovedEvent 'h

datatype 'wt fa_weight =
    W_approve u32 | W_approve_new | W_approve_ended | W_approve_already_approved u32
  | W_approve_exceeds_bounds
  | W_revoke u32 | W_revoke_remove | W_revoke_not_found | W_revoke_ended
  | W_revoke_approval_missing u32
  | W_close_approved | W_close_expired | W_close_not_found | W_close_still_ongoing
  | W_saturating_add "'wt fa_weight" 'wt

record ('h, 'c, 'd, 'w) fa_state =
  motions :: "'h \<rightharpoonup> 'c motion_info"
  block_number :: u32
  fa_events :: "('h, 'd) fa_event list"
  runtime_rest :: 'w

record ('o, 'h, 'c, 'd, 'w, 'wt) fa_config =
  max_authority_bodies :: u32
  motion_duration :: u32
  proportion_num :: u32
  proportion_den :: u32
  approval_bodies :: "'o authority_body list"
  revoke_bodies :: "'o authority_body list"
  hash_of :: "'c \<Rightarrow> 'h"
  call_weight :: "'c \<Rightarrow> 'wt"
  dispatch_as_root :: "'c \<Rightarrow> (('h, 'c, 'd, 'w) fa_state, 'd fa_dispatch_error, unit) dispatchable"

type_synonym ('d, 'wt) fa_error_info =
  "'d fa_dispatch_error \<times> 'wt fa_weight post_dispatch_info"

type_synonym ('h, 'c, 'd, 'w, 'wt) fa_call =
  "(('h, 'c, 'd, 'w) fa_state, ('d, 'wt) fa_error_info, 'wt fa_weight post_dispatch_info) dispatchable"

definition no_fee :: "'wt fa_weight \<Rightarrow> 'wt fa_weight post_dispatch_info" where
  "no_fee w = \<lparr> actual_weight = Some w, pays_fee = PaysNo \<rparr>"

definition default_post_info :: "'wt fa_weight post_dispatch_info" where
  "default_post_info = \<lparr> actual_weight = None, pays_fee = PaysYes \<rparr>"

definition fa_module_error :: "fa_error \<Rightarrow> 'wt fa_weight \<Rightarrow> ('d, 'wt) fa_error_info" where
  "fa_module_error e w = (ModuleError (Inl e), no_fee w)"

definition fa_deposit ::
  "('h, 'd) fa_event \<Rightarrow> ('h, 'c, 'd, 'w) fa_state \<Rightarrow> ('h, 'c, 'd, 'w) fa_state" where
  "fa_deposit ev s = s\<lparr> fa_events := fa_events s @ [ev] \<rparr>"

section \<open>Helpers of the pallet\<close>

definition motion_remove :: "'h \<Rightarrow> ('h, 'c, 'd, 'w) fa_state \<Rightarrow> ('h, 'c, 'd, 'w) fa_state" where
  "motion_remove h s = fa_deposit (MotionRemovedEvent h) (s\<lparr> motions := (motions s)(h := None) \<rparr>)"

definition is_motion_approved :: "('o, 'h, 'c, 'd, 'w, 'wt) fa_config \<Rightarrow> u32 \<Rightarrow> bool" where
  "is_motion_approved cfg total_approvals =
     reached_proportion (proportion_num cfg) (proportion_den cfg) total_approvals (max_authority_bodies cfg)"

definition has_ended :: "u32 \<Rightarrow> 'c motion_info \<Rightarrow> bool" where
  "has_ended now m = (now \<ge> ends_block m)"

definition approvals_len :: "'c motion_info \<Rightarrow> u32" where
  "approvals_len m = of_nat (fcard (approvals m))"

section \<open>Dispatchables\<close>

definition approve_mutate ::
  "('o, 'h, 'c, 'd, 'w, 'wt) fa_config \<Rightarrow> u32 \<Rightarrow> auth_id \<Rightarrow> 'c \<Rightarrow> 'c motion_info option \<Rightarrow>
   (fa_error \<times> u32, 'c motion_info \<times> bool \<times> u32) result" where
  "approve_mutate cfg now auth call maybe_motion =
     (case maybe_motion of
        Some motion \<Rightarrow>
          (let total_approvals = approvals_len motion in
           if has_ended now motion then Inl (MotionHasEnded, total_approvals)
           else (case bounded_try_insert (unat (max_authority_bodies cfg)) auth (approvals motion) of
                   Inr (s, True) \<Rightarrow> Inr (motion\<lparr> approvals := s \<rparr>, False, total_approvals)
                 | Inr (s, False) \<Rightarrow> Inl (MotionAlreadyApproved, total_approvals)
                 | Inl _ \<Rightarrow> Inl (MotionApprovalExceedsBounds, total_approvals)))
      | None \<Rightarrow>
          (case bounded_try_insert (unat (max_authority_bodies cfg)) auth {||} of
             Inl _ \<Rightarrow> Inl (MotionApprovalExceedsBounds, 0)
           | Inr (s, _) \<Rightarrow>
               Inr (\<lparr> approvals = s, ends_block = saturating_add now (motion_duration cfg),
                      motion_call = call \<rparr>, True, 1)))"

definition approve_error_weight :: "fa_error \<times> u32 \<Rightarrow> ('d, 'wt) fa_error_info" where
  "approve_error_weight et =
     (case et of
        (MotionHasEnded, _) \<Rightarrow> fa_module_error MotionHasEnded W_approve_ended
      | (MotionAlreadyApproved, n) \<Rightarrow> fa_module_error MotionAlreadyApproved (W_approve_already_approved n)
      | (MotionApprovalExceedsBounds, _) \<Rightarrow>
          fa_module_error MotionApprovalExceedsBounds W_approve_exceeds_bounds
      | (e, _) \<Rightarrow> (ModuleError (Inl e), default_post_info))"

definition motion_approve_body ::
  "('o, 'h, 'c, 'd, 'w, 'wt) fa_config \<Rightarrow> 'o \<Rightarrow> 'c \<Rightarrow> ('h, 'c, 'd, 'w, 'wt) fa_call" where
  "motion_approve_body cfg origin call s =
     (case ensure_origin (approval_bodies cfg) origin of
        Inl e \<Rightarrow> (s, Inl (e, default_post_info))
      | Inr auth \<Rightarrow>
          (let h = hash_of cfg call in
           case approve_mutate cfg (block_number s) auth call (motions s h) of
             Inl et \<Rightarrow> (s, Inl (approve_error_weight et))
           | Inr (motion, is_new, total_approvals) \<Rightarrow>
               (fa_deposit (MotionApprovedEvent h auth) (s\<lparr> motions := (motions s)(h \<mapsto> motion) \<rparr>),
                Inr (no_fee (if is_new then W_approve_new else W_approve total_approvals)))))"

definition revoke_mutate ::
  "u32 \<Rightarrow> auth_id \<Rightarrow> 'c motion_info option \<Rightarrow>
   (fa_error \<times> u32, 'c motion_info \<times> u32 \<times> u32) result" where
  "revoke_mutate now auth maybe_motion =
     (case maybe_motion of
        None \<Rightarrow> Inl (MotionNotFound, 0)
      | Some motion \<Rightarrow>
          (let initial_count = approvals_len motion in
           if has_ended now motion then Inl (MotionHasEnded, initial_count)
           else if auth |\<in>| approvals motion
             then (let motion' = motion\<lparr> approvals := approvals motion |-| {|auth|} \<rparr>
                   in Inr (motion', approvals_len motion', initial_count))
             else Inl (MotionApprovalMissing, initial_count)))"

definition revoke_error_weight :: "fa_error \<times> u32 \<Rightarrow> ('d, 'wt) fa_error_info" where
  "revoke_error_weight et =
     (case et of
        (MotionNotFound, _) \<Rightarrow> fa_module_error MotionNotFound W_revoke_not_found
      | (MotionHasEnded, _) \<Rightarrow> fa_module_error MotionHasEnded W_revoke_ended
      | (MotionApprovalMissing, n) \<Rightarrow> fa_module_error MotionApprovalMissing (W_revoke_approval_missing n)
      | (e, _) \<Rightarrow> (ModuleError (Inl e), default_post_info))"

definition motion_revoke_body ::
  "('o, 'h, 'c, 'd, 'w, 'wt) fa_config \<Rightarrow> 'o \<Rightarrow> 'h \<Rightarrow> ('h, 'c, 'd, 'w, 'wt) fa_call" where
  "motion_revoke_body cfg origin h s =
     (case ensure_origin (revoke_bodies cfg) origin of
        Inl e \<Rightarrow> (s, Inl (e, default_post_info))
      | Inr auth \<Rightarrow>
          (case revoke_mutate (block_number s) auth (motions s h) of
             Inl et \<Rightarrow> (s, Inl (revoke_error_weight et))
           | Inr (motion, final_approvals, initial_approvals) \<Rightarrow>
               (let s1 = fa_deposit (MotionRevokedEvent h auth) (s\<lparr> motions := (motions s)(h \<mapsto> motion) \<rparr>)
                in if final_approvals = 0
                   then (motion_remove h s1, Inr (no_fee W_revoke_remove))
                   else (s1, Inr (no_fee (W_revoke initial_approvals))))))"

definition motion_close_body ::
  "(('acc, 'x) raw_origin, 'h, 'c, 'd, 'w, 'wt) fa_config \<Rightarrow> ('acc, 'x) raw_origin \<Rightarrow> 'h \<Rightarrow>
   ('h, 'c, 'd, 'w, 'wt) fa_call" where
  "motion_close_body cfg origin h s =
     (case ensure_signed origin of
        Inl e \<Rightarrow> (s, Inl (e, default_post_info))
      | Inr _ \<Rightarrow>
          (case motions s h of
             None \<Rightarrow> (s, Inl (fa_module_error MotionNotFound W_close_not_found))
           | Some motion \<Rightarrow>
               if is_motion_approved cfg (approvals_len motion) then
                 (case with_storage_layer (dispatch_as_root cfg (motion_call motion)) s of
                    (s1, motion_result) \<Rightarrow>
                      (let s2 = motion_remove h (fa_deposit (MotionDispatchedEvent h motion_result) s1)
                       in case motion_result of
                            Inl e \<Rightarrow> (s2, Inl (e, default_post_info))
                          | Inr _ \<Rightarrow>
                              (s2, Inr (no_fee (W_saturating_add W_close_approved
                                         (call_weight cfg (motion_call motion)))))))
               else if \<not> has_ended (block_number s) motion
                 then (s, Inl (fa_module_error MotionNotEnded W_close_still_ongoing))
               else (motion_remove h (fa_deposit (MotionExpiredEvent h) s),
                     Inr (no_fee W_close_expired))))"

definition motion_approve ::
  "('o, 'h, 'c, 'd, 'w, 'wt) fa_config \<Rightarrow> 'o \<Rightarrow> 'c \<Rightarrow> ('h, 'c, 'd, 'w, 'wt) fa_call" where
  "motion_approve cfg origin call = with_storage_layer (motion_approve_body cfg origin call)"

definition motion_revoke ::
  "('o, 'h, 'c, 'd, 'w, 'wt) fa_config \<Rightarrow> 'o \<Rightarrow> 'h \<Rightarrow> ('h, 'c, 'd, 'w, 'wt) fa_call" where
  "motion_revoke cfg origin h = with_storage_layer (motion_revoke_body cfg origin h)"

definition motion_close ::
  "(('acc, 'x) raw_origin, 'h, 'c, 'd, 'w, 'wt) fa_config \<Rightarrow> ('acc, 'x) raw_origin \<Rightarrow> 'h \<Rightarrow>
   ('h, 'c, 'd, 'w, 'wt) fa_call" where
  "motion_close cfg origin h = with_storage_layer (motion_close_body cfg origin h)"

section \<open>The pallet as a transition system\<close>

datatype ('o, 'h, 'c, 'w) fa_input =
    ApproveIn 'o 'c
  | RevokeIn 'o 'h
  | CloseIn 'o 'h
  | NextBlockIn
  | OtherIn 'w

fun fa_exec ::
  "(('acc, 'x) raw_origin, 'h, 'c, 'd, 'w, 'wt) fa_config \<Rightarrow> (('acc, 'x) raw_origin, 'h, 'c, 'w) fa_input \<Rightarrow>
   ('h, 'c, 'd, 'w) fa_state \<Rightarrow> ('h, 'c, 'd, 'w) fa_state" where
  "fa_exec cfg (ApproveIn origin call) s = fst (motion_approve cfg origin call s)"
| "fa_exec cfg (RevokeIn origin h) s = fst (motion_revoke cfg origin h s)"
| "fa_exec cfg (CloseIn origin h) s = fst (motion_close cfg origin h s)"
| "fa_exec cfg NextBlockIn s = s\<lparr> block_number := block_number s + 1, fa_events := [] \<rparr>"
| "fa_exec cfg (OtherIn w) s = s\<lparr> runtime_rest := w \<rparr>"

inductive fa_run ::
  "(('acc, 'x) raw_origin, 'h, 'c, 'd, 'w, 'wt) fa_config \<Rightarrow>
   (('acc, 'x) raw_origin, 'h, 'c, 'w) fa_input list \<Rightarrow> ('h, 'c, 'd, 'w) fa_state \<Rightarrow> bool"
  for cfg where
  fa_start: "motions s = Map.empty \<Longrightarrow> fa_run cfg [] s"
| fa_next: "fa_run cfg tr s \<Longrightarrow> fa_run cfg (tr @ [i]) (fa_exec cfg i s)"

definition motion_ok :: "('o, 'h, 'c, 'd, 'w, 'wt) fa_config \<Rightarrow> 'h \<Rightarrow> 'c motion_info \<Rightarrow> bool" where
  "motion_ok cfg h m \<longleftrightarrow>
     approvals m \<noteq> {||} \<and> fcard (approvals m) \<le> unat (max_authority_bodies cfg) \<and>
     hash_of cfg (motion_call m) = h"

definition fa_inv :: "('o, 'h, 'c, 'd, 'w, 'wt) fa_config \<Rightarrow> ('h, 'c, 'd, 'w) fa_state \<Rightarrow> bool" where
  "fa_inv cfg s \<longleftrightarrow> (\<forall>h m. motions s h = Some m \<longrightarrow> motion_ok cfg h m)"

definition approved_in ::
  "('o, 'h, 'c, 'd, 'w, 'wt) fa_config \<Rightarrow> ('o, 'h, 'c, 'w) fa_input list \<Rightarrow> auth_id \<Rightarrow> 'h \<Rightarrow> bool" where
  "approved_in cfg tr a h \<longleftrightarrow>
     (\<exists>origin call. ApproveIn origin call \<in> set tr \<and> hash_of cfg call = h \<and>
        ensure_from_bodies (approval_bodies cfg) origin = Inr a)"

definition dispatch_keeps_motions :: "('o, 'h, 'c, 'd, 'w, 'wt) fa_config \<Rightarrow> bool" where
  "dispatch_keeps_motions cfg \<longleftrightarrow>
     (\<forall>c s s' r. dispatch_as_root cfg c s = (s', r) \<longrightarrow> motions s' \<subseteq>\<^sub>m motions s)"

definition has_approval :: "('h, 'c, 'd, 'w) fa_state \<Rightarrow> 'h \<Rightarrow> auth_id \<Rightarrow> bool" where
  "has_approval s h a \<longleftrightarrow> (\<exists>m. motions s h = Some m \<and> a |\<in>| approvals m)"

definition unanimous :: "('o, 'h, 'c, 'd, 'w, 'wt) fa_config \<Rightarrow> bool" where
  "unanimous cfg \<longleftrightarrow>
     proportion_num cfg = 1 \<and> proportion_den cfg = 1 \<and>
     distinct (map body_index (approval_bodies cfg)) \<and>
     unat (max_authority_bodies cfg) = length (approval_bodies cfg)"

section \<open>A concrete instance\<close>

text \<open>
  Two bodies, with the pallet indices of the council and the technical committee; numbers stand
  for calls and are their own hash, and dispatching an even call succeeds while an odd one fails.
\<close>

definition demo_council :: "(nat, nat) raw_origin authority_body" where
  "demo_council = \<lparr> body_index = 40, try_origin = (\<lambda>x. x = CustomOrigin 1) \<rparr>"

definition demo_committee :: "(nat, nat) raw_origin authority_body" where
  "demo_committee = \<lparr> body_index = 42, try_origin = (\<lambda>x. x = CustomOrigin 2) \<rparr>"

definition demo_fa_cfg :: "((nat, nat) raw_origin, nat, nat, string, nat, nat) fa_config" where
  "demo_fa_cfg = \<lparr> max_authority_bodies = 2, motion_duration = 72000,
     proportion_num = 1, proportion_den = 1,
     approval_bodies = [demo_council, demo_committee], revoke_bodies = [demo_council, demo_committee],
     hash_of = id, call_weight = id,
     dispatch_as_root = (\<lambda>c s. if even c then (s\<lparr> runtime_rest := c \<rparr>, Inr ()) else (s, Inl BadOrigin)) \<rparr>"

definition demo_fa_start :: "(nat, nat, string, nat) fa_state" where
  "demo_fa_start = \<lparr> motions = Map.empty, block_number = 5, fa_events = [], runtime_rest = 0 \<rparr>"

definition demo_fa_inputs :: "((nat, nat) raw_origin, nat, nat, nat) fa_input list" where
  "demo_fa_inputs = [ApproveIn (CustomOrigin 1) 8, ApproveIn (CustomOrigin 2) 8]"

definition demo_fa_state :: "(nat, nat, string, nat) fa_state" where
  "demo_fa_state = fold (fa_exec demo_fa_cfg) demo_fa_inputs demo_fa_start"

section \<open>Lemmas on the origin manager\<close>

lemma ensure_from_bodies_sound:
  "ensure_from_bodies bodies origin = Inr a \<Longrightarrow>
     \<exists>b \<in> set bodies. try_origin b origin \<and> a = ucast (body_index b)"
  by (induction bodies) (auto simp: body_ensure_from_def split: if_splits)

lemma ensure_from_bodies_err:
  "ensure_from_bodies bodies origin = Inl x \<longleftrightarrow> x = origin \<and> (\<forall>b \<in> set bodies. \<not> try_origin b origin)"
  by (induction bodies) (auto simp: body_ensure_from_def)

lemma ensure_origin_Inr_iff [simp]:
  "ensure_origin bodies origin = Inr a \<longleftrightarrow> ensure_from_bodies bodies origin = Inr a"
  by (simp add: ensure_origin_def)

section \<open>Lemmas on the dispatchables\<close>

interpretation approve_tx: transactional "motion_approve cfg origin call" for cfg origin call
  unfolding motion_approve_def by (rule transactional_storage_layer)

interpretation revoke_tx: transactional "motion_revoke cfg origin h" for cfg origin h
  unfolding motion_revoke_def by (rule transactional_storage_layer)

interpretation close_tx: transactional "motion_close cfg origin h" for cfg origin h
  unfolding motion_close_def by (rule transactional_storage_layer)

lemma motions_fa_deposit [simp]: "motions (fa_deposit ev s) = motions s"
  by (simp add: fa_deposit_def)

lemma fa_events_fa_deposit [simp]: "fa_events (fa_deposit ev s) = fa_events s @ [ev]"
  by (simp add: fa_deposit_def)

lemma motions_motion_remove [simp]: "motions (motion_remove h s) = (motions s)(h := None)"
  by (simp add: motion_remove_def)

lemma approvals_len_eq_0:
  "fcard (approvals m) < 2 ^ 32 \<Longrightarrow> approvals_len m = 0 \<longleftrightarrow> approvals m = {||}"
  by (simp add: approvals_len_def word_of_nat_eq_0_iff dvd_eq_mod_eq_0)

lemma motion_approve_okD:
  assumes "motion_approve cfg origin call s = (s', Inr info)"
  obtains a m where "ensure_from_bodies (approval_bodies cfg) origin = Inr a"
    and "s' = fa_deposit (MotionApprovedEvent (hash_of cfg call) a)
                (s\<lparr> motions := (motions s)(hash_of cfg call \<mapsto> m) \<rparr>)"
    and "case motions s (hash_of cfg call) of
           None \<Rightarrow> approvals m = {|a|} \<and> 0 < unat (max_authority_bodies cfg) \<and> motion_call m = call \<and>
                   ends_block m = saturating_add (block_number s) (motion_duration cfg)
         | Some m0 \<Rightarrow> a |\<notin>| approvals m0 \<and> fcard (approvals m0) < unat (max_authority_bodies cfg) \<and>
                      block_number s < ends_block m0 \<and> m = m0\<lparr> approvals := finsert a (approvals m0) \<rparr>"
  using assms unfolding motion_approve_def with_storage_layer_Inr_iff motion_approve_body_def
  by (auto simp: approve_mutate_def bounded_try_insert_def Let_def has_ended_def
      split: sum.splits option.splits if_splits prod.splits bool.splits)

lemma motion_revoke_okD:
  assumes "motion_revoke cfg origin h s = (s', Inr info)"
  obtains a m where "ensure_from_bodies (revoke_bodies cfg) origin = Inr a"
    and "motions s h = Some m" and "a |\<in>| approvals m" and "block_number s < ends_block m"
    and "motions s' = (let m' = m\<lparr> approvals := approvals m |-| {|a|} \<rparr> in
           (motions s)(h := if approvals_len m' = 0 then None else Some m'))"
  using assms unfolding motion_revoke_def with_storage_layer_Inr_iff motion_revoke_body_def
  by (auto simp: revoke_mutate_def Let_def has_ended_def split: sum.splits option.splits if_splits)

lemma motion_close_okD:
  assumes "motion_close cfg origin h s = (s', Inr info)"
  obtains (dispatched) m s1 where "motions s h = Some m" and "is_motion_approved cfg (approvals_len m)"
      and "dispatch_as_root cfg (motion_call m) s = (s1, Inr ())"
      and "s' = motion_remove h (fa_deposit (MotionDispatchedEvent h (Inr ())) s1)"
    | (expired) m where "motions s h = Some m" and "\<not> is_motion_approved cfg (approvals_len m)"
      and "ends_block m \<le> block_number s"
      and "s' = motion_remove h (fa_deposit (MotionExpiredEvent h) s)"
  using assms unfolding motion_close_def with_storage_layer_Inr_iff motion_close_body_def
  by (auto simp: Let_def has_ended_def with_storage_layer_Inr_iff
      split: sum.splits option.splits if_splits prod.splits)

lemma motion_ok_insert:
  "motion_ok cfg h m \<Longrightarrow> fcard (approvals m) < unat (max_authority_bodies cfg) \<Longrightarrow>
     motion_ok cfg h (m\<lparr> approvals := finsert a (approvals m) \<rparr>)"
  by (auto simp: motion_ok_def fcard_finsert_if)

lemma motion_ok_remove:
  assumes "motion_ok cfg h m" and "approvals_len (m\<lparr> approvals := approvals m |-| {|a|} \<rparr>) \<noteq> 0"
  shows "motion_ok cfg h (m\<lparr> approvals := approvals m |-| {|a|} \<rparr>)"
proof -
  have "fcard (approvals m |-| {|a|}) \<le> fcard (approvals m)"
    by (rule fcard_mono) blast
  moreover have "approvals m |-| {|a|} \<noteq> {||}"
    using assms(2) by (intro notI) (simp add: approvals_len_def fcard_fempty)
  ultimately show ?thesis using assms(1) by (simp add: motion_ok_def)
qed

lemma fa_inv_approve: "fa_inv cfg s \<Longrightarrow> fa_inv cfg (fst (motion_approve cfg origin call s))"
proof (rule approve_tx.preserves)
  fix s s' info
  assume inv: "fa_inv cfg s" and "motion_approve cfg origin call s = (s', Inr info)"
  then show "fa_inv cfg s'"
    by (elim motion_approve_okD)
      (auto simp: fa_inv_def motion_ok_insert motion_ok_def fcard_finsert_if fcard_fempty
        split: option.splits if_splits)
qed

lemma fa_inv_revoke: "fa_inv cfg s \<Longrightarrow> fa_inv cfg (fst (motion_revoke cfg origin h s))"
proof (rule revoke_tx.preserves)
  fix s s' info
  assume inv: "fa_inv cfg s" and "motion_revoke cfg origin h s = (s', Inr info)"
  then show "fa_inv cfg s'"
    by (elim motion_revoke_okD)
      (simp add: fa_inv_def Let_def motion_ok_remove split: if_splits)
qed

lemma fa_inv_subset: "fa_inv cfg s \<Longrightarrow> motions s' \<subseteq>\<^sub>m motions s \<Longrightarrow> fa_inv cfg s'"
  unfolding fa_inv_def by (blast dest: map_le_SomeD)

lemma motion_close_subset:
  assumes "dispatch_keeps_motions cfg"
  shows "motions (fst (motion_close cfg origin h s)) \<subseteq>\<^sub>m motions s"
proof (rule close_tx.preserves [where P = "\<lambda>t. motions t \<subseteq>\<^sub>m motions s"])
  fix t s' info
  assume t: "motions t \<subseteq>\<^sub>m motions s" and "motion_close cfg origin h t = (s', Inr info)"
  from this(2) show "motions s' \<subseteq>\<^sub>m motions s"
  proof (cases rule: motion_close_okD)
    case (dispatched m s1)
    with assms have "motions s1 \<subseteq>\<^sub>m motions t"
      unfolding dispatch_keeps_motions_def by blast
    with t dispatched show ?thesis by (simp add: map_le_remove) (blast intro: map_le_remove map_le_trans)
  qed (simp add: t map_le_remove)
qed simp

lemma fa_inv_exec:
  assumes "dispatch_keeps_motions cfg" and "fa_inv cfg s"
  shows "fa_inv cfg (fa_exec cfg i s)"
proof (cases i)
  case (CloseIn origin h)
  then show ?thesis using assms by (auto intro: fa_inv_subset motion_close_subset)
qed (use assms in \<open>simp_all add: fa_inv_approve fa_inv_revoke\<close>, simp_all add: fa_inv_def)

lemma has_approval_approve:
  assumes "has_approval (fst (motion_approve cfg origin call s)) h a"
  shows "has_approval s h a \<or>
    h = hash_of cfg call \<and> ensure_from_bodies (approval_bodies cfg) origin = Inr a"
proof (cases "motion_approve cfg origin call s")
  case (Pair s' r)
  show ?thesis
  proof (cases r)
    case (Inl e)
    with Pair assms show ?thesis by (auto dest: approve_tx.rollback)
  next
    case (Inr info)
    with Pair have "motion_approve cfg origin call s = (s', Inr info)" by simp
    then show ?thesis
      using assms by (cases rule: motion_approve_okD)
        (auto simp: has_approval_def Pair split: option.splits if_splits)
  qed
qed

lemma has_approval_revoke:
  assumes "has_approval (fst (motion_revoke cfg origin k s)) h a"
  shows "has_approval s h a"
proof (cases "motion_revoke cfg origin k s")
  case (Pair s' r)
  show ?thesis
  proof (cases r)
    case (Inl e)
    with Pair assms show ?thesis by (auto dest: revoke_tx.rollback)
  next
    case (Inr info)
    with Pair have "motion_revoke cfg origin k s = (s', Inr info)" by simp
    then show ?thesis
      using assms by (cases rule: motion_revoke_okD)
        (auto simp: has_approval_def Pair Let_def split: if_splits)
  qed
qed

lemma has_approval_close:
  assumes "dispatch_keeps_motions cfg" and "has_approval (fst (motion_close cfg origin k s)) h a"
  shows "has_approval s h a"
  using motion_close_subset [OF assms(1), of origin k s] assms(2)
  unfolding has_approval_def by (blast dest: map_le_SomeD)

lemma fa_run_approved:
  assumes "fa_run cfg tr s" and "dispatch_keeps_motions cfg" and "has_approval s h a"
  shows "approved_in cfg tr a h"
  using assms(1,3)
proof (induction)
  case (fa_start s)
  then show ?case by (simp add: has_approval_def)
next
  case (fa_next tr s i)
  have old: "approved_in cfg (tr @ [i]) a h" if "has_approval s h a"
    using fa_next.IH [OF that] by (auto simp: approved_in_def)
  show ?case
  proof (cases i)
    case (ApproveIn origin call)
    with fa_next.prems have "has_approval s h a \<or>
      h = hash_of cfg call \<and> ensure_from_bodies (approval_bodies cfg) origin = Inr a"
      by (auto dest: has_approval_approve)
    then show ?thesis
    proof
      assume "h = hash_of cfg call \<and> ensure_from_bodies (approval_bodies cfg) origin = Inr a"
      with ApproveIn show ?thesis by (auto simp: approved_in_def intro!: exI [of _ origin] exI [of _ call])
    qed (rule old)
  next
    case (RevokeIn origin k)
    with fa_next.prems have "has_approval s h a" by (auto dest: has_approval_revoke)
    then show ?thesis by (rule old)
  next
    case (CloseIn origin k)
    with fa_next.prems have "has_approval s h a" by (auto dest: has_approval_close [OF assms(2)])
    then show ?thesis by (rule old)
  qed (use fa_next.prems old in \<open>simp_all add: has_approval_def\<close>)
qed

lemma fa_run_inv: "fa_run cfg tr s \<Longrightarrow> dispatch_keeps_motions cfg \<Longrightarrow> fa_inv cfg s"
  by (induction rule: fa_run.induct) (simp_all add: fa_inv_exec, simp add: fa_inv_def)

lemma approved_in_body:
  "approved_in cfg tr a h \<Longrightarrow> a \<in> set (map (ucast \<circ> body_index) (approval_bodies cfg))"
  by (auto simp: approved_in_def dest!: ensure_from_bodies_sound)

lemma approvals_all_bodies:
  assumes "unanimous cfg" and "fa_inv cfg s" and "motions s h = Some m"
    and sub: "fset (approvals m) \<subseteq> set (map (ucast \<circ> body_index) (approval_bodies cfg))"
    and "is_motion_approved cfg (approvals_len m)"
  shows "fset (approvals m) = set (map (ucast \<circ> body_index) (approval_bodies cfg))"
proof (rule card_seteq)
  let ?ids = "map (ucast \<circ> body_index) (approval_bodies cfg) :: auth_id list"
  have "fcard (approvals m) \<le> unat (max_authority_bodies cfg)"
    using assms by (auto simp: fa_inv_def motion_ok_def)
  then have "unat (approvals_len m) = fcard (approvals m)"
    unfolding approvals_len_def
    by (intro unat_of_nat_small) (rule le_less_trans [OF _ unat_bound])
  moreover have "max_authority_bodies cfg \<le> approvals_len m"
    using assms by (simp add: is_motion_approved_def reached_proportion_def unanimous_def)
  ultimately have "length (approval_bodies cfg) \<le> fcard (approvals m)"
    using assms(1) by (simp add: unanimous_def word_le_nat_alt)
  then show "card (set ?ids) \<le> card (fset (approvals m))"
    using card_length [of ?ids] by (simp add: fcard.rep_eq)
qed (use sub in simp_all)

lemma unique_body:
  fixes cfg :: "('o, 'h, 'c, 'd, 'w, 'wt) fa_config"
  assumes "unanimous cfg" and "b \<in> set (approval_bodies cfg)"
    and "ensure_from_bodies (approval_bodies cfg) origin = Inr (ucast (body_index b))"
  shows "try_origin b origin"
proof -
  obtain b' where b': "b' \<in> set (approval_bodies cfg)" "try_origin b' origin"
    and eq: "(ucast (body_index b) :: auth_id) = ucast (body_index b')"
    using ensure_from_bodies_sound [OF assms(3)] by blast
  have "ucast (ucast (body_index c) :: auth_id) = body_index c" for c :: "'o authority_body"
    by (rule ucast_up_ucast_id) (simp add: is_up)
  then have "body_index b = body_index b'" using eq by metis
  then have "b = b'"
    using assms(1,2) b'(1) by (auto simp: unanimous_def distinct_map dest: inj_onD)
  with b' show ?thesis by simp
qed

section \<open>The concrete instance evaluated\<close>

lemmas demo_fa_defs = demo_council_def demo_committee_def demo_fa_cfg_def demo_fa_start_def
  demo_fa_inputs_def

lemma fa_run_fold: "fa_run cfg tr s \<Longrightarrow> fa_run cfg (tr @ is) (fold (fa_exec cfg) is s)"
proof (induction "is" arbitrary: tr s)
  case (Cons i "is")
  from Cons.IH [OF fa_next [OF Cons.prems, of i]] show ?case by simp
qed simp

lemma demo_fa_run: "fa_run demo_fa_cfg demo_fa_inputs demo_fa_state"
  using fa_run_fold [OF fa_start, of demo_fa_start demo_fa_cfg demo_fa_inputs]
  by (simp add: demo_fa_state_def) (simp add: demo_fa_start_def)

lemma demo_fa_keeps: "dispatch_keeps_motions demo_fa_cfg"
  by (auto simp: dispatch_keeps_motions_def demo_fa_cfg_def split: if_splits)

lemma demo_fa_unanimous: "unanimous demo_fa_cfg"
  by (simp add: unanimous_def demo_fa_defs)

lemma demo_fa_state_eq:
  "demo_fa_state =
     \<lparr> motions = [8 \<mapsto> \<lparr> approvals = {|40, 42|}, ends_block = 72005, motion_call = 8 \<rparr>],
       block_number = 5,
       fa_events = [MotionApprovedEvent 8 40, MotionApprovedEvent 8 42], runtime_rest = 0 \<rparr>"
  by (simp add: demo_fa_state_def demo_fa_defs motion_approve_def motion_approve_body_def
      with_storage_layer_def ensure_origin_def body_ensure_from_def approve_mutate_def Let_def
      bounded_try_insert_def fcard_fempty fcard_finsert_if has_ended_def saturating_add_def fa_deposit_def
      finsert_commute)

section \<open>Properties\<close>

text \<open>
  C3: a motion is dispatched with the Root origin only after every authority body has approved
  it.  In any history of the pallet with a unanimous configuration, a \<^verbatim>\<open>motion_close\<close> that
  dispatches the motion with hash \<^verbatim>\<open>h\<close> is preceded, for each body, by a \<^verbatim>\<open>motion_approve\<close> of a call with
  that hash from an origin that this body's proportion check accepts.
\<close>
theorem motion_dispatch_needs_every_body:
  assumes run: "fa_run cfg tr s" and keeps: "dispatch_keeps_motions cfg" and una: "unanimous cfg"
    and close: "motion_close cfg origin h s = (s', Inr info)"
    and events: "fa_events s' = evs @ [MotionDispatchedEvent h r, MotionRemovedEvent h]"
    and b: "b \<in> set (approval_bodies cfg)"
  shows "\<exists>o' call. ApproveIn o' call \<in> set tr \<and> hash_of cfg call = h \<and> try_origin b o'"
proof -
  obtain m where m: "motions s h = Some m" "is_motion_approved cfg (approvals_len m)"
    using close events by (cases rule: motion_close_okD) (auto simp: motion_remove_def)
  have approved: "approved_in cfg tr a h" if "a |\<in>| approvals m" for a
    using fa_run_approved [OF run keeps] m(1) that by (auto simp: has_approval_def)
  have "fset (approvals m) = set (map (ucast \<circ> body_index) (approval_bodies cfg))"
    using approvals_all_bodies [OF una fa_run_inv [OF run keeps] m(1) _ m(2)]
    by (blast dest: approved approved_in_body)
  with b have "ucast (body_index b) |\<in>| approvals m" by auto
  from approved [OF this] show ?thesis
    using unique_body [OF una b] by (auto simp: approved_in_def)
qed

theorem motion_dispatch_needs_every_body_witness:
  "fa_events (fst (motion_close demo_fa_cfg (Signed 3) 8 demo_fa_state)) =
     fa_events demo_fa_state @ [MotionDispatchedEvent 8 (Inr ()), MotionRemovedEvent 8] \<and>
   (\<exists>o' call. ApproveIn o' call \<in> set demo_fa_inputs \<and> hash_of demo_fa_cfg call = 8 \<and>
      try_origin demo_committee o')"
proof -
  have close: "motion_close demo_fa_cfg (Signed 3) 8 demo_fa_state =
      (demo_fa_state\<lparr> motions := Map.empty, runtime_rest := 8,
         fa_events := fa_events demo_fa_state @ [MotionDispatchedEvent 8 (Inr ()), MotionRemovedEvent 8] \<rparr>,
       Inr (no_fee (W_saturating_add W_close_approved 8)))"
    by (simp add: demo_fa_state_eq motion_close_def motion_close_body_def with_storage_layer_def
        is_motion_approved_def reached_proportion_def approvals_len_def demo_fa_defs fcard_fempty
        fcard_finsert_if motion_remove_def fa_deposit_def Let_def)
  have "demo_committee \<in> set (approval_bodies demo_fa_cfg)" by (simp add: demo_fa_cfg_def)
  with close show ?thesis
    using motion_dispatch_needs_every_body [OF demo_fa_run demo_fa_keeps demo_fa_unanimous close]
    by simp
qed

text \<open>
  C9: every motion the pallet stores is well formed: it is stored under the hash of its call, at
  least one body has approved it, and it holds at most \<^verbatim>\<open>MaxAuthorityBodies\<close> approvals.
\<close>
theorem stored_motions_well_formed:
  assumes "fa_run cfg tr s" and "dispatch_keeps_motions cfg" and "motions s h = Some m"
  shows "hash_of cfg (motion_call m) = h \<and> approvals m \<noteq> {||} \<and>
    fcard (approvals m) \<le> unat (max_authority_bodies cfg)"
  using fa_run_inv [OF assms(1,2)] assms(3) by (simp add: fa_inv_def motion_ok_def)

theorem stored_motions_well_formed_witness:
  "\<exists>m. motions demo_fa_state 8 = Some m \<and> hash_of demo_fa_cfg (motion_call m) = 8 \<and>
     approvals m \<noteq> {||} \<and> fcard (approvals m) \<le> 2"
  using stored_motions_well_formed [OF demo_fa_run demo_fa_keeps, of 8]
  by (simp add: demo_fa_state_eq demo_fa_cfg_def)


text \<open>
  C11: \<^verbatim>\<open>motion_revoke\<close> undoes \<^verbatim>\<open>motion_approve\<close>.  When a body opens a motion that did not exist and
  revokes its approval before the motion ends, the stored motions are those before the approval and the events
  record the approval, the revocation and the removal.
\<close>
theorem approve_then_revoke:
  assumes "motions s (hash_of cfg call) = None"
    and "ensure_from_bodies (approval_bodies cfg) origin = Inr a"
    and "revoke_bodies cfg = approval_bodies cfg"
    and "0 < unat (max_authority_bodies cfg)"
    and "block_number s < saturating_add (block_number s) (motion_duration cfg)"
    and "motion_approve cfg origin call s = (s1, r1)"
    and "motion_revoke cfg origin (hash_of cfg call) s1 = (s2, r2)"
  shows "is_ok r1 \<and> is_ok r2 \<and> motions s2 = motions s \<and>
    fa_events s2 = fa_events s @ [MotionApprovedEvent (hash_of cfg call) a,
      MotionRevokedEvent (hash_of cfg call) a, MotionRemovedEvent (hash_of cfg call)]"
proof -
  let ?m = "\<lparr> approvals = {|a|}, ends_block = saturating_add (block_number s) (motion_duration cfg),
              motion_call = call \<rparr>"
  have s1: "s1 = fa_deposit (MotionApprovedEvent (hash_of cfg call) a)
      (s\<lparr> motions := (motions s)(hash_of cfg call \<mapsto> ?m) \<rparr>)" and "is_ok r1"
    using assms by (auto simp: motion_approve_def motion_approve_body_def with_storage_layer_def
        approve_mutate_def bounded_try_insert_def ensure_origin_def Let_def fcard_fempty)
  moreover have "approvals_len (?m\<lparr> approvals := {||} \<rparr>) = 0"
    by (simp add: approvals_len_def fcard_fempty)
  moreover have "\<not> saturating_add (block_number s) (motion_duration cfg) \<le> block_number s"
    using assms(5) by simp
  ultimately show ?thesis
    using assms by (auto simp: motion_revoke_def motion_revoke_body_def with_storage_layer_def
        revoke_mutate_def has_ended_def ensure_origin_def Let_def motion_remove_def fa_deposit_def
        fun_upd_idem)
qed

theorem approve_then_revoke_witness:
  "motions (fst (motion_revoke demo_fa_cfg (CustomOrigin 1) 8
     (fst (motion_approve demo_fa_cfg (CustomOrigin 1) 8 demo_fa_start)))) = motions demo_fa_start"
proof -
  have "ensure_from_bodies (approval_bodies demo_fa_cfg) (CustomOrigin 1) = Inr 40"
    by (simp add: demo_fa_defs body_ensure_from_def)
  moreover have "block_number demo_fa_start <
      saturating_add (block_number demo_fa_start) (motion_duration demo_fa_cfg)"
    by (simp add: demo_fa_defs saturating_add_def)
  moreover have "hash_of demo_fa_cfg 8 = 8" "motions demo_fa_start 8 = None"
    "revoke_bodies demo_fa_cfg = approval_bodies demo_fa_cfg" "0 < unat (max_authority_bodies demo_fa_cfg)"
    by (simp_all add: demo_fa_defs)
  ultimately show ?thesis
    using approve_then_revoke [of demo_fa_start demo_fa_cfg 8 "CustomOrigin 1" 40, OF _ _ _ _ _
        prod.collapse [symmetric] prod.collapse [symmetric]] by simp
qed

end
