(* ===== verification/Inherents.thy ===== *)
theory Inherents
  imports Node_Prelude
begin

text \<open>
  The contract between a pallet that provides an inherent and the block import.  The author of a
  block calls \<^verbatim>\<open>create_inherent\<close> on the data it observed; a node that imports the block calls
  \<^verbatim>\<open>check_inherent\<close> on the data it observed itself.  The locale \<^verbatim>\<open>inherent_provider\<close> states what makes
  the two agree; the pallets interpret it in their own theories.
\<close>

locale inherent_provider =
  fixes create :: "'d \<Rightarrow> 'c option"
    and check :: "'c \<Rightarrow> 'd \<Rightarrow> bool"
    and is_inherent :: "'c \<Rightarrow> bool"
  assumes created_is_inherent: "create d = Some c \<Longrightarrow> is_inherent c"
    and created_is_accepted: "create d = Some c \<Longrightarrow> check c d"
    and accepted_is_created: "create d = Some c \<Longrightarrow> is_inherent c' \<Longrightarrow> check c' d \<Longrightarrow> c' = c"
begin

definition inherents_of :: "'c list \<Rightarrow> 'c list" where
  "inherents_of calls = filter is_inherent calls"

definition block_accepted :: "'d \<Rightarrow> 'c list \<Rightarrow> bool" where
  "block_accepted d calls \<longleftrightarrow> list_all (\<lambda>c. check c d) (inherents_of calls)"

lemma honest_block_accepted:
  assumes "inherents_of calls = []"
  shows "block_accepted d (case create d of None \<Rightarrow> calls | Some c \<Rightarrow> c # calls)"
  using assms created_is_accepted
  by (auto simp: block_accepted_def inherents_of_def split: option.splits)

lemma accepted_block_holds_created:
  assumes "create d = Some c" and "block_accepted d calls"
  shows "set (inherents_of calls) \<subseteq> {c}"
  using assms accepted_is_created by (auto simp: block_accepted_def inherents_of_def list_all_iff)

lemma accepted_blocks_agree:
  assumes "create d \<noteq> None" and "block_accepted d calls" and "block_accepted d calls'"
    and "c \<in> set (inherents_of calls)" and "c' \<in> set (inherents_of calls')"
  shows "c = c'"
proof -
  from assms(1) obtain e where "create d = Some e" by auto
  from accepted_block_holds_created [OF this] assms show ?thesis by blast
qed

end

end
