(* ===== verification/Federated_Authority_Observation.thy ===== *)
theory Federated_Authority_Observation
  imports Inherents
begin

text \<open>
  The pallet \<^verbatim>\<open>pallets/federated-authority-observation\<close> and its primitives: the members of the
  Council and of the Technical Committee are observed on Cardano and installed by the inherent
  \<^verbatim>\<open>reset_members\<close>.  The two membership handlers are modelled by the functions of \<^verbatim>\<open>fao_env\<close>; what
  the pallet relies on is \<^verbatim>\<open>handlers_ok\<close>.  The handlers of \<^verbatim>\<open>runtime/common/src/governance.rs\<close> that
  stand behind them are modelled at the end, over the membership and collective pallets of FRAME.
\<close>

section \<open>Primitives\<close>

type_synonym mainchain_member = bytes
type_synonym authority_key = bytes

record governance_datum_r0 =
  r0_authorities :: "(authority_key \<times> mainchain_member) list"
  r0_round :: byte

datatype governance_datums = R0 governance_datum_r0

record authorities_data =
  authorities :: "(authority_key \<times> mainchain_member) list"
  round :: byte

fun authorities_of_datum :: "governance_datums \<Rightarrow> authorities_data" where
  "authorities_of_datum (R0 r) = \<lparr> authorities = r0_authorities r, round = r0_round r \<rparr>"

record federated_authority_data =
  council_authorities :: authorities_data
  technical_committee_authorities :: authorities_data
  mc_block_hash :: bytes

datatype fao_inherent_error =
    DecodeFailed | CouncilMembersMismatch | TechnicalCommitteeMembersMismatch | TooManyMembers

section \<open>Storage and environment\<close>

datatype 'a fao_event =
    CouncilMembersReset "'a list" "mainchain_member list"
  | TechnicalCommitteeMembersReset "'a list" "mainchain_member list"

datatype fao_error = EmptyMembers | DuplicatedMembers | InherentAlreadyExecuted

datatype fao_weight = W_reset_none u32 u32 | W_reset_only_council u32 u32 | W_reset_only_tc u32 u32

record ('a, 'h) fao_state =
  council_address :: bytes
  council_policy_id :: bytes
  tc_address :: bytes
  tc_policy_id :: bytes
  council_mainchain_members :: "mainchain_member list"
  tc_mainchain_members :: "mainchain_member list"
  reset_executed_this_block :: bool
  fao_handlers :: 'h
  fao_events :: "'a fao_event list"

record ('a, 'h) fao_env =
  council_max_members :: nat
  tc_max_members :: nat
  council_sorted_members :: "'h \<Rightarrow> 'a list"
  council_set_members_sorted :: "'a list \<Rightarrow> 'a list \<Rightarrow> 'h \<Rightarrow> 'h"
  tc_sorted_members :: "'h \<Rightarrow> 'a list"
  tc_set_members_sorted :: "'a list \<Rightarrow> 'a list \<Rightarrow> 'h \<Rightarrow> 'h"
  decode_account :: "bytes \<Rightarrow> 'a option"

definition fao_deposit :: "'a fao_event \<Rightarrow> ('a, 'h) fao_state \<Rightarrow> ('a, 'h) fao_state" where
  "fao_deposit ev s = s\<lparr> fao_events := fao_events s @ [ev] \<rparr>"

definition fao_on_finalize :: "('a, 'h) fao_state \<Rightarrow> ('a, 'h) fao_state" where
  "fao_on_finalize s = s\<lparr> reset_executed_this_block := False \<rparr>"

record fao_genesis =
  fg_council_address :: bytes
  fg_council_policy_id :: bytes
  fg_tc_address :: bytes
  fg_tc_policy_id :: bytes
  fg_council_members :: "mainchain_member list"
  fg_tc_members :: "mainchain_member list"

definition fao_genesis_build ::
  "('a, 'h) fao_env \<Rightarrow> fao_genesis \<Rightarrow> ('a, 'h) fao_state \<Rightarrow> ('a, 'h) fao_state outcome" where
  "fao_genesis_build env g s =
     outcome_bind (expect ''Council mainchain members exceeds max members''
         (bounded_vec_try_from (council_max_members env) (fg_council_members g))) (\<lambda>council.
     outcome_bind (expect ''Technical committee mainchain members exceeds max members''
         (bounded_vec_try_from (tc_max_members env) (fg_tc_members g))) (\<lambda>tc.
     Returns (s\<lparr> council_address := fg_council_address g, council_policy_id := fg_council_policy_id g,
       tc_address := fg_tc_address g, tc_policy_id := fg_tc_policy_id g,
       council_mainchain_members := council, tc_mainchain_members := tc \<rparr>)))"

section \<open>Dispatchables\<close>

definition has_duplicated_members :: "('a \<times> 'm) list \<Rightarrow> bool" where
  "has_duplicated_members members = (card (set (map fst members)) \<noteq> length (map fst members))"

text \<open>One half of the state change phase: the same statements for the Council and the Committee.\<close>

definition reset_council ::
  "('a, 'h) fao_env \<Rightarrow> 'a list \<Rightarrow> mainchain_member list \<Rightarrow> ('a, 'h) fao_state \<Rightarrow> ('a, 'h) fao_state \<times> bool" where
  "reset_council env members mainchain s =
     (let current = council_sorted_members env (fao_handlers s);
          members_changed = (current \<noteq> members);
          s1 = (if members_changed
                then s\<lparr> fao_handlers := council_set_members_sorted env members current (fao_handlers s) \<rparr> else s);
          mainchain_changed = (council_mainchain_members s1 \<noteq> mainchain);
          s2 = (if mainchain_changed then s1\<lparr> council_mainchain_members := mainchain \<rparr> else s1);
          changed = (members_changed \<or> mainchain_changed) in
      (if changed then fao_deposit (CouncilMembersReset members mainchain) s2 else s2, changed))"

definition reset_technical_committee ::
  "('a, 'h) fao_env \<Rightarrow> 'a list \<Rightarrow> mainchain_member list \<Rightarrow> ('a, 'h) fao_state \<Rightarrow> ('a, 'h) fao_state \<times> bool" where
  "reset_technical_committee env members mainchain s =
     (let current = tc_sorted_members env (fao_handlers s);
          members_changed = (current \<noteq> members);
          s1 = (if members_changed
                then s\<lparr> fao_handlers := tc_set_members_sorted env members current (fao_handlers s) \<rparr> else s);
          mainchain_changed = (tc_mainchain_members s1 \<noteq> mainchain);
          s2 = (if mainchain_changed then s1\<lparr> tc_mainchain_members := mainchain \<rparr> else s1);
          changed = (members_changed \<or> mainchain_changed) in
      (if changed then fao_deposit (TechnicalCommitteeMembersReset members mainchain) s2 else s2, changed))"

text \<open>
  The arguments of \<^verbatim>\<open>reset_members\<close> are \<^verbatim>\<open>BoundedVec\<close>s, so the two conversions back to a bounded vector
  in its body cannot fail; duplicates are only logged.
\<close>

definition reset_members_body ::
  "('a::linorder, 'h) fao_env \<Rightarrow> ('acc, 'o) raw_origin \<Rightarrow> ('a \<times> mainchain_member) list \<Rightarrow>
   ('a \<times> mainchain_member) list \<Rightarrow>
   (('a, 'h) fao_state, fao_error dispatch_error, fao_weight list post_dispatch_info) dispatchable" where
  "reset_members_body env origin council tc s =
     (case ensure_none origin of
        Inl e \<Rightarrow> (s, Inl e)
      | Inr _ \<Rightarrow>
          if reset_executed_this_block s then (s, Inl (ModuleError InherentAlreadyExecuted))
          else
            (let s0 = s\<lparr> reset_executed_this_block := True \<rparr>;
                 council_pairs = sort_key fst council;
                 tc_pairs = sort_key fst tc;
                 council_members = map fst council_pairs; council_mainchain = map snd council_pairs;
                 tc_members = map fst tc_pairs; tc_mainchain = map snd tc_pairs;
                 n = of_nat (length council_members) :: u32; m = of_nat (length tc_members) :: u32;
                 unchanged = Inr \<lparr> actual_weight = Some [W_reset_none n m], pays_fee = PaysNo \<rparr> in
             if council_members = [] then (s0, unchanged)
             else if council_mainchain = [] then (s0, unchanged)
             else if tc_members = [] then (s0, unchanged)
             else if tc_mainchain = [] then (s0, unchanged)
             else
               (let (s1, council_changed) = reset_council env council_members council_mainchain s0;
                    (s2, tc_changed) = reset_technical_committee env tc_members tc_mainchain s1;
                    weight = (if council_changed then [W_reset_only_council n m] else []) @
                             (if tc_changed then [W_reset_only_tc n m] else []) in
                (s2, if \<not> council_changed \<and> \<not> tc_changed then unchanged
                     else Inr \<lparr> actual_weight = Some weight, pays_fee = PaysNo \<rparr>))))"

definition reset_members ::
  "('a::linorder, 'h) fao_env \<Rightarrow> ('acc, 'o) raw_origin \<Rightarrow> ('a \<times> mainchain_member) list \<Rightarrow>
   ('a \<times> mainchain_member) list \<Rightarrow>
   (('a, 'h) fao_state, fao_error dispatch_error, fao_weight list post_dispatch_info) dispatchable" where
  "reset_members env origin council tc = with_storage_layer (reset_members_body env origin council tc)"

definition root_setter ::
  "('s \<Rightarrow> 's) \<Rightarrow> ('acc, 'o) raw_origin \<Rightarrow> ('s, 'm dispatch_error, unit) dispatchable" where
  "root_setter f origin =
     with_storage_layer (\<lambda>s. case ensure_root origin of Inl e \<Rightarrow> (s, Inl e) | Inr _ \<Rightarrow> (f s, Inr ()))"

definition set_council_address ::
  "('acc, 'o) raw_origin \<Rightarrow> bytes \<Rightarrow> (('a, 'h) fao_state, fao_error dispatch_error, unit) dispatchable" where
  "set_council_address origin address = root_setter (\<lambda>s. s\<lparr> council_address := address \<rparr>) origin"

definition set_technical_committee_address ::
  "('acc, 'o) raw_origin \<Rightarrow> bytes \<Rightarrow> (('a, 'h) fao_state, fao_error dispatch_error, unit) dispatchable" where
  "set_technical_committee_address origin address = root_setter (\<lambda>s. s\<lparr> tc_address := address \<rparr>) origin"

definition set_council_policy_id ::
  "('acc, 'o) raw_origin \<Rightarrow> bytes \<Rightarrow> (('a, 'h) fao_state, fao_error dispatch_error, unit) dispatchable" where
  "set_council_policy_id origin policy = root_setter (\<lambda>s. s\<lparr> council_policy_id := policy \<rparr>) origin"

definition set_technical_committee_policy_id ::
  "('acc, 'o) raw_origin \<Rightarrow> bytes \<Rightarrow> (('a, 'h) fao_state, fao_error dispatch_error, unit) dispatchable" where
  "set_technical_committee_policy_id origin policy = root_setter (\<lambda>s. s\<lparr> tc_policy_id := policy \<rparr>) origin"

section \<open>Inherents\<close>

datatype 'a fao_call =
    ResetMembers "('a \<times> mainchain_member) list" "('a \<times> mainchain_member) list"
  | SetCouncilAddress bytes
  | SetTechnicalCommitteeAddress bytes
  | SetCouncilPolicyId bytes
  | SetTechnicalCommitteePolicyId bytes

definition fao_inherent_data ::
  "('e, federated_authority_data option) result \<Rightarrow> (fao_inherent_error, federated_authority_data option) result" where
  "fao_inherent_data data = map_err (\<lambda>_. DecodeFailed) data"

definition decode_auth_members ::
  "('a, 'h) fao_env \<Rightarrow> nat \<Rightarrow> (authority_key \<times> mainchain_member) list \<Rightarrow>
   (fao_inherent_error, ('a \<times> mainchain_member) list) result" where
  "decode_auth_members env bound auth_data =
     and_then (try_map (\<lambda>(key, member). map_ok (\<lambda>account. (account, member))
                 (ok_or DecodeFailed (decode_account env key))) auth_data)
       (\<lambda>members. map_err (\<lambda>_. TooManyMembers) (bounded_vec_try_from bound members))"

definition fao_create_inherent ::
  "('a, 'h) fao_env \<Rightarrow> ('e, federated_authority_data option) result \<Rightarrow> 'a fao_call option" where
  "fao_create_inherent env data =
     (case fao_inherent_data data of
        Inr (Some d) \<Rightarrow>
          (case (decode_auth_members env (council_max_members env) (authorities (council_authorities d)),
                 decode_auth_members env (tc_max_members env) (authorities (technical_committee_authorities d))) of
             (Inr council, Inr tc) \<Rightarrow>
               (let has_empty = (council = [] \<or> tc = []);
                    has_duplicated = (has_duplicated_members council \<or> has_duplicated_members tc) in
                if \<not> has_empty \<and> \<not> has_duplicated then Some (ResetMembers council tc) else None)
           | _ \<Rightarrow> None)
      | _ \<Rightarrow> None)"

definition fao_is_inherent :: "'a fao_call \<Rightarrow> bool" where
  "fao_is_inherent call = (case call of ResetMembers _ _ \<Rightarrow> True | _ \<Rightarrow> False)"

definition fao_check_inherent ::
  "('a, 'h) fao_env \<Rightarrow> 'a fao_call \<Rightarrow> ('e, federated_authority_data option) result \<Rightarrow>
   (fao_inherent_error, unit) result" where
  "fao_check_inherent env call data =
     and_then (fao_inherent_data data) (\<lambda>d.
       case d of
         None \<Rightarrow> Inr ()
       | Some d \<Rightarrow>
           and_then (decode_auth_members env (council_max_members env) (authorities (council_authorities d)))
             (\<lambda>council.
           and_then (decode_auth_members env (tc_max_members env) (authorities (technical_committee_authorities d)))
             (\<lambda>tc.
           case call of
             ResetMembers expected_council expected_tc \<Rightarrow>
               if council \<noteq> expected_council then Inl CouncilMembersMismatch
               else if tc \<noteq> expected_tc then Inl TechnicalCommitteeMembersMismatch
               else Inr ()
           | _ \<Rightarrow> Inr ())))"

section \<open>The membership handlers: runtime/common/src/governance.rs\<close>

record ('a, 'w) membership_env =
  p_initialize_members :: "'a list \<Rightarrow> 'w \<Rightarrow> 'w"
  p_change_members_sorted :: "'a list \<Rightarrow> 'a list \<Rightarrow> 'a list \<Rightarrow> 'w \<Rightarrow> 'w"
  inc_sufficients :: "'a \<Rightarrow> 'w \<Rightarrow> 'w"
  dec_sufficients :: "'a \<Rightarrow> 'w \<Rightarrow> 'w"

definition initialize_members :: "('a, 'w) membership_env \<Rightarrow> 'a list \<Rightarrow> 'w \<Rightarrow> 'w" where
  "initialize_members env members w = fold (inc_sufficients env) members (p_initialize_members env members w)"

definition change_members_sorted ::
  "('a, 'w) membership_env \<Rightarrow> 'a list \<Rightarrow> 'a list \<Rightarrow> 'a list \<Rightarrow> 'w \<Rightarrow> 'w" where
  "change_members_sorted env incoming outgoing new w =
     fold (dec_sufficients env) outgoing
       (fold (inc_sufficients env) incoming (p_change_members_sorted env incoming outgoing new w))"

definition always_no_default_vote :: "bool option \<Rightarrow> u32 \<Rightarrow> u32 \<Rightarrow> u32 \<Rightarrow> bool" where
  "always_no_default_vote prime_vote yes_votes no_votes len = False"

definition observation_change_members_sorted ::
  "((unit, unit) raw_origin \<Rightarrow> 'a list \<Rightarrow> ('w, 'e, unit) dispatchable) \<Rightarrow> 'a list \<Rightarrow> 'a list \<Rightarrow> 'a list \<Rightarrow> 'w \<Rightarrow> 'w" where
  "observation_change_members_sorted reset incoming outgoing sorted_new w = fst (reset NoneOrigin sorted_new w)"

section \<open>What the environment promises\<close>

definition handlers_ok :: "('a::linorder, 'h) fao_env \<Rightarrow> bool" where
  "handlers_ok env \<longleftrightarrow>
     (\<forall>new old h. sorted new \<longrightarrow> length new \<le> council_max_members env \<longrightarrow>
        council_sorted_members env (council_set_members_sorted env new old h) = new \<and>
        tc_sorted_members env (council_set_members_sorted env new old h) = tc_sorted_members env h) \<and>
     (\<forall>new old h. sorted new \<longrightarrow> length new \<le> tc_max_members env \<longrightarrow>
        tc_sorted_members env (tc_set_members_sorted env new old h) = new \<and>
        council_sorted_members env (tc_set_members_sorted env new old h) = council_sorted_members env h)"

definition sufficients_ok :: "('a, 'w) membership_env \<Rightarrow> ('w \<Rightarrow> 'a \<Rightarrow> nat) \<Rightarrow> bool" where
  "sufficients_ok env suff \<longleftrightarrow>
     (\<forall>w a b. suff (inc_sufficients env a w) b = (if b = a then Suc (suff w b) else suff w b)) \<and>
     (\<forall>w a b. suff (dec_sufficients env a w) b = (if b = a then suff w b - 1 else suff w b)) \<and>
     (\<forall>w i r n b. suff (p_change_members_sorted env i r n w) b = suff w b)"

definition demo_fao_env :: "(nat, nat list \<times> nat list) fao_env" where
  "demo_fao_env = \<lparr> council_max_members = 3, tc_max_members = 3,
     council_sorted_members = fst, council_set_members_sorted = (\<lambda>new old h. (new, snd h)),
     tc_sorted_members = snd, tc_set_members_sorted = (\<lambda>new old h. (fst h, new)),
     decode_account = (\<lambda>k. case k of [b] \<Rightarrow> Some (unat b) | _ \<Rightarrow> None) \<rparr>"

definition demo_fao_state :: "(nat, nat list \<times> nat list) fao_state" where
  "demo_fao_state = \<lparr> council_address = [], council_policy_id = [], tc_address = [], tc_policy_id = [],
     council_mainchain_members = [], tc_mainchain_members = [], reset_executed_this_block = False,
     fao_handlers = ([], []), fao_events = [] \<rparr>"

definition demo_fed_data :: "(authority_key \<times> mainchain_member) list \<Rightarrow> federated_authority_data" where
  "demo_fed_data council = \<lparr> council_authorities = \<lparr> authorities = council, round = 0 \<rparr>,
     technical_committee_authorities = \<lparr> authorities = [([5], [50])], round = 0 \<rparr>, mc_block_hash = [] \<rparr>"

section \<open>Lemmas\<close>

lemma has_duplicated_members_iff: "has_duplicated_members members \<longleftrightarrow> \<not> distinct (map fst members)"
  using card_distinct [of "map fst members"] distinct_card [of "map fst members"]
  by (auto simp: has_duplicated_members_def)

lemma reset_council_state:
  assumes "handlers_ok env" and "sorted members" and "length members \<le> council_max_members env"
    and "reset_council env members mainchain s = (s', changed)"
  shows "council_sorted_members env (fao_handlers s') = members"
    and "council_mainchain_members s' = mainchain"
    and "tc_sorted_members env (fao_handlers s') = tc_sorted_members env (fao_handlers s)"
    and "tc_mainchain_members s' = tc_mainchain_members s"
    and "reset_executed_this_block s' = reset_executed_this_block s"
    and "changed \<longleftrightarrow> council_sorted_members env (fao_handlers s) \<noteq> members \<or> council_mainchain_members s \<noteq> mainchain"
  using assms
  by (auto simp: reset_council_def Let_def handlers_ok_def fao_deposit_def split: if_splits)

lemma reset_technical_committee_state:
  assumes "handlers_ok env" and "sorted members" and "length members \<le> tc_max_members env"
    and "reset_technical_committee env members mainchain s = (s', changed)"
  shows "tc_sorted_members env (fao_handlers s') = members"
    and "tc_mainchain_members s' = mainchain"
    and "council_sorted_members env (fao_handlers s') = council_sorted_members env (fao_handlers s)"
    and "council_mainchain_members s' = council_mainchain_members s"
    and "reset_executed_this_block s' = reset_executed_this_block s"
    and "changed \<longleftrightarrow> tc_sorted_members env (fao_handlers s) \<noteq> members \<or> tc_mainchain_members s \<noteq> mainchain"
  using assms
  by (auto simp: reset_technical_committee_def Let_def handlers_ok_def fao_deposit_def split: if_splits)

lemma reset_council_idle:
  "council_sorted_members env (fao_handlers s) = members \<Longrightarrow> council_mainchain_members s = mainchain \<Longrightarrow>
   reset_council env members mainchain s = (s, False)"
  by (simp add: reset_council_def)

lemma reset_technical_committee_idle:
  "tc_sorted_members env (fao_handlers s) = members \<Longrightarrow> tc_mainchain_members s = mainchain \<Longrightarrow>
   reset_technical_committee env members mainchain s = (s, False)"
  by (simp add: reset_technical_committee_def)

interpretation reset_tx: transactional "reset_members env origin council tc" for env origin council tc
  unfolding reset_members_def by (rule transactional_storage_layer)

lemma reset_members_okE:
  assumes "reset_members env origin council tc s = (s', Inr info)" and "council \<noteq> []" and "tc \<noteq> []"
  obtains t cc tcc where "origin = NoneOrigin" "\<not> reset_executed_this_block s"
    "reset_council env (map fst (sort_key fst council)) (map snd (sort_key fst council))
       (s\<lparr> reset_executed_this_block := True \<rparr>) = (t, cc)"
    "reset_technical_committee env (map fst (sort_key fst tc)) (map snd (sort_key fst tc)) t = (s', tcc)"
proof -
  have "sort_key fst council \<noteq> []" "sort_key fst tc \<noteq> []"
    using assms(2,3) by (metis mset_sort mset_zero_iff_right)+
  with assms(1) that show ?thesis
    by (auto simp: reset_members_def with_storage_layer_Inr_iff reset_members_body_def Let_def
        split: sum.split_asm if_split_asm prod.split_asm)
qed

lemma reset_members_succeeds:
  assumes "\<not> reset_executed_this_block s"
  shows "\<exists>s' info. reset_members env (NoneOrigin :: ('acc, 'o) raw_origin) council tc s = (s', Inr info)"
proof (cases "reset_members_body env (NoneOrigin :: ('acc, 'o) raw_origin) council tc s")
  case (Pair s' r)
  with assms obtain info where "r = Inr info"
    by (auto simp: reset_members_body_def Let_def split: if_split_asm prod.split_asm)
  with Pair show ?thesis by (simp add: reset_members_def with_storage_layer_def)
qed

lemma decode_auth_members_length:
  "decode_auth_members env bound xs = Inr ys \<Longrightarrow> length ys = length xs \<and> length ys \<le> bound"
  by (auto simp: decode_auth_members_def dest: try_map_length)

lemma fold_inc_sufficients:
  assumes "sufficients_ok env suff" and "distinct xs"
  shows "suff (fold (inc_sufficients env) xs w) a = suff w a + (if a \<in> set xs then 1 else 0)"
  using assms by (induction xs arbitrary: w) (auto simp: sufficients_ok_def)

lemma fold_dec_sufficients:
  assumes "sufficients_ok env suff" and "distinct xs"
  shows "suff (fold (dec_sufficients env) xs w) a = suff w a - (if a \<in> set xs then 1 else 0)"
  using assms by (induction xs arbitrary: w) (auto simp: sufficients_ok_def)

lemma demo_handlers_ok: "handlers_ok demo_fao_env"
  by (simp add: handlers_ok_def demo_fao_env_def)

lemma demo_reset:
  "\<exists>s' info. reset_members demo_fao_env (NoneOrigin :: (nat, nat) raw_origin) [(2, [20]), (1, [10])] [(5, [50])]
     demo_fao_state = (s', Inr info)"
  by (rule reset_members_succeeds) (simp add: demo_fao_state_def)

lemma zip_sorted_pairs: "zip (map fst (sort_key fst ps)) (map snd (sort_key fst ps)) = sort_key fst ps"
  by (simp add: zip_map_fst_snd)

interpretation fao_inherent: inherent_provider
  "\<lambda>d. fao_create_inherent env (Inr d :: (unit, federated_authority_data option) result)"
  "\<lambda>c d. fao_check_inherent env c (Inr d :: (unit, federated_authority_data option) result) = Inr ()"
  fao_is_inherent
  for env :: "('a, 'h) fao_env"
proof
  fix d :: "federated_authority_data option" and c c' :: "'a fao_call"
  assume created: "fao_create_inherent env (Inr d :: (unit, federated_authority_data option) result) = Some c"
  then show "fao_is_inherent c"
    by (auto simp: fao_create_inherent_def fao_is_inherent_def Let_def split: sum.splits option.splits if_splits)
  from created show "fao_check_inherent env c (Inr d :: (unit, federated_authority_data option) result) = Inr ()"
    by (auto simp: fao_create_inherent_def fao_check_inherent_def fao_inherent_data_def Let_def
        split: sum.splits option.splits if_splits)
  assume "fao_is_inherent c'"
    and "fao_check_inherent env c' (Inr d :: (unit, federated_authority_data option) result) = Inr ()"
  with created show "c' = c"
    by (auto simp: fao_create_inherent_def fao_check_inherent_def fao_inherent_data_def fao_is_inherent_def Let_def
        split: sum.splits option.splits if_splits fao_call.splits)
qed

lemma members_installed:
  assumes "handlers_ok env" and "reset_members env origin council tc s = (s', Inr info)"
    and "council \<noteq> []" "length council \<le> council_max_members env"
    and "tc \<noteq> []" "length tc \<le> tc_max_members env"
  shows "zip (council_sorted_members env (fao_handlers s')) (council_mainchain_members s') = sort_key fst council \<and>
    zip (tc_sorted_members env (fao_handlers s')) (tc_mainchain_members s') = sort_key fst tc"
  using assms(2,3,5)
proof (rule reset_members_okE)
  fix t cc tcc
  assume c: "reset_council env (map fst (sort_key fst council)) (map snd (sort_key fst council))
       (s\<lparr> reset_executed_this_block := True \<rparr>) = (t, cc)"
    and k: "reset_technical_committee env (map fst (sort_key fst tc)) (map snd (sort_key fst tc)) t = (s', tcc)"
  have "length (map fst (sort_key fst council)) \<le> council_max_members env"
    and "length (map fst (sort_key fst tc)) \<le> tc_max_members env" using assms(4,6) by simp_all
  note reset_council_state [OF assms(1) sorted_sort_key this(1) c]
    and reset_technical_committee_state [OF assms(1) sorted_sort_key this(2) k]
  then show ?thesis by (simp add: zip_sorted_pairs)
qed

section \<open>Properties\<close>

text \<open>
  C21: a membership reset installs exactly the observed members and keeps each member's mainchain
  identity: after \<^verbatim>\<open>reset_members\<close> the members of both bodies, paired with the stored mainchain
  members, are the observed pairs sorted by account.
\<close>
theorem members_keep_association:
  assumes "handlers_ok env" and "reset_members env origin council tc s = (s', Inr info)"
    and "council \<noteq> []" "length council \<le> council_max_members env"
    and "tc \<noteq> []" "length tc \<le> tc_max_members env"
  shows "zip (council_sorted_members env (fao_handlers s')) (council_mainchain_members s') = sort_key fst council \<and>
    zip (tc_sorted_members env (fao_handlers s')) (tc_mainchain_members s') = sort_key fst tc"
  by (rule members_installed [OF assms])

theorem members_keep_association_witness:
  "\<exists>s' info. reset_members demo_fao_env (NoneOrigin :: (nat, nat) raw_origin) [(2, [20]), (1, [10])] [(5, [50])] demo_fao_state = (s', Inr info) \<and>
     zip (council_sorted_members demo_fao_env (fao_handlers s')) (council_mainchain_members s') = [(1, [10]), (2, [20])]"
proof -
  obtain s' info where run: "reset_members demo_fao_env (NoneOrigin :: (nat, nat) raw_origin) [(2, [20]), (1, [10])] [(5, [50])] demo_fao_state = (s', Inr info)"
    using demo_reset by blast
  from members_keep_association [OF demo_handlers_ok run]
  have "zip (council_sorted_members demo_fao_env (fao_handlers s')) (council_mainchain_members s') = sort_key fst [(2, [20]), (1, [10])]"
    by (simp add: demo_fao_env_def)
  then show ?thesis using run by auto
qed

text \<open>
  A reset with members that are already installed changes nothing: in the next block the
  same inherent only sets the flag of the block, emits no event and is charged the weight of an
  unchanged membership.
\<close>
theorem reset_members_idempotent:
  assumes "handlers_ok env" and "reset_members env origin council tc s = (s', Inr info)"
    and "council \<noteq> []" "length council \<le> council_max_members env"
    and "tc \<noteq> []" "length tc \<le> tc_max_members env"
  shows "reset_members env (NoneOrigin :: ('acc, 'o) raw_origin) council tc (fao_on_finalize s') =
    (s', Inr \<lparr> actual_weight = Some [W_reset_none (of_nat (length council)) (of_nat (length tc))], pays_fee = PaysNo \<rparr>)"
  using assms(2,3,5)
proof (rule reset_members_okE)
  fix t cc tcc
  assume c: "reset_council env (map fst (sort_key fst council)) (map snd (sort_key fst council))
       (s\<lparr> reset_executed_this_block := True \<rparr>) = (t, cc)"
    and k: "reset_technical_committee env (map fst (sort_key fst tc)) (map snd (sort_key fst tc)) t = (s', tcc)"
  have len: "length (map fst (sort_key fst council)) \<le> council_max_members env"
    "length (map fst (sort_key fst tc)) \<le> tc_max_members env" using assms(4,6) by simp_all
  note after = reset_council_state [OF assms(1) sorted_sort_key len(1) c]
    reset_technical_committee_state [OF assms(1) sorted_sort_key len(2) k]
  have ne: "sort_key fst council \<noteq> []" "sort_key fst tc \<noteq> []"
    using assms(3,5) by (metis mset_sort mset_zero_iff_right)+
  have flag: "(fao_on_finalize s')\<lparr> reset_executed_this_block := True \<rparr> = s'"
    using after by (simp add: fao_on_finalize_def)
  have "reset_council env (map fst (sort_key fst council)) (map snd (sort_key fst council)) s' = (s', False)"
    and "reset_technical_committee env (map fst (sort_key fst tc)) (map snd (sort_key fst tc)) s' = (s', False)"
    using after by (simp_all add: reset_council_idle reset_technical_committee_idle)
  then show ?thesis using ne flag
    by (simp add: reset_members_def with_storage_layer_def reset_members_body_def Let_def)
      (simp add: fao_on_finalize_def)
qed

theorem reset_members_idempotent_witness:
  "\<exists>s'. reset_members demo_fao_env (NoneOrigin :: (nat, nat) raw_origin) [(2, [20]), (1, [10])] [(5, [50])] (fao_on_finalize s') =
     (s', Inr \<lparr> actual_weight = Some [W_reset_none 2 1], pays_fee = PaysNo \<rparr>)"
proof -
  obtain s' info where run: "reset_members demo_fao_env (NoneOrigin :: (nat, nat) raw_origin) [(2, [20]), (1, [10])] [(5, [50])] demo_fao_state = (s', Inr info)"
    using demo_reset by blast
  from reset_members_idempotent [OF demo_handlers_ok run, where ?'acc = nat and ?'o = nat] show ?thesis
    by (auto simp: demo_fao_env_def)
qed

text \<open>
  C22: every membership keeps its account alive exactly once.  When the collective behind
  \<^verbatim>\<open>MembershipHandler\<close> changes from one set of members to another, the sufficient references of
  every account move by its joining or leaving, and by nothing else.
\<close>
theorem sufficients_track_membership:
  assumes "sufficients_ok env suff"
    and "distinct incoming" "set incoming = set new - set old"
    and "distinct outgoing" "set outgoing = set old - set new"
    and "a \<in> set old \<longrightarrow> 0 < suff w a"
  shows "suff (change_members_sorted env incoming outgoing new w) a + (if a \<in> set old then 1 else 0) =
    suff w a + (if a \<in> set new then 1 else 0)"
proof -
  have "suff (p_change_members_sorted env incoming outgoing new w) a = suff w a"
    using assms(1) by (simp add: sufficients_ok_def)
  then show ?thesis
    using assms unfolding change_members_sorted_def
    by (auto simp: fold_inc_sufficients fold_dec_sufficients)
qed

theorem sufficients_track_membership_witness:
  "change_members_sorted
     \<lparr> p_initialize_members = (\<lambda>ms w. w), p_change_members_sorted = (\<lambda>i r n w. w),
       inc_sufficients = (\<lambda>a w. w(a := Suc (w a))), dec_sufficients = (\<lambda>a w. w(a := w a - 1)) \<rparr>
     [3] [1] [2, 3] ((\<lambda>_. 0)(1 := 1, 2 := 1)) (3 :: nat) = 1"
proof -
  let ?env = "\<lparr> p_initialize_members = (\<lambda>ms w. w), p_change_members_sorted = (\<lambda>i r n w. w),
       inc_sufficients = (\<lambda>a w. w(a := Suc (w a))), dec_sufficients = (\<lambda>a w. w(a := w a - 1)) \<rparr>
       :: (nat, nat \<Rightarrow> nat) membership_env"
  have "sufficients_ok ?env (\<lambda>w. w)" by (simp add: sufficients_ok_def)
  moreover have "set [3 :: nat] = set [2, 3] - set [1, 2]" "set [1 :: nat] = set [1, 2] - set [2, 3]" by auto
  ultimately show ?thesis
    using sufficients_track_membership
      [of ?env "\<lambda>w. w" "[3]" "[2, 3]" "[1, 2]" "[1]" 3 "(\<lambda>_. 0)(1 := 1, 2 := 1)"]
    by simp
qed

text \<open>
  Block import agrees with block authoring on the membership inherent.  Two blocks that import
  accepts for the same observation, for which the author creates an inherent, reset the members to
  the same lists.
\<close>
theorem membership_inherents_agree:
  assumes "fao_create_inherent env (Inr d :: (unit, federated_authority_data option) result) = Some call"
    and "fao_check_inherent env (ResetMembers council tc) (Inr d :: (unit, federated_authority_data option) result) = Inr ()"
  shows "call = ResetMembers council tc \<and> council \<noteq> [] \<and> tc \<noteq> [] \<and>
    distinct (map fst council) \<and> distinct (map fst tc) \<and>
    length council \<le> council_max_members env \<and> length tc \<le> tc_max_members env"
proof -
  have "call = ResetMembers council tc"
    using fao_inherent.accepted_is_created [OF assms(1) _ assms(2)] by (simp add: fao_is_inherent_def)
  with assms(1) show ?thesis
    by (auto simp: fao_create_inherent_def has_duplicated_members_iff Let_def
        split: sum.splits option.splits if_splits dest: decode_auth_members_length)
qed

theorem membership_inherents_agree_witness:
  "fao_create_inherent demo_fao_env (Inr (Some (demo_fed_data [([1], [10])])) :: (unit, federated_authority_data option) result)
     = Some (ResetMembers [(1, [10])] [(5, [50])])"
proof -
  let ?d = "Inr (Some (demo_fed_data [([1], [10])])) :: (unit, federated_authority_data option) result"
  obtain call where c: "fao_create_inherent demo_fao_env ?d = Some call"
    by (auto simp: fao_create_inherent_def fao_inherent_data_def demo_fed_data_def decode_auth_members_def
        demo_fao_env_def bounded_vec_try_from_def has_duplicated_members_iff)
  have "fao_check_inherent demo_fao_env (ResetMembers [(1, [10])] [(5, [50])]) ?d = Inr ()"
    by (simp add: fao_check_inherent_def fao_inherent_data_def demo_fed_data_def decode_auth_members_def
        demo_fao_env_def bounded_vec_try_from_def)
  from membership_inherents_agree [OF c this] c show ?thesis by simp
qed

text \<open>
  C23: the import check is weaker than the author's.  For an observation with a duplicated member
  the author creates no inherent, but import accepts a block whose author included the reset all
  the same, and the reset then succeeds: the duplicate is only logged.
\<close>
theorem duplicated_members_pass_import:
  assumes "decode_auth_members env (council_max_members env) (authorities (council_authorities d)) = Inr council"
    and "decode_auth_members env (tc_max_members env) (authorities (technical_committee_authorities d)) = Inr tc"
    and "has_duplicated_members council" and "\<not> reset_executed_this_block s"
  shows "fao_create_inherent env (Inr (Some d) :: (unit, federated_authority_data option) result) = None \<and>
    fao_check_inherent env (ResetMembers council tc) (Inr (Some d) :: (unit, federated_authority_data option) result) = Inr () \<and>
    is_ok (snd (reset_members env (NoneOrigin :: ('acc, 'o) raw_origin) council tc s))"
  using assms reset_members_succeeds [OF assms(4), of env council tc, where ?'acc = 'acc and ?'o = 'o]
  by (auto simp: fao_create_inherent_def fao_check_inherent_def fao_inherent_data_def)

theorem duplicated_members_pass_import_witness:
  "is_ok (snd (reset_members demo_fao_env (NoneOrigin :: (nat, nat) raw_origin) [(1, [10]), (1, [11])] [(5, [50])] demo_fao_state))"
  using duplicated_members_pass_import
    [of demo_fao_env "demo_fed_data [([1], [10]), ([1], [11])]" "[(1, [10]), (1, [11])]" "[(5, [50])]" demo_fao_state,
     where ?'acc = nat and ?'o = nat]
  by (simp add: demo_fed_data_def decode_auth_members_def demo_fao_env_def bounded_vec_try_from_def
      has_duplicated_members_iff demo_fao_state_def)

end
