(* ===== verification/Cnight_Primitives.thy ===== *)
theory Cnight_Primitives
  imports Node_Prelude "HOL-Library.List_Lexorder" "HOL-Library.Product_Lexorder"
begin

text \<open>
  The types of \<^verbatim>\<open>primitives/cnight-observation\<close>: what the node observes of the cNIGHT token and its
  registrations on Cardano, where on Cardano it was observed, and the order in which every
  validator has to process it.  The order is given by two hand-written \<^verbatim>\<open>partial_cmp\<close>; here they are shown to
  be the lexicographic order of a key, so that they are total, transitive and never return
  \<^verbatim>\<open>None\<close> (which \<^verbatim>\<open>Ord for ObservedUtxo\<close> unwraps).

  Hashes are byte lists, \<^verbatim>\<open>i64\<close> is a 64-bit word in two's complement.
\<close>

section \<open>Bounded byte strings\<close>

type_synonym mc_hash = bytes
type_synonym reward_address = bytes
type_synonym dust_public_key = bytes
type_synonym i64 = "64 word"

definition CARDANO_BECH32_ADDRESS_MAX_LENGTH :: nat where
  "CARDANO_BECH32_ADDRESS_MAX_LENGTH = 108"

definition CARDANO_REWARD_ADDRESS_LENGTH :: nat where
  "CARDANO_REWARD_ADDRESS_LENGTH = 29"

definition reward_address_try_from :: "bytes \<Rightarrow> (bytes, reward_address) result" where
  "reward_address_try_from value =
     (if length value = CARDANO_REWARD_ADDRESS_LENGTH then Inr value else Inl value)"

definition dust_public_key_try_from :: "bytes \<Rightarrow> (bytes, dust_public_key) result" where
  "dust_public_key_try_from value = bounded_vec_try_from 33 value"

section \<open>Positions\<close>

record cardano_position =
  pos_block_hash :: mc_hash
  pos_block_number :: u32
  pos_block_timestamp :: i64
  pos_tx_index :: u32

definition position_increment :: "cardano_position \<Rightarrow> cardano_position" where
  "position_increment p = p\<lparr> pos_tx_index := pos_tx_index p + 1 \<rparr>"

record cnight_addresses =
  addr_mapping_validator :: bytes
  addr_auth_token_asset_name :: bytes
  addr_cnight_policy_id :: bytes
  addr_cnight_asset_name :: bytes

datatype ordering = Less | Equal | Greater

definition compare_lin :: "'a::linorder \<Rightarrow> 'a \<Rightarrow> ordering" where
  "compare_lin a b = (if a < b then Less else if a = b then Equal else Greater)"

definition position_partial_cmp :: "cardano_position \<Rightarrow> cardano_position \<Rightarrow> ordering option" where
  "position_partial_cmp a b =
     (case Some (compare_lin (pos_block_number a) (pos_block_number b)) of
        Some Equal \<Rightarrow> Some (compare_lin (pos_tx_index a) (pos_tx_index b))
      | ord \<Rightarrow> ord)"

definition position_ge :: "cardano_position \<Rightarrow> cardano_position \<Rightarrow> bool" where
  "position_ge a b = (position_partial_cmp a b \<in> {Some Greater, Some Equal})"

definition position_lt :: "cardano_position \<Rightarrow> cardano_position \<Rightarrow> bool" where
  "position_lt a b = (position_partial_cmp a b = Some Less)"

section \<open>Observed UTXOs\<close>

record observed_utxo_header =
  tx_position :: cardano_position
  tx_hash :: mc_hash
  utxo_tx_hash :: mc_hash
  utxo_index :: u16

record registration_data =
  reg_reward_address :: reward_address
  reg_dust_public_key :: dust_public_key

record deregistration_data =
  dereg_reward_address :: reward_address
  dereg_dust_public_key :: dust_public_key

record create_data =
  create_value :: u128
  create_owner :: reward_address
  create_utxo_tx_hash :: mc_hash
  create_utxo_tx_index :: u16

record spend_data =
  spend_value :: u128
  spend_owner :: reward_address
  spend_utxo_tx_hash :: mc_hash
  spend_utxo_tx_index :: u16
  spending_tx_hash :: mc_hash

datatype observed_utxo_data =
    RegistrationUtxo registration_data
  | DeregistrationUtxo deregistration_data
  | AssetCreate create_data
  | AssetSpend spend_data

record observed_utxo =
  utxo_header :: observed_utxo_header
  utxo_data :: observed_utxo_data

record observed_utxos =
  utxos_start :: cardano_position
  utxos_end :: cardano_position
  observed :: "observed_utxo list"

record token_movement =
  movement_utxos :: "observed_utxo list"
  movement_next_position :: cardano_position

definition is_create :: "observed_utxo_header \<Rightarrow> bool" where
  "is_create h = (tx_hash h = utxo_tx_hash h)"

definition header_partial_cmp :: "observed_utxo_header \<Rightarrow> observed_utxo_header \<Rightarrow> ordering option" where
  "header_partial_cmp a b =
     (case position_partial_cmp (tx_position a) (tx_position b) of
        Some Equal \<Rightarrow>
          (if is_create a \<and> \<not> is_create b then Some Less
           else if \<not> is_create a \<and> is_create b then Some Greater
           else (case Some (compare_lin (utxo_tx_hash a) (utxo_tx_hash b)) of
                   Some Equal \<Rightarrow> Some (compare_lin (utxo_index a) (utxo_index b))
                 | ord \<Rightarrow> ord))
      | ord \<Rightarrow> ord)"

definition utxo_cmp :: "observed_utxo \<Rightarrow> observed_utxo \<Rightarrow> ordering" where
  "utxo_cmp a b = the (header_partial_cmp (utxo_header a) (utxo_header b))"

section \<open>Stable sorting by a comparison\<close>

text \<open>\<^verbatim>\<open>slice::sort\<close> and \<^verbatim>\<open>sort_by\<close> are stable sorts by a comparison function.\<close>

fun insert_by :: "('a \<Rightarrow> 'a \<Rightarrow> ordering) \<Rightarrow> 'a \<Rightarrow> 'a list \<Rightarrow> 'a list" where
  "insert_by cmp x [] = [x]"
| "insert_by cmp x (y # ys) = (if cmp x y = Greater then y # insert_by cmp x ys else x # y # ys)"

fun sort_by :: "('a \<Rightarrow> 'a \<Rightarrow> ordering) \<Rightarrow> 'a list \<Rightarrow> 'a list" where
  "sort_by cmp [] = []"
| "sort_by cmp (x # xs) = insert_by cmp x (sort_by cmp xs)"

definition position_key :: "cardano_position \<Rightarrow> u32 \<times> u32" where
  "position_key p = (pos_block_number p, pos_tx_index p)"

definition header_key :: "observed_utxo_header \<Rightarrow> (u32 \<times> u32) \<times> bool \<times> mc_hash \<times> u16" where
  "header_key h = (position_key (tx_position h), \<not> is_create h, utxo_tx_hash h, utxo_index h)"

definition demo_utxo :: "u32 \<Rightarrow> observed_utxo" where
  "demo_utxo i = \<lparr> utxo_header = \<lparr> tx_position = \<lparr> pos_block_hash = [], pos_block_number = 3,
       pos_block_timestamp = 0, pos_tx_index = i \<rparr>, tx_hash = [1], utxo_tx_hash = [1], utxo_index = 0 \<rparr>,
     utxo_data = AssetCreate \<lparr> create_value = 1, create_owner = [], create_utxo_tx_hash = [1],
       create_utxo_tx_index = 0 \<rparr> \<rparr>"

section \<open>The contract of a comparison\<close>

locale total_cmp =
  fixes cmp :: "'a \<Rightarrow> 'a \<Rightarrow> ordering"
  assumes cmp_swap: "cmp a b = Greater \<longleftrightarrow> cmp b a = Less"
    and cmp_trans: "cmp a b \<noteq> Greater \<Longrightarrow> cmp b c \<noteq> Greater \<Longrightarrow> cmp a c \<noteq> Greater"
begin

definition le :: "'a \<Rightarrow> 'a \<Rightarrow> bool" where
  "le a b \<longleftrightarrow> cmp a b \<noteq> Greater"

lemma le_total: "le a b \<or> le b a"
  unfolding le_def by (metis cmp_swap ordering.distinct(3))

lemma le_trans: "le a b \<Longrightarrow> le b c \<Longrightarrow> le a c"
  unfolding le_def by (rule cmp_trans)

lemma mset_insert_by [simp]: "mset (insert_by cmp x xs) = add_mset x (mset xs)"
  by (induction xs) auto

lemma mset_sort_by [simp]: "mset (sort_by cmp xs) = mset xs"
  by (induction xs) auto

lemma set_insert_by [simp]: "set (insert_by cmp x xs) = insert x (set xs)"
  by (metis mset_insert_by set_mset_add_mset_insert set_mset_mset)

lemma sorted_insert_by: "sorted_wrt le ys \<Longrightarrow> sorted_wrt le (insert_by cmp x ys)"
proof (induction ys)
  case (Cons y ys)
  show ?case
  proof (cases "cmp x y = Greater")
    case True
    then have "le y x" by (simp add: cmp_swap le_def)
    with Cons True show ?thesis by auto
  next
    case False
    then have "le x y" by (simp add: le_def)
    with Cons False show ?thesis by (auto intro: le_trans)
  qed
qed simp

lemma sorted_sort_by: "sorted_wrt le (sort_by cmp xs)"
  by (induction xs) (auto simp: sorted_insert_by)

lemma insert_by_front: "\<forall>y \<in> set ys. le x y \<Longrightarrow> insert_by cmp x ys = x # ys"
  by (cases ys) (auto simp: le_def)

lemma sort_by_id: "sorted_wrt le xs \<Longrightarrow> sort_by cmp xs = xs"
  by (induction xs) (auto simp: insert_by_front)

lemma sorted_unique:
  assumes "sorted_wrt le xs" and "sorted_wrt le ys" and "mset xs = mset ys"
    and "\<And>a b. a \<in> set xs \<Longrightarrow> b \<in> set xs \<Longrightarrow> le a b \<Longrightarrow> le b a \<Longrightarrow> a = b"
  shows "xs = ys"
  using assms
proof (induction xs arbitrary: ys)
  case (Cons x xs)
  then obtain y ys' where ys: "ys = y # ys'" by (cases ys) auto
  have sets: "insert x (set xs) = insert y (set ys')"
    using Cons.prems(3) ys by (metis list.simps(15) mset_eq_setD)
  have "le x y" if "x \<noteq> y" using that sets Cons.prems(1) by auto
  moreover have "le y x" if "x \<noteq> y" using that sets Cons.prems(2) ys by auto
  ultimately have "x = y" using Cons.prems(4) sets by (metis insertI1 list.simps(15))
  with Cons ys show ?case by auto
qed simp

lemma sort_by_deterministic:
  assumes "mset xs = mset ys"
    and "\<And>a b. a \<in> set xs \<Longrightarrow> b \<in> set xs \<Longrightarrow> cmp a b = Equal \<Longrightarrow> a = b"
  shows "sort_by cmp xs = sort_by cmp ys"
proof (rule sorted_unique [OF sorted_sort_by sorted_sort_by])
  fix a b
  assume "a \<in> set (sort_by cmp xs)" "b \<in> set (sort_by cmp xs)" and le: "le a b" "le b a"
  then have "a \<in> set xs" "b \<in> set xs" by (metis mset_sort_by set_mset_mset)+
  moreover have "cmp a b = Equal"
    using le cmp_swap [of b a] unfolding le_def by (cases "cmp a b") auto
  ultimately show "a = b" by (rule assms(2))
qed (simp add: assms(1))

end

section \<open>The two comparisons are orders on keys\<close>

lemma compare_lin_eqs [simp]:
  "compare_lin a b = Less \<longleftrightarrow> a < b" "compare_lin a b = Equal \<longleftrightarrow> a = b"
  "compare_lin a b = Greater \<longleftrightarrow> b < a"
  by (auto simp: compare_lin_def)

lemma compare_lin_pair:
  "compare_lin (a, b) (c, d) =
     (case compare_lin a c of Equal \<Rightarrow> compare_lin b d | ord \<Rightarrow> ord)"
  by (auto simp: compare_lin_def split: ordering.splits)

lemma compare_lin_total: "total_cmp (\<lambda>a b. compare_lin (f a) (f b))"
  by unfold_locales auto

lemma position_partial_cmp_key:
  "position_partial_cmp a b = Some (compare_lin (position_key a) (position_key b))"
  by (auto simp: position_partial_cmp_def position_key_def compare_lin_pair split: ordering.splits)

lemma position_ge_key: "position_ge a b \<longleftrightarrow> position_key b \<le> position_key a"
  by (auto simp: position_ge_def position_partial_cmp_key le_less)

lemma position_lt_key: "position_lt a b \<longleftrightarrow> position_key a < position_key b"
  by (simp add: position_lt_def position_partial_cmp_key)

lemma header_partial_cmp_key:
  "header_partial_cmp a b = Some (compare_lin (header_key a) (header_key b))"
proof -
  have "compare_lin (\<not> is_create a) (\<not> is_create b) =
      (if is_create a \<and> \<not> is_create b then Less else if \<not> is_create a \<and> is_create b then Greater else Equal)"
    by (auto simp: compare_lin_def)
  then show ?thesis
    by (auto simp: header_partial_cmp_def header_key_def position_partial_cmp_key compare_lin_pair
        split: ordering.splits)
qed

lemma utxo_cmp_key: "utxo_cmp a b = compare_lin (header_key (utxo_header a)) (header_key (utxo_header b))"
  by (simp add: utxo_cmp_def header_partial_cmp_key)

interpretation utxo_order: total_cmp utxo_cmp
  unfolding utxo_cmp_key [abs_def] by (rule compare_lin_total)

lemma utxo_order_le: "utxo_order.le a b \<longleftrightarrow> header_key (utxo_header a) \<le> header_key (utxo_header b)"
  by (auto simp: utxo_order.le_def utxo_cmp_key not_less)

section \<open>Properties\<close>

text \<open>
  Every validator processes the same observations in the same order.  Sorting the observed
  UTXOs with the hand-written comparison gives a permutation of them in which positions on Cardano never
  decrease and, within a transaction, created UTXOs come before spent ones; and when no two
  distinct UTXOs have equal headers for the comparison, the result does not depend on the order in
  which the data source returned them.
\<close>
theorem observed_utxos_sorted_uniquely:
  assumes perm: "mset xs = mset ys"
    and "\<And>a b. a \<in> set xs \<Longrightarrow> b \<in> set xs \<Longrightarrow> utxo_cmp a b = Equal \<Longrightarrow> a = b"
  shows "sort_by utxo_cmp xs = sort_by utxo_cmp ys \<and> mset (sort_by utxo_cmp xs) = mset xs \<and>
    sorted_wrt (\<lambda>a b. \<not> position_lt (tx_position (utxo_header b)) (tx_position (utxo_header a)) \<and>
       (position_key (tx_position (utxo_header a)) = position_key (tx_position (utxo_header b)) \<longrightarrow>
        is_create (utxo_header b) \<longrightarrow> is_create (utxo_header a))) (sort_by utxo_cmp xs)"
proof (intro conjI)
  show "sort_by utxo_cmp xs = sort_by utxo_cmp ys"
    by (rule utxo_order.sort_by_deterministic [OF assms])
  show "mset (sort_by utxo_cmp xs) = mset xs" by simp
  show "sorted_wrt (\<lambda>a b. \<not> position_lt (tx_position (utxo_header b)) (tx_position (utxo_header a)) \<and>
       (position_key (tx_position (utxo_header a)) = position_key (tx_position (utxo_header b)) \<longrightarrow>
        is_create (utxo_header b) \<longrightarrow> is_create (utxo_header a))) (sort_by utxo_cmp xs)"
    by (rule sorted_wrt_mono_rel [OF _ utxo_order.sorted_sort_by])
      (auto simp: utxo_order_le header_key_def position_lt_key)
qed

theorem observed_utxos_sorted_uniquely_witness:
  "sort_by utxo_cmp [demo_utxo 2, demo_utxo 1] = sort_by utxo_cmp [demo_utxo 1, demo_utxo 2]"
proof -
  have "a = b" if "a \<in> set [demo_utxo 2, demo_utxo 1]" "b \<in> set [demo_utxo 2, demo_utxo 1]"
    "utxo_cmp a b = Equal" for a b
    using that by (auto simp: utxo_cmp_key header_key_def position_key_def demo_utxo_def)
  moreover have "mset [demo_utxo 2, demo_utxo 1] = mset [demo_utxo 1, demo_utxo 2]" by simp
  ultimately show ?thesis by (rule observed_utxos_sorted_uniquely [THEN conjunct1, rotated])
qed

end
