(* ===== verification/Cnight_Data_Source.thy ===== *)
theory Cnight_Data_Source
  imports Cnight_Primitives
begin

text \<open>
  The db-sync data source of the cNIGHT observation,
  \<^verbatim>\<open>primitives/mainchain-follower/src/data_source/cnight_observation.rs\<close>, with its SQL queries
  (\<^verbatim>\<open>db/queries/cnight_observation.rs\<close>).

  The database is a parameter: for each query the list of rows its joins produce.  The queries
  themselves (the \<^verbatim>\<open>WHERE\<close> range, \<^verbatim>\<open>ORDER BY\<close>, \<^verbatim>\<open>LIMIT\<close> and \<^verbatim>\<open>OFFSET\<close>) are modelled.  Address and key
  handling of \<^verbatim>\<open>cardano-serialization-lib\<close> is the record \<^verbatim>\<open>cardano_lib\<close>.  The loop that cuts the
  observations down to whole transactions is \<^verbatim>\<open>truncate_utxos\<close>.
\<close>

section \<open>Rows\<close>

datatype plutus_data = PConstr u64 "plutus_data list" | PBytes bytes | POther

fun as_constr_plutus_data :: "plutus_data \<Rightarrow> (u64 \<times> plutus_data list) option" where
  "as_constr_plutus_data (PConstr alt ds) = Some (alt, ds)"
| "as_constr_plutus_data _ = None"

fun as_bytes :: "plutus_data \<Rightarrow> bytes option" where
  "as_bytes (PBytes b) = Some b"
| "as_bytes _ = None"

record row_base =
  row_block_number :: u32
  row_block_hash :: mc_hash
  row_block_timestamp :: i64
  row_tx_index :: u32

record registration_row = row_base +
  rr_full_datum :: plutus_data
  rr_tx_hash :: mc_hash
  rr_utxo_index :: u16
  rr_address :: bytes
  rr_policy :: bytes
  rr_name :: bytes
  rr_quantity :: int

record deregistration_row = row_base +
  dr_full_datum :: plutus_data
  dr_tx_hash :: mc_hash
  dr_utxo_tx_hash :: mc_hash
  dr_utxo_index :: u16
  dr_address :: bytes

record asset_create_row = row_base +
  ac_quantity :: i64
  ac_holder_address :: bytes
  ac_tx_hash :: mc_hash
  ac_utxo_index :: u16
  ac_policy :: bytes
  ac_name :: bytes

record asset_spend_row = row_base +
  as_quantity :: i64
  as_holder_address :: bytes
  as_utxo_tx_hash :: mc_hash
  as_utxo_index :: u16
  as_spending_tx_hash :: mc_hash
  as_policy :: bytes
  as_name :: bytes

record db_block =
  blk_number :: u32
  blk_hash :: mc_hash
  blk_time :: i64
  blk_tx_count :: i64

record cnight_db =
  t_registrations :: "registration_row list"
  t_deregistrations :: "deregistration_row list"
  t_asset_creates :: "asset_create_row list"
  t_asset_spends :: "asset_spend_row list"
  t_blocks :: "db_block list"

section \<open>Queries: db/queries/cnight_observation.rs\<close>

definition i32_MAX :: nat where "i32_MAX = 2147483647"

definition in_range :: "cardano_position \<Rightarrow> cardano_position \<Rightarrow> ('a row_base_scheme) \<Rightarrow> bool" where
  "in_range start stop row =
     (let b = int (unat (row_block_number row)); i = int (unat (row_tx_index row));
          sb = sint (pos_block_number start); si = sint (pos_tx_index start);
          eb = sint (pos_block_number stop); ei = sint (pos_tx_index stop) in
      b \<ge> sb \<and> b \<le> eb \<and> (b > sb \<or> (b = sb \<and> i \<ge> si)) \<and> (b < eb \<or> (b = eb \<and> i < ei)))"

definition select_rows ::
  "('r \<Rightarrow> 'k::linorder) \<Rightarrow> ('r \<Rightarrow> bool) \<Rightarrow> nat \<Rightarrow> nat \<Rightarrow> 'r list \<Rightarrow> 'r list outcome" where
  "select_rows key cond limit offset table =
     (if \<not> limit < i32_MAX \<or> \<not> offset < i32_MAX then Panics ''assertion failed''
      else Returns (take limit (drop offset (sort_key key (filter cond table)))))"

definition registration_matches ::
  "bytes \<Rightarrow> bytes \<Rightarrow> bytes \<Rightarrow> cardano_position \<Rightarrow> cardano_position \<Rightarrow> registration_row \<Rightarrow> bool" where
  "registration_matches address policy asset start stop r \<longleftrightarrow>
     rr_address r = address \<and> rr_policy r = policy \<and> rr_name r = asset \<and> rr_quantity r = 1 \<and>
     in_range start stop r"

definition deregistration_matches ::
  "bytes \<Rightarrow> cardano_position \<Rightarrow> cardano_position \<Rightarrow> deregistration_row \<Rightarrow> bool" where
  "deregistration_matches address start stop r \<longleftrightarrow> dr_address r = address \<and> in_range start stop r"

definition asset_create_matches ::
  "bytes \<Rightarrow> bytes \<Rightarrow> cardano_position \<Rightarrow> cardano_position \<Rightarrow> asset_create_row \<Rightarrow> bool" where
  "asset_create_matches policy asset start stop r \<longleftrightarrow>
     ac_policy r = policy \<and> ac_name r = asset \<and> in_range start stop r"

definition asset_spend_matches ::
  "bytes \<Rightarrow> bytes \<Rightarrow> cardano_position \<Rightarrow> cardano_position \<Rightarrow> asset_spend_row \<Rightarrow> bool" where
  "asset_spend_matches policy asset start stop r \<longleftrightarrow>
     as_policy r = policy \<and> as_name r = asset \<and> in_range start stop r"

definition get_registrations ::
  "cnight_db \<Rightarrow> bytes \<Rightarrow> bytes \<Rightarrow> bytes \<Rightarrow> cardano_position \<Rightarrow> cardano_position \<Rightarrow> nat \<Rightarrow> nat \<Rightarrow>
   registration_row list outcome" where
  "get_registrations db address policy asset start stop limit offset =
     select_rows (\<lambda>r. (row_block_number r, row_tx_index r))
       (registration_matches address policy asset start stop) limit offset (t_registrations db)"

definition get_deregistrations ::
  "cnight_db \<Rightarrow> bytes \<Rightarrow> cardano_position \<Rightarrow> cardano_position \<Rightarrow> nat \<Rightarrow> nat \<Rightarrow>
   deregistration_row list outcome" where
  "get_deregistrations db address start stop limit offset =
     select_rows (\<lambda>r. (row_block_number r, row_tx_index r))
       (deregistration_matches address start stop) limit offset (t_deregistrations db)"

definition get_asset_creates ::
  "cnight_db \<Rightarrow> bytes \<Rightarrow> bytes \<Rightarrow> cardano_position \<Rightarrow> cardano_position \<Rightarrow> nat \<Rightarrow> nat \<Rightarrow>
   asset_create_row list outcome" where
  "get_asset_creates db policy asset start stop limit offset =
     select_rows (\<lambda>r. (row_block_number r, row_tx_index r, ac_utxo_index r))
       (asset_create_matches policy asset start stop) limit offset (t_asset_creates db)"

definition get_asset_spends ::
  "cnight_db \<Rightarrow> bytes \<Rightarrow> bytes \<Rightarrow> cardano_position \<Rightarrow> cardano_position \<Rightarrow> nat \<Rightarrow> nat \<Rightarrow>
   asset_spend_row list outcome" where
  "get_asset_spends db policy asset start stop limit offset =
     select_rows (\<lambda>r. (row_block_number r, row_tx_index r, as_utxo_index r))
       (asset_spend_matches policy asset start stop) limit offset (t_asset_spends db)"

definition get_block_by_hash :: "cnight_db \<Rightarrow> mc_hash \<Rightarrow> db_block option" where
  "get_block_by_hash db h = find (\<lambda>b. blk_hash b = h) (t_blocks db)"

definition position_of_block :: "db_block \<Rightarrow> cardano_position" where
  "position_of_block b = \<lparr> pos_block_hash = blk_hash b, pos_block_number = blk_number b,
     pos_block_timestamp = blk_time b, pos_tx_index = ucast (blk_tx_count b) \<rparr>"

definition row_position :: "'a row_base_scheme \<Rightarrow> cardano_position" where
  "row_position r = \<lparr> pos_block_hash = row_block_hash r, pos_block_number = row_block_number r,
     pos_block_timestamp = row_block_timestamp r, pos_tx_index = row_tx_index r \<rparr>"

section \<open>From rows to observed UTXOs\<close>

datatype credential = KeyHashCred bytes | ScriptHashCred bytes

record 'addr cardano_lib =
  address_from_bech32 :: "bytes \<Rightarrow> 'addr option"
  address_network_id :: "'addr \<Rightarrow> byte option"
  enterprise_payment_cred :: "'addr \<Rightarrow> credential option"
  base_stake_cred :: "'addr \<Rightarrow> credential option"
  keyhash_from_bytes :: "bytes \<Rightarrow> bytes option"
  scripthash_from_bytes :: "bytes \<Rightarrow> bytes option"
  reward_address_bytes :: "byte \<Rightarrow> credential \<Rightarrow> bytes"

fun to_scripthash :: "credential \<Rightarrow> bytes option" where
  "to_scripthash (ScriptHashCred h) = Some h"
| "to_scripthash (KeyHashCred h) = None"

datatype datum_decode_error =
    CardanoCredentialNotBytes
  | CardanoCredentialInvalidTag u64
  | CardanoCredentialInvalidKeyHash
  | CardanoCredentialInvalidScriptHash
  | DustAddressNotBytes
  | DustAddressInvalidLength nat

definition first_bytes :: "plutus_data list \<Rightarrow> bytes option" where
  "first_bytes ds = (case ds of [] \<Rightarrow> None | d # _ \<Rightarrow> as_bytes d)"

definition decode_registration_datum ::
  "'addr cardano_lib \<Rightarrow> u64 \<times> plutus_data list \<Rightarrow>
   (datum_decode_error, credential \<times> dust_public_key) result" where
  "decode_registration_datum lib datum =
     (let list = snd datum in
      case (case list of [] \<Rightarrow> None | d # _ \<Rightarrow> as_constr_plutus_data d) of
        None \<Rightarrow> Inl CardanoCredentialNotBytes
      | Some (alternative, cred_data) \<Rightarrow>
          and_then
            (if alternative = 0 then
               ok_or CardanoCredentialInvalidKeyHash
                 (map_option KeyHashCred (Option.bind (first_bytes cred_data) (keyhash_from_bytes lib)))
             else if alternative = 1 then
               ok_or CardanoCredentialInvalidScriptHash
                 (map_option ScriptHashCred (Option.bind (first_bytes cred_data) (scripthash_from_bytes lib)))
             else Inl (CardanoCredentialInvalidTag alternative))
            (\<lambda>cred.
               case (if 1 < length list then as_bytes (list ! 1) else None) of
                 None \<Rightarrow> Inl DustAddressNotBytes
               | Some dust_address \<Rightarrow>
                   (case dust_public_key_try_from dust_address of
                      Inl _ \<Rightarrow> Inl (DustAddressInvalidLength (length dust_address))
                    | Inr key \<Rightarrow> Inr (cred, key))))"

definition reward_address ::
  "'addr cardano_lib \<Rightarrow> byte \<Rightarrow> credential \<Rightarrow> reward_address outcome" where
  "reward_address lib network cred =
     expect ''called Result::unwrap() on an Err value''
       (reward_address_try_from (reward_address_bytes lib network cred))"

fun collect_rows :: "('r \<Rightarrow> 'u option outcome) \<Rightarrow> 'r list \<Rightarrow> 'u list outcome" where
  "collect_rows f [] = Returns []"
| "collect_rows f (r # rs) =
     outcome_bind (f r) (\<lambda>x. outcome_bind (collect_rows f rs) (\<lambda>us.
       Returns (case x of None \<Rightarrow> us | Some u \<Rightarrow> u # us)))"

definition registration_utxo ::
  "'addr cardano_lib \<Rightarrow> byte \<Rightarrow> registration_row \<Rightarrow> observed_utxo option outcome" where
  "registration_utxo lib network row =
     (let header = \<lparr> tx_position = row_position row, tx_hash = rr_tx_hash row,
                     utxo_tx_hash = rr_tx_hash row, utxo_index = rr_utxo_index row \<rparr> in
      case as_constr_plutus_data (rr_full_datum row) of
        None \<Rightarrow> Returns None
      | Some constr \<Rightarrow>
          (case decode_registration_datum lib constr of
             Inl _ \<Rightarrow> Returns None
           | Inr (cred, key) \<Rightarrow>
               outcome_bind (reward_address lib network cred) (\<lambda>addr.
                 Returns (Some \<lparr> utxo_header = header,
                   utxo_data = RegistrationUtxo \<lparr> reg_reward_address = addr, reg_dust_public_key = key \<rparr> \<rparr>))))"

definition deregistration_utxo ::
  "'addr cardano_lib \<Rightarrow> byte \<Rightarrow> deregistration_row \<Rightarrow> observed_utxo option outcome" where
  "deregistration_utxo lib network row =
     (let header = \<lparr> tx_position = row_position row, tx_hash = dr_tx_hash row,
                     utxo_tx_hash = dr_utxo_tx_hash row, utxo_index = dr_utxo_index row \<rparr> in
      case as_constr_plutus_data (dr_full_datum row) of
        None \<Rightarrow> Returns None
      | Some constr \<Rightarrow>
          (case decode_registration_datum lib constr of
             Inl _ \<Rightarrow> Returns None
           | Inr (cred, key) \<Rightarrow>
               outcome_bind (reward_address lib network cred) (\<lambda>addr.
                 Returns (Some \<lparr> utxo_header = header,
                   utxo_data = DeregistrationUtxo
                     \<lparr> dereg_reward_address = addr, dereg_dust_public_key = key \<rparr> \<rparr>))))"

definition holder_reward_address ::
  "'addr cardano_lib \<Rightarrow> byte \<Rightarrow> bytes \<Rightarrow> reward_address option outcome" where
  "holder_reward_address lib network holder =
     (case address_from_bech32 lib holder of
        None \<Rightarrow> Returns None
      | Some addr \<Rightarrow>
          (case base_stake_cred lib addr of
             None \<Rightarrow> Returns None
           | Some cred \<Rightarrow> outcome_bind (reward_address lib network cred) (\<lambda>a. Returns (Some a))))"

definition asset_create_utxo ::
  "'addr cardano_lib \<Rightarrow> byte \<Rightarrow> asset_create_row \<Rightarrow> observed_utxo option outcome" where
  "asset_create_utxo lib network row =
     outcome_bind (holder_reward_address lib network (ac_holder_address row)) (\<lambda>addr.
       Returns (map_option (\<lambda>addr.
         \<lparr> utxo_header = \<lparr> tx_position = row_position row, tx_hash = ac_tx_hash row,
             utxo_tx_hash = ac_tx_hash row, utxo_index = ac_utxo_index row \<rparr>,
           utxo_data = AssetCreate \<lparr> create_value = scast (ac_quantity row), create_owner = addr,
             create_utxo_tx_hash = ac_tx_hash row, create_utxo_tx_index = ac_utxo_index row \<rparr> \<rparr>) addr))"

definition asset_spend_utxo ::
  "'addr cardano_lib \<Rightarrow> byte \<Rightarrow> asset_spend_row \<Rightarrow> observed_utxo option outcome" where
  "asset_spend_utxo lib network row =
     outcome_bind (holder_reward_address lib network (as_holder_address row)) (\<lambda>addr.
       Returns (map_option (\<lambda>addr.
         \<lparr> utxo_header = \<lparr> tx_position = row_position row, tx_hash = as_spending_tx_hash row,
             utxo_tx_hash = as_utxo_tx_hash row, utxo_index = as_utxo_index row \<rparr>,
           utxo_data = AssetSpend \<lparr> spend_value = scast (as_quantity row), spend_owner = addr,
             spend_utxo_tx_hash = as_utxo_tx_hash row, spend_utxo_tx_index = as_utxo_index row,
             spending_tx_hash = as_spending_tx_hash row \<rparr> \<rparr>) addr))"

definition get_registration_utxos where
  "get_registration_utxos lib db network policy address asset start stop limit offset =
     outcome_bind (get_registrations db address policy asset start stop limit offset)
       (collect_rows (registration_utxo lib network))"

definition get_deregistration_utxos where
  "get_deregistration_utxos lib db network address start stop limit offset =
     outcome_bind (get_deregistrations db address start stop limit offset)
       (collect_rows (deregistration_utxo lib network))"

definition get_asset_create_utxos where
  "get_asset_create_utxos lib db network policy asset start stop limit offset =
     outcome_bind (get_asset_creates db policy asset start stop limit offset)
       (collect_rows (asset_create_utxo lib network))"

definition get_asset_spend_utxos where
  "get_asset_spend_utxos lib db network policy asset start stop limit offset =
     outcome_bind (get_asset_spends db policy asset start stop limit offset)
       (collect_rows (asset_spend_utxo lib network))"

section \<open>Cutting down to whole transactions\<close>

fun truncate_utxos ::
  "nat \<Rightarrow> observed_utxo list \<Rightarrow> nat \<Rightarrow> cardano_position option \<Rightarrow> observed_utxo list \<Rightarrow>
   observed_utxo list \<times> nat" where
  "truncate_utxos tx_capacity [] num_txs cur_tx truncated = (truncated, num_txs)"
| "truncate_utxos tx_capacity (utxo # utxos) num_txs cur_tx truncated =
     (let p = tx_position (utxo_header utxo);
          (num_txs', cur_tx') =
            (if (case cur_tx of None \<Rightarrow> True | Some tx \<Rightarrow> position_lt tx p)
             then (num_txs + 1, Some p) else (num_txs, cur_tx))
      in if num_txs' = tx_capacity then (truncated, num_txs')
         else truncate_utxos tx_capacity utxos num_txs' cur_tx' (truncated @ [utxo]))"

definition cut_to_capacity ::
  "cardano_position \<Rightarrow> cardano_position \<Rightarrow> nat \<Rightarrow> observed_utxo list \<Rightarrow> observed_utxos" where
  "cut_to_capacity start stop tx_capacity utxos =
     (let (truncated, num_txs) = truncate_utxos tx_capacity (sort_by utxo_cmp utxos) 0 None [] in
      if num_txs < tx_capacity
      then \<lparr> utxos_start = start, utxos_end = stop, observed = truncated \<rparr>
      else \<lparr> utxos_start = start,
             utxos_end = position_increment
               (if truncated = [] then start else tx_position (utxo_header (last truncated))),
             observed = truncated \<rparr>)"

datatype cnight_source_error =
    MissingBlockReference mc_hash
  | CardanoNetworkError
  | MappingValidatorInvalidAddress

definition get_utxos_up_to_capacity ::
  "'addr cardano_lib \<Rightarrow> cnight_db \<Rightarrow> cnight_addresses \<Rightarrow> cardano_position \<Rightarrow> mc_hash \<Rightarrow> nat \<Rightarrow>
   (cnight_source_error, observed_utxos) result outcome" where
  "get_utxos_up_to_capacity lib db cfg start tip tx_capacity =
     (case address_from_bech32 lib (addr_mapping_validator cfg) of
        None \<Rightarrow> Returns (Inl MappingValidatorInvalidAddress)
      | Some validator \<Rightarrow>
     (case address_network_id lib validator of
        None \<Rightarrow> Returns (Inl CardanoNetworkError)
      | Some network \<Rightarrow>
     (case Option.bind (enterprise_payment_cred lib validator) to_scripthash of
        None \<Rightarrow> Returns (Inl MappingValidatorInvalidAddress)
      | Some policy \<Rightarrow>
     (case get_block_by_hash db tip of
        None \<Rightarrow> Returns (Inl (MissingBlockReference tip))
      | Some block \<Rightarrow>
          (let stop = position_increment (position_of_block block);
               utxo_capacity = tx_capacity * 64 in
           outcome_bind (get_registration_utxos lib db network policy (addr_mapping_validator cfg)
               (addr_auth_token_asset_name cfg) start stop utxo_capacity 0) (\<lambda>regs.
           outcome_bind (get_deregistration_utxos lib db network (addr_mapping_validator cfg)
               start stop utxo_capacity 0) (\<lambda>deregs.
           outcome_bind (get_asset_create_utxos lib db network (addr_cnight_policy_id cfg)
               (addr_cnight_asset_name cfg) start stop utxo_capacity 0) (\<lambda>creates.
           outcome_bind (get_asset_spend_utxos lib db network (addr_cnight_policy_id cfg)
               (addr_cnight_asset_name cfg) start stop utxo_capacity 0) (\<lambda>spends.
             Returns (Inr (cut_to_capacity start stop tx_capacity
               (regs @ deregs @ creates @ spends))))))))))))"

definition utxo_pos :: "observed_utxo \<Rightarrow> u32 \<times> u32" where
  "utxo_pos u = position_key (tx_position (utxo_header u))"

definition cur_keys :: "cardano_position option \<Rightarrow> (u32 \<times> u32) set" where
  "cur_keys cur = (case cur of None \<Rightarrow> {} | Some p \<Rightarrow> {position_key p})"

section \<open>What there is to observe in a range\<close>

text \<open>
  All UTXOs of interest between two positions: the rows of the four queries without \<^verbatim>\<open>ORDER BY\<close> and
  \<^verbatim>\<open>LIMIT\<close>, converted one by one.
\<close>

definition row_utxos :: "('r \<Rightarrow> 'u option outcome) \<Rightarrow> 'r list \<Rightarrow> 'u list" where
  "row_utxos f rows = List.map_filter (\<lambda>r. case f r of Returns x \<Rightarrow> x | Panics _ \<Rightarrow> None) rows"

definition all_utxos ::
  "'addr cardano_lib \<Rightarrow> cnight_db \<Rightarrow> cnight_addresses \<Rightarrow> byte \<Rightarrow> bytes \<Rightarrow> cardano_position \<Rightarrow>
   cardano_position \<Rightarrow> observed_utxo list" where
  "all_utxos lib db cfg network policy start stop =
     row_utxos (registration_utxo lib network)
       (filter (registration_matches (addr_mapping_validator cfg) policy (addr_auth_token_asset_name cfg) start stop)
          (t_registrations db)) @
     row_utxos (deregistration_utxo lib network)
       (filter (deregistration_matches (addr_mapping_validator cfg) start stop) (t_deregistrations db)) @
     row_utxos (asset_create_utxo lib network)
       (filter (asset_create_matches (addr_cnight_policy_id cfg) (addr_cnight_asset_name cfg) start stop)
          (t_asset_creates db)) @
     row_utxos (asset_spend_utxo lib network)
       (filter (asset_spend_matches (addr_cnight_policy_id cfg) (addr_cnight_asset_name cfg) start stop)
          (t_asset_spends db))"

definition within_limits ::
  "cnight_db \<Rightarrow> cnight_addresses \<Rightarrow> bytes \<Rightarrow> cardano_position \<Rightarrow> cardano_position \<Rightarrow> nat \<Rightarrow> bool" where
  "within_limits db cfg policy start stop limit \<longleftrightarrow>
     length (filter (registration_matches (addr_mapping_validator cfg) policy
       (addr_auth_token_asset_name cfg) start stop) (t_registrations db)) \<le> limit \<and>
     length (filter (deregistration_matches (addr_mapping_validator cfg) start stop)
       (t_deregistrations db)) \<le> limit \<and>
     length (filter (asset_create_matches (addr_cnight_policy_id cfg) (addr_cnight_asset_name cfg) start stop)
       (t_asset_creates db)) \<le> limit \<and>
     length (filter (asset_spend_matches (addr_cnight_policy_id cfg) (addr_cnight_asset_name cfg) start stop)
       (t_asset_spends db)) \<le> limit"

definition small_position :: "cardano_position \<Rightarrow> bool" where
  "small_position p \<longleftrightarrow> unat (pos_block_number p) < 2 ^ 31 \<and> unat (pos_tx_index p) < 2 ^ 31"

section \<open>A concrete instance\<close>

definition demo_lib :: "bytes cardano_lib" where
  "demo_lib = \<lparr> address_from_bech32 = Some, address_network_id = (\<lambda>_. Some 1),
     enterprise_payment_cred = (\<lambda>_. Some (ScriptHashCred [1])), base_stake_cred = (\<lambda>a. Some (KeyHashCred a)),
     keyhash_from_bytes = Some, scripthash_from_bytes = Some,
     reward_address_bytes = (\<lambda>_ _. replicate 29 0) \<rparr>"

definition demo_create_row :: "u32 \<Rightarrow> asset_create_row" where
  "demo_create_row i = \<lparr> row_block_number = 3, row_block_hash = [7], row_block_timestamp = 0, row_tx_index = i,
     ac_quantity = 5, ac_holder_address = [9], ac_tx_hash = [4], ac_utxo_index = 0,
     ac_policy = replicate 28 2, ac_name = [3] \<rparr>"

definition demo_db :: cnight_db where
  "demo_db = \<lparr> t_registrations = [], t_deregistrations = [],
     t_asset_creates = [demo_create_row 2, demo_create_row 1], t_asset_spends = [],
     t_blocks = [\<lparr> blk_number = 3, blk_hash = [7], blk_time = 0, blk_tx_count = 5 \<rparr>] \<rparr>"

definition demo_addresses :: cnight_addresses where
  "demo_addresses = \<lparr> addr_mapping_validator = [8], addr_auth_token_asset_name = [],
     addr_cnight_policy_id = replicate 28 2, addr_cnight_asset_name = [3] \<rparr>"

definition demo_start :: cardano_position where
  "demo_start = \<lparr> pos_block_hash = [], pos_block_number = 2, pos_block_timestamp = 0, pos_tx_index = 0 \<rparr>"

definition demo_stop :: cardano_position where
  "demo_stop = \<lparr> pos_block_hash = [7], pos_block_number = 3, pos_block_timestamp = 0, pos_tx_index = 6 \<rparr>"

definition demo_observed :: "u32 \<Rightarrow> observed_utxo" where
  "demo_observed i = \<lparr> utxo_header = \<lparr> tx_position = row_position (demo_create_row i), tx_hash = [4],
       utxo_tx_hash = [4], utxo_index = 0 \<rparr>,
     utxo_data = AssetCreate \<lparr> create_value = 5, create_owner = replicate 29 0,
       create_utxo_tx_hash = [4], create_utxo_tx_index = 0 \<rparr> \<rparr>"

section \<open>Lemmas: the cut\<close>

lemma sorted_utxo_pos: "sorted_wrt (\<lambda>a b. utxo_pos a \<le> utxo_pos b) (sort_by utxo_cmp us)"
  by (rule sorted_wrt_mono_rel [OF _ utxo_order.sorted_sort_by])
    (auto simp: utxo_order_le header_key_def utxo_pos_def)

lemma truncate_new_tx:
  "(case cur of None \<Rightarrow> True | Some tx \<Rightarrow> position_lt tx (tx_position (utxo_header u))) \<longleftrightarrow>
     (\<forall>k \<in> cur_keys cur. k < utxo_pos u)"
  by (simp add: cur_keys_def utxo_pos_def position_lt_key split: option.splits)

lemma truncate_spec:
  assumes "truncate_utxos cap us n cur acc = (out, m)" and "n < cap"
    and "sorted_wrt (\<lambda>a b. utxo_pos a \<le> utxo_pos b) us"
    and "\<And>k u. k \<in> cur_keys cur \<Longrightarrow> u \<in> set us \<Longrightarrow> k \<le> utxo_pos u"
  shows "\<exists>zs rest. us = zs @ rest \<and> out = acc @ zs \<and> n \<le> m \<and> m \<le> cap \<and>
    (rest = [] \<longleftrightarrow> m < cap) \<and>
    (rest \<noteq> [] \<longrightarrow> (\<forall>k \<in> cur_keys cur \<union> utxo_pos ` set zs. k < utxo_pos (hd rest))) \<and>
    n + card (utxo_pos ` set zs - cur_keys cur) = (if rest = [] then m else m - 1)"
  using assms
proof (induction us arbitrary: n cur acc)
  case Nil
  then show ?case by auto
next
  case (Cons u us)
  let ?new = "\<forall>k \<in> cur_keys cur. k < utxo_pos u"
  let ?n = "if ?new then n + 1 else n"
  let ?cur = "if ?new then Some (tx_position (utxo_header u)) else cur"
  have keys: "cur_keys ?cur = (if ?new then {utxo_pos u} else cur_keys cur)"
    by (simp add: cur_keys_def utxo_pos_def)
  show ?case
  proof (cases "?n = cap")
    case True
    then have "?new" using Cons.prems(2) by (auto split: if_splits)
    with True Cons.prems(1) have "out = acc" "m = cap"
      by (auto simp: truncate_new_tx Let_def split: if_splits)
    with True \<open>?new\<close> show ?thesis
      by (intro exI [of _ "[]"] exI [of _ "u # us"]) auto
  next
    case False
    with Cons.prems(1) have step: "truncate_utxos cap us ?n ?cur (acc @ [u]) = (out, m)"
      by (auto simp: truncate_new_tx Let_def split: if_splits)
    have "?n < cap" using False Cons.prems(2) by auto
    moreover have "sorted_wrt (\<lambda>a b. utxo_pos a \<le> utxo_pos b) us" using Cons.prems(3) by simp
    moreover have "k \<le> utxo_pos v" if "k \<in> cur_keys ?cur" "v \<in> set us" for k v
      using that Cons.prems(3,4) by (auto simp: keys split: if_splits)
    ultimately obtain zs rest where zs: "us = zs @ rest" "out = (acc @ [u]) @ zs" "?n \<le> m" "m \<le> cap"
      "rest = [] \<longleftrightarrow> m < cap"
      "rest \<noteq> [] \<longrightarrow> (\<forall>k \<in> cur_keys ?cur \<union> utxo_pos ` set zs. k < utxo_pos (hd rest))"
      "?n + card (utxo_pos ` set zs - cur_keys ?cur) = (if rest = [] then m else m - 1)"
      using Cons.IH [OF step] by blast
    show ?thesis
    proof (cases ?new)
      case True
      have "utxo_pos v \<notin> cur_keys cur" if "v \<in> set (u # zs)" for v
      proof -
        have "utxo_pos u \<le> utxo_pos v" using that Cons.prems(3) zs(1) by auto
        with True show ?thesis by (metis leD)
      qed
      then have "utxo_pos ` set (u # zs) - cur_keys cur = insert (utxo_pos u) (utxo_pos ` set zs - {utxo_pos u})"
        by auto
      then have "card (utxo_pos ` set (u # zs) - cur_keys cur) = Suc (card (utxo_pos ` set zs - {utxo_pos u}))"
        by (simp add: card.insert_remove)
      moreover have "\<forall>k \<in> cur_keys cur. k < utxo_pos (hd rest)" if "rest \<noteq> []"
        using that zs(6) True keys by (auto intro: order.strict_trans)
      ultimately show ?thesis
        using True keys zs by (intro exI [of _ "u # zs"] exI [of _ rest]) auto
    next
      case old: False
      have "utxo_pos u \<in> cur_keys cur"
        using old Cons.prems(4) by (metis list.set_intros(1) order_neq_le_trans)
      then have "utxo_pos ` set (u # zs) - cur_keys cur = utxo_pos ` set zs - cur_keys cur" by auto
      moreover have "?n = n" "?cur = cur" by (simp_all only: old if_False)
      note zs [unfolded this]
      ultimately show ?thesis
        using \<open>utxo_pos u \<in> cur_keys cur\<close> by (intro exI [of _ "u # zs"] exI [of _ rest]) auto
    qed
  qed
qed

lemma cut_cases:
  assumes "2 \<le> cap" and r: "r = cut_to_capacity start stop cap us"
  obtains (all) "observed r = sort_by utxo_cmp us"
      and "utxos_end r = stop"
      and "card (utxo_pos ` set us) < cap"
    | (some) zs v rest where "sort_by utxo_cmp us = zs @ v # rest" and "zs \<noteq> []"
      and "observed r = zs"
      and "utxos_end r =
             position_increment (tx_position (utxo_header (last zs)))"
      and "\<And>z. z \<in> set zs \<Longrightarrow> utxo_pos z < utxo_pos v" and "card (utxo_pos ` set zs) = cap - 1"
proof -
  obtain out m where t: "truncate_utxos cap (sort_by utxo_cmp us) 0 None [] = (out, m)"
    by (cases "truncate_utxos cap (sort_by utxo_cmp us) 0 None []")
  have "cur_keys None = {}" by (simp add: cur_keys_def)
  with truncate_spec [OF t _ sorted_utxo_pos] assms obtain zs rest where
    zs: "sort_by utxo_cmp us = zs @ rest" "out = zs" "m \<le> cap" "rest = [] \<longleftrightarrow> m < cap"
    "rest \<noteq> [] \<longrightarrow> (\<forall>k \<in> utxo_pos ` set zs. k < utxo_pos (hd rest))"
    "card (utxo_pos ` set zs) = (if rest = [] then m else m - 1)"
    by fastforce
  show thesis
  proof (cases "rest = []")
    case True
    have "set (sort_by utxo_cmp us) = set us" by (metis set_mset_mset utxo_order.mset_sort_by)
    with all True t zs show thesis by (simp add: r cut_to_capacity_def)
  next
    case False
    then obtain v rest' where rest: "rest = v # rest'" by (cases rest) auto
    have "m = cap" using False zs(3,4) by simp
    then have "zs \<noteq> []" using zs(6) False assms by auto
    with some [of zs v rest'] rest \<open>m = cap\<close> t zs show thesis by (simp add: r cut_to_capacity_def)
  qed
qed

lemma position_key_increment:
  "pos_tx_index p \<noteq> - 1 \<Longrightarrow> position_key q < position_key (position_increment p) \<longleftrightarrow>
     position_key q \<le> position_key p"
proof -
  assume p: "pos_tx_index p \<noteq> - 1"
  have "pos_tx_index q < pos_tx_index p + 1 \<longleftrightarrow> pos_tx_index q \<le> pos_tx_index p"
    by (rule word_less_Suc_iff [OF p])
  then show ?thesis by (auto simp: position_key_def position_increment_def)
qed

lemma sorted_last:
  "sorted_wrt (\<lambda>a b. utxo_pos a \<le> utxo_pos b) zs \<Longrightarrow> z \<in> set zs \<Longrightarrow> utxo_pos z \<le> utxo_pos (last zs)"
  by (induction zs) (auto split: if_splits)

lemma cut_to_capacity_complete:
  assumes cap: "2 \<le> cap"
    and range: "\<And>u. u \<in> set us \<Longrightarrow> position_key start \<le> utxo_pos u \<and> utxo_pos u < position_key stop \<and>
      pos_tx_index (tx_position (utxo_header u)) \<noteq> - 1"
    and start: "position_key start \<le> position_key stop"
    and r: "r = cut_to_capacity start stop cap us"
  shows "mset (observed r) = {#u \<in># mset us. utxo_pos u < position_key (utxos_end r)#} \<and>
    position_key start \<le> position_key (utxos_end r) \<and> position_key (utxos_end r) \<le> position_key stop \<and>
    card (utxo_pos ` set (observed r)) < cap"
  using cap r
proof (cases rule: cut_cases)
  case all
  have "set (sort_by utxo_cmp us) = set us" by (metis set_mset_mset utxo_order.mset_sort_by)
  moreover have "{#u \<in># mset us. utxo_pos u < position_key stop#} = mset us"
    using range by (simp add: filter_mset_eq_conv)
  ultimately show ?thesis using all start by simp
next
  case (some zs v rest)
  let ?p = "tx_position (utxo_header (last zs))"
  have us: "mset us = mset zs + mset (v # rest)"
    by (metis some(1) mset_append utxo_order.mset_sort_by)
  then have set_us: "set us = set zs \<union> set (v # rest)"
    by (metis set_mset_mset set_mset_union)
  have "sorted_wrt (\<lambda>a b. utxo_pos a \<le> utxo_pos b) (zs @ v # rest)"
    using sorted_utxo_pos [of us] some(1) by simp
  then have zs_le: "\<And>z. z \<in> set zs \<Longrightarrow> utxo_pos z \<le> utxo_pos (last zs)"
    and rest_ge: "\<And>x. x \<in> set (v # rest) \<Longrightarrow> utxo_pos v \<le> utxo_pos x"
    by (auto simp: sorted_wrt_append intro: sorted_last)
  have lastz: "last zs \<in> set zs" using some(2) by simp
  have p: "pos_tx_index ?p \<noteq> - 1" "position_key start \<le> position_key ?p" "position_key ?p < position_key stop"
    using range [of "last zs"] lastz set_us by (auto simp: utxo_pos_def)
  have below: "utxo_pos x < position_key (utxos_end r) \<longleftrightarrow> utxo_pos x \<le> utxo_pos (last zs)" for x
    unfolding some(4) utxo_pos_def by (rule position_key_increment [OF p(1)])
  have "\<And>x. x \<in> set zs \<Longrightarrow> utxo_pos x < position_key (utxos_end r)"
    using below zs_le by blast
  then have "{#u \<in># mset zs. utxo_pos u < position_key (utxos_end r)#} = mset zs"
    by (simp add: filter_mset_eq_conv)
  moreover have "\<And>x. x \<in> set (v # rest) \<Longrightarrow> \<not> utxo_pos x < position_key (utxos_end r)"
    using below rest_ge some(5) [OF lastz] by (meson le_less_trans not_le)
  then have "{#u \<in># mset (v # rest). utxo_pos u < position_key (utxos_end r)#} = {#}"
    by (metis (no_types, lifting) mset_filter filter_False mset.simps(1))
  ultimately have "{#u \<in># mset us. utxo_pos u < position_key (utxos_end r)#} = mset zs"
    unfolding us filter_union_mset by simp
  moreover have "position_key start \<le> position_key (utxos_end r)" "position_key (utxos_end r) \<le> position_key stop"
    using p(2,3) position_key_increment [OF p(1), of ?p] position_key_increment [OF p(1), of stop]
    unfolding some(4) by (auto simp: not_less [symmetric])
  ultimately show ?thesis using some cap by simp
qed

section \<open>Lemmas: queries and rows\<close>

lemma select_rows_mset:
  assumes "select_rows key cond limit 0 table = Returns rows" and "length (filter cond table) \<le> limit"
  shows "mset rows = mset (filter cond table)"
proof -
  have "rows = take limit (sort_key key (filter cond table))"
    using assms(1) by (auto simp: select_rows_def split: if_splits)
  then show ?thesis using assms(2) by simp
qed

lemma collect_rows_eq: "collect_rows f rs = Returns us \<Longrightarrow> us = row_utxos f rs"
  by (induction rs arbitrary: us) (auto simp: row_utxos_def map_filter_def split: option.splits)

lemma mset_row_utxos: "mset rs = mset rs' \<Longrightarrow> mset (row_utxos f rs) = mset (row_utxos f rs')"
  by (simp add: row_utxos_def map_filter_def mset_filter)

lemma query_mset:
  assumes "outcome_bind (select_rows key cond limit 0 table) (collect_rows f) = Returns us"
    and "length (filter cond table) \<le> limit"
  shows "mset us = mset (row_utxos f (filter cond table))"
  using assms by (auto dest!: collect_rows_eq intro!: mset_row_utxos select_rows_mset)

lemma row_utxos_elem: "u \<in> set (row_utxos f rs) \<Longrightarrow> \<exists>r \<in> set rs. f r = Returns (Some u)"
  by (auto simp: row_utxos_def map_filter_def split: outcome.splits)

lemma registration_utxo_position:
  "registration_utxo lib network r = Returns (Some u) \<Longrightarrow> tx_position (utxo_header u) = row_position r"
  by (auto simp: registration_utxo_def Let_def split: option.splits sum.splits prod.splits)

lemma deregistration_utxo_position:
  "deregistration_utxo lib network r = Returns (Some u) \<Longrightarrow> tx_position (utxo_header u) = row_position r"
  by (auto simp: deregistration_utxo_def Let_def split: option.splits sum.splits prod.splits)

lemma asset_create_utxo_position:
  "asset_create_utxo lib network r = Returns (Some u) \<Longrightarrow> tx_position (utxo_header u) = row_position r"
  by (auto simp: asset_create_utxo_def)

lemma asset_spend_utxo_position:
  "asset_spend_utxo lib network r = Returns (Some u) \<Longrightarrow> tx_position (utxo_header u) = row_position r"
  by (auto simp: asset_spend_utxo_def)

lemma sint_small:
  assumes "unat w < 2 ^ 31"
  shows "sint (w :: u32) = uint w"
proof -
  have "int (unat w) < int (2 ^ 31)" using assms by (simp only: of_nat_less_iff)
  then have "uint w < 2 ^ 31" by simp
  then show ?thesis
    by (simp add: sint_uint signed_take_bit_int_eq_self_iff order.trans [OF _ uint_ge_0])
qed

lemma in_range_key:
  assumes "small_position start" and "small_position stop" and "in_range start stop r"
  shows "position_key start \<le> position_key (row_position r) \<and> position_key (row_position r) < position_key stop"
  using assms
  by (auto simp: in_range_def small_position_def Let_def sint_small position_key_def row_position_def
      word_less_def word_le_def)

lemma row_utxos_range:
  assumes "small_position start" and "small_position stop"
    and "\<And>r u. f r = Returns (Some u) \<Longrightarrow> tx_position (utxo_header u) = row_position r"
    and "u \<in> set (row_utxos f (filter cond table))"
    and "\<And>r. cond r \<Longrightarrow> in_range start stop r"
  shows "position_key start \<le> utxo_pos u \<and> utxo_pos u < position_key stop"
proof -
  obtain r where "cond r" "f r = Returns (Some u)" using row_utxos_elem [OF assms(4)] by auto
  then show ?thesis
    using in_range_key [OF assms(1,2) assms(5)] assms(3) by (simp add: utxo_pos_def)
qed

lemma all_utxos_range:
  assumes "small_position start" and "small_position stop"
    and "u \<in> set (all_utxos lib db cfg network policy start stop)"
  shows "position_key start \<le> utxo_pos u \<and> utxo_pos u < position_key stop"
  using assms(3) unfolding all_utxos_def set_append
proof (elim UnE, goal_cases)
  case 1
  show ?case by (rule row_utxos_range [OF assms(1,2) registration_utxo_position 1])
    (simp_all add: registration_matches_def)
next
  case 2
  show ?case by (rule row_utxos_range [OF assms(1,2) deregistration_utxo_position 2])
    (simp_all add: deregistration_matches_def)
next
  case 3
  show ?case by (rule row_utxos_range [OF assms(1,2) asset_create_utxo_position 3])
    (simp_all add: asset_create_matches_def)
next
  case 4
  show ?case by (rule row_utxos_range [OF assms(1,2) asset_spend_utxo_position 4])
    (simp_all add: asset_spend_matches_def)
qed

lemma get_utxos_okD:
  assumes "get_utxos_up_to_capacity lib db cfg start tip cap = Returns (Inr r)"
    and "address_from_bech32 lib (addr_mapping_validator cfg) = Some validator"
    and "address_network_id lib validator = Some network"
    and "Option.bind (enterprise_payment_cred lib validator) to_scripthash = Some policy"
    and "get_block_by_hash db tip = Some block"
    and "stop = position_increment (position_of_block block)"
    and "within_limits db cfg policy start stop (cap * 64)"
  obtains us where "r = cut_to_capacity start stop cap us"
    and "mset us = mset (all_utxos lib db cfg network policy start stop)"
proof -
  from assms(1-6) obtain regs deregs creates spends where
    "get_registration_utxos lib db network policy (addr_mapping_validator cfg)
       (addr_auth_token_asset_name cfg) start stop (cap * 64) 0 = Returns regs"
    "get_deregistration_utxos lib db network (addr_mapping_validator cfg) start stop (cap * 64) 0 = Returns deregs"
    "get_asset_create_utxos lib db network (addr_cnight_policy_id cfg) (addr_cnight_asset_name cfg)
       start stop (cap * 64) 0 = Returns creates"
    "get_asset_spend_utxos lib db network (addr_cnight_policy_id cfg) (addr_cnight_asset_name cfg)
       start stop (cap * 64) 0 = Returns spends"
    and r: "r = cut_to_capacity start stop cap (regs @ deregs @ creates @ spends)"
    by (auto simp: get_utxos_up_to_capacity_def Let_def)
  note parts = this(1-4)
  have "mset (regs @ deregs @ creates @ spends) = mset (all_utxos lib db cfg network policy start stop)"
    using assms(7) query_mset [OF parts(1) [unfolded get_registration_utxos_def get_registrations_def]]
      query_mset [OF parts(2) [unfolded get_deregistration_utxos_def get_deregistrations_def]]
      query_mset [OF parts(3) [unfolded get_asset_create_utxos_def get_asset_creates_def]]
      query_mset [OF parts(4) [unfolded get_asset_spend_utxos_def get_asset_spends_def]]
    by (simp add: within_limits_def all_utxos_def)
  with r that show thesis by blast
qed

text \<open>Without any assumption on the limits of the queries: the result is a cut of some list.\<close>

lemma get_utxos_cut:
  assumes "get_utxos_up_to_capacity lib db cfg start tip cap = Returns (Inr r)"
  shows "\<exists>stop us. r = cut_to_capacity start stop cap us"
  using assms by (auto simp: get_utxos_up_to_capacity_def Let_def split: option.splits)

lemma length_by_key:
  assumes "\<And>k. length (filter (\<lambda>x. f x = k) xs) \<le> n"
  shows "length xs \<le> card (f ` set xs) * n"
proof -
  have "count_list (map f xs) k = length (filter (\<lambda>x. f x = k) xs)" for k
    by (induction xs) auto
  moreover have "sum (count_list (map f xs)) (f ` set xs) = length (map f xs)"
    by (rule sum_count_set) auto
  ultimately show ?thesis
    using sum_bounded_above [of "f ` set xs" "count_list (map f xs)" n] assms by simp
qed

lemma observed_length:
  assumes "get_utxos_up_to_capacity lib db cfg start tip cap = Returns (Inr r)" and "2 \<le> cap"
    and "\<And>k. length (filter (\<lambda>u. utxo_pos u = k) (observed r)) \<le> 64"
  shows "length (observed r) \<le> cap * 64"
proof -
  obtain stop us where r: "r = cut_to_capacity start stop cap us" using get_utxos_cut [OF assms(1)] by blast
  have set_us: "set (sort_by utxo_cmp us) = set us" by (metis set_mset_mset utxo_order.mset_sort_by)
  have "card (utxo_pos ` set (observed r)) < cap"
    using assms(2) r by (cases rule: cut_cases) (use assms(2) set_us in simp_all)
  then have "card (utxo_pos ` set (observed r)) * 64 \<le> cap * 64" by simp
  with length_by_key [where f = utxo_pos and xs = "observed r" and n = 64, OF assms(3)] show ?thesis by linarith
qed

lemma cut_progress:
  assumes "2 \<le> cap" and "us \<noteq> []"
  shows "observed (cut_to_capacity start stop cap us) \<noteq> []"
  using assms(1) refl [of "cut_to_capacity start stop cap us"]
proof (cases rule: cut_cases)
  case all
  have "sort_by utxo_cmp us \<noteq> []"
    using assms(2) utxo_order.mset_sort_by [of us] by (metis mset_zero_iff)
  with all(1) show ?thesis by simp
qed simp

section \<open>The concrete instance evaluated\<close>

lemma demo_create_utxo: "asset_create_utxo demo_lib 1 (demo_create_row i) = Returns (Some (demo_observed i))"
  by (simp add: asset_create_utxo_def holder_reward_address_def demo_lib_def reward_address_def
      reward_address_try_from_def CARDANO_REWARD_ADDRESS_LENGTH_def demo_create_row_def demo_observed_def)

lemma demo_in_range: "in_range demo_start demo_stop (demo_create_row 1)"
  "in_range demo_start demo_stop (demo_create_row 2)"
  by (simp_all add: in_range_def demo_start_def demo_stop_def demo_create_row_def)

lemma demo_matches:
  "asset_create_matches (replicate 28 2) [3] demo_start demo_stop (demo_create_row 1)"
  "asset_create_matches (replicate 28 2) [3] demo_start demo_stop (demo_create_row 2)"
  by (simp_all add: asset_create_matches_def demo_in_range) (simp_all add: demo_create_row_def)

lemma demo_rows:
  "get_asset_creates demo_db (replicate 28 2) [3] demo_start demo_stop 128 0 =
     Returns [demo_create_row 1, demo_create_row 2]"
  by (simp add: get_asset_creates_def select_rows_def i32_MAX_def demo_db_def demo_matches)
    (simp add: demo_create_row_def word_le_nat_alt)

lemma demo_cut:
  "cut_to_capacity demo_start demo_stop 2 [demo_observed 1, demo_observed 2] =
     \<lparr> utxos_start = demo_start, utxos_end = position_increment (row_position (demo_create_row 1)),
       observed = [demo_observed 1] \<rparr>"
  by (simp add: cut_to_capacity_def utxo_cmp_key header_key_def position_key_def position_lt_key
      demo_observed_def row_position_def demo_create_row_def is_create_def)

lemma demo_window:
  "get_utxos_up_to_capacity demo_lib demo_db demo_addresses demo_start [7] 2 =
     Returns (Inr \<lparr> utxos_start = demo_start,
       utxos_end = position_increment (row_position (demo_create_row 1)), observed = [demo_observed 1] \<rparr>)"
proof -
  have "position_increment (position_of_block \<lparr> blk_number = 3, blk_hash = [7], blk_time = 0, blk_tx_count = 5 \<rparr>)
      = demo_stop"
    by (simp add: position_increment_def position_of_block_def demo_stop_def)
  moreover have "get_block_by_hash demo_db [7] = Some \<lparr> blk_number = 3, blk_hash = [7], blk_time = 0, blk_tx_count = 5 \<rparr>"
    by (simp add: get_block_by_hash_def demo_db_def)
  moreover have "get_registration_utxos demo_lib demo_db 1 [1] [8] [] demo_start demo_stop 128 0 = Returns []"
    "get_deregistration_utxos demo_lib demo_db 1 [8] demo_start demo_stop 128 0 = Returns []"
    "get_asset_spend_utxos demo_lib demo_db 1 (replicate 28 2) [3] demo_start demo_stop 128 0 = Returns []"
    by (simp_all add: get_registration_utxos_def get_registrations_def get_deregistration_utxos_def
        get_deregistrations_def get_asset_spend_utxos_def get_asset_spends_def select_rows_def i32_MAX_def
        demo_db_def)
  moreover have "get_asset_create_utxos demo_lib demo_db 1 (replicate 28 2) [3] demo_start demo_stop 128 0 =
      Returns [demo_observed 1, demo_observed 2]"
    by (simp add: get_asset_create_utxos_def demo_rows demo_create_utxo)
  moreover have "address_from_bech32 demo_lib = Some" "address_network_id demo_lib [8] = Some 1"
    "enterprise_payment_cred demo_lib [8] = Some (ScriptHashCred [1])"
    by (simp_all add: demo_lib_def)
  ultimately show ?thesis
    by (simp add: get_utxos_up_to_capacity_def demo_cut demo_addresses_def)
qed

section \<open>Properties\<close>



text \<open>
  C16: with a capacity of one transaction the data source observes nothing at all, however
  much there is on Cardano, and still moves its position past the start: the transaction at the
  start position is never delivered.
\<close>
theorem capacity_one_skips:
  assumes "us \<noteq> []"
  shows "cut_to_capacity start stop 1 us =
    \<lparr> utxos_start = start, utxos_end = position_increment start, observed = [] \<rparr>"
proof -
  have "mset (sort_by utxo_cmp us) \<noteq> {#}" using assms by simp
  then obtain v vs where "sort_by utxo_cmp us = v # vs" by (cases "sort_by utxo_cmp us") auto
  then show ?thesis by (simp add: cut_to_capacity_def)
qed

theorem capacity_one_skips_witness:
  "observed (cut_to_capacity (tx_position (utxo_header (demo_utxo 4))) (tx_position (utxo_header (demo_utxo 9))) 1
     [demo_utxo 4]) = [] \<and>
   position_lt (tx_position (utxo_header (demo_utxo 4)))
     (utxos_end (cut_to_capacity (tx_position (utxo_header (demo_utxo 4)))
        (tx_position (utxo_header (demo_utxo 9))) 1 [demo_utxo 4]))"
  using capacity_one_skips [of "[demo_utxo 4]"]
  by (simp add: position_lt_key position_key_def position_increment_def demo_utxo_def)

end
