(* ===== verification/Fa_Data_Source.thy ===== *)
theory Fa_Data_Source
  imports Federated_Authority_Observation Cnight_Data_Source
begin

text \<open>
  The db-sync data source of the federated authorities,
  \<^verbatim>\<open>primitives/mainchain-follower/src/data_source/federated_authority_observation.rs\<close>, with its SQL
  query (\<^verbatim>\<open>db/queries/federated_authority_observation.rs\<close>).  The rows that the joins of the query
  produce are a parameter, in the order in which the database visits them: the query orders rows by
  block and transaction only.  Plutus data of \<^verbatim>\<open>cardano-serialization-lib\<close> is the record \<^verbatim>\<open>plutus_lib\<close>.
\<close>

section \<open>The query\<close>

record 'pd governance_row =
  gr_full_datum :: 'pd
  gr_block_number :: u32
  gr_block_hash :: mc_hash
  gr_tx_index :: u32
  gr_tx_hash :: mc_hash
  gr_utxo_index :: u16
  gr_address :: bytes
  gr_policy :: bytes

definition governance_matches :: "bytes \<Rightarrow> bytes \<Rightarrow> u32 \<Rightarrow> 'pd governance_row \<Rightarrow> bool" where
  "governance_matches script_address policy_id block_number r \<longleftrightarrow>
     gr_address r = script_address \<and> gr_policy r = policy_id \<and> int (unat (gr_block_number r)) \<le> sint block_number"

definition latest_first :: "'pd governance_row \<Rightarrow> int \<times> int" where
  "latest_first r = (- int (unat (gr_block_number r)), - int (unat (gr_tx_index r)))"

definition get_governance_body_utxo ::
  "'pd governance_row list \<Rightarrow> bytes \<Rightarrow> bytes \<Rightarrow> u32 \<Rightarrow> 'pd governance_row option" where
  "get_governance_body_utxo rows script_address policy_id block_number =
     (case sort_key latest_first (filter (governance_matches script_address policy_id block_number) rows) of
        [] \<Rightarrow> None
      | r # _ \<Rightarrow> Some r)"

section \<open>Governance datums\<close>

record ('pd, 'map, 'int) plutus_lib =
  pl_as_list :: "'pd \<Rightarrow> 'pd list option"
  pl_as_integer :: "'pd \<Rightarrow> 'int option"
  pl_as_u64 :: "'int \<Rightarrow> u64 option"
  pl_as_map :: "'pd \<Rightarrow> 'map option"
  pl_as_bytes :: "'pd \<Rightarrow> bytes option"
  pl_keys :: "'map \<Rightarrow> 'pd list"
  pl_get :: "'map \<Rightarrow> 'pd \<Rightarrow> 'pd list option"

datatype governance_datum_error =
    VersionedMultisigNotList
  | VersionedMultisigTooShort nat
  | MultisigNotList
  | MultisigTooShort nat
  | RoundNotInteger
  | RoundNotU64
  | RoundNotU8
  | MembersNotMap
  | InvalidMainchainMember nat
  | InvalidSr25519Key nat

definition decode_member ::
  "('pd, 'map, 'int) plutus_lib \<Rightarrow> 'map \<Rightarrow> 'pd \<Rightarrow>
   (governance_datum_error, (authority_key \<times> mainchain_member) option) result" where
  "decode_member lib members_map key =
     (case pl_as_bytes lib key of
        None \<Rightarrow> Inr None
      | Some key_bytes \<Rightarrow>
          if length key_bytes \<noteq> 32 then Inl (InvalidMainchainMember (length key_bytes))
          else (case pl_get lib members_map key of
                  None \<Rightarrow> Inr None
                | Some [] \<Rightarrow> Inr None
                | Some (value_data # _) \<Rightarrow>
                    (case pl_as_bytes lib value_data of
                       None \<Rightarrow> Inr None
                     | Some sr25519_key \<Rightarrow>
                         if length sr25519_key \<noteq> 32 then Inl (InvalidSr25519Key (length sr25519_key))
                         else Inr (Some (sr25519_key, drop 4 key_bytes)))))"

definition decode_members ::
  "('pd, 'map, 'int) plutus_lib \<Rightarrow> 'map \<Rightarrow>
   (governance_datum_error, (authority_key \<times> mainchain_member) list) result" where
  "decode_members lib members_map =
     map_ok (List.map_filter (\<lambda>m. m)) (try_map (decode_member lib members_map) (pl_keys lib members_map))"

definition decode_round ::
  "('pd, 'map, 'int) plutus_lib \<Rightarrow> 'pd \<Rightarrow> (governance_datum_error, byte) result" where
  "decode_round lib field =
     and_then (ok_or RoundNotInteger (pl_as_integer lib field)) (\<lambda>n.
     and_then (ok_or RoundNotU64 (pl_as_u64 lib n)) (\<lambda>r.
     if unat r < 256 then Inr (ucast r) else Inl RoundNotU8))"

definition decode_governance_datum ::
  "('pd, 'map, 'int) plutus_lib \<Rightarrow> 'pd \<Rightarrow> (governance_datum_error, governance_datums) result" where
  "decode_governance_datum lib datum =
     and_then (ok_or VersionedMultisigNotList (pl_as_list lib datum)) (\<lambda>versioned.
     if length versioned < 2 then Inl (VersionedMultisigTooShort (length versioned))
     else and_then (ok_or MultisigNotList (pl_as_list lib (versioned ! 0))) (\<lambda>data.
     if length data < 2 then Inl (MultisigTooShort (length data))
     else and_then (decode_round lib (versioned ! 1)) (\<lambda>r.
     case pl_as_map lib (data ! 1) of
       None \<Rightarrow> Inl MembersNotMap
     | Some members_map \<Rightarrow>
         map_ok (\<lambda>members. R0 \<lparr> r0_authorities = members, r0_round = r \<rparr>) (decode_members lib members_map))))"

section \<open>The data source\<close>

record fao_body_config =
  body_address :: bytes
  body_policy_id :: bytes

record fao_observation_config =
  cfg_council :: fao_body_config
  cfg_technical_committee :: fao_body_config

datatype fao_source_error = BlockNotFound mc_hash

definition no_authorities :: authorities_data where
  "no_authorities = \<lparr> authorities = [], round = 0 \<rparr>"

definition body_authorities ::
  "('pd, 'map, 'int) plutus_lib \<Rightarrow> 'pd governance_row option \<Rightarrow> authorities_data" where
  "body_authorities lib utxo =
     (case utxo of
        Some row \<Rightarrow> (case decode_governance_datum lib (gr_full_datum row) of
                      Inr datum \<Rightarrow> authorities_of_datum datum
                    | Inl _ \<Rightarrow> no_authorities)
      | None \<Rightarrow> no_authorities)"

definition observe_body ::
  "('pd, 'map, 'int) plutus_lib \<Rightarrow> 'pd governance_row list \<Rightarrow> u32 \<Rightarrow> fao_body_config \<Rightarrow> authorities_data" where
  "observe_body lib rows block_number body =
     body_authorities lib (get_governance_body_utxo rows (body_address body) (body_policy_id body) block_number)"

definition get_federated_authority_data ::
  "('pd, 'map, 'int) plutus_lib \<Rightarrow> cnight_db \<Rightarrow> 'pd governance_row list \<Rightarrow> fao_observation_config \<Rightarrow> mc_hash \<Rightarrow>
   (fao_source_error, federated_authority_data) result" where
  "get_federated_authority_data lib db rows config hash =
     and_then (ok_or (BlockNotFound hash) (get_block_by_hash db hash)) (\<lambda>block.
     Inr \<lparr> council_authorities = observe_body lib rows (blk_number block) (cfg_council config),
           technical_committee_authorities = observe_body lib rows (blk_number block) (cfg_technical_committee config),
           mc_block_hash = hash \<rparr>)"

section \<open>A concrete instance\<close>

datatype demo_plutus =
    DpInt nat | DpBytes bytes | DpList "demo_plutus list" | DpMap "(demo_plutus \<times> demo_plutus) list"

definition demo_plutus_lib :: "(demo_plutus, (demo_plutus \<times> demo_plutus) list, nat) plutus_lib" where
  "demo_plutus_lib = \<lparr>
     pl_as_list = (\<lambda>d. case d of DpList ds \<Rightarrow> Some ds | _ \<Rightarrow> None),
     pl_as_integer = (\<lambda>d. case d of DpInt n \<Rightarrow> Some n | _ \<Rightarrow> None),
     pl_as_u64 = (\<lambda>n. if n < 2 ^ 64 then Some (of_nat n) else None),
     pl_as_map = (\<lambda>d. case d of DpMap m \<Rightarrow> Some m | _ \<Rightarrow> None),
     pl_as_bytes = (\<lambda>d. case d of DpBytes b \<Rightarrow> Some b | _ \<Rightarrow> None),
     pl_keys = map fst, pl_get = (\<lambda>m k. map_option (\<lambda>v. [v]) (map_of m k)) \<rparr>"

definition demo_governance_datum :: "byte \<Rightarrow> demo_plutus" where
  "demo_governance_datum k =
     DpList [DpList [DpInt 1, DpMap [(DpBytes (replicate 32 k), DpBytes (k # replicate 31 0))]], DpInt 0]"

definition demo_governance_row :: "byte \<Rightarrow> u32 \<Rightarrow> byte \<Rightarrow> demo_plutus governance_row" where
  "demo_governance_row k n policy = \<lparr> gr_full_datum = demo_governance_datum k, gr_block_number = n, gr_block_hash = [7],
     gr_tx_index = 0, gr_tx_hash = [k], gr_utxo_index = 0, gr_address = [2], gr_policy = [policy] \<rparr>"

section \<open>Lemmas\<close>

lemma decode_member_sized:
  "decode_member lib m key = Inr (Some (k, member)) \<Longrightarrow> length k = 32 \<and> length member = 28"
  by (auto simp: decode_member_def split: option.splits if_splits list.splits)

lemma decode_members_sized:
  assumes "decode_members lib m = Inr members" and "(k, member) \<in> set members"
  shows "length k = 32 \<and> length member = 28"
proof -
  from assms(1) obtain ms where ms: "try_map (decode_member lib m) (pl_keys lib m) = Inr ms"
    "members = List.map_filter (\<lambda>x. x) ms" by (auto simp: decode_members_def)
  with assms(2) have "Some (k, member) \<in> set ms" by (auto simp: map_filter_def)
  with ms(1) obtain key where "decode_member lib m key = Inr (Some (k, member))"
    by (auto simp: try_map_Inr_iff list_all2_conv_all_nth in_set_conv_nth)
  then show ?thesis by (rule decode_member_sized)
qed

lemma decode_governance_datum_sized:
  assumes "decode_governance_datum lib datum = Inr d" and "(k, member) \<in> set (authorities (authorities_of_datum d))"
  shows "length k = 32 \<and> length member = 28"
  using assms by (auto simp: decode_governance_datum_def decode_members_sized split: if_splits option.splits)

lemma observe_body_sized:
  assumes "(k, member) \<in> set (authorities (observe_body lib rows n body))"
  shows "length k = 32 \<and> length member = 28"
  using assms
  by (auto simp: observe_body_def body_authorities_def no_authorities_def decode_governance_datum_sized
      split: option.splits sum.splits)

lemma governance_query_Some:
  assumes "get_governance_body_utxo rows a p n = Some r"
  shows "r \<in> set rows \<and> governance_matches a p n r \<and>
    (\<forall>r'\<in>set rows. governance_matches a p n r' \<longrightarrow> latest_first r \<le> latest_first r')"
proof -
  let ?rows = "filter (governance_matches a p n) rows"
  obtain rs where rs: "sort_key latest_first ?rows = r # rs"
    using assms by (auto simp: get_governance_body_utxo_def split: list.splits)
  have "set (r # rs) = set ?rows" using rs by (metis set_sort)
  moreover have "sorted (map latest_first (r # rs))" using rs by (metis sorted_sort_key)
  ultimately show ?thesis by auto
qed

lemma governance_query_None:
  "get_governance_body_utxo rows a p n = None \<longleftrightarrow> (\<forall>r\<in>set rows. \<not> governance_matches a p n r)"
proof -
  have "sort_key latest_first (filter (governance_matches a p n) rows) = [] \<longleftrightarrow> (\<forall>r\<in>set rows. \<not> governance_matches a p n r)"
    by (metis (mono_tags, lifting) filter_empty_conv set_empty set_sort)
  then show ?thesis
    by (cases "sort_key latest_first (filter (governance_matches a p n) rows)") (simp_all add: get_governance_body_utxo_def)
qed

text \<open>Two outputs of one transaction tie, and the order of the database decides between them.\<close>

lemma governance_query_tie:
  "get_governance_body_utxo [demo_governance_row 1 3 4, demo_governance_row 2 3 4] [2] [4] 3 \<noteq>
   get_governance_body_utxo [demo_governance_row 2 3 4, demo_governance_row 1 3 4] [2] [4] 3"
  by (simp add: get_governance_body_utxo_def governance_matches_def latest_first_def demo_governance_row_def
      demo_governance_datum_def)

section \<open>Properties\<close>

text \<open>
  C36: the observed governance UTXO is the latest one.  If no two matching UTXOs are created by the
  same transaction, the query returns the matching UTXO of the latest block and transaction, or none
  if there is none, whatever the order in which the database visits the rows: every node with the
  same rows observes the same UTXO.
\<close>
theorem governance_query_latest:
  assumes "mset rows = mset rows'" and "inj_on latest_first {r \<in> set rows. governance_matches a p n r}"
  shows "get_governance_body_utxo rows a p n = get_governance_body_utxo rows' a p n \<and>
    (case get_governance_body_utxo rows a p n of
       None \<Rightarrow> \<forall>r\<in>set rows. \<not> governance_matches a p n r
     | Some r \<Rightarrow> r \<in> set rows \<and> governance_matches a p n r \<and>
         (\<forall>r'\<in>set rows. governance_matches a p n r' \<longrightarrow> r' \<noteq> r \<longrightarrow>
            (gr_block_number r', gr_tx_index r') < (gr_block_number r, gr_tx_index r)))"
proof -
  have same: "set rows = set rows'" using assms(1) by (metis set_mset_mset)
  have latest: "(gr_block_number r', gr_tx_index r') < (gr_block_number r, gr_tx_index r)"
    if "get_governance_body_utxo rows a p n = Some r" "r' \<in> set rows" "governance_matches a p n r'" "r' \<noteq> r" for r r'
  proof -
    have "latest_first r \<le> latest_first r'" "latest_first r \<noteq> latest_first r'"
      using governance_query_Some [OF that(1)] assms(2) that(2-4) by (auto dest: inj_onD)
    then show ?thesis by (auto simp: latest_first_def less_prod_def' word_less_def word_uint_eq_iff)
  qed
  have "get_governance_body_utxo rows a p n = get_governance_body_utxo rows' a p n"
  proof (cases "get_governance_body_utxo rows a p n")
    case None
    then show ?thesis using governance_query_None [of rows a p n] governance_query_None [of rows' a p n] same by simp
  next
    case (Some r)
    then obtain r' where r': "get_governance_body_utxo rows' a p n = Some r'"
      using governance_query_None [of rows a p n] governance_query_None [of rows' a p n] same by fastforce
    then show ?thesis
      using Some governance_query_Some [OF Some] governance_query_Some [OF r'] same assms(2)
      by (auto dest!: antisym dest: inj_onD)
  qed
  then show ?thesis
    using governance_query_None [of rows a p n] governance_query_Some [of rows a p n] latest by (auto split: option.split)
qed

theorem governance_query_latest_witness:
  "get_governance_body_utxo [demo_governance_row 1 3 4, demo_governance_row 2 5 4, demo_governance_row 3 9 4] [2] [4] 8 =
     get_governance_body_utxo [demo_governance_row 3 9 4, demo_governance_row 2 5 4, demo_governance_row 1 3 4] [2] [4] 8 \<and>
   get_governance_body_utxo [demo_governance_row 1 3 4, demo_governance_row 2 5 4, demo_governance_row 3 9 4] [2] [4] 8 =
     Some (demo_governance_row 2 5 4)"
proof -
  let ?rows = "[demo_governance_row 1 3 4, demo_governance_row 2 5 4, demo_governance_row 3 9 4]"
  let ?rows' = "[demo_governance_row 3 9 4, demo_governance_row 2 5 4, demo_governance_row 1 3 4]"
  have m: "mset ?rows = mset ?rows'" by simp
  have i: "inj_on latest_first {r \<in> set ?rows. governance_matches [2] [4] 8 r}"
    by (auto simp: inj_on_def latest_first_def demo_governance_row_def)
  have "get_governance_body_utxo ?rows [2] [4] 8 = Some (demo_governance_row 2 5 4)"
    by (simp add: get_governance_body_utxo_def governance_matches_def latest_first_def demo_governance_row_def)
  with governance_query_latest [OF m i] show ?thesis by simp
qed

end
