(* ===== verification/System_Tx_Executor.thy ===== *)
theory System_Tx_Executor
  imports Node_Prelude
begin

text \<open>
  The interface \<^verbatim>\<open>MidnightSystemTransactionExecutor\<close> between the cNIGHT observation pallet, which
  builds system transactions, and the midnight-system pallet, which applies them to the ledger.
  \<^verbatim>\<open>applied\<close> is the list of the system transactions a state has seen, \<^verbatim>\<open>inv\<close> what the provider keeps
  of its own storage.
\<close>

locale system_tx_executor =
  fixes exec :: "bytes \<Rightarrow> ('w, 'e, bytes) dispatchable"
    and inv :: "'w \<Rightarrow> bool"
    and applied :: "'w \<Rightarrow> bytes list"
  assumes failed_unchanged: "exec tx w = (w', Inl e) \<Longrightarrow> w' = w"
    and applied_once: "exec tx w = (w', Inr hash) \<Longrightarrow> applied w' = applied w @ [tx]"
    and keeps_inv: "inv w \<Longrightarrow> exec tx w = (w', Inr hash) \<Longrightarrow> inv w'"
begin

lemma exec_cases:
  assumes "exec tx w = (w', r)"
  obtains (failed) e where "r = Inl e" "w' = w"
  | (succeeded) hash where "r = Inr hash" "applied w' = applied w @ [tx]" "inv w \<longrightarrow> inv w'"
proof (cases r)
  case (Inl e)
  with assms failed failed_unchanged [of tx w w' e] show thesis by simp
next
  case (Inr hash)
  with assms succeeded [of hash] applied_once [of tx w w' hash] keeps_inv [of w tx w' hash] show thesis by simp
qed

end

end
