(* ===== verification/Cnight_Observation.thy ===== *)
theory Cnight_Observation
  imports Cnight_Primitives Inherents System_Tx_Executor
begin

text \<open>
  The pallet \<^verbatim>\<open>pallets/cnight-observation\<close>: it receives, once per block and as an inherent, the cNIGHT
  registrations, creations and spends observed on Cardano, keeps the registrations and the owner
  of each cNIGHT UTXO, and turns creations and spends into one ledger system transaction.

  Parameters of the model, collected in \<^verbatim>\<open>cnight_env\<close>: the hash function of the runtime, the
  ledger bridge's constructors of dust events and of the system transaction, and the
  \<^verbatim>\<open>MidnightSystemTransactionExecutor\<close>, which acts on the part of the storage that is not this
  pallet's (\<^verbatim>\<open>cn_rest\<close>).
\<close>

section \<open>Types and storage\<close>

record mapping_entry =
  me_reward_address :: reward_address
  me_dust_public_key :: dust_public_key
  me_utxo_tx_hash :: mc_hash
  me_utxo_index :: u16

record cmst_header =
  cmst_block_hash :: mc_hash
  cmst_tx_index :: u32

datatype utxo_action_type = Create | Destroy

primrec utxo_action_u8 :: "utxo_action_type \<Rightarrow> byte" where
  "utxo_action_u8 Create = 0"
| "utxo_action_u8 Destroy = 1"

datatype cn_event =
    RegistrationEvent reward_address dust_public_key
  | DeregistrationEvent reward_address dust_public_key
  | MappingAdded mapping_entry
  | MappingRemoved mapping_entry
  | SystemTransactionAppliedEvent cmst_header bytes

datatype 'l cn_error =
    MaxCardanoAddrLengthExceeded
  | MaxRegistrationsExceeded
  | CnLedgerApiError 'l
  | InherentAlreadyExecuted
  | CardanoPositionRegression
  | TooManyUtxos

type_synonym ('l, 'x) cn_dispatch_error = "('l cn_error + 'x) dispatch_error"

definition INITIAL_CARDANO_BLOCK_WINDOW_SIZE :: u32 where
  "INITIAL_CARDANO_BLOCK_WINDOW_SIZE = 1000"

definition DEFAULT_CARDANO_TX_CAPACITY_PER_BLOCK :: u32 where
  "DEFAULT_CARDANO_TX_CAPACITY_PER_BLOCK = 200"

definition UTXO_PER_TX_OVERESTIMATE :: u32 where
  "UTXO_PER_TX_OVERESTIMATE = 64"

record 'w cn_state =
  validator_address :: bytes
  auth_token_asset_name :: bytes
  mappings :: "reward_address \<rightharpoonup> mapping_entry list"
  utxo_owners :: "bytes \<rightharpoonup> dust_public_key"
  next_cardano_position :: cardano_position
  cnight_identifier :: "bytes \<times> bytes"
  cardano_block_window_size :: u32
  cardano_tx_capacity_per_block :: u32
  inherent_executed_this_block :: bool
  cn_events :: "cn_event list"
  cn_rest :: 'w

record ('w, 'l, 'x) cnight_env =
  env_hash :: "bytes \<Rightarrow> bytes"
  construct_dust_event :: "u128 \<Rightarrow> bytes \<Rightarrow> u64 \<Rightarrow> byte \<Rightarrow> bytes \<Rightarrow> ('l, bytes) result"
  construct_system_tx :: "bytes list \<Rightarrow> ('l, bytes) result"
  execute_system_tx :: "bytes \<Rightarrow> ('w, ('l, 'x) cn_dispatch_error, bytes) dispatchable"

definition cn_deposit :: "cn_event \<Rightarrow> 'w cn_state \<Rightarrow> 'w cn_state" where
  "cn_deposit ev s = s\<lparr> cn_events := cn_events s @ [ev] \<rparr>"

definition get_mappings :: "'w cn_state \<Rightarrow> reward_address \<Rightarrow> mapping_entry list" where
  "get_mappings s a = (case mappings s a of None \<Rightarrow> [] | Some ms \<Rightarrow> ms)"

definition get_registration :: "'w cn_state \<Rightarrow> reward_address \<Rightarrow> dust_public_key option" where
  "get_registration s wallet =
     (let ms = get_mappings s wallet in
      if length ms = 1 then Some (me_dust_public_key (ms ! 0)) else None)"

definition is_registered :: "'w cn_state \<Rightarrow> reward_address \<Rightarrow> bool" where
  "is_registered s utxo_holder = (length (get_mappings s utxo_holder) = 1)"

section \<open>Handlers of the observed UTXOs\<close>

definition handle_registration ::
  "observed_utxo_header \<Rightarrow> registration_data \<Rightarrow> 'w cn_state \<Rightarrow>
   'w cn_state \<times> (reward_address \<times> mapping_entry list) option" where
  "handle_registration header data s =
     (let addr = reg_reward_address data; key = reg_dust_public_key data;
          new_reg = \<lparr> me_reward_address = addr, me_dust_public_key = key,
                      me_utxo_tx_hash = utxo_tx_hash header, me_utxo_index = utxo_index header \<rparr>;
          previous_registration = get_registration s addr;
          ms = get_mappings s addr @ [new_reg];
          s1 = s\<lparr> mappings := (mappings s)(addr \<mapsto> ms) \<rparr>;
          registered = is_registered s1 addr;
          s2 = (if previous_registration = None \<and> registered
                then cn_deposit (RegistrationEvent addr key) s1 else s1);
          s3 = (case previous_registration of
                  Some previous_key \<Rightarrow>
                    if \<not> registered then cn_deposit (DeregistrationEvent addr previous_key) s2 else s2
                | None \<Rightarrow> s2)
      in (cn_deposit (MappingAdded new_reg) s3, Some (addr, ms)))"

definition handle_registration_removal ::
  "observed_utxo_header \<Rightarrow> deregistration_data \<Rightarrow> 'w cn_state \<Rightarrow> 'w cn_state" where
  "handle_registration_removal header data s =
     (let addr = dereg_reward_address data; key = dereg_dust_public_key data;
          reg_entry = \<lparr> me_reward_address = addr, me_dust_public_key = key,
                        me_utxo_tx_hash = utxo_tx_hash header, me_utxo_index = utxo_index header \<rparr>;
          was_registered = is_registered s addr;
          ms = remove1 reg_entry (get_mappings s addr);
          s1 = (if ms = [] then s\<lparr> mappings := (mappings s)(addr := None) \<rparr>
                else s\<lparr> mappings := (mappings s)(addr \<mapsto> ms) \<rparr>);
          registration = get_registration s1 addr;
          s2 = (case registration of
                  Some registered_key \<Rightarrow>
                    if \<not> was_registered then cn_deposit (RegistrationEvent addr registered_key) s1 else s1
                | None \<Rightarrow> s1);
          s3 = (if was_registered \<and> registration = None
                then cn_deposit (DeregistrationEvent addr key) s2 else s2)
      in cn_deposit (MappingRemoved reg_entry) s3)"

definition u16_be_bytes :: "u16 \<Rightarrow> bytes" where
  "u16_be_bytes w = [ucast (drop_bit 8 w), ucast w]"

definition utxo_nonce :: "('w, 'l, 'x) cnight_env \<Rightarrow> mc_hash \<Rightarrow> u16 \<Rightarrow> bytes" where
  "utxo_nonce env h i =
     env_hash env (map (\<lambda>c. of_nat (of_char c)) ''asset_create'' @ h @ u16_be_bytes i)"

definition handle_create ::
  "('w, 'l, 'x) cnight_env \<Rightarrow> u64 \<Rightarrow> create_data \<Rightarrow> 'w cn_state \<Rightarrow> 'w cn_state \<times> bytes option" where
  "handle_create env cur_time data s =
     (case get_registration s (create_owner data) of
        None \<Rightarrow> (s, None)
      | Some key \<Rightarrow>
          (let nonce = utxo_nonce env (create_utxo_tx_hash data) (create_utxo_tx_index data) in
           case construct_dust_event env (create_value data) key cur_time (utxo_action_u8 Create) nonce of
             Inr event_bytes \<Rightarrow>
               (s\<lparr> utxo_owners := (utxo_owners s)(nonce \<mapsto> key) \<rparr>, Some event_bytes)
           | Inl _ \<Rightarrow> (s, None)))"

definition handle_spend ::
  "('w, 'l, 'x) cnight_env \<Rightarrow> u64 \<Rightarrow> spend_data \<Rightarrow> 'w cn_state \<Rightarrow> 'w cn_state \<times> bytes option" where
  "handle_spend env cur_time data s =
     (let nonce = utxo_nonce env (spend_utxo_tx_hash data) (spend_utxo_tx_index data) in
      case utxo_owners s nonce of
        None \<Rightarrow> (s, None)
      | Some key \<Rightarrow>
          (s\<lparr> utxo_owners := (utxo_owners s)(nonce := None) \<rparr>,
           result_ok (construct_dust_event env (spend_value data) key cur_time (utxo_action_u8 Destroy) nonce)))"

section \<open>Dispatchables\<close>

datatype cn_weight = W_process_tokens u32

definition process_utxo ::
  "('w, 'l, 'x) cnight_env \<Rightarrow> observed_utxo \<Rightarrow> 'w cn_state \<times> bytes list \<Rightarrow> 'w cn_state \<times> bytes list" where
  "process_utxo env utxo st =
     (case st of (s, events) \<Rightarrow>
        (let now = pos_block_timestamp (tx_position (utxo_header utxo)) div 1000 in
         case utxo_data utxo of
           RegistrationUtxo data \<Rightarrow> (fst (handle_registration (utxo_header utxo) data s), events)
         | DeregistrationUtxo data \<Rightarrow> (handle_registration_removal (utxo_header utxo) data s, events)
         | AssetCreate data \<Rightarrow>
             (case handle_create env now data s of
                (s', Some event) \<Rightarrow> (s', events @ [event])
              | (s', None) \<Rightarrow> (s', events))
         | AssetSpend data \<Rightarrow>
             (case handle_spend env now data s of
                (s', Some event) \<Rightarrow> (s', events @ [event])
              | (s', None) \<Rightarrow> (s', events))))"

definition process_utxos ::
  "('w, 'l, 'x) cnight_env \<Rightarrow> observed_utxo list \<Rightarrow> 'w cn_state \<Rightarrow> 'w cn_state \<times> bytes list" where
  "process_utxos env utxos s = fold (process_utxo env) utxos (s, [])"

definition apply_dust_events ::
  "('w, 'l, 'x) cnight_env \<Rightarrow> cardano_position \<Rightarrow> bytes list \<Rightarrow>
   ('w cn_state, ('l, 'x) cn_dispatch_error, unit) dispatchable" where
  "apply_dust_events env next events s =
     (if events = [] then (s, Inr ())
      else case construct_system_tx env events of
             Inl _ \<Rightarrow> (s, Inr ())
           | Inr tx \<Rightarrow>
               (case execute_system_tx env tx (cn_rest s) of
                  (w, Inl e) \<Rightarrow> (s\<lparr> cn_rest := w \<rparr>, Inl e)
                | (w, Inr hash) \<Rightarrow>
                    (cn_deposit
                       (SystemTransactionAppliedEvent
                          \<lparr> cmst_block_hash = pos_block_hash next, cmst_tx_index = pos_tx_index next \<rparr> hash)
                       (s\<lparr> cn_rest := w \<rparr>), Inr ())))"

definition process_tokens_body ::
  "('w, 'l, 'x) cnight_env \<Rightarrow> ('acc, 'o) raw_origin \<Rightarrow> observed_utxo list \<Rightarrow> cardano_position \<Rightarrow>
   ('w cn_state, ('l, 'x) cn_dispatch_error, cn_weight post_dispatch_info) dispatchable" where
  "process_tokens_body env origin utxos next s =
     (case ensure_none origin of
        Inl e \<Rightarrow> (s, Inl e)
      | Inr _ \<Rightarrow>
          (let utxo_count = of_nat (length utxos) :: u32 in
           if \<not> utxo_count \<le> saturating_mul (cardano_tx_capacity_per_block s) UTXO_PER_TX_OVERESTIMATE
             then (s, Inl (ModuleError (Inl TooManyUtxos)))
           else if inherent_executed_this_block s
             then (s, Inl (ModuleError (Inl InherentAlreadyExecuted)))
           else
             (let s1 = s\<lparr> inherent_executed_this_block := True \<rparr> in
              if \<not> position_ge next (next_cardano_position s1)
                then (s1, Inl (ModuleError (Inl CardanoPositionRegression)))
              else
                (let (s2, events) = process_utxos env utxos s1;
                     s3 = s2\<lparr> next_cardano_position := next \<rparr>
                 in case apply_dust_events env next events s3 of
                      (s4, Inl e) \<Rightarrow> (s4, Inl e)
                    | (s4, Inr _) \<Rightarrow>
                        (s4, Inr \<lparr> actual_weight = Some (W_process_tokens utxo_count), pays_fee = PaysNo \<rparr>)))))"

definition process_tokens ::
  "('w, 'l, 'x) cnight_env \<Rightarrow> ('acc, 'o) raw_origin \<Rightarrow> observed_utxo list \<Rightarrow> cardano_position \<Rightarrow>
   ('w cn_state, ('l, 'x) cn_dispatch_error, cn_weight post_dispatch_info) dispatchable" where
  "process_tokens env origin utxos next = with_storage_layer (process_tokens_body env origin utxos next)"

definition set_mapping_validator_contract_address ::
  "('acc, 'o) raw_origin \<Rightarrow> bytes \<Rightarrow> ('w cn_state, ('l, 'x) cn_dispatch_error, unit) dispatchable" where
  "set_mapping_validator_contract_address origin address =
     with_storage_layer (\<lambda>s.
       case ensure_root origin of
         Inl e \<Rightarrow> (s, Inl e)
       | Inr _ \<Rightarrow>
           (case bounded_vec_try_from CARDANO_BECH32_ADDRESS_MAX_LENGTH address of
              Inl _ \<Rightarrow> (s, Inl (ModuleError (Inl MaxCardanoAddrLengthExceeded)))
            | Inr a \<Rightarrow> (s\<lparr> validator_address := a \<rparr>, Inr ())))"

definition cn_on_finalize :: "'w cn_state \<Rightarrow> 'w cn_state" where
  "cn_on_finalize s = s\<lparr> inherent_executed_this_block := False \<rparr>"

section \<open>Genesis\<close>

record cnight_genesis =
  gen_addresses :: cnight_addresses
  gen_observed_utxos :: observed_utxos
  gen_mappings :: "(reward_address \<times> mapping_entry list) list"
  gen_utxo_owners :: "(bytes \<times> dust_public_key) list"
  gen_next_cardano_position :: cardano_position
  gen_system_tx :: "bytes option"

definition default_position :: cardano_position where
  "default_position = \<lparr> pos_block_hash = replicate 32 0, pos_block_number = 0, pos_block_timestamp = 0,
     pos_tx_index = 0 \<rparr>"

definition cn_empty :: "'w \<Rightarrow> 'w cn_state" where
  "cn_empty w = \<lparr> validator_address = [], auth_token_asset_name = [], mappings = Map.empty,
     utxo_owners = Map.empty, next_cardano_position = default_position, cnight_identifier = ([], []),
     cardano_block_window_size = INITIAL_CARDANO_BLOCK_WINDOW_SIZE,
     cardano_tx_capacity_per_block = DEFAULT_CARDANO_TX_CAPACITY_PER_BLOCK,
     inherent_executed_this_block = False, cn_events = [], cn_rest = w \<rparr>"

definition cn_genesis_build :: "cnight_genesis \<Rightarrow> 'w cn_state \<Rightarrow> 'w cn_state outcome" where
  "cn_genesis_build g s =
     outcome_bind (expect ''Mapping Validator address longer than expected''
         (bounded_vec_try_from CARDANO_BECH32_ADDRESS_MAX_LENGTH (addr_mapping_validator (gen_addresses g))))
       (\<lambda>addr.
     outcome_bind (expect ''Policy ID too long''
         (bounded_vec_try_from 28 (addr_cnight_policy_id (gen_addresses g))))
       (\<lambda>policy.
     outcome_bind (expect ''Asset name too long''
         (bounded_vec_try_from 32 (addr_cnight_asset_name (gen_addresses g))))
       (\<lambda>asset.
     outcome_bind (expect ''Auth Token asset name longer than expected''
         (bounded_vec_try_from 32 (addr_auth_token_asset_name (gen_addresses g))))
       (\<lambda>auth.
     Returns (s\<lparr> validator_address := addr, cnight_identifier := (policy, asset),
       auth_token_asset_name := auth,
       mappings := fold (\<lambda>(k, v) m. m(k \<mapsto> v)) (gen_mappings g) (mappings s),
       utxo_owners := fold (\<lambda>(k, v) m. m(k \<mapsto> v)) (gen_utxo_owners g) (utxo_owners s),
       next_cardano_position := gen_next_cardano_position g \<rparr>)))))"

section \<open>Inherents\<close>

datatype cn_call =
    ProcessTokens "observed_utxo list" cardano_position
  | SetMappingValidatorContractAddress bytes

datatype cn_inherent_error = UnexpectedTokenObserveInherent | InherentMissing | InherentOther

definition get_data_from_inherent_data ::
  "('e, token_movement option) result \<Rightarrow> token_movement option outcome" where
  "get_data_from_inherent_data data = expect ''Token transfer data not encoded correctly'' data"

definition cn_create_inherent :: "('e, token_movement option) result \<Rightarrow> cn_call option outcome" where
  "cn_create_inherent data =
     outcome_bind (get_data_from_inherent_data data)
       (\<lambda>d. Returns (map_option
          (\<lambda>d. ProcessTokens (movement_utxos d) (movement_next_position d)) d))"

definition cn_check_inherent ::
  "cn_call \<Rightarrow> ('e, token_movement option) result \<Rightarrow> (cn_inherent_error, unit) result outcome" where
  "cn_check_inherent call data =
     (case call of
        SetMappingValidatorContractAddress _ \<Rightarrow> Returns (Inr ())
      | ProcessTokens utxos next \<Rightarrow>
          outcome_bind (get_data_from_inherent_data data)
            (\<lambda>d. Returns (case d of
                None \<Rightarrow> Inl InherentOther
              | Some parsed \<Rightarrow>
                  if movement_utxos parsed \<noteq> utxos \<or> movement_next_position parsed \<noteq> next
                  then Inl InherentOther else Inr ())))"

fun cn_is_inherent :: "cn_call \<Rightarrow> bool" where
  "cn_is_inherent (ProcessTokens _ _) = True"
| "cn_is_inherent (SetMappingValidatorContractAddress _) = False"

definition cn_is_inherent_required ::
  "('e, token_movement option) result \<Rightarrow> (cn_inherent_error, cn_inherent_error option) result outcome" where
  "cn_is_inherent_required data =
     outcome_bind (get_data_from_inherent_data data)
       (\<lambda>d. Returns (Inr (if d \<noteq> None then Some InherentMissing else None)))"

section \<open>What the events say: the view of an indexer\<close>

definition registry_step ::
  "cn_event \<Rightarrow> (reward_address \<rightharpoonup> dust_public_key) option \<Rightarrow> (reward_address \<rightharpoonup> dust_public_key) option" where
  "registry_step ev r =
     (case r of None \<Rightarrow> None | Some m \<Rightarrow>
        (case ev of
           RegistrationEvent a k \<Rightarrow> if m a = None then Some (m(a \<mapsto> k)) else None
         | DeregistrationEvent a k \<Rightarrow> if m a = Some k then Some (m(a := None)) else None
         | _ \<Rightarrow> Some m))"

definition replay_registry ::
  "cn_event list \<Rightarrow> (reward_address \<rightharpoonup> dust_public_key) \<Rightarrow> (reward_address \<rightharpoonup> dust_public_key) option" where
  "replay_registry evs m = fold registry_step evs (Some m)"

definition cn_inv :: "'w cn_state \<Rightarrow> bool" where
  "cn_inv s \<longleftrightarrow>
     (\<forall>a ms. mappings s a = Some ms \<longrightarrow> ms \<noteq> [] \<and> (\<forall>e \<in> set ms. me_reward_address e = a))"

fun touches_nonce :: "('w, 'l, 'x) cnight_env \<Rightarrow> bytes \<Rightarrow> observed_utxo_data \<Rightarrow> bool" where
  "touches_nonce env n (AssetCreate d) =
     (utxo_nonce env (create_utxo_tx_hash d) (create_utxo_tx_index d) = n)"
| "touches_nonce env n (AssetSpend d) =
     (utxo_nonce env (spend_utxo_tx_hash d) (spend_utxo_tx_index d) = n)"
| "touches_nonce env n _ = False"

definition registry_sound :: "'w cn_state \<Rightarrow> 'w cn_state \<Rightarrow> bool" where
  "registry_sound s s' \<longleftrightarrow>
     (\<exists>evs. cn_events s' = cn_events s @ evs \<and>
        replay_registry evs (get_registration s) = Some (get_registration s'))"

definition same_header :: "'w cn_state \<Rightarrow> 'w cn_state \<Rightarrow> bool" where
  "same_header s s' \<longleftrightarrow> next_cardano_position s' = next_cardano_position s \<and>
     inherent_executed_this_block s' = inherent_executed_this_block s \<and> cn_rest s' = cn_rest s"

datatype ('acc, 'o, 'w) cn_input =
    ProcessTokensIn "('acc, 'o) raw_origin" "observed_utxo list" cardano_position
  | SetAddressIn "('acc, 'o) raw_origin" bytes
  | FinalizeIn
  | OtherPalletIn 'w

fun cn_exec :: "('w, 'l, 'x) cnight_env \<Rightarrow> ('acc, 'o, 'w) cn_input \<Rightarrow> 'w cn_state \<Rightarrow> 'w cn_state" where
  "cn_exec env (ProcessTokensIn origin utxos next) s = fst (process_tokens env origin utxos next s)"
| "cn_exec env (SetAddressIn origin a) s =
     fst (set_mapping_validator_contract_address origin a s ::
       'w cn_state \<times> (('l, 'x) cn_dispatch_error + unit))"
| "cn_exec env FinalizeIn s = cn_on_finalize s"
| "cn_exec env (OtherPalletIn w) s = s\<lparr> cn_rest := w \<rparr>"

section \<open>A concrete instance\<close>

abbreviation demo_none :: "(nat, nat) raw_origin" where
  "demo_none \<equiv> NoneOrigin"

definition demo_cn_env :: "(bytes list, unit, unit) cnight_env" where
  "demo_cn_env = \<lparr> env_hash = id,
     construct_dust_event = (\<lambda>v k t a n. Inr (k @ [a])),
     construct_system_tx = (\<lambda>evs. Inr (concat evs)),
     execute_system_tx = (\<lambda>tx w. (tx # w, Inr tx)) \<rparr>"

definition demo_position :: "u32 \<Rightarrow> cardano_position" where
  "demo_position n = \<lparr> pos_block_hash = [7], pos_block_number = n, pos_block_timestamp = 5000, pos_tx_index = 0 \<rparr>"

definition demo_header :: observed_utxo_header where
  "demo_header = \<lparr> tx_position = demo_position 1, tx_hash = [1], utxo_tx_hash = [1], utxo_index = 0 \<rparr>"

definition demo_registration :: "bytes \<Rightarrow> observed_utxo" where
  "demo_registration key = \<lparr> utxo_header = demo_header,
     utxo_data = RegistrationUtxo \<lparr> reg_reward_address = [9], reg_dust_public_key = key \<rparr> \<rparr>"

definition demo_create :: create_data where
  "demo_create = \<lparr> create_value = 10, create_owner = [9], create_utxo_tx_hash = [4], create_utxo_tx_index = 0 \<rparr>"

definition demo_spend :: spend_data where
  "demo_spend = \<lparr> spend_value = 10, spend_owner = [9], spend_utxo_tx_hash = [4], spend_utxo_tx_index = 0,
     spending_tx_hash = [5] \<rparr>"

definition demo_registered :: "bytes list cn_state" where
  "demo_registered = fst (process_utxos demo_cn_env [demo_registration [3]] (cn_empty []))"

definition demo_movement :: token_movement where
  "demo_movement = \<lparr> movement_utxos = [demo_registration [3]], movement_next_position = demo_position 2 \<rparr>"

definition demo_genesis :: cnight_genesis where
  "demo_genesis = \<lparr>
     gen_addresses = \<lparr> addr_mapping_validator = [1], addr_auth_token_asset_name = [2],
       addr_cnight_policy_id = [3], addr_cnight_asset_name = [4] \<rparr>,
     gen_observed_utxos = \<lparr> utxos_start = demo_position 0, utxos_end = demo_position 0, observed = [] \<rparr>,
     gen_mappings = [([9], [\<lparr> me_reward_address = [9], me_dust_public_key = [3],
       me_utxo_tx_hash = [1], me_utxo_index = 0 \<rparr>])],
     gen_utxo_owners = [], gen_next_cardano_position = demo_position 0, gen_system_tx = None \<rparr>"

section \<open>Lemmas: registrations\<close>

lemma cn_deposit_simps [simp]:
  "mappings (cn_deposit ev s) = mappings s" "utxo_owners (cn_deposit ev s) = utxo_owners s"
  "next_cardano_position (cn_deposit ev s) = next_cardano_position s"
  "inherent_executed_this_block (cn_deposit ev s) = inherent_executed_this_block s"
  "cn_events (cn_deposit ev s) = cn_events s @ [ev]" "cn_rest (cn_deposit ev s) = cn_rest s"
  by (simp_all add: cn_deposit_def)

lemma get_registration_cong:
  "mappings s = mappings s' \<Longrightarrow> get_registration s = get_registration s'"
  by (simp add: get_registration_def get_mappings_def fun_eq_iff)

lemma cn_inv_cong: "mappings s' = mappings s \<Longrightarrow> cn_inv s' \<longleftrightarrow> cn_inv s"
  by (simp add: cn_inv_def)

lemma is_registered_cong: "mappings s = mappings s' \<Longrightarrow> is_registered s = is_registered s'"
  by (simp add: is_registered_def get_mappings_def fun_eq_iff)

lemma is_registered_iff: "is_registered s a \<longleftrightarrow> get_registration s a \<noteq> None"
  by (simp add: is_registered_def get_registration_def Let_def)

lemma get_mappings_upd [simp]:
  "get_mappings (s\<lparr> mappings := m(a \<mapsto> ms) \<rparr>) b = (if b = a then ms else get_mappings (s\<lparr> mappings := m \<rparr>) b)"
  "get_mappings (s\<lparr> mappings := m(a := None) \<rparr>) b = (if b = a then [] else get_mappings (s\<lparr> mappings := m \<rparr>) b)"
  by (simp_all add: get_mappings_def)

lemma get_mappings_upd_same [simp]: "get_mappings (s\<lparr> mappings := mappings s \<rparr>) = get_mappings s"
  by (simp add: get_mappings_def fun_eq_iff)

lemma replay_registry_Nil [simp]: "replay_registry [] m = Some m"
  by (simp add: replay_registry_def)

lemma fold_registry_None [simp]: "fold registry_step evs None = None"
  by (induction evs) (auto simp: registry_step_def)

lemma replay_registry_append:
  "replay_registry (xs @ ys) m = Option.bind (replay_registry xs m) (replay_registry ys)"
  by (cases "replay_registry xs m") (auto simp: replay_registry_def)

lemma registry_sound_refl [simp]: "registry_sound s s"
  by (auto simp: registry_sound_def intro: exI [of _ "[]"])

lemma registry_sound_trans: "registry_sound s t \<Longrightarrow> registry_sound t u \<Longrightarrow> registry_sound s u"
  unfolding registry_sound_def by (auto simp: replay_registry_append)

lemma registry_sound_same:
  assumes "mappings s' = mappings s" and "cn_events s' = cn_events s @ evs"
    and "\<And>a k. RegistrationEvent a k \<notin> set evs" and "\<And>a k. DeregistrationEvent a k \<notin> set evs"
  shows "registry_sound s s'"
proof -
  have "fold registry_step evs (Some m) = Some m" for m
    using assms(3,4)
  proof (induction evs)
    case (Cons ev evs)
    then show ?case by (cases ev) (auto simp: registry_step_def)
  qed simp
  then show ?thesis
    using assms(2) get_registration_cong [OF assms(1)] by (auto simp: registry_sound_def replay_registry_def)
qed

lemma get_registration_single:
  "get_registration s a = Some k \<longleftrightarrow> (\<exists>e. get_mappings s a = [e] \<and> me_dust_public_key e = k)"
  by (auto simp: get_registration_def Let_def length_Suc_conv)

lemma get_registration_upd:
  "get_registration (s\<lparr> mappings := (mappings s)(a := x) \<rparr>) =
     (get_registration s)(a := (case x of Some [e] \<Rightarrow> Some (me_dust_public_key e) | _ \<Rightarrow> None))"
  by (auto simp: get_registration_def get_mappings_def fun_eq_iff Let_def split: option.splits list.splits)

lemma handle_registration_sound: "registry_sound s (fst (handle_registration header data s))"
proof -
  let ?a = "reg_reward_address data" and ?k = "reg_dust_public_key data"
  let ?e = "\<lparr> me_reward_address = ?a, me_dust_public_key = ?k,
              me_utxo_tx_hash = utxo_tx_hash header, me_utxo_index = utxo_index header \<rparr>"
  let ?s1 = "s\<lparr> mappings := (mappings s)(?a \<mapsto> get_mappings s ?a @ [?e]) \<rparr>"
  let ?s' = "fst (handle_registration header data s)"
  have maps: "mappings ?s' = mappings ?s1"
    by (simp add: handle_registration_def Let_def split: option.splits)
  have reg: "get_registration ?s' = (get_registration s)(?a :=
      (case get_mappings s ?a @ [?e] of [e] \<Rightarrow> Some (me_dust_public_key e) | _ \<Rightarrow> None))"
    unfolding get_registration_cong [OF maps] get_registration_upd by simp
  consider (none) "get_mappings s ?a = []" | (one) e where "get_mappings s ?a = [e]"
    | (many) x y zs where "get_mappings s ?a = x # y # zs"
    by (metis neq_Nil_conv)
  then show ?thesis
  proof cases
    case none
    then have "cn_events ?s' = cn_events s @ [RegistrationEvent ?a ?k, MappingAdded ?e]"
      by (simp add: handle_registration_def Let_def is_registered_def get_registration_def)
    then show ?thesis using none reg
      by (auto simp: registry_sound_def replay_registry_def registry_step_def get_registration_def Let_def)
  next
    case one
    then have "cn_events ?s' = cn_events s @ [DeregistrationEvent ?a (me_dust_public_key e), MappingAdded ?e]"
      by (simp add: handle_registration_def Let_def is_registered_def get_registration_def)
    then show ?thesis using one reg
      by (auto simp: registry_sound_def replay_registry_def registry_step_def get_registration_def Let_def)
  next
    case many
    then have "cn_events ?s' = cn_events s @ [MappingAdded ?e]"
      by (simp add: handle_registration_def Let_def is_registered_def get_registration_def)
    moreover have "get_registration s ?a = None" using many by (simp add: get_registration_def Let_def)
    ultimately show ?thesis using many reg
      by (auto simp: registry_sound_def replay_registry_def registry_step_def fun_upd_idem)
  qed
qed

lemma removal_cases:
  fixes e :: mapping_entry
  obtains (gone) "remove1 e ms = []" and "ms = [e]"
    | (empty) "ms = []"
    | (still) x where "ms = [x]" and "remove1 e ms = [x]"
    | (becomes) x y z where "ms = [x, y]" and "remove1 e ms = [z]"
    | (many) "2 \<le> length ms" and "2 \<le> length (remove1 e ms)"
proof -
  consider "ms = []" | x where "ms = [x]" | x y zs where "ms = x # y # zs"
    by (metis neq_Nil_conv)
  then show thesis
  proof cases
    case (2 x)
    then show thesis using gone still by (cases "x = e") auto
  next
    case (3 x y zs)
    then show thesis using becomes many
      by (cases zs; cases "x = e"; cases "y = e") (auto simp: Suc_le_eq length_remove1)
  qed (rule empty)
qed

lemma handle_registration_removal_sound: "registry_sound s (handle_registration_removal header data s)"
proof -
  let ?a = "dereg_reward_address data" and ?k = "dereg_dust_public_key data"
  let ?e = "\<lparr> me_reward_address = ?a, me_dust_public_key = ?k,
              me_utxo_tx_hash = utxo_tx_hash header, me_utxo_index = utxo_index header \<rparr>"
  let ?ms = "remove1 ?e (get_mappings s ?a)"
  let ?s1 = "s\<lparr> mappings := (mappings s)(?a := if ?ms = [] then None else Some ?ms) \<rparr>"
  let ?s' = "handle_registration_removal header data s"
  have maps: "mappings ?s' = mappings ?s1"
    by (simp add: handle_registration_removal_def Let_def split: option.splits)
  have reg: "get_registration ?s' = (get_registration s)(?a :=
      (case ?ms of [e] \<Rightarrow> Some (me_dust_public_key e) | _ \<Rightarrow> None))"
    unfolding get_registration_cong [OF maps] get_registration_upd by (auto split: list.splits)
  note defs = handle_registration_removal_def Let_def is_registered_def get_registration_def
  note final = registry_sound_def replay_registry_def registry_step_def
  show ?thesis
  proof (cases rule: removal_cases [of ?e "get_mappings s ?a"])
    case gone
    then have "cn_events ?s' = cn_events s @ [DeregistrationEvent ?a ?k, MappingRemoved ?e]"
      and "get_registration s ?a = Some ?k"
      by (simp_all add: defs)
    with gone reg show ?thesis by (simp add: final)
  next
    case empty
    then have "cn_events ?s' = cn_events s @ [MappingRemoved ?e]" and "get_registration s ?a = None"
      by (simp_all add: defs)
    with empty reg show ?thesis by (simp add: final fun_upd_idem)
  next
    case (still x)
    then have "cn_events ?s' = cn_events s @ [MappingRemoved ?e]"
      and "get_registration s ?a = Some (me_dust_public_key x)"
      by (simp_all add: defs)
    with still reg show ?thesis by (simp add: final fun_upd_idem)
  next
    case (becomes x y z)
    then have "cn_events ?s' =
        cn_events s @ [RegistrationEvent ?a (me_dust_public_key z), MappingRemoved ?e]"
      and "get_registration s ?a = None"
      by (simp_all add: defs)
    with becomes reg show ?thesis by (simp add: final)
  next
    case many
    then have "cn_events ?s' = cn_events s @ [MappingRemoved ?e]" and "get_registration s ?a = None"
      by (auto simp: defs)
    moreover obtain x y zs where "?ms = x # y # zs"
      using many(2) by (metis One_nat_def Suc_1 Suc_le_length_iff)
    ultimately show ?thesis using reg by (simp add: final fun_upd_idem)
  qed
qed

section \<open>Lemmas: creations and spends\<close>

lemma handle_registration_frame [simp]:
  "utxo_owners (fst (handle_registration header data s)) = utxo_owners s"
  "next_cardano_position (fst (handle_registration header data s)) = next_cardano_position s"
  "inherent_executed_this_block (fst (handle_registration header data s)) = inherent_executed_this_block s"
  "cn_rest (fst (handle_registration header data s)) = cn_rest s"
  by (simp_all add: handle_registration_def Let_def split: option.splits)

lemma handle_registration_removal_frame [simp]:
  "utxo_owners (handle_registration_removal header d s) = utxo_owners s"
  "next_cardano_position (handle_registration_removal header d s) = next_cardano_position s"
  "inherent_executed_this_block (handle_registration_removal header d s) = inherent_executed_this_block s"
  "cn_rest (handle_registration_removal header d s) = cn_rest s"
  by (simp_all add: handle_registration_removal_def Let_def split: option.splits)

lemma handle_create_frame:
  "\<exists>owners. fst (handle_create env t data s) = s\<lparr> utxo_owners := owners \<rparr>"
  by (auto simp: handle_create_def Let_def split: option.splits sum.splits intro: exI [of _ "utxo_owners s"])

lemma handle_spend_frame:
  "\<exists>owners. fst (handle_spend env t data s) = s\<lparr> utxo_owners := owners \<rparr>"
  by (auto simp: handle_spend_def Let_def split: option.splits intro: exI [of _ "utxo_owners s"])

lemma process_utxo_state:
  "fst (process_utxo env u (s, evs)) =
     (let now = pos_block_timestamp (tx_position (utxo_header u)) div 1000 in
      case utxo_data u of
        RegistrationUtxo d \<Rightarrow> fst (handle_registration (utxo_header u) d s)
      | DeregistrationUtxo d \<Rightarrow> handle_registration_removal (utxo_header u) d s
      | AssetCreate d \<Rightarrow> fst (handle_create env now d s)
      | AssetSpend d \<Rightarrow> fst (handle_spend env now d s))"
  by (auto simp: process_utxo_def Let_def split: observed_utxo_data.splits prod.splits option.splits)

lemma process_utxos_preserves:
  assumes "\<And>u s evs. u \<in> set us \<Longrightarrow> P s \<Longrightarrow> P (fst (process_utxo env u (s, evs)))" and "P s"
  shows "P (fst (process_utxos env us s))"
proof -
  have "P (fst (fold (process_utxo env) us (s, evs)))" for evs
    using assms
  proof (induction us arbitrary: s evs)
    case (Cons u us)
    then have "P (fst (process_utxo env u (s, evs)))" by simp
    with Cons show ?case by (cases "process_utxo env u (s, evs)") simp
  qed simp
  then show ?thesis by (simp add: process_utxos_def)
qed

lemma process_utxo_sound: "registry_sound s (fst (process_utxo env u (s, evs)))"
proof -
  have same: "registry_sound s s'" if "\<exists>owners. s' = s\<lparr> utxo_owners := owners \<rparr>" for s'
    using that by (auto intro!: registry_sound_same [where evs = "[]"])
  show ?thesis
    unfolding process_utxo_state Let_def
    by (auto simp: handle_registration_sound handle_registration_removal_sound
        intro: same [OF handle_create_frame] same [OF handle_spend_frame]
        split: observed_utxo_data.splits)
qed

lemma process_utxos_sound: "registry_sound s (fst (process_utxos env us s))"
  by (rule process_utxos_preserves [where P = "registry_sound s"])
    (auto intro: registry_sound_trans process_utxo_sound)

lemma process_utxo_same_header: "same_header s (fst (process_utxo env u (s, evs)))"
  unfolding process_utxo_state Let_def same_header_def
  by (auto split: observed_utxo_data.splits
      simp: handle_create_def handle_spend_def Let_def split: option.splits sum.splits)

lemma process_utxos_same_header: "same_header s (fst (process_utxos env us s))"
proof (rule process_utxos_preserves [where P = "same_header s"])
  show "same_header s (fst (process_utxo env u (t, evs)))" if "same_header s t" for u t evs
    using that process_utxo_same_header [of t env u evs] by (simp add: same_header_def)
qed (simp add: same_header_def)

lemma process_utxo_inv: "cn_inv s \<Longrightarrow> cn_inv (fst (process_utxo env u (s, evs)))"
proof -
  assume inv: "cn_inv s"
  have get: "e \<in> set (get_mappings s a) \<Longrightarrow> me_reward_address e = a" for e a
    using inv by (cases "mappings s a") (auto simp: cn_inv_def get_mappings_def)
  have "cn_inv (fst (handle_registration h d s))" for h d
    using inv get by (auto simp: cn_inv_def handle_registration_def Let_def split: option.splits)
  moreover have "cn_inv (handle_registration_removal h d s)" for h d
    using inv get by (auto simp: cn_inv_def handle_registration_removal_def Let_def
        split: option.splits dest!: subsetD [OF set_remove1_subset])
  moreover have "cn_inv (fst (handle_create env t d s))" "cn_inv (fst (handle_spend env t d' s))" for t d d'
    using inv by (auto simp: cn_inv_def handle_create_def handle_spend_def Let_def
        split: option.splits sum.splits)
  ultimately show ?thesis
    unfolding process_utxo_state Let_def by (auto split: observed_utxo_data.splits)
qed

section \<open>Lemmas: the dispatchables\<close>

interpretation process_tx: transactional "process_tokens env origin utxos next" for env origin utxos "next"
  unfolding process_tokens_def by (rule transactional_storage_layer)

interpretation set_address_tx: transactional "set_mapping_validator_contract_address origin a" for origin a
  unfolding set_mapping_validator_contract_address_def by (rule transactional_storage_layer)

lemma apply_dust_events_okD:
  assumes "apply_dust_events env next events s = (s', Inr u)"
  shows "mappings s' = mappings s" "utxo_owners s' = utxo_owners s"
    "next_cardano_position s' = next_cardano_position s"
    "inherent_executed_this_block s' = inherent_executed_this_block s" "registry_sound s s'"
proof -
  show *: "mappings s' = mappings s" "utxo_owners s' = utxo_owners s"
    "next_cardano_position s' = next_cardano_position s"
    "inherent_executed_this_block s' = inherent_executed_this_block s"
    using assms by (auto simp: apply_dust_events_def split: if_splits sum.splits prod.splits)
  have "cn_events s' = cn_events s \<or> (\<exists>h x. cn_events s' = cn_events s @ [SystemTransactionAppliedEvent h x])"
    using assms by (auto simp: apply_dust_events_def split: if_splits sum.splits prod.splits)
  then show "registry_sound s s'"
    by (elim disjE exE) (rule registry_sound_same [OF *(1)], auto)+
qed

lemma apply_dust_events_errD:
  assumes "apply_dust_events env next events s = (t, Inl e)"
  shows "\<exists>tx w. snd (execute_system_tx env tx w) = Inl e"
proof -
  from assms obtain tx w where "execute_system_tx env tx (cn_rest s) = (w, Inl e)"
    by (auto simp: apply_dust_events_def split: if_splits sum.splits prod.splits)
  then show ?thesis by (metis snd_conv)
qed

lemma process_tokens_okD:
  assumes "process_tokens env origin utxos next s = (s', Inr info)"
  obtains s2 events where "origin = NoneOrigin" and "\<not> inherent_executed_this_block s"
    and "(of_nat (length utxos) :: u32) \<le>
           saturating_mul (cardano_tx_capacity_per_block s) UTXO_PER_TX_OVERESTIMATE"
    and "position_ge next (next_cardano_position s)"
    and "process_utxos env utxos (s\<lparr> inherent_executed_this_block := True \<rparr>) = (s2, events)"
    and "apply_dust_events env next events (s2\<lparr> next_cardano_position := next \<rparr>) = (s', Inr ())"
proof -
  have body: "process_tokens_body env origin utxos next s = (s', Inr info)"
    using assms by (simp add: process_tokens_def with_storage_layer_Inr_iff)
  then have "origin = NoneOrigin"
    by (cases origin) (auto simp: process_tokens_body_def)
  with body that show thesis
    by (auto simp: process_tokens_body_def Let_def split: if_splits prod.splits sum.splits)
qed

lemma process_tokens_guarded:
  assumes "\<not> inherent_executed_this_block s" and "position_ge next (next_cardano_position s)"
    and "(of_nat (length utxos) :: u32) \<le> saturating_mul (cardano_tx_capacity_per_block s) UTXO_PER_TX_OVERESTIMATE"
    and "process_utxos env utxos (s\<lparr> inherent_executed_this_block := True \<rparr>) = (s2, events)"
  shows "snd (process_tokens env (NoneOrigin :: ('acc, 'o) raw_origin) utxos next s) =
    map_ok (\<lambda>_. \<lparr> actual_weight = Some (W_process_tokens (of_nat (length utxos))), pays_fee = PaysNo \<rparr>)
      (snd (apply_dust_events env next events (s2\<lparr> next_cardano_position := next \<rparr>)))"
  using assms
  by (simp add: process_tokens_def process_tokens_body_def Let_def split: prod.splits sum.splits)

lemma process_tokens_ok_state:
  assumes "process_tokens env origin utxos next s = (s', Inr info)"
  shows "next_cardano_position s' = next" "inherent_executed_this_block s'" "registry_sound s s'"
    "cn_inv s \<Longrightarrow> cn_inv s'"
proof -
  let ?s1 = "s\<lparr> inherent_executed_this_block := True \<rparr>"
  from assms obtain s2 events where
    p: "process_utxos env utxos ?s1 = (s2, events)" and
    d: "apply_dust_events env next events (s2\<lparr> next_cardano_position := next \<rparr>) = (s', Inr ())"
    by (elim process_tokens_okD)
  note s' = apply_dust_events_okD [OF d]
  have "same_header ?s1 s2" "registry_sound ?s1 s2"
    using process_utxos_same_header [of ?s1 env utxos] process_utxos_sound [of ?s1 env utxos]
    by (simp_all add: p)
  then show "next_cardano_position s' = next" "inherent_executed_this_block s'"
    using s' by (simp_all add: same_header_def)
  have "registry_sound s ?s1" "registry_sound s2 (s2\<lparr> next_cardano_position := next \<rparr>)"
    by (rule registry_sound_same [where evs = "[]"]; simp)+
  with \<open>registry_sound ?s1 s2\<close> s'(5) show "registry_sound s s'"
    by (blast intro: registry_sound_trans)
  assume "cn_inv s"
  then have "cn_inv ?s1" by (simp add: cn_inv_def)
  then have "cn_inv s2"
    using process_utxos_preserves [where P = cn_inv and s = ?s1 and env = env and us = utxos] p
    by (simp add: process_utxo_inv)
  then show "cn_inv s'" using s'(1) by (simp add: cn_inv_def)
qed

lemma set_address_okD:
  "set_mapping_validator_contract_address origin a s = (s', Inr u) \<Longrightarrow>
     origin = Root \<and> length a \<le> 108 \<and> s' = s\<lparr> validator_address := a \<rparr>"
  by (cases origin) (auto simp: set_mapping_validator_contract_address_def with_storage_layer_Inr_iff
      CARDANO_BECH32_ADDRESS_MAX_LENGTH_def split: sum.splits)

lemma cn_exec_rel:
  fixes env :: "('w, 'l, 'x) cnight_env"
  shows "registry_sound s (cn_exec env i s) \<and> (cn_inv s \<longrightarrow> cn_inv (cn_exec env i s)) \<and>
    position_key (next_cardano_position s) \<le> position_key (next_cardano_position (cn_exec env i s))"
    (is "?P (cn_exec env i s)")
proof -
  have same: "?P s'"
    if "mappings s' = mappings s" "cn_events s' = cn_events s"
      "next_cardano_position s' = next_cardano_position s" for s'
    using that registry_sound_same [of s' s "[]"] cn_inv_cong [of s' s] by simp
  show ?thesis
  proof (cases i)
    case (ProcessTokensIn origin utxos "next")
    have "?P (fst (process_tokens env origin utxos next s))"
    proof (cases "process_tokens env origin utxos next s")
      case (Pair s' r)
      show ?thesis
      proof (cases r)
        case (Inl e)
        with Pair show ?thesis by (auto dest: process_tx.rollback)
      next
        case (Inr info)
        note ok = Pair [unfolded Inr]
        have "position_ge next (next_cardano_position s)" using ok by (elim process_tokens_okD)
        with process_tokens_ok_state [OF ok] Pair show ?thesis by (simp add: position_ge_key)
      qed
    qed
    with ProcessTokensIn show ?thesis by simp
  next
    case (SetAddressIn origin a)
    have "?P (fst (set_mapping_validator_contract_address origin a s ::
        'w cn_state \<times> (('l, 'x) cn_dispatch_error + unit)))"
    proof (cases "set_mapping_validator_contract_address origin a s ::
        'w cn_state \<times> (('l, 'x) cn_dispatch_error + unit)")
      case (Pair s' r)
      moreover have "?P (s\<lparr> validator_address := a \<rparr>)" by (rule same) simp_all
      ultimately show ?thesis
        by (cases r) (auto dest!: set_address_okD set_address_tx.rollback)
    qed
    with SetAddressIn show ?thesis by simp
  next
    case FinalizeIn
    then show ?thesis by (simp only: cn_exec.simps) (rule same, simp_all add: cn_on_finalize_def)
  next
    case (OtherPalletIn w)
    then show ?thesis by (simp only: cn_exec.simps) (rule same, simp_all)
  qed
qed

lemma cn_run_rel:
  "registry_sound s (fold (cn_exec env) inputs s) \<and> (cn_inv s \<longrightarrow> cn_inv (fold (cn_exec env) inputs s)) \<and>
   position_key (next_cardano_position s) \<le> position_key (next_cardano_position (fold (cn_exec env) inputs s))"
proof (induction inputs arbitrary: s)
  case (Cons i inputs)
  from cn_exec_rel [of s env i] Cons [of "cn_exec env i s"] show ?case
    by (auto intro: registry_sound_trans order_trans)
qed simp

lemma process_utxo_owner:
  "\<not> touches_nonce env n (utxo_data u) \<Longrightarrow>
     utxo_owners (fst (process_utxo env u (s, evs))) n = utxo_owners s n"
  unfolding process_utxo_state Let_def
  by (cases "utxo_data u") (auto simp: handle_create_def handle_spend_def Let_def split: option.splits sum.splits)

lemma process_utxos_owner:
  assumes "\<And>u. u \<in> set us \<Longrightarrow> \<not> touches_nonce env n (utxo_data u)"
  shows "utxo_owners (fst (process_utxos env us s)) n = utxo_owners s n"
  by (rule process_utxos_preserves [where P = "\<lambda>t. utxo_owners t n = utxo_owners s n"])
    (simp_all add: assms process_utxo_owner)

lemma cn_exec_executed:
  assumes "inherent_executed_this_block s" and "i \<noteq> FinalizeIn"
  shows "inherent_executed_this_block (cn_exec env i s)"
proof (cases i)
  case (ProcessTokensIn origin utxos "next")
  have "inherent_executed_this_block (fst (process_tokens env origin utxos next s))"
    by (rule process_tx.preserves [where P = inherent_executed_this_block])
      (use assms(1) process_tokens_ok_state(2) in auto)
  with ProcessTokensIn show ?thesis by simp
next
  case (SetAddressIn origin a)
  have "inherent_executed_this_block (fst (set_mapping_validator_contract_address origin a s))"
    by (rule set_address_tx.preserves [where P = inherent_executed_this_block])
      (use assms(1) in \<open>auto dest: set_address_okD\<close>)
  with SetAddressIn show ?thesis by simp
qed (use assms in auto)

lemma cn_run_executed:
  "inherent_executed_this_block s \<Longrightarrow> FinalizeIn \<notin> set inputs \<Longrightarrow>
     inherent_executed_this_block (fold (cn_exec env) inputs s)"
  by (induction inputs arbitrary: s) (auto simp: cn_exec_executed)

lemma fold_upd_lookup:
  "fold (\<lambda>(k, v) m. m(k \<mapsto> v)) kvs m k = Some v \<Longrightarrow> m k = Some v \<or> (k, v) \<in> set kvs"
proof (induction kvs arbitrary: m)
  case (Cons kv kvs)
  obtain a b where kv: "kv = (a, b)" by (cases kv)
  with Cons.IH [of "m(a \<mapsto> b)"] Cons.prems show ?case by (auto split: if_splits)
qed simp

interpretation cn_inherent: inherent_provider
  "\<lambda>d. case cn_create_inherent (Inr d :: (unit, token_movement option) result) of Returns c \<Rightarrow> c | Panics _ \<Rightarrow> None"
  "\<lambda>c d. cn_check_inherent c (Inr d :: (unit, token_movement option) result) = Returns (Inr ())"
  cn_is_inherent
proof
  fix d :: "token_movement option" and c c' :: cn_call
  assume "(case cn_create_inherent (Inr d :: (unit, token_movement option) result) of Returns c \<Rightarrow> c | Panics _ \<Rightarrow> None) = Some c"
  then obtain m where d: "d = Some m" and c: "c = ProcessTokens (movement_utxos m) (movement_next_position m)"
    by (auto simp: cn_create_inherent_def get_data_from_inherent_data_def)
  then show "cn_is_inherent c"
    and "cn_check_inherent c (Inr d :: (unit, token_movement option) result) = Returns (Inr ())"
    by (simp_all add: cn_check_inherent_def get_data_from_inherent_data_def)
  assume "cn_is_inherent c'" and "cn_check_inherent c' (Inr d :: (unit, token_movement option) result) = Returns (Inr ())"
  with d c show "c' = c"
    by (cases c') (auto simp: cn_check_inherent_def get_data_from_inherent_data_def split: if_splits)
qed

text \<open>The clients of the executor: what one inherent does to the pallet that applies system transactions.\<close>

locale cnight_executor = system_tx_executor "execute_system_tx env" inv applied
  for env :: "('w, 'l, 'x) cnight_env" and inv :: "'w \<Rightarrow> bool" and applied :: "'w \<Rightarrow> bytes list"
begin

lemma apply_dust_events_rest:
  assumes "apply_dust_events env next events s = (s', Inr ())"
  shows "(inv (cn_rest s) \<longrightarrow> inv (cn_rest s')) \<and>
    (cn_rest s' = cn_rest s \<and> (events = [] \<or> (\<exists>e. construct_system_tx env events = Inl e)) \<or>
     (\<exists>tx. events \<noteq> [] \<and> construct_system_tx env events = Inr tx \<and>
        applied (cn_rest s') = applied (cn_rest s) @ [tx]))"
proof (cases "construct_system_tx env events")
  case (Inl e)
  with assms show ?thesis by (auto simp: apply_dust_events_def split: if_splits)
next
  case (Inr tx)
  show ?thesis
  proof (cases "events = []")
    case False
    obtain w r where run: "execute_system_tx env tx (cn_rest s) = (w, r)"
      by (cases "execute_system_tx env tx (cn_rest s)")
    with assms False Inr obtain hash where "r = Inr hash" and "cn_rest s' = w"
      by (cases r) (auto simp: apply_dust_events_def)
    with run False Inr show ?thesis by (auto elim: exec_cases)
  qed (use assms in \<open>simp add: apply_dust_events_def\<close>)
qed

lemma process_tokens_rest:
  assumes "process_tokens env origin utxos next s = (s', Inr info)"
  defines "events \<equiv> snd (process_utxos env utxos (s\<lparr> inherent_executed_this_block := True \<rparr>))"
  shows "(inv (cn_rest s) \<longrightarrow> inv (cn_rest s')) \<and>
    (cn_rest s' = cn_rest s \<and> (events = [] \<or> (\<exists>e. construct_system_tx env events = Inl e)) \<or>
     (\<exists>tx. events \<noteq> [] \<and> construct_system_tx env events = Inr tx \<and>
        applied (cn_rest s') = applied (cn_rest s) @ [tx]))"
  using assms(1)
proof (rule process_tokens_okD)
  fix s2 evs
  assume p: "process_utxos env utxos (s\<lparr> inherent_executed_this_block := True \<rparr>) = (s2, evs)"
    and d: "apply_dust_events env next evs (s2\<lparr> next_cardano_position := next \<rparr>) = (s', Inr ())"
  have "cn_rest s2 = cn_rest s"
    using process_utxos_same_header [of "s\<lparr> inherent_executed_this_block := True \<rparr>" env utxos] p
    by (simp add: same_header_def)
  with apply_dust_events_rest [OF d] p show ?thesis by (simp add: events_def)
qed

end

section \<open>Properties\<close>

text \<open>
  C6: an indexer that only reads the pallet's \<^verbatim>\<open>Registration\<close> and \<^verbatim>\<open>Deregistration\<close> events knows every
  valid registration.  Whatever sequence of inherents, address changes and block ends the pallet
  executes, replaying the events it emitted, strictly (a registration only where none is
  valid, a deregistration only of the key that is registered), succeeds and gives for every
  wallet exactly the dust key \<^verbatim>\<open>get_registration\<close> returns.
\<close>
theorem registrations_follow_events:
  "\<exists>evs. cn_events (fold (cn_exec env) inputs s) = cn_events s @ evs \<and>
     replay_registry evs (get_registration s) = Some (get_registration (fold (cn_exec env) inputs s))"
  using cn_run_rel [where env = env and inputs = inputs and s = s] by (simp add: registry_sound_def)

text \<open>
  C11: the dust of a cNIGHT UTXO is attributed to the key that was registered when the UTXO was
  created.  After a successful creation, and whatever else is processed in between
  (re-registrations of the owner included) as long as it does not create or spend the same UTXO,
  the spend produces the destroy event for that key; a second spend produces none.
\<close>
theorem spend_uses_key_of_creation:
  assumes "handle_create env t c s = (s1, Some ev)"
    and "get_registration s (create_owner c) = Some key"
    and "spend_utxo_tx_hash d = create_utxo_tx_hash c" and "spend_utxo_tx_index d = create_utxo_tx_index c"
    and "\<And>u. u \<in> set us \<Longrightarrow>
           \<not> touches_nonce env (utxo_nonce env (create_utxo_tx_hash c) (create_utxo_tx_index c)) (utxo_data u)"
    and "fst (process_utxos env us s1) = s2"
    and "handle_spend env t' d s2 = (s3, r)"
  shows "r = result_ok (construct_dust_event env (spend_value d) key t' 1
               (utxo_nonce env (create_utxo_tx_hash c) (create_utxo_tx_index c)))
       \<and> handle_spend env t'' d s3 = (s3, None)"
proof -
  let ?n = "utxo_nonce env (create_utxo_tx_hash c) (create_utxo_tx_index c)"
  have "utxo_owners s1 ?n = Some key"
    using assms(1,2) by (auto simp: handle_create_def Let_def split: sum.splits)
  then have "utxo_owners s2 ?n = Some key"
    using process_utxos_owner [of us env ?n s1] assms(5,6) by simp
  then show ?thesis
    using assms(3,4,7) by (auto simp: handle_spend_def Let_def)
qed

theorem spend_uses_key_of_creation_witness:
  "snd (handle_spend demo_cn_env 6 demo_spend
     (fst (process_utxos demo_cn_env [demo_registration [8]]
        (fst (handle_create demo_cn_env 5 demo_create demo_registered))))) = Some [3, 1]"
proof -
  have reg: "get_registration demo_registered (create_owner demo_create) = Some [3]"
    by (simp add: demo_registered_def process_utxos_def process_utxo_def demo_registration_def
        handle_registration_def Let_def cn_empty_def get_registration_def get_mappings_def
        is_registered_def cn_deposit_def demo_create_def)
  then obtain s1 where s1: "handle_create demo_cn_env 5 demo_create demo_registered = (s1, Some [3, 0])"
    by (simp add: handle_create_def demo_cn_env_def Let_def)
  have "\<not> touches_nonce demo_cn_env (utxo_nonce demo_cn_env (create_utxo_tx_hash demo_create)
      (create_utxo_tx_index demo_create)) (utxo_data u)" if "u \<in> set [demo_registration [8]]" for u
    using that by (simp add: demo_registration_def)
  from spend_uses_key_of_creation [OF s1 reg _ _ this refl prod.collapse [symmetric],
      where d = demo_spend and t' = 6 and us = "[demo_registration [8]]"]
  have "snd (handle_spend demo_cn_env 6 demo_spend (fst (process_utxos demo_cn_env [demo_registration [8]] s1)))
      = result_ok (construct_dust_event demo_cn_env (spend_value demo_spend) [3] 6 1
          (utxo_nonce demo_cn_env (create_utxo_tx_hash demo_create) (create_utxo_tx_index demo_create)))"
    by (simp add: demo_spend_def demo_create_def)
  then show ?thesis by (simp add: s1) (simp add: demo_cn_env_def)
qed

text \<open>
  C12: \<^verbatim>\<open>process_tokens\<close> succeeds at most once per block: after it has succeeded, and until
  \<^verbatim>\<open>on_finalize\<close> ends the block, every further call fails and changes nothing, whatever the
  other calls of the block are.
\<close>
theorem one_inherent_per_block:
  assumes "process_tokens env origin utxos next s = (s1, Inr info)"
    and "FinalizeIn \<notin> set inputs"
    and "fold (cn_exec env) inputs s1 = s2"
  shows "\<exists>e. process_tokens env origin' utxos' next' s2 = (s2, Inl e)"
proof -
  have ex: "inherent_executed_this_block s2"
    using assms cn_run_executed process_tokens_ok_state(2) by blast
  show ?thesis
  proof (cases "process_tokens env origin' utxos' next' s2")
    case (Pair s3 r)
    then show ?thesis
      by (cases r) (use ex in \<open>auto dest: process_tx.rollback elim: process_tokens_okD\<close>)
  qed
qed

theorem one_inherent_per_block_witness:
  "is_ok (snd (process_tokens demo_cn_env demo_none [demo_registration [3]] (demo_position 2) (cn_empty [])))
   \<and> (\<exists>e. process_tokens demo_cn_env demo_none [] (demo_position 3)
        (fst (process_tokens demo_cn_env demo_none [demo_registration [3]] (demo_position 2) (cn_empty [])))
      = (fst (process_tokens demo_cn_env demo_none [demo_registration [3]] (demo_position 2) (cn_empty [])), Inl e))"
proof -
  have "is_ok (snd (process_tokens demo_cn_env demo_none
      [demo_registration [3]] (demo_position 2) (cn_empty [])))"
    by (simp add: process_tokens_def process_tokens_body_def cn_empty_def Let_def saturating_mul_def
        DEFAULT_CARDANO_TX_CAPACITY_PER_BLOCK_def UTXO_PER_TX_OVERESTIMATE_def position_ge_key
        position_key_def demo_position_def default_position_def process_utxos_def process_utxo_def
        demo_registration_def apply_dust_events_def)
  then obtain s1 info where s1: "process_tokens demo_cn_env demo_none
      [demo_registration [3]] (demo_position 2) (cn_empty []) = (s1, Inr info)"
    by (metis is_ok_iff prod.collapse)
  from one_inherent_per_block [OF s1, of "[]" s1 demo_none "[]" "demo_position 3"] show ?thesis
    by (simp add: s1)
qed

text \<open>
  C13: the Cardano position of the pallet never moves back, in any sequence of calls.
\<close>
theorem cardano_position_monotone:
  "position_ge (next_cardano_position (fold (cn_exec env) inputs s)) (next_cardano_position s)"
  using cn_run_rel [where env = env and inputs = inputs and s = s] by (simp add: position_ge_key)

text \<open>
  Which calls of \<^verbatim>\<open>process_tokens\<close> are rejected, in the order of the checks, and that a
  rejected call leaves the storage unchanged.  A call that passes the checks fails only with the error of
  the system transaction executor.
\<close>
theorem process_tokens_rejections:
  "(case process_tokens env origin utxos next s of
      (s', Inl e) \<Rightarrow> s' = s \<and>
        (if origin \<noteq> NoneOrigin then e = BadOrigin
         else if unat (cardano_tx_capacity_per_block s) * 64 < length utxos mod 2 ^ 32
           then e = ModuleError (Inl TooManyUtxos)
         else if inherent_executed_this_block s then e = ModuleError (Inl InherentAlreadyExecuted)
         else if position_lt next (next_cardano_position s)
           then e = ModuleError (Inl CardanoPositionRegression)
         else \<exists>tx w. snd (execute_system_tx env tx w) = Inl e)
    | (s', Inr info) \<Rightarrow>
        origin = NoneOrigin \<and> length utxos mod 2 ^ 32 \<le> unat (cardano_tx_capacity_per_block s) * 64 \<and>
        \<not> inherent_executed_this_block s \<and> \<not> position_lt next (next_cardano_position s) \<and>
        next_cardano_position s' = next \<and> inherent_executed_this_block s')"
proof -
  have cap: "(of_nat (length utxos) :: u32) \<le>
      saturating_mul (cardano_tx_capacity_per_block s) UTXO_PER_TX_OVERESTIMATE \<longleftrightarrow>
    length utxos mod 2 ^ 32 \<le> unat (cardano_tx_capacity_per_block s) * 64"
    using mod_less_divisor [of "2 ^ 32" "length utxos"]
    by (auto simp: word_le_nat_alt unat_saturating_mul unsigned_of_nat take_bit_eq_mod
        UTXO_PER_TX_OVERESTIMATE_def simp del: mod_less_divisor)
  have pos: "position_ge next (next_cardano_position s) \<longleftrightarrow> \<not> position_lt next (next_cardano_position s)"
    by (simp add: position_ge_key position_lt_key not_less)
  show ?thesis
  proof (cases "process_tokens env origin utxos next s")
    case (Pair s' r)
    show ?thesis
    proof (cases r)
      case (Inr info)
      note ok = Pair [unfolded Inr]
      from ok have "origin = NoneOrigin \<and> \<not> inherent_executed_this_block s \<and>
          length utxos mod 2 ^ 32 \<le> unat (cardano_tx_capacity_per_block s) * 64 \<and>
          \<not> position_lt next (next_cardano_position s)"
        by (elim process_tokens_okD) (simp only: cap pos simp_thms)
      then show ?thesis unfolding ok using process_tokens_ok_state [OF ok] by simp
    next
      case (Inl e)
      have "s' = s" using Pair Inl by (auto dest: process_tx.rollback)
      moreover obtain t where "process_tokens_body env origin utxos next s = (t, Inl e)"
        using Pair Inl by (auto simp: process_tokens_def with_storage_layer_Inl_iff)
      ultimately show ?thesis unfolding Pair Inl
        by (cases origin) (auto simp: process_tokens_body_def Let_def cap pos
            split: if_splits prod.splits sum.splits dest: apply_dust_events_errD)
    qed
  qed
qed

text \<open>
  C14: from a genesis whose mappings are non-empty lists stored under their own reward address,
  the pallet only ever stores such lists: no calls leave an empty list behind or file an entry
  under another address.
\<close>
theorem mappings_well_formed_from_genesis:
  assumes "cn_genesis_build g (cn_empty w) = Returns s"
    and "\<And>k ms. (k, ms) \<in> set (gen_mappings g) \<Longrightarrow> ms \<noteq> [] \<and> (\<forall>e \<in> set ms. me_reward_address e = k)"
    and "mappings (fold (cn_exec env) inputs s) a = Some ms"
  shows "ms \<noteq> [] \<and> (\<forall>e \<in> set ms. me_reward_address e = a)"
proof -
  have "mappings s = fold (\<lambda>(k, v) m. m(k \<mapsto> v)) (gen_mappings g) Map.empty"
    using assms(1) by (auto simp: cn_genesis_build_def cn_empty_def)
  then have "cn_inv s"
    using assms(2) by (auto simp: cn_inv_def dest!: fold_upd_lookup)
  then have "cn_inv (fold (cn_exec env) inputs s)"
    using cn_run_rel [where env = env and inputs = inputs and s = s] by blast
  with assms(3) show ?thesis by (auto simp: cn_inv_def)
qed

text \<open>
  The inherent a block author creates from the observed token movements is the only
  \<^verbatim>\<open>process_tokens\<close> call the importing node accepts for the same observations.
\<close>
theorem inherent_accepted_iff_created:
  assumes "cn_create_inherent data = Returns (Some call)"
  shows "cn_is_inherent call \<and>
    (\<forall>utxos next. cn_check_inherent (ProcessTokens utxos next) data = Returns (Inr ()) \<longleftrightarrow>
       ProcessTokens utxos next = call)"
  using assms by (auto simp: cn_create_inherent_def cn_check_inherent_def split: option.splits)

theorem inherent_accepted_iff_created_witness:
  "cn_check_inherent (ProcessTokens [demo_registration [3]] (demo_position 2))
     (Inr (Some demo_movement) :: (unit, token_movement option) result) = Returns (Inr ())"
  using inherent_accepted_iff_created
    [of "Inr (Some demo_movement) :: (unit, token_movement option) result" "ProcessTokens [demo_registration [3]] (demo_position 2)"]
  by (simp add: cn_create_inherent_def get_data_from_inherent_data_def demo_movement_def)

theorem mappings_well_formed_from_genesis_witness:
  "\<exists>s. cn_genesis_build demo_genesis (cn_empty ([] :: bytes list)) = Returns s \<and>
     (\<exists>ms. mappings s [9] = Some ms \<and> ms \<noteq> [] \<and> (\<forall>e \<in> set ms. me_reward_address e = [9]))"
proof -
  obtain s ms where s: "cn_genesis_build demo_genesis (cn_empty ([] :: bytes list)) = Returns s"
    and ms: "mappings (fold (cn_exec demo_cn_env) ([] :: (nat, nat, bytes list) cn_input list) s) [9] = Some ms"
    by (auto simp: cn_genesis_build_def demo_genesis_def bounded_vec_try_from_def
        CARDANO_BECH32_ADDRESS_MAX_LENGTH_def)
  have "ms \<noteq> [] \<and> (\<forall>e \<in> set ms. me_reward_address e = [9])"
    by (rule mappings_well_formed_from_genesis [OF s _ ms]) (auto simp: demo_genesis_def)
  with s ms show ?thesis by auto
qed

end
