(* ===== verification/Inherent_Providers.thy ===== *)
theory Inherent_Providers
  imports Fa_Data_Source Cnight_Observation
begin

text \<open>
  The inherent data providers of \<^verbatim>\<open>primitives/mainchain-follower/src/idp\<close>: they read the configuration
  of an observation from the state of the parent block through the runtime API, query the data
  source, and put the observation into the inherent data.  Runtime API calls read the storage of the
  pallets and do not fail; \<^verbatim>\<open>is_utf8\<close> stands for the check of \<^verbatim>\<open>String::from_utf8\<close>.
\<close>

section \<open>Token movements: idp/cnight_observation.rs\<close>

record cnight_idp =
  idp_utxos :: "observed_utxo list"
  idp_next_cardano_position :: cardano_position

datatype idp_creation_error =
    DataSourceError cnight_source_error
  | StringDecodeError
  | InvalidOnchainStateCNight string
  | AuthTokenAssetNameNotString

definition cn_idp_new ::
  "(bytes \<Rightarrow> bool) \<Rightarrow> 'addr cardano_lib \<Rightarrow> cnight_db \<Rightarrow> 'w cn_state \<Rightarrow> mc_hash \<Rightarrow>
   (idp_creation_error, cnight_idp) result outcome" where
  "cn_idp_new is_utf8 lib db parent mc_hash =
     (let (cnight_policy_id, cnight_asset_name) = cnight_identifier parent in
      if \<not> is_utf8 (validator_address parent) then Returns (Inl StringDecodeError)
      else if \<not> is_utf8 (auth_token_asset_name parent) then Returns (Inl AuthTokenAssetNameNotString)
      else if length cnight_policy_id \<noteq> 28 then Returns (Inl (InvalidOnchainStateCNight ''cnight_policy_id''))
      else if \<not> is_utf8 cnight_asset_name then Returns (Inl (InvalidOnchainStateCNight ''cnight_asset_name''))
      else outcome_bind
        (get_utxos_up_to_capacity lib db
           \<lparr> addr_mapping_validator = validator_address parent, addr_auth_token_asset_name = auth_token_asset_name parent,
             addr_cnight_policy_id = cnight_policy_id, addr_cnight_asset_name = cnight_asset_name \<rparr>
           (next_cardano_position parent) mc_hash (unat (cardano_tx_capacity_per_block parent))) (\<lambda>r.
        Returns (and_then (map_err DataSourceError r) (\<lambda>o'.
          Inr \<lparr> idp_utxos = observed o', idp_next_cardano_position = utxos_end o' \<rparr>))))"

definition zero_position :: cardano_position where
  "zero_position = \<lparr> pos_block_hash = replicate 32 0, pos_block_number = 0, pos_block_timestamp = 0, pos_tx_index = 0 \<rparr>"

definition cn_idp_new_if_pallet_present ::
  "('e, bool) result \<Rightarrow> (bytes \<Rightarrow> bool) \<Rightarrow> 'addr cardano_lib \<Rightarrow> cnight_db \<Rightarrow> 'w cn_state \<Rightarrow> mc_hash \<Rightarrow>
   (idp_creation_error, cnight_idp) result outcome" where
  "cn_idp_new_if_pallet_present has_api is_utf8 lib db parent mc_hash =
     (case has_api of
        Inr True \<Rightarrow> cn_idp_new is_utf8 lib db parent mc_hash
      | _ \<Rightarrow> Returns (Inr \<lparr> idp_utxos = [], idp_next_cardano_position = zero_position \<rparr>))"

definition cn_provide_inherent_data :: "cnight_idp \<Rightarrow> token_movement" where
  "cn_provide_inherent_data p =
     \<lparr> movement_utxos = idp_utxos p, movement_next_position = idp_next_cardano_position p \<rparr>"

section \<open>Federated authorities: idp/federated\_authority\_observation.rs\<close>

datatype fao_idp_error = FromUtf8Error | FaoDataSourceError fao_source_error

definition fao_idp_new ::
  "(bytes \<Rightarrow> bool) \<Rightarrow> ('pd, 'map, 'int) plutus_lib \<Rightarrow> cnight_db \<Rightarrow> 'pd governance_row list \<Rightarrow>
   ('a, 'h) fao_state \<Rightarrow> mc_hash \<Rightarrow> (fao_idp_error, federated_authority_data) result" where
  "fao_idp_new is_utf8 lib db rows parent hash =
     (if \<not> is_utf8 (council_address parent) then Inl FromUtf8Error
      else if \<not> is_utf8 (tc_address parent) then Inl FromUtf8Error
      else map_err FaoDataSourceError (get_federated_authority_data lib db rows
        \<lparr> cfg_council = \<lparr> body_address = council_address parent, body_policy_id = council_policy_id parent \<rparr>,
          cfg_technical_committee = \<lparr> body_address = tc_address parent, body_policy_id = tc_policy_id parent \<rparr> \<rparr> hash))"

section \<open>A concrete instance\<close>

definition demo_idp_env :: "(nat, nat list \<times> nat list) fao_env" where
  "demo_idp_env = demo_fao_env\<lparr> decode_account := (\<lambda>k. if length k = 32 then Some (unat (hd k)) else None) \<rparr>"

definition demo_idp_state :: "(nat, nat list \<times> nat list) fao_state" where
  "demo_idp_state = demo_fao_state\<lparr> council_address := [2], council_policy_id := [4], tc_address := [2], tc_policy_id := [5] \<rparr>"

definition demo_idp_rows :: "demo_plutus governance_row list" where
  "demo_idp_rows = [demo_governance_row 1 1 4, demo_governance_row 3 2 5, demo_governance_row 2 2 4]"

section \<open>Lemmas\<close>

lemma fao_create_inherentE:
  assumes "fao_create_inherent env (Inr (Some d) :: (unit, federated_authority_data option) result) = Some call"
  obtains council tc where "call = ResetMembers council tc" "council \<noteq> []" "tc \<noteq> []"
    "decode_auth_members env (council_max_members env) (authorities (council_authorities d)) = Inr council"
    "decode_auth_members env (tc_max_members env) (authorities (technical_committee_authorities d)) = Inr tc"
  using assms
  by (auto simp: fao_create_inherent_def fao_inherent_data_def Let_def split: sum.splits if_splits)

lemma decoded_members:
  assumes "decode_auth_members env n xs = Inr ys"
  shows "list_all2 (\<lambda>(k, m) (a, m'). decode_account env k = Some a \<and> m' = m) xs ys \<and> length ys \<le> n \<and> (xs = [] \<longrightarrow> ys = [])"
proof -
  have "list_all2 (\<lambda>(k, m) (a, m'). decode_account env k = Some a \<and> m' = m) xs ys"
    using assms by (auto simp: decode_auth_members_def try_map_Inr_iff elim!: list_all2_mono)
  with decode_auth_members_length [OF assms] show ?thesis by auto
qed

lemma observed_bodyE:
  assumes "authorities (observe_body lib rows n body) \<noteq> []"
  obtains row datum where "get_governance_body_utxo rows (body_address body) (body_policy_id body) n = Some row"
    "decode_governance_datum lib (gr_full_datum row) = Inr datum" "observe_body lib rows n body = authorities_of_datum datum"
  using assms that by (auto simp: observe_body_def body_authorities_def no_authorities_def split: option.splits sum.splits)

lemma demo_datum_decodes:
  "decode_governance_datum demo_plutus_lib (demo_governance_datum k) =
     Inr (R0 \<lparr> r0_authorities = [(k # replicate 31 0, replicate 28 k)], r0_round = 0 \<rparr>)"
  by (simp add: demo_governance_datum_def demo_plutus_lib_def decode_governance_datum_def decode_round_def decode_members_def
      decode_member_def map_filter_def)

lemma demo_bodies:
  "get_governance_body_utxo demo_idp_rows [2] [4] 3 = Some (demo_governance_row 2 2 4)"
  "get_governance_body_utxo demo_idp_rows [2] [5] 3 = Some (demo_governance_row 3 2 5)"
  by (simp_all add: get_governance_body_utxo_def demo_idp_rows_def governance_matches_def latest_first_def demo_governance_row_def)

lemma demo_observed:
  "observe_body demo_plutus_lib demo_idp_rows 3 \<lparr> body_address = [2], body_policy_id = [4] \<rparr> =
     \<lparr> authorities = [(2 # replicate 31 0, replicate 28 2)], round = 0 \<rparr>"
  "observe_body demo_plutus_lib demo_idp_rows 3 \<lparr> body_address = [2], body_policy_id = [5] \<rparr> =
     \<lparr> authorities = [(3 # replicate 31 0, replicate 28 3)], round = 0 \<rparr>"
  using demo_datum_decodes [of 2] demo_datum_decodes [of 3]
  by (simp_all add: observe_body_def body_authorities_def demo_bodies demo_governance_row_def)

lemma demo_provided:
  "fao_idp_new (\<lambda>_. True) demo_plutus_lib demo_db demo_idp_rows demo_idp_state [7] =
     Inr \<lparr> council_authorities = \<lparr> authorities = [(2 # replicate 31 0, replicate 28 2)], round = 0 \<rparr>,
       technical_committee_authorities = \<lparr> authorities = [(3 # replicate 31 0, replicate 28 3)], round = 0 \<rparr>,
       mc_block_hash = [7] \<rparr>"
  by (simp add: fao_idp_new_def get_federated_authority_data_def demo_db_def get_block_by_hash_def demo_idp_state_def
      demo_observed)

section \<open>Properties\<close>

text \<open>
  C37: the governance bodies follow Cardano.  Whenever the author of a block creates a membership
  inherent from what its data provider observed, it comes from the latest governance UTXO of each
  body at the observed Cardano block, whose datums decode; and executing the inherent installs in
  each body exactly the accounts of the datum, each with its Cardano key hash of 28 bytes.
\<close>
theorem governance_reaches_bodies:
  assumes "handlers_ok env" and "fao_idp_new is_utf8 lib db rows s h = Inr d"
    and "fao_create_inherent env (Inr (Some d) :: (unit, federated_authority_data option) result) = Some call"
    and "\<not> reset_executed_this_block s"
  shows "\<exists>block rc dc rt dt council tc s' info. get_block_by_hash db h = Some block \<and>
    get_governance_body_utxo rows (council_address s) (council_policy_id s) (blk_number block) = Some rc \<and>
    decode_governance_datum lib (gr_full_datum rc) = Inr dc \<and>
    get_governance_body_utxo rows (tc_address s) (tc_policy_id s) (blk_number block) = Some rt \<and>
    decode_governance_datum lib (gr_full_datum rt) = Inr dt \<and> call = ResetMembers council tc \<and>
    list_all2 (\<lambda>(k, m) (a, m'). decode_account env k = Some a \<and> m' = m) (authorities (authorities_of_datum dc)) council \<and>
    list_all2 (\<lambda>(k, m) (a, m'). decode_account env k = Some a \<and> m' = m) (authorities (authorities_of_datum dt)) tc \<and>
    reset_members env (NoneOrigin :: ('acc, 'o) raw_origin) council tc s = (s', Inr info) \<and>
    zip (council_sorted_members env (fao_handlers s')) (council_mainchain_members s') = sort_key fst council \<and>
    zip (tc_sorted_members env (fao_handlers s')) (tc_mainchain_members s') = sort_key fst tc \<and>
    list_all (\<lambda>(k, m). length k = 32 \<and> length m = 28) (authorities (authorities_of_datum dc) @ authorities (authorities_of_datum dt))"
proof -
  let ?c = "\<lparr> body_address = council_address s, body_policy_id = council_policy_id s \<rparr>"
  let ?t = "\<lparr> body_address = tc_address s, body_policy_id = tc_policy_id s \<rparr>"
  obtain block where block: "get_block_by_hash db h = Some block"
    and d: "council_authorities d = observe_body lib rows (blk_number block) ?c"
      "technical_committee_authorities d = observe_body lib rows (blk_number block) ?t"
    using assms(2) by (auto simp: fao_idp_new_def get_federated_authority_data_def split: if_splits)
  obtain council tc where call: "call = ResetMembers council tc" "council \<noteq> []" "tc \<noteq> []"
    "decode_auth_members env (council_max_members env) (authorities (council_authorities d)) = Inr council"
    "decode_auth_members env (tc_max_members env) (authorities (technical_committee_authorities d)) = Inr tc"
    by (rule fao_create_inherentE [OF assms(3)])
  note dec = decoded_members [OF call(4)] decoded_members [OF call(5)]
  obtain rc dc where rc: "get_governance_body_utxo rows (council_address s) (council_policy_id s) (blk_number block) = Some rc"
    "decode_governance_datum lib (gr_full_datum rc) = Inr dc" "council_authorities d = authorities_of_datum dc"
    using observed_bodyE [of lib rows "blk_number block" ?c] dec(1) call(2) d(1) by auto
  obtain rt dt where rt: "get_governance_body_utxo rows (tc_address s) (tc_policy_id s) (blk_number block) = Some rt"
    "decode_governance_datum lib (gr_full_datum rt) = Inr dt" "technical_committee_authorities d = authorities_of_datum dt"
    using observed_bodyE [of lib rows "blk_number block" ?t] dec(2) call(3) d(2) by auto
  obtain s' info where run: "reset_members env (NoneOrigin :: ('acc, 'o) raw_origin) council tc s = (s', Inr info)"
    using reset_members_succeeds [OF assms(4)] by blast
  have "length council \<le> council_max_members env" "length tc \<le> tc_max_members env" using dec by auto
  note installed = members_installed [OF assms(1) run call(2) this(1) call(3) this(2)]
  have "list_all (\<lambda>(k, m). length k = 32 \<and> length m = 28) (authorities (authorities_of_datum dc) @ authorities (authorities_of_datum dt))"
    using decode_governance_datum_sized [OF rc(2)] decode_governance_datum_sized [OF rt(2)] by (auto simp: list_all_iff)
  with block rc rt call(1) dec run installed show ?thesis by (metis (no_types, lifting))
qed

theorem governance_reaches_bodies_witness:
  "\<exists>d s' info. fao_idp_new (\<lambda>_. True) demo_plutus_lib demo_db demo_idp_rows demo_idp_state [7] = Inr d \<and>
     reset_members demo_idp_env (NoneOrigin :: (nat, nat) raw_origin) [(2, replicate 28 2)] [(3, replicate 28 3)] demo_idp_state = (s', Inr info) \<and>
     zip (council_sorted_members demo_idp_env (fao_handlers s')) (council_mainchain_members s') = [(2, replicate 28 2)]"
proof -
  obtain d where d: "fao_idp_new (\<lambda>_. True) demo_plutus_lib demo_db demo_idp_rows demo_idp_state [7] = Inr d"
    and call: "fao_create_inherent demo_idp_env (Inr (Some d) :: (unit, federated_authority_data option) result) =
      Some (ResetMembers [(2, replicate 28 2)] [(3, replicate 28 3)])"
    by (simp add: demo_provided demo_idp_env_def demo_fao_env_def fao_create_inherent_def fao_inherent_data_def
        decode_auth_members_def bounded_vec_try_from_def has_duplicated_members_def)
  have ok: "handlers_ok demo_idp_env" "\<not> reset_executed_this_block demo_idp_state"
    using demo_handlers_ok by (simp_all add: demo_idp_env_def handlers_ok_def demo_idp_state_def demo_fao_state_def)
  from governance_reaches_bodies [OF ok(1) d call ok(2), where ?'acc = nat and ?'o = nat] d show ?thesis by auto
qed

end
