(* ===== verification/System_Parameters.thy ===== *)
theory System_Parameters
  imports Node_Prelude
begin

text \<open>
  The pallet \<^verbatim>\<open>pallets/system-parameters\<close>: the terms and conditions and the D-parameter, set at
  genesis and changed by governance, and the selection of authorities in \<^verbatim>\<open>runtime/src/lib.rs\<close> that
  reads the D-parameter.  The selection algorithm itself belongs to the partner chains toolkit and
  is a parameter.  The origin of both calls is the one the runtime configures, \<^verbatim>\<open>EnsureRoot\<close>.
\<close>

section \<open>Storage\<close>

definition MAX_URL_SIZE :: nat where "MAX_URL_SIZE = 256"

record 'hash terms_and_conditions =
  tc_hash :: 'hash
  tc_url :: bytes

datatype 'hash sp_event =
    TermsAndConditionsUpdated 'hash bytes
  | DParameterUpdated u16 u16

datatype sp_error = UrlTooLong

record 'hash sp_state =
  terms_storage :: "'hash terms_and_conditions option"
  d_parameter_storage :: "u16 \<times> u16"
  sp_events :: "'hash sp_event list"

definition sp_empty :: "'hash sp_state" where
  "sp_empty = \<lparr> terms_storage = None, d_parameter_storage = (0, 0), sp_events = [] \<rparr>"

definition sp_deposit :: "'hash sp_event \<Rightarrow> 'hash sp_state \<Rightarrow> 'hash sp_state" where
  "sp_deposit ev s = s\<lparr> sp_events := sp_events s @ [ev] \<rparr>"

section \<open>Genesis\<close>

record 'hash terms_genesis =
  genesis_hash :: "'hash option"
  genesis_url :: "bytes option"

definition DEFAULT_TERMS_AND_CONDITIONS_URL :: string where
  "DEFAULT_TERMS_AND_CONDITIONS_URL = ''https://www.midnight.gd/global-terms-txt''"

definition DEFAULT_TERMS_AND_CONDITIONS_HASH_BYTES :: bytes where
  "DEFAULT_TERMS_AND_CONDITIONS_HASH_BYTES =
     [0xca, 0x85, 0xed, 0x77, 0xbc, 0xe6, 0x82, 0x88, 0xe5, 0x53, 0x00, 0xf0, 0x06, 0xcc, 0xd5,
      0xcc, 0xe5, 0xd4, 0x94, 0x0d, 0xc3, 0x9f, 0xc4, 0x11, 0x73, 0xa9, 0xc2, 0xec, 0xd1, 0xeb,
      0x61, 0x6e]"

definition terms_genesis_default :: "nat \<Rightarrow> bytes terms_genesis" where
  "terms_genesis_default hash_length =
     (let hash = replicate hash_length 0; n = min hash_length (length DEFAULT_TERMS_AND_CONDITIONS_HASH_BYTES) in
      \<lparr> genesis_hash = Some (take n DEFAULT_TERMS_AND_CONDITIONS_HASH_BYTES @ drop n hash),
        genesis_url = Some (map (\<lambda>c. of_nat (of_char c)) DEFAULT_TERMS_AND_CONDITIONS_URL) \<rparr>)"

record d_parameter_genesis =
  genesis_permissioned :: "u16 option"
  genesis_registered :: "u16 option"

definition sp_genesis_build ::
  "'hash terms_genesis \<Rightarrow> d_parameter_genesis \<Rightarrow> 'hash sp_state \<Rightarrow> 'hash sp_state outcome" where
  "sp_genesis_build terms d s =
     outcome_bind (expect ''Genesis terms and conditions hash must be set'' (ok_or () (genesis_hash terms))) (\<lambda>hash.
     outcome_bind (expect ''Genesis terms and conditions URL must be set'' (ok_or () (genesis_url terms))) (\<lambda>url.
     outcome_bind (expect ''Terms and conditions URL exceeds maximum length''
         (bounded_vec_try_from MAX_URL_SIZE url)) (\<lambda>url.
     (let s1 = s\<lparr> terms_storage := Some \<lparr> tc_hash = hash, tc_url = url \<rparr> \<rparr> in
      Returns (case (genesis_permissioned d, genesis_registered d) of
                 (Some p, Some r) \<Rightarrow> s1\<lparr> d_parameter_storage := (p, r) \<rparr>
               | _ \<Rightarrow> s1)))))"

section \<open>Dispatchables and getters\<close>

definition update_terms_and_conditions ::
  "('acc, 'o) raw_origin \<Rightarrow> 'hash \<Rightarrow> bytes \<Rightarrow> ('hash sp_state, sp_error dispatch_error, unit) dispatchable" where
  "update_terms_and_conditions origin hash url =
     with_storage_layer (\<lambda>s.
       case ensure_root origin of
         Inl e \<Rightarrow> (s, Inl e)
       | Inr _ \<Rightarrow>
           (case bounded_vec_try_from MAX_URL_SIZE url of
              Inl _ \<Rightarrow> (s, Inl (ModuleError UrlTooLong))
            | Inr u \<Rightarrow>
                (sp_deposit (TermsAndConditionsUpdated hash u)
                   (s\<lparr> terms_storage := Some \<lparr> tc_hash = hash, tc_url = u \<rparr> \<rparr>), Inr ())))"

definition update_d_parameter ::
  "('acc, 'o) raw_origin \<Rightarrow> u16 \<Rightarrow> u16 \<Rightarrow> ('hash sp_state, sp_error dispatch_error, unit) dispatchable" where
  "update_d_parameter origin permissioned registered =
     with_storage_layer (\<lambda>s.
       case ensure_root origin of
         Inl e \<Rightarrow> (s, Inl e)
       | Inr _ \<Rightarrow>
           (sp_deposit (DParameterUpdated permissioned registered)
              (s\<lparr> d_parameter_storage := (permissioned, registered) \<rparr>), Inr ()))"

definition get_terms_and_conditions :: "'hash sp_state \<Rightarrow> 'hash terms_and_conditions option" where
  "get_terms_and_conditions s = terms_storage s"

record d_parameter =
  num_permissioned_candidates :: u16
  num_registered_candidates :: u16

definition get_d_parameter :: "'hash sp_state \<Rightarrow> d_parameter" where
  "get_d_parameter s =
     (let (p, r) = d_parameter_storage s in
      \<lparr> num_permissioned_candidates = p, num_registered_candidates = r \<rparr>)"

section \<open>Authority selection: runtime/src/lib.rs\<close>

record 'i selection_inputs =
  input_d_parameter :: d_parameter
  input_candidates :: 'i

definition select_authorities_optionally_overriding ::
  "('g \<Rightarrow> 'i selection_inputs \<Rightarrow> u64 \<Rightarrow> 'committee option) \<Rightarrow> 'g \<Rightarrow> 'hash sp_state \<Rightarrow> 'i selection_inputs \<Rightarrow> u64 \<Rightarrow>
   'committee option" where
  "select_authorities_optionally_overriding select_authorities genesis_utxo s input epoch =
     (let d = get_d_parameter s;
          input = input\<lparr> input_d_parameter := (input_d_parameter input)
            \<lparr> num_permissioned_candidates := num_permissioned_candidates d,
              num_registered_candidates := num_registered_candidates d \<rparr> \<rparr> in
      select_authorities genesis_utxo input epoch)"

section \<open>Runs\<close>

datatype ('acc, 'o, 'hash) sp_input =
    UpdateTerms "('acc, 'o) raw_origin" 'hash bytes
  | UpdateDParameter "('acc, 'o) raw_origin" u16 u16

fun sp_exec :: "('acc, 'o, 'hash) sp_input \<Rightarrow> 'hash sp_state \<Rightarrow> 'hash sp_state" where
  "sp_exec (UpdateTerms origin hash url) s = fst (update_terms_and_conditions origin hash url s)"
| "sp_exec (UpdateDParameter origin p r) s = fst (update_d_parameter origin p r s)"

text \<open>What an indexer knows from the events alone.\<close>

fun replay_event :: "'hash sp_event \<Rightarrow> 'hash terms_and_conditions option \<times> (u16 \<times> u16) \<Rightarrow>
    'hash terms_and_conditions option \<times> (u16 \<times> u16)" where
  "replay_event (TermsAndConditionsUpdated h u) (t, d) = (Some \<lparr> tc_hash = h, tc_url = u \<rparr>, d)"
| "replay_event (DParameterUpdated p r) (t, d) = (t, (p, r))"

definition sp_inv :: "'hash sp_state \<Rightarrow> bool" where
  "sp_inv s \<longleftrightarrow> (case terms_storage s of None \<Rightarrow> False | Some t \<Rightarrow> length (tc_url t) \<le> MAX_URL_SIZE)"

definition replays_to :: "'hash sp_state \<Rightarrow> 'hash sp_state \<Rightarrow> bool" where
  "replays_to s t \<longleftrightarrow> (\<exists>evs. sp_events t = sp_events s @ evs \<and>
     fold replay_event evs (terms_storage s, d_parameter_storage s) = (terms_storage t, d_parameter_storage t))"

section \<open>Lemmas\<close>

interpretation terms_tx: transactional "update_terms_and_conditions origin hash url" for origin hash url
  unfolding update_terms_and_conditions_def by (rule transactional_storage_layer)

interpretation d_parameter_tx: transactional "update_d_parameter origin p r" for origin p r
  unfolding update_d_parameter_def by (rule transactional_storage_layer)

lemma update_terms_ok:
  "update_terms_and_conditions origin hash url s = (s', Inr u) \<longleftrightarrow>
     origin = Root \<and> length url \<le> MAX_URL_SIZE \<and>
     s' = sp_deposit (TermsAndConditionsUpdated hash url) (s\<lparr> terms_storage := Some \<lparr> tc_hash = hash, tc_url = url \<rparr> \<rparr>)"
  by (cases origin)
    (auto simp: update_terms_and_conditions_def with_storage_layer_Inr_iff bounded_vec_try_from_def split: sum.splits)

lemma update_d_parameter_ok:
  "update_d_parameter origin p r s = (s', Inr u) \<longleftrightarrow>
     origin = Root \<and> s' = sp_deposit (DParameterUpdated p r) (s\<lparr> d_parameter_storage := (p, r) \<rparr>)"
  by (cases origin) (auto simp: update_d_parameter_def with_storage_layer_Inr_iff)

lemma sp_exec_inv: "sp_inv s \<Longrightarrow> sp_inv (sp_exec x s)"
proof (cases x)
  case (UpdateTerms origin hash url)
  assume "sp_inv s"
  then have "sp_inv (fst (update_terms_and_conditions origin hash url s))"
    by (rule terms_tx.preserves [where P = sp_inv, rotated]) (simp add: update_terms_ok sp_inv_def sp_deposit_def)
  with UpdateTerms show ?thesis by simp
next
  case (UpdateDParameter origin p r)
  assume "sp_inv s"
  then have "sp_inv (fst (update_d_parameter origin p r s))"
    by (rule d_parameter_tx.preserves [where P = sp_inv, rotated]) (simp add: update_d_parameter_ok sp_inv_def sp_deposit_def)
  with UpdateDParameter show ?thesis by simp
qed

lemma replays_to_step:
  assumes "replays_to s t"
  shows "replays_to s (sp_exec x t)"
proof (cases x)
  case (UpdateTerms origin hash url)
  have "replays_to s (fst (update_terms_and_conditions origin hash url t))"
    by (rule terms_tx.preserves [where P = "replays_to s", rotated, OF assms])
      (auto simp: update_terms_ok replays_to_def sp_deposit_def)
  with UpdateTerms show ?thesis by simp
next
  case (UpdateDParameter origin p r)
  have "replays_to s (fst (update_d_parameter origin p r t))"
    by (rule d_parameter_tx.preserves [where P = "replays_to s", rotated, OF assms])
      (auto simp: update_d_parameter_ok replays_to_def sp_deposit_def)
  with UpdateDParameter show ?thesis by simp
qed

lemma replays_to_fold: "replays_to s t \<Longrightarrow> replays_to s (fold sp_exec xs t)"
  by (induction xs arbitrary: t) (auto intro: replays_to_step)

lemma sp_inv_fold: "sp_inv s \<Longrightarrow> sp_inv (fold sp_exec xs s)"
  by (induction xs arbitrary: s) (auto intro: sp_exec_inv)

section \<open>Properties\<close>

text \<open>
  The terms and conditions are always defined and their URL fits its bound: from any genesis
  that builds, through any sequence of updates.
\<close>
theorem terms_always_defined:
  assumes "sp_genesis_build terms d s0 = Returns s"
  shows "\<exists>t. get_terms_and_conditions (fold sp_exec xs s) = Some t \<and> length (tc_url t) \<le> MAX_URL_SIZE"
proof -
  have "sp_inv s"
    using assms
    by (cases "genesis_permissioned d"; cases "genesis_registered d")
      (auto simp: sp_genesis_build_def sp_inv_def Let_def)
  then have "sp_inv (fold sp_exec xs s)" by (rule sp_inv_fold)
  then show ?thesis by (auto simp: sp_inv_def get_terms_and_conditions_def split: option.splits)
qed

theorem terms_always_defined_witness:
  "\<exists>s. sp_genesis_build (terms_genesis_default 32) \<lparr> genesis_permissioned = Some 7, genesis_registered = None \<rparr> sp_empty = Returns s \<and>
     (\<exists>t. get_terms_and_conditions s = Some t \<and> length (tc_url t) \<le> MAX_URL_SIZE)"
proof -
  obtain s :: "bytes sp_state" where s:
    "sp_genesis_build (terms_genesis_default 32) \<lparr> genesis_permissioned = Some 7, genesis_registered = None \<rparr> sp_empty = Returns s"
    by (simp add: sp_genesis_build_def terms_genesis_default_def Let_def DEFAULT_TERMS_AND_CONDITIONS_URL_def
        bounded_vec_try_from_def MAX_URL_SIZE_def)
  from terms_always_defined [OF s, of "[] :: (nat, nat, bytes) sp_input list"] s show ?thesis by simp
qed

text \<open>
  The events tell the whole story: replaying the events of any sequence of calls from the
  storage before it gives the terms and the D-parameter after it.
\<close>
theorem parameters_follow_events:
  "\<exists>evs. sp_events (fold sp_exec xs s) = sp_events s @ evs \<and>
     fold replay_event evs (terms_storage s, d_parameter_storage s) =
       (terms_storage (fold sp_exec xs s), d_parameter_storage (fold sp_exec xs s))"
proof -
  have "replays_to s s" by (simp add: replays_to_def)
  then show ?thesis using replays_to_fold [of s s xs] by (simp add: replays_to_def)
qed

text \<open>
  C25: governance, not Cardano, sets the D-parameter: the committee is selected with the values of
  the last update, whatever D-parameter the observed inputs carry.
\<close>
theorem selection_uses_governed_d_parameter:
  assumes "update_d_parameter origin p r s = (s', Inr u)"
  shows "select_authorities_optionally_overriding select genesis_utxo s'
      \<lparr> input_d_parameter = observed, input_candidates = candidates \<rparr> epoch =
    select genesis_utxo
      \<lparr> input_d_parameter = \<lparr> num_permissioned_candidates = p, num_registered_candidates = r \<rparr>,
        input_candidates = candidates \<rparr> epoch"
  using assms
  by (cases observed) (simp add: update_d_parameter_ok select_authorities_optionally_overriding_def get_d_parameter_def sp_deposit_def)

theorem selection_uses_governed_d_parameter_witness:
  "\<exists>s'. update_d_parameter (Root :: (nat, nat) raw_origin) 3 1 (sp_empty :: bytes sp_state) = (s', Inr ()) \<and>
     select_authorities_optionally_overriding (\<lambda>g i e. Some (unat (num_permissioned_candidates (input_d_parameter i)))) () s'
       \<lparr> input_d_parameter = \<lparr> num_permissioned_candidates = 9, num_registered_candidates = 9 \<rparr>, input_candidates = () \<rparr> 5 = Some 3"
proof -
  obtain s' where run: "update_d_parameter (Root :: (nat, nat) raw_origin) 3 1 (sp_empty :: bytes sp_state) = (s', Inr ())"
    by (simp add: update_d_parameter_ok)
  with selection_uses_governed_d_parameter
    [OF run, of "\<lambda>g i e. Some (unat (num_permissioned_candidates (input_d_parameter i)))"]
  show ?thesis by simp
qed

end
