(* ===== verification/Throttle.thy ===== *)
theory Throttle
  imports Node_Prelude
begin

text \<open>
  The pallet \<^verbatim>\<open>pallets/throttle\<close>: a transaction extension that limits the bytes of signed
  transactions per account.  \<^verbatim>\<open>validate\<close> refuses a transaction over the limit of the window,
  \<^verbatim>\<open>prepare\<close> records it.  The node applies both, in this order, to every extrinsic of a block;
  \<^verbatim>\<open>throttle_run\<close> is this sequence, together with the log of what was let through.
\<close>

section \<open>The extension\<close>

record throttle_config =
  MaxBytes :: u64
  WindowSize :: u32

type_synonym 'acc account_usage = "'acc \<Rightarrow> u64 \<times> u32"

definition empty_usage :: "'acc account_usage" where
  "empty_usage = (\<lambda>_. (0, 0))"

datatype throttle_error = ExhaustsResources

fun as_system_origin_signer :: "('acc, 'o) raw_origin \<Rightarrow> 'acc option" where
  "as_system_origin_signer (Signed who) = Some who"
| "as_system_origin_signer _ = None"

definition throttle_validate ::
  "throttle_config \<Rightarrow> 'acc account_usage \<Rightarrow> u32 \<Rightarrow> ('acc, 'o) raw_origin \<Rightarrow> u64 \<Rightarrow>
   (throttle_error, 'acc option) result" where
  "throttle_validate cfg usage current_block origin len =
     (case as_system_origin_signer origin of
        None \<Rightarrow> Inr None
      | Some who \<Rightarrow>
          (let (bytes_used, window_start) = usage who;
               effective_bytes = (if saturating_sub current_block window_start \<ge> WindowSize cfg then 0 else bytes_used);
               new_bytes = saturating_add effective_bytes len in
           if new_bytes > MaxBytes cfg then Inl ExhaustsResources else Inr (Some who)))"

definition throttle_prepare ::
  "throttle_config \<Rightarrow> u32 \<Rightarrow> 'acc option \<Rightarrow> u64 \<Rightarrow> 'acc account_usage \<Rightarrow> 'acc account_usage" where
  "throttle_prepare cfg current_block val len usage =
     (case val of
        None \<Rightarrow> usage
      | Some who \<Rightarrow>
          (let (bytes_used, window_start) = usage who;
               (bytes_used, window_start) =
                 (if saturating_sub current_block window_start \<ge> WindowSize cfg then (0, current_block)
                  else (bytes_used, window_start)) in
           usage(who := (saturating_add bytes_used len, window_start))))"

section \<open>Runs\<close>

type_synonym ('acc, 'o) submission = "u32 \<times> ('acc, 'o) raw_origin \<times> u64"

fun throttle_step ::
  "throttle_config \<Rightarrow> ('acc, 'o) submission \<Rightarrow> 'acc account_usage \<times> ('acc, 'o) submission list \<Rightarrow>
   'acc account_usage \<times> ('acc, 'o) submission list" where
  "throttle_step cfg (block, origin, len) (usage, log) =
     (case throttle_validate cfg usage block origin len of
        Inl _ \<Rightarrow> (usage, log)
      | Inr val \<Rightarrow> (throttle_prepare cfg block val len usage, log @ [(block, origin, len)]))"

definition throttle_run ::
  "throttle_config \<Rightarrow> ('acc, 'o) submission list \<Rightarrow> 'acc account_usage \<times> ('acc, 'o) submission list" where
  "throttle_run cfg subs = fold (throttle_step cfg) subs (empty_usage, [])"

text \<open>The bytes of an account in the log, over the blocks that satisfy a predicate.\<close>

definition bytes_in :: "(nat \<Rightarrow> bool) \<Rightarrow> 'acc \<Rightarrow> ('acc, 'o) submission list \<Rightarrow> nat" where
  "bytes_in P who log =
     sum_list (map (\<lambda>(b, o', len). unat len) (filter (\<lambda>(b, o', len). P (unat b) \<and> o' = Signed who) log))"

definition account_inv :: "throttle_config \<Rightarrow> u64 \<times> u32 \<Rightarrow> 'acc \<Rightarrow> ('acc, 'o) submission list \<Rightarrow> bool" where
  "account_inv cfg use who log \<longleftrightarrow>
     (let w = unat (snd use); m = unat (MaxBytes cfg); n = unat (WindowSize cfg) in
      bytes_in (\<lambda>b. w \<le> b) who log = unat (fst use) \<and> unat (fst use) \<le> m \<and>
      bytes_in (\<lambda>b. w + n \<le> b) who log = 0 \<and>
      (\<forall>lo. w \<le> lo + n \<longrightarrow> bytes_in (\<lambda>b. lo \<le> b \<and> b < w) who log \<le> m) \<and>
      (\<forall>lo. bytes_in (\<lambda>b. lo \<le> b \<and> b < lo + n) who log \<le> 2 * m))"

definition throttle_inv ::
  "throttle_config \<Rightarrow> nat \<Rightarrow> 'acc account_usage \<times> ('acc, 'o) submission list \<Rightarrow> bool" where
  "throttle_inv cfg now st \<longleftrightarrow>
     (\<forall>who. account_inv cfg (fst st who) who (snd st) \<and> unat (snd (fst st who)) \<le> now)"

text \<open>The effect of one transaction of an account on its usage, with numbers instead of words.\<close>

definition window_of :: "throttle_config \<Rightarrow> nat \<Rightarrow> u64 \<times> u32 \<Rightarrow> nat \<times> nat" where
  "window_of cfg now use =
     (if unat (WindowSize cfg) \<le> now - unat (snd use) then (0, now) else (unat (fst use), unat (snd use)))"

definition demo_throttle :: throttle_config where
  "demo_throttle = \<lparr> MaxBytes = 100, WindowSize = 10 \<rparr>"

section \<open>Lemmas\<close>

lemma bytes_in_append [simp]: "bytes_in P who (xs @ ys) = bytes_in P who xs + bytes_in P who ys"
  by (simp add: bytes_in_def)

lemma bytes_in_Nil [simp]: "bytes_in P who [] = 0"
  by (simp add: bytes_in_def)

lemma bytes_in_Cons [simp]:
  "bytes_in P who ((b, o', len) # log) =
     (if P (unat b) \<and> o' = Signed who then unat len else 0) + bytes_in P who log"
  by (simp add: bytes_in_def)

lemma bytes_in_mono: "(\<And>b. P b \<Longrightarrow> Q b) \<Longrightarrow> bytes_in P who log \<le> bytes_in Q who log"
proof (induction log)
  case (Cons x log)
  obtain b o' len where "x = (b, o', len)" by (cases x)
  with Cons show ?case by auto
qed simp

lemma bytes_in_split:
  "bytes_in P who log = bytes_in (\<lambda>b. P b \<and> b < w) who log + bytes_in (\<lambda>b. P b \<and> w \<le> b) who log"
proof (induction log)
  case (Cons x log)
  obtain b o' len where "x = (b, o', len)" by (cases x)
  with Cons show ?case by auto
qed simp

lemma validate_signed:
  "throttle_validate cfg usage block (Signed who) len = Inr val \<longleftrightarrow>
     val = Some who \<and>
     min (fst (window_of cfg (unat block) (usage who)) + unat len) (2 ^ 64 - 1) \<le> unat (MaxBytes cfg)"
  by (cases "usage who")
    (auto simp: throttle_validate_def window_of_def Let_def word_le_nat_alt word_less_nat_alt not_less
      unat_saturating_sub unat_saturating_add)

lemma prepare_signed:
  "unat (fst (throttle_prepare cfg block (Some who) len usage who)) =
     min (fst (window_of cfg (unat block) (usage who)) + unat len) (2 ^ 64 - 1)"
  "unat (snd (throttle_prepare cfg block (Some who) len usage who)) = snd (window_of cfg (unat block) (usage who))"
  "a \<noteq> who \<Longrightarrow> throttle_prepare cfg block (Some who) len usage a = usage a"
  by (cases "usage who";
      auto simp: throttle_prepare_def window_of_def Let_def word_le_nat_alt unat_saturating_sub unat_saturating_add)+

lemma account_inv_other:
  "o' \<noteq> Signed who \<Longrightarrow> account_inv cfg use who (log @ [(block, o', len)]) = account_inv cfg use who log"
  by (simp add: account_inv_def)

lemma account_inv_step:
  assumes inv: "account_inv cfg use who log" and now: "unat (snd use) \<le> unat block"
    and n: "0 < unat (WindowSize cfg)"
    and win: "window_of cfg (unat block) use = (e, w)"
    and use': "unat (fst use') = e + unat len" "unat (snd use') = w"
    and bound: "e + unat len \<le> unat (MaxBytes cfg)"
  shows "account_inv cfg use' who (log @ [(block, Signed who, len)])"
proof (cases "unat (WindowSize cfg) \<le> unat block - unat (snd use)")
  case True
  let ?B = "unat block" and ?w = "unat (snd use)" and ?n = "unat (WindowSize cfg)" and ?m = "unat (MaxBytes cfg)"
  from True win have ew: "e = 0" "w = ?B" by (auto simp: window_of_def)
  from True n have B: "?w + ?n \<le> ?B" by linarith
  from inv have cur: "bytes_in (\<lambda>b. ?w \<le> b) who log \<le> ?m"
    and later: "bytes_in (\<lambda>b. ?w + ?n \<le> b) who log = 0"
    and two: "\<And>lo. bytes_in (\<lambda>b. lo \<le> b \<and> b < lo + ?n) who log \<le> 2 * ?m"
    by (auto simp: account_inv_def Let_def)
  have none: "bytes_in P who log = 0" if P: "\<And>b. P b \<Longrightarrow> ?B \<le> b" for P
  proof -
    have "bytes_in P who log \<le> bytes_in (\<lambda>b. ?w + ?n \<le> b) who log"
      by (rule bytes_in_mono) (use P B in \<open>force intro: le_trans\<close>)
    with later show ?thesis by simp
  qed
  have prev: "bytes_in (\<lambda>b. lo \<le> b \<and> b < ?B) who log \<le> ?m" if "?B \<le> lo + ?n" for lo
    by (rule order_trans [OF bytes_in_mono cur]) (use that B in linarith)
  have roll: "bytes_in (\<lambda>b. lo \<le> b \<and> b < lo + ?n) who log + unat len \<le> 2 * ?m"
    if lo: "lo \<le> ?B" "?B < lo + ?n" for lo
  proof -
    have "bytes_in (\<lambda>b. (lo \<le> b \<and> b < lo + ?n) \<and> b < ?B) who log \<le> ?m"
      by (rule order_trans [OF bytes_in_mono prev [of lo]]) (use lo in auto)
    moreover have "bytes_in (\<lambda>b. (lo \<le> b \<and> b < lo + ?n) \<and> ?B \<le> b) who log = 0"
      by (rule none) simp
    ultimately show ?thesis
      using bytes_in_split [of "\<lambda>b. lo \<le> b \<and> b < lo + ?n" who log ?B] bound ew by linarith
  qed
  show ?thesis
    unfolding account_inv_def Let_def use' ew(2)
    using bound ew(1) n none [of "\<lambda>b. ?B \<le> b"] none [of "\<lambda>b. ?B + ?n \<le> b"] prev two roll
    by (intro conjI allI impI) simp_all
next
  case False
  let ?B = "unat block" and ?w = "unat (snd use)" and ?n = "unat (WindowSize cfg)" and ?m = "unat (MaxBytes cfg)"
  from False win have ew: "e = unat (fst use)" "w = ?w" by (auto simp: window_of_def)
  from False now have B: "?B < ?w + ?n" by linarith
  from inv have cur: "bytes_in (\<lambda>b. ?w \<le> b) who log = unat (fst use)"
    and prev: "\<And>lo. ?w \<le> lo + ?n \<Longrightarrow> bytes_in (\<lambda>b. lo \<le> b \<and> b < ?w) who log \<le> ?m"
    and two: "\<And>lo. bytes_in (\<lambda>b. lo \<le> b \<and> b < lo + ?n) who log \<le> 2 * ?m"
    by (auto simp: account_inv_def Let_def)
  have roll: "bytes_in (\<lambda>b. lo \<le> b \<and> b < lo + ?n) who log + unat len \<le> 2 * ?m"
    if lo: "lo \<le> ?B" "?B < lo + ?n" for lo
  proof -
    have "bytes_in (\<lambda>b. (lo \<le> b \<and> b < lo + ?n) \<and> b < ?w) who log \<le> ?m"
      by (rule order_trans [OF bytes_in_mono prev [of lo]]) (use lo now in auto)
    moreover have "bytes_in (\<lambda>b. (lo \<le> b \<and> b < lo + ?n) \<and> ?w \<le> b) who log \<le> unat (fst use)"
      by (rule order_trans [OF bytes_in_mono eq_refl [OF cur]]) simp
    ultimately show ?thesis
      using bytes_in_split [of "\<lambda>b. lo \<le> b \<and> b < lo + ?n" who log ?w] bound ew by linarith
  qed
  show ?thesis
    unfolding account_inv_def Let_def use' ew
    using inv [unfolded account_inv_def Let_def] bound ew(1) B now two roll
    by (intro conjI allI impI) simp_all
qed

lemma throttle_inv_init: "throttle_inv cfg 0 (empty_usage, [])"
  by (simp add: throttle_inv_def account_inv_def empty_usage_def Let_def)

lemma throttle_inv_step:
  assumes inv: "throttle_inv cfg now st" and now: "now \<le> unat block"
    and n: "0 < unat (WindowSize cfg)" and m: "unat (MaxBytes cfg) < 2 ^ 64 - 1"
  shows "throttle_inv cfg (unat block) (throttle_step cfg (block, origin, len) st)"
proof -
  obtain usage log where st: "st = (usage, log)" by (cases st)
  from inv now have each: "account_inv cfg (usage a) a log" "unat (snd (usage a)) \<le> unat block" for a
    unfolding throttle_inv_def st by (auto intro: le_trans)
  show ?thesis
  proof (cases "throttle_validate cfg usage block origin len")
    case (Inl e)
    with each show ?thesis by (simp add: st throttle_inv_def)
  next
    case (Inr val)
    show ?thesis
    proof (cases "as_system_origin_signer origin")
      case None
      with Inr have "val = None" by (simp add: throttle_validate_def)
      moreover have "origin \<noteq> Signed a" for a using None by auto
      ultimately show ?thesis
        using Inr each by (simp add: st throttle_inv_def throttle_prepare_def account_inv_other)
    next
      case (Some who)
      then have origin: "origin = Signed who" by (cases origin) simp_all
      obtain e w where win: "window_of cfg (unat block) (usage who) = (e, w)"
        by (cases "window_of cfg (unat block) (usage who)")
      from Inr origin win have val: "val = Some who" and
        min: "min (e + unat len) (2 ^ 64 - 1) \<le> unat (MaxBytes cfg)" by (simp_all add: validate_signed)
      from min m have bound: "e + unat len \<le> unat (MaxBytes cfg)" by linarith
      let ?usage = "throttle_prepare cfg block (Some who) len usage"
      have u: "unat (fst (?usage who)) = e + unat len" "unat (snd (?usage who)) = w"
        using prepare_signed(1,2) [of cfg block who len usage] win bound m by simp_all
      have "w \<le> unat block" using win each(2) [of who] by (auto simp: window_of_def split: if_splits)
      with u have "unat (snd (?usage a)) \<le> unat block" for a
        using each(2) [of a] by (cases "a = who") (simp_all add: prepare_signed(3))
      moreover have "account_inv cfg (?usage a) a (log @ [(block, Signed who, len)])" for a
        using account_inv_step [OF each n win u bound] each(1) [of a]
        by (cases "a = who") (simp_all add: prepare_signed(3) account_inv_other)
      ultimately show ?thesis using Inr val origin by (simp add: st throttle_inv_def)
    qed
  qed
qed

lemma throttle_inv_run:
  assumes n: "0 < unat (WindowSize cfg)" and m: "unat (MaxBytes cfg) < 2 ^ 64 - 1"
    and "throttle_inv cfg now st" and "sorted (map fst subs)" and "\<forall>x \<in> set subs. now \<le> unat (fst x)"
  shows "\<exists>later. throttle_inv cfg later (fold (throttle_step cfg) subs st)"
  using assms(3-5)
proof (induction subs arbitrary: now st)
  case (Cons x subs)
  obtain block origin len where x: "x = (block, origin, len)" by (cases x)
  have "throttle_inv cfg (unat block) (throttle_step cfg x st)"
    using throttle_inv_step [OF Cons.prems(1) _ n m] Cons.prems(3) x by simp
  moreover have "\<forall>y \<in> set subs. unat block \<le> unat (fst y)"
    using Cons.prems(2) x by (auto simp: word_le_nat_alt)
  ultimately show ?case using Cons.IH [of "unat block" "throttle_step cfg x st"] Cons.prems(2) by simp
qed auto

section \<open>Properties\<close>

text \<open>
  C24: no account gets more than twice the limit through in any \<^verbatim>\<open>WindowSize\<close> consecutive blocks, and
  within the window recorded for it never more than the limit, whatever is submitted.
\<close>
theorem throttle_bounds_bytes:
  assumes "0 < unat (WindowSize cfg)" and "unat (MaxBytes cfg) < 2 ^ 64 - 1" and "sorted (map fst subs)"
    and "throttle_run cfg subs = (usage, log)"
  shows "bytes_in (\<lambda>b. lo \<le> b \<and> b < lo + unat (WindowSize cfg)) who log \<le> 2 * unat (MaxBytes cfg) \<and>
    bytes_in (\<lambda>b. unat (snd (usage who)) \<le> b) who log \<le> unat (MaxBytes cfg)"
proof -
  obtain later where "throttle_inv cfg later (usage, log)"
    using throttle_inv_run [OF assms(1,2) throttle_inv_init assms(3)] assms(4)
    by (auto simp: throttle_run_def)
  then show ?thesis by (simp add: throttle_inv_def account_inv_def Let_def)
qed

text \<open>
  The window is not a rolling one.  An account can get nearly twice the limit through within
  ten consecutive blocks of a ten block window: the window starts with its first transaction and
  the count is forgotten as a whole when it has passed.
\<close>
theorem throttle_window_tumbles:
  "let subs = [(10, Signed 1, 1), (19, Signed 1, 99), (20, Signed 1, 100)] :: (nat, nat) submission list in
   snd (throttle_run demo_throttle subs) = subs \<and>
   bytes_in (\<lambda>b. 11 \<le> b \<and> b < 11 + unat (WindowSize demo_throttle)) 1 (snd (throttle_run demo_throttle subs)) = 199 \<and>
   199 > unat (MaxBytes demo_throttle)"
  by (simp add: throttle_run_def throttle_validate_def throttle_prepare_def empty_usage_def
      demo_throttle_def saturating_sub_def saturating_add_def Let_def word_le_nat_alt word_less_nat_alt)

theorem throttle_bounds_bytes_witness:
  "bytes_in (\<lambda>b. 11 \<le> b \<and> b < 21) 1
     (snd (throttle_run demo_throttle ([(10, Signed 1, 1), (19, Signed 1, 99), (20, Signed 1, 100)] :: (nat, nat) submission list))) \<le> 200"
proof -
  let ?subs = "[(10, Signed 1, 1), (19, Signed 1, 99), (20, Signed 1, 100)] :: (nat, nat) submission list"
  have run: "throttle_run demo_throttle ?subs = (fst (throttle_run demo_throttle ?subs), snd (throttle_run demo_throttle ?subs))"
    by simp
  have "sorted (map fst ?subs)" by (simp add: word_le_nat_alt)
  from throttle_bounds_bytes [OF _ _ this run, of 11 1] show ?thesis by (simp add: demo_throttle_def)
qed

text \<open>
  A throttled account is not locked out: once \<^verbatim>\<open>WindowSize\<close> blocks have passed since the window
  of an account started, it can submit any transaction that fits the limit by itself.
\<close>
theorem throttle_recovers:
  assumes "unat (snd (usage who)) + unat (WindowSize cfg) \<le> unat block" and "len \<le> MaxBytes cfg"
  shows "throttle_validate cfg usage block (Signed who) len = Inr (Some who)"
proof -
  have "unat (WindowSize cfg) \<le> unat block - unat (snd (usage who))" using assms(1) by linarith
  then have "fst (window_of cfg (unat block) (usage who)) = 0" by (simp add: window_of_def)
  then show ?thesis using assms(2) by (simp add: validate_signed word_le_nat_alt)
qed

theorem throttle_recovers_witness:
  "throttle_validate demo_throttle ((\<lambda>_. (100, 5)) :: nat account_usage) 15 (Signed 1 :: (nat, nat) raw_origin) 100 = Inr (Some 1)"
  by (rule throttle_recovers) (simp_all add: demo_throttle_def)

end
