(* ===== verification/Runtime_Policy.thy ===== *)
theory Runtime_Policy
  imports Throttle
begin

text \<open>
  What the runtime adds around the pallets: the call filter for signed extrinsics
  (\<^verbatim>\<open>runtime/src/check_call_filter.rs\<close>) with the throttle behind it, the session manager
  (\<^verbatim>\<open>runtime/src/session_manager.rs\<close>), the BEEFY authority sets (\<^verbatim>\<open>runtime/src/beefy.rs\<close>) and the
  version digest (\<^verbatim>\<open>pallets/version\<close>).  The committee pallet, the Merkle root and the keys of
  the Partner Chains toolkit and of Substrate are parameters.
\<close>

section \<open>Signed extrinsics\<close>

datatype federated_authority_call = CallMotionApprove | CallMotionRevoke | CallMotionClose

datatype system_call = ApplyAuthorizedUpgrade | OtherSystemCall

datatype runtime_call =
    CallCouncil
  | CallTechnicalCommittee
  | CallFederatedAuthority federated_authority_call
  | CallSystem system_call
  | CallOtherPallet nat

fun governance_call_filter :: "runtime_call \<Rightarrow> bool" where
  "governance_call_filter CallCouncil = True"
| "governance_call_filter CallTechnicalCommittee = True"
| "governance_call_filter (CallFederatedAuthority c) = (c = CallMotionClose)"
| "governance_call_filter (CallSystem c) = (c = ApplyAuthorizedUpgrade)"
| "governance_call_filter (CallOtherPallet _) = False"

datatype extension_error = InvalidCall | Throttled throttle_error

definition check_call_filter :: "runtime_call \<Rightarrow> (extension_error, unit) result" where
  "check_call_filter call = (if governance_call_filter call then Inr () else Inl InvalidCall)"

text \<open>The two extensions of \<^verbatim>\<open>SignedExtra\<close> that belong to the repository, in their order.\<close>

definition signed_extra_validate ::
  "throttle_config \<Rightarrow> 'acc account_usage \<Rightarrow> u32 \<Rightarrow> ('acc, 'o) raw_origin \<Rightarrow> runtime_call \<Rightarrow> u64 \<Rightarrow>
   (extension_error, 'acc option) result" where
  "signed_extra_validate cfg usage block origin call len =
     and_then (check_call_filter call) (\<lambda>_. map_err Throttled (throttle_validate cfg usage block origin len))"

fun admit_step ::
  "throttle_config \<Rightarrow> u32 \<times> ('acc, 'o) raw_origin \<times> u64 \<times> runtime_call \<Rightarrow>
   'acc account_usage \<times> (('acc, 'o) submission \<times> runtime_call) list \<Rightarrow>
   'acc account_usage \<times> (('acc, 'o) submission \<times> runtime_call) list" where
  "admit_step cfg (block, origin, len, call) (usage, log) =
     (case signed_extra_validate cfg usage block origin call len of
        Inl _ \<Rightarrow> (usage, log)
      | Inr val \<Rightarrow> (throttle_prepare cfg block val len usage, log @ [((block, origin, len), call)]))"

definition admit_all ::
  "throttle_config \<Rightarrow> (u32 \<times> ('acc, 'o) raw_origin \<times> u64 \<times> runtime_call) list \<Rightarrow>
   'acc account_usage \<times> (('acc, 'o) submission \<times> runtime_call) list" where
  "admit_all cfg xs = fold (admit_step cfg) xs (empty_usage, [])"

definition runtime_throttle :: throttle_config where
  "runtime_throttle = \<lparr> MaxBytes = 10 * 1024 * 1024, WindowSize = 14400 \<rparr>"

section \<open>Sessions\<close>

record ('epoch, 'member) committee_info =
  committee_epoch :: 'epoch
  committee :: "'member list"

record ('epoch, 'member) committee_store =
  current_committee :: "('epoch, 'member) committee_info"
  next_committee :: "('epoch, 'member) committee_info option"

definition session_keys_of :: "('member \<Rightarrow> 'id) \<Rightarrow> ('member \<Rightarrow> 'keys) \<Rightarrow> 'member list \<Rightarrow> ('id \<times> 'keys) list" where
  "session_keys_of authority_id authority_keys ms = map (\<lambda>m. (authority_id m, authority_keys m)) ms"

definition new_session_genesis ::
  "('member \<Rightarrow> 'id) \<Rightarrow> ('member \<Rightarrow> 'keys) \<Rightarrow> ('epoch, 'member) committee_store \<Rightarrow> ('id \<times> 'keys) list option" where
  "new_session_genesis authority_id authority_keys st =
     Some (session_keys_of authority_id authority_keys (committee (current_committee st)))"

definition new_session ::
  "('member \<Rightarrow> 'id) \<Rightarrow> ('member \<Rightarrow> 'keys) \<Rightarrow>
   (('epoch, 'member) committee_store \<Rightarrow> ('epoch, 'member) committee_store \<times> 'member list option) \<Rightarrow>
   ('epoch, 'member) committee_store \<Rightarrow> (('epoch, 'member) committee_store \<times> ('id \<times> 'keys) list option) outcome" where
  "new_session authority_id authority_keys rotate_committee st =
     (case rotate_committee st of
        (st', None) \<Rightarrow> Panics ''Session should never end without current epoch validators defined. Check ShouldEndSession implementation or if it is used before starting new session''
      | (st', Some ms) \<Rightarrow> Returns (st', Some (session_keys_of authority_id authority_keys ms)))"

definition should_end_session :: "'epoch::linorder \<Rightarrow> ('epoch, 'member) committee_store \<Rightarrow> bool" where
  "should_end_session current_epoch st \<longleftrightarrow>
     current_epoch > committee_epoch (current_committee st) \<and> next_committee st \<noteq> None"

text \<open>The session pallet asks at the start of a block, and rotates only when told to.\<close>

definition session_block ::
  "('member \<Rightarrow> 'id) \<Rightarrow> ('member \<Rightarrow> 'keys) \<Rightarrow>
   (('epoch::linorder, 'member) committee_store \<Rightarrow> ('epoch, 'member) committee_store \<times> 'member list option) \<Rightarrow>
   'epoch \<Rightarrow> ('epoch, 'member) committee_store \<Rightarrow>
   (('epoch, 'member) committee_store \<times> ('id \<times> 'keys) list option) outcome" where
  "session_block authority_id authority_keys rotate_committee epoch st =
     (if should_end_session epoch st then new_session authority_id authority_keys rotate_committee st
      else Returns (st, None))"

section \<open>BEEFY authority sets\<close>

datatype ('xid, 'k) committee_member = Permissioned 'xid 'k | Registered 'xid 'k

fun member_id :: "('xid, 'k) committee_member \<Rightarrow> 'xid" where
  "member_id (Permissioned i _) = i"
| "member_id (Registered i _) = i"

definition are_ids_equal :: "('xid \<Rightarrow> 'bid) \<Rightarrow> 'xid \<Rightarrow> 'bid \<Rightarrow> bool" where
  "are_ids_equal to_beefy committee_id validator = (to_beefy committee_id = validator)"

fun position :: "('a \<Rightarrow> bool) \<Rightarrow> 'a list \<Rightarrow> nat option" where
  "position p [] = None"
| "position p (x # xs) = (if p x then Some 0 else map_option Suc (position p xs))"

definition remove_at :: "nat \<Rightarrow> 'a list \<Rightarrow> 'a list" where
  "remove_at i xs = take i xs @ drop (Suc i) xs"

fun compute_beefy_stakes_loop ::
  "('xid \<Rightarrow> 'bid) \<Rightarrow> 'bid list \<Rightarrow> ('xid, 'k) committee_member list \<Rightarrow> ('bid \<times> u64) list \<Rightarrow> ('bid \<times> u64) list" where
  "compute_beefy_stakes_loop to_beefy [] ms acc = acc"
| "compute_beefy_stakes_loop to_beefy (v # vs) ms acc =
     (case position (\<lambda>m. are_ids_equal to_beefy (member_id m) v) ms of
        Some pos \<Rightarrow> compute_beefy_stakes_loop to_beefy vs (remove_at pos ms) (acc @ [(v, 1)])
      | None \<Rightarrow> compute_beefy_stakes_loop to_beefy vs ms (acc @ [(v, 1)]))"

definition compute_beefy_stakes ::
  "('xid \<Rightarrow> 'bid) \<Rightarrow> 'bid list \<Rightarrow> ('epoch, ('xid, 'k) committee_member) committee_info \<Rightarrow> ('bid \<times> u64) list" where
  "compute_beefy_stakes to_beefy validators info = compute_beefy_stakes_loop to_beefy validators (committee info) []"

record 'h beefy_authority_set =
  set_id :: u64
  set_len :: u32
  keyset_commitment :: 'h

definition compute_authority_set ::
  "('bid \<Rightarrow> bytes) \<Rightarrow> (bytes list \<Rightarrow> 'h) \<Rightarrow> u64 \<Rightarrow> ('bid \<times> u64) list \<Rightarrow> 'h beefy_authority_set" where
  "compute_authority_set to_leaf merkle_root i stakes =
     \<lparr> set_id = i, set_len = of_nat (length stakes),
       keyset_commitment = merkle_root (map (\<lambda>(b, stake). to_leaf b @ u64_le_bytes stake) stakes) \<rparr>"

record ('xid, 'bid, 'k, 'epoch, 'h) beefy_state =
  beefy_committees :: "('epoch, ('xid, 'k) committee_member) committee_store"
  beefy_validators :: "'bid list"
  beefy_next_validators :: "'bid list"
  validator_set_id :: u64
  beefy_authorities :: "'h beefy_authority_set"
  beefy_next_authorities :: "'h beefy_authority_set"

record ('xid, 'bid, 'h) beefy_env =
  xchain_public_to_beefy :: "'xid \<Rightarrow> 'bid"
  authority_to_merkle_leaf :: "'bid \<Rightarrow> bytes"
  merkle_root :: "bytes list \<Rightarrow> 'h"
  zero_commitment :: 'h

definition current_beefy_stakes where
  "current_beefy_stakes env validators st =
     compute_beefy_stakes (xchain_public_to_beefy env)
       (case validators of Some vs \<Rightarrow> vs | None \<Rightarrow> beefy_validators st)
       (current_committee (beefy_committees st))"

definition next_beefy_stakes ::
  "('xid, 'bid, 'h) beefy_env \<Rightarrow> 'bid list option \<Rightarrow> ('xid, 'bid, 'k, 'epoch, 'h) beefy_state \<Rightarrow>
   ('xid, 'bid, 'k, 'epoch, 'h) beefy_state \<times> ('bid \<times> u64) list option" where
  "next_beefy_stakes env validators st =
     (let vs = (case validators of Some vs \<Rightarrow> vs | None \<Rightarrow> beefy_next_validators st) in
      case next_committee (beefy_committees st) of
        None \<Rightarrow> (st, None)
      | Some info \<Rightarrow>
          (let stakes = compute_beefy_stakes (xchain_public_to_beefy env) vs info;
               st' = (if keyset_commitment (beefy_next_authorities st) = zero_commitment env
                      then st\<lparr> beefy_next_authorities :=
                        compute_authority_set (authority_to_merkle_leaf env) (merkle_root env)
                          (validator_set_id st + 1) stakes \<rparr>
                      else st) in
           (st', Some stakes)))"

definition compute_current_authority_set where
  "compute_current_authority_set env stakes st =
     compute_authority_set (authority_to_merkle_leaf env) (merkle_root env) (set_id (beefy_authorities st)) stakes"

definition compute_next_authority_set where
  "compute_next_authority_set env stakes st =
     compute_authority_set (authority_to_merkle_leaf env) (merkle_root env) (set_id (beefy_next_authorities st)) stakes"

definition on_new_validator_set ::
  "('xid, 'bid, 'h) beefy_env \<Rightarrow> u64 \<times> 'bid list \<Rightarrow> u64 \<times> 'bid list \<Rightarrow> ('xid, 'bid, 'k, 'epoch, 'h) beefy_state \<Rightarrow>
   ('xid, 'bid, 'k, 'epoch, 'h) beefy_state" where
  "on_new_validator_set env validator_set next_validator_set st =
     (let stakes = current_beefy_stakes env (Some (snd validator_set)) st;
          curr = compute_authority_set (authority_to_merkle_leaf env) (merkle_root env) (fst validator_set) stakes;
          (st1, next_stakes) = next_beefy_stakes env (Some (snd next_validator_set)) st;
          st2 = (case next_stakes of
                   Some ns \<Rightarrow> st1\<lparr> beefy_next_authorities :=
                     compute_authority_set (authority_to_merkle_leaf env) (merkle_root env) (fst next_validator_set) ns \<rparr>
                 | None \<Rightarrow> st1) in
      st2\<lparr> beefy_authorities := curr \<rparr>)"

section \<open>The version digest\<close>

datatype digest_item = Consensus bytes bytes | OtherDigest bytes bytes

definition VERSION_ID :: bytes where "VERSION_ID = map (\<lambda>c. of_nat (of_char c)) ''MNSV''"

definition version_on_initialize :: "u32 \<Rightarrow> digest_item list \<Rightarrow> digest_item list" where
  "version_on_initialize spec_version logs = logs @ [Consensus VERSION_ID (u32_le_bytes spec_version)]"

definition decode_version :: "digest_item \<Rightarrow> u32 option" where
  "decode_version item =
     (case item of Consensus i bs \<Rightarrow> if i = VERSION_ID then u32_of_le_bytes bs else None | OtherDigest _ _ \<Rightarrow> None)"

definition demo_rotate :: "(nat, nat) committee_store \<Rightarrow> (nat, nat) committee_store \<times> nat list option" where
  "demo_rotate st =
     (case next_committee st of
        None \<Rightarrow> (st, None)
      | Some c \<Rightarrow> (st\<lparr> current_committee := c, next_committee := None \<rparr>, Some (committee c)))"

definition demo_committees :: "(nat, nat) committee_store" where
  "demo_committees = \<lparr> current_committee = \<lparr> committee_epoch = 5, committee = [1] \<rparr>,
     next_committee = Some \<lparr> committee_epoch = 6, committee = [2, 3] \<rparr> \<rparr>"

section \<open>Lemmas\<close>

lemma compute_beefy_stakes_loop_eq:
  "compute_beefy_stakes_loop to_beefy vs ms acc = acc @ map (\<lambda>v. (v, 1)) vs"
  by (induction to_beefy vs ms acc rule: compute_beefy_stakes_loop.induct) (auto split: option.splits)

text \<open>Admission is the throttle on the extrinsics the filter lets through.\<close>

lemma admit_fold_throttle:
  "\<exists>u l. fold (admit_step cfg) xs (usage, log) = (u, l) \<and>
     fold (throttle_step cfg) (map (\<lambda>(b, o', n, c). (b, o', n)) (filter (\<lambda>(b, o', n, c). governance_call_filter c) xs))
       (usage, map fst log) = (u, map fst l) \<and>
     list_all (\<lambda>(sub, c). governance_call_filter c) l"
  if "list_all (\<lambda>(sub, c). governance_call_filter c) log"
  using that
proof (induction xs arbitrary: usage log)
  case (Cons x xs)
  obtain block origin len call where x: "x = (block, origin, len, call)" by (cases x)
  show ?case
  proof (cases "signed_extra_validate cfg usage block origin call len")
    case (Inl e)
    then have "throttle_step cfg (block, origin, len) (usage, map fst log) = (usage, map fst log)"
      if "governance_call_filter call"
      using that by (auto simp: signed_extra_validate_def check_call_filter_def split: sum.splits)
    with Inl Cons.IH [of log usage] Cons.prems x show ?thesis by auto
  next
    case (Inr val)
    then have call: "governance_call_filter call" and ok: "throttle_validate cfg usage block origin len = Inr val"
      by (auto simp: signed_extra_validate_def check_call_filter_def split: if_splits)
    with Inr Cons.IH [of "log @ [((block, origin, len), call)]" "throttle_prepare cfg block val len usage"] Cons.prems x
    show ?thesis by auto
  qed
qed simp

section \<open>Properties\<close>



text \<open>
  C27: the intended panic of \<^verbatim>\<open>new_session\<close> is unreachable: if rotating the committee succeeds whenever
  a next committee is stored, no block panics, and a session ends only in a later epoch than that
  of the current committee.
\<close>
theorem sessions_never_panic:
  assumes "\<And>st. next_committee st \<noteq> None \<Longrightarrow> snd (rotate_committee st) \<noteq> None"
  shows "\<exists>st' keys. session_block authority_id authority_keys rotate_committee epoch st = Returns (st', keys) \<and>
    (keys \<noteq> None \<longrightarrow> committee_epoch (current_committee st) < epoch)"
proof (cases "should_end_session epoch st")
  case True
  then have "snd (rotate_committee st) \<noteq> None" using assms by (simp add: should_end_session_def)
  then obtain st' ms where "rotate_committee st = (st', Some ms)" by (cases "rotate_committee st") auto
  with True show ?thesis by (simp add: session_block_def new_session_def should_end_session_def)
qed (simp add: session_block_def)

theorem sessions_never_panic_witness:
  "\<exists>st' keys. session_block (\<lambda>m. m) (\<lambda>m. m) demo_rotate 7 demo_committees = Returns (st', keys)"
proof -
  have "\<And>st. next_committee st \<noteq> None \<Longrightarrow> snd (demo_rotate st) \<noteq> None" by (auto simp: demo_rotate_def)
  from sessions_never_panic [of demo_rotate "\<lambda>m. m" "\<lambda>m. m" 7 demo_committees, OF this]
  show ?thesis by fast
qed

text \<open>
  The BEEFY sets commit to the validator sets.  After \<^verbatim>\<open>on_new_validator_set\<close> the current set
  commits to the current validators with stake one, whatever the search through the committee
  finds; the next set commits to the next validators when a next committee is known, and is left
  as it was when none is.  The runtime API recomputes the current set from the stakes of the
  same validators.
\<close>
theorem beefy_sets_commit_to_validators:
  "let st' = on_new_validator_set env (i, vs) (j, ns) st;
       commit = (\<lambda>k us. compute_authority_set (authority_to_merkle_leaf env) (merkle_root env) k (map (\<lambda>v. (v, 1)) us)) in
   beefy_authorities st' = commit i vs \<and>
   beefy_next_authorities st' =
     (if next_committee (beefy_committees st) = None then beefy_next_authorities st else commit j ns) \<and>
   compute_current_authority_set env (current_beefy_stakes env (Some vs) st') st' = beefy_authorities st'"
  by (auto simp: compute_current_authority_set_def compute_authority_set_def on_new_validator_set_def current_beefy_stakes_def next_beefy_stakes_def Let_def
      compute_beefy_stakes_def compute_beefy_stakes_loop_eq split: option.splits)

text \<open>
  The version digest round-trips: the last digest item \<^verbatim>\<open>on_initialize\<close> leaves decodes to the
  spec version of the runtime that executed the block, for every version.
\<close>
theorem version_digest_roundtrip:
  "decode_version (last (version_on_initialize spec_version logs)) = Some spec_version"
  using u32_le_bytes_roundtrip [of spec_version "[]"]
  by (simp add: version_on_initialize_def decode_version_def)

end
