(* ===== verification/Beefy_Relay.thy ===== *)
theory Beefy_Relay
  imports Runtime_Policy
begin

text \<open>
  The BEEFY payload of the node (\<^verbatim>\<open>node/src/payload.rs\<close>) and the relay that turns signed commitments
  into proofs for Cardano (\<^verbatim>\<open>relay/src\<close>).  Payloads of \<^verbatim>\<open>sp-consensus-beefy\<close>, SCALE codecs, signature
  verification and the Merkle trees are parameters; \<^verbatim>\<open>payload_laws\<close>, \<^verbatim>\<open>codec_laws\<close> and \<^verbatim>\<open>merkle_agree\<close>
  say what is relied on.
\<close>

section \<open>Payloads\<close>

text \<open>The identifiers of the stakes are two ASCII characters: \<^verbatim>\<open>cs\<close>, \<^verbatim>\<open>cb\<close>, \<^verbatim>\<open>ns\<close> and \<^verbatim>\<open>nb\<close>.\<close>

type_synonym payload_id = bytes

definition CURRENT_BEEFY_STAKES_ID :: payload_id where "CURRENT_BEEFY_STAKES_ID = [99, 115]"
definition CURRENT_BEEFY_AUTHORITY_SET :: payload_id where "CURRENT_BEEFY_AUTHORITY_SET = [99, 98]"
definition NEXT_BEEFY_STAKES_ID :: payload_id where "NEXT_BEEFY_STAKES_ID = [110, 115]"
definition NEXT_BEEFY_AUTHORITY_SET :: payload_id where "NEXT_BEEFY_AUTHORITY_SET = [110, 98]"

record 'p payload_lib =
  mmr_root_id :: payload_id
  from_single_entry :: "payload_id \<Rightarrow> bytes \<Rightarrow> 'p"
  push_raw :: "payload_id \<Rightarrow> bytes \<Rightarrow> 'p \<Rightarrow> 'p"
  get_raw :: "payload_id \<Rightarrow> 'p \<Rightarrow> bytes option"
  get_all_raw :: "payload_id \<Rightarrow> 'p \<Rightarrow> bytes list"

record ('bid, 'h) beefy_codec =
  encode_root :: "'h \<Rightarrow> bytes"
  encode_stakes :: "('bid \<times> u64) list \<Rightarrow> bytes"
  decode_stakes :: "bytes \<Rightarrow> ('bid \<times> u64) list option"
  encode_set :: "'h beefy_authority_set \<Rightarrow> bytes"
  decode_set :: "bytes \<Rightarrow> 'h beefy_authority_set option"

definition payload_laws :: "'p payload_lib \<Rightarrow> bool" where
  "payload_laws lib \<longleftrightarrow>
     mmr_root_id lib \<notin> {CURRENT_BEEFY_STAKES_ID, CURRENT_BEEFY_AUTHORITY_SET, NEXT_BEEFY_STAKES_ID, NEXT_BEEFY_AUTHORITY_SET} \<and>
     (\<forall>i v j. get_raw lib j (from_single_entry lib i v) = (if j = i then Some v else None)) \<and>
     (\<forall>i v p j. get_raw lib i p = None \<longrightarrow> get_raw lib j (push_raw lib i v p) = (if j = i then Some v else get_raw lib j p)) \<and>
     (\<forall>p j. get_raw lib j p = None \<longleftrightarrow> get_all_raw lib j p = []) \<and>
     (\<forall>i v. get_all_raw lib i (from_single_entry lib i v) = [v]) \<and>
     (\<forall>i v p j. j \<noteq> i \<longrightarrow> get_all_raw lib j (push_raw lib i v p) = get_all_raw lib j p)"

definition codec_laws :: "('bid, 'h) beefy_codec \<Rightarrow> bool" where
  "codec_laws c \<longleftrightarrow> (\<forall>x. decode_stakes c (encode_stakes c x) = Some x) \<and> (\<forall>x. decode_set c (encode_set c x) = Some x)"

section \<open>The payload provider: node/src/payload.rs\<close>

record ('bid, 'h) beefy_stakes_api =
  api_mmr_root :: "'h option"
  api_current_beefy_stakes :: "('bid \<times> u64) list option"
  api_next_beefy_stakes :: "('bid \<times> u64) list option"
  api_compute_current_authority_set :: "('bid \<times> u64) list \<Rightarrow> 'h beefy_authority_set option"
  api_compute_next_authority_set :: "('bid \<times> u64) list \<Rightarrow> 'h beefy_authority_set option"

text \<open>
  The runtime API over the state of a block.  A call that changes the state, as
  \<^verbatim>\<open>next_beefy_stakes\<close> may, changes a copy of it.
\<close>

definition runtime_stakes_api ::
  "('xid, 'bid, 'h) beefy_env \<Rightarrow> 'h option \<Rightarrow> ('xid, 'bid, 'k, 'epoch, 'h) beefy_state \<Rightarrow> ('bid, 'h) beefy_stakes_api" where
  "runtime_stakes_api env mmr_root st = \<lparr>
     api_mmr_root = mmr_root,
     api_current_beefy_stakes = Some (current_beefy_stakes env None st),
     api_next_beefy_stakes = snd (next_beefy_stakes env None st),
     api_compute_current_authority_set = (\<lambda>stakes. Some (compute_current_authority_set env stakes st)),
     api_compute_next_authority_set = (\<lambda>stakes. Some (compute_next_authority_set env stakes st)) \<rparr>"

definition mmr_root_from_digest_or_runtime :: "'h option \<Rightarrow> ('bid, 'h) beefy_stakes_api \<Rightarrow> 'h option" where
  "mmr_root_from_digest_or_runtime digest_root api =
     (case digest_root of Some root \<Rightarrow> Some root | None \<Rightarrow> api_mmr_root api)"

definition provider_payload ::
  "'p payload_lib \<Rightarrow> ('bid, 'h) beefy_codec \<Rightarrow> 'h option \<Rightarrow> ('bid, 'h) beefy_stakes_api \<Rightarrow> 'p option" where
  "provider_payload lib c digest_root api =
     Option.bind (mmr_root_from_digest_or_runtime digest_root api) (\<lambda>mmr_root.
     Option.bind (api_current_beefy_stakes api) (\<lambda>current_stakes.
     Option.bind (api_compute_current_authority_set api current_stakes) (\<lambda>current_set.
     case api_next_beefy_stakes api of
       Some next_stakes \<Rightarrow>
         Option.bind (api_compute_next_authority_set api next_stakes) (\<lambda>next_set.
         Some (push_raw lib NEXT_BEEFY_AUTHORITY_SET (encode_set c next_set)
           (push_raw lib NEXT_BEEFY_STAKES_ID (encode_stakes c next_stakes)
           (push_raw lib CURRENT_BEEFY_AUTHORITY_SET (encode_set c current_set)
           (push_raw lib CURRENT_BEEFY_STAKES_ID (encode_stakes c current_stakes)
           (from_single_entry lib (mmr_root_id lib) (encode_root c mmr_root)))))))
     | None \<Rightarrow>
         Some (push_raw lib CURRENT_BEEFY_AUTHORITY_SET (encode_set c current_set)
           (push_raw lib CURRENT_BEEFY_STAKES_ID (encode_stakes c current_stakes)
           (from_single_entry lib (mmr_root_id lib) (encode_root c mmr_root)))))))"

section \<open>Stakes of a justification: relay/src/justification.rs\<close>

datatype relay_error =
    InvalidKeysFile string
  | JsonDecodeError string
  | SubxtError
  | RpcError
  | CodecError
  | NoMatchingSignature u32 u32
  | InvalidAuthoritiesProofCreation
  | MissingCurrentBeefyStakes
  | MissingCurrentAuthoritySet
  | MissingNextBeefyStakes
  | MissingNextAuthoritySet
  | EmptyValidatorSet

record ('bid, 'h) beefy_stakes_info =
  info_current_stakes :: "('bid \<times> u64) list"
  info_current_authority_set :: "'h beefy_authority_set"
  info_next_stakes :: "('bid \<times> u64) list"
  info_next_authority_set :: "'h beefy_authority_set"

definition stakes_info_try_from ::
  "'p payload_lib \<Rightarrow> ('bid, 'h) beefy_codec \<Rightarrow> 'p \<Rightarrow> (relay_error, ('bid, 'h) beefy_stakes_info) result" where
  "stakes_info_try_from lib c value =
     and_then (ok_or MissingCurrentBeefyStakes (Option.bind (get_raw lib CURRENT_BEEFY_STAKES_ID value) (decode_stakes c))) (\<lambda>cs.
     and_then (ok_or MissingCurrentAuthoritySet (Option.bind (get_raw lib CURRENT_BEEFY_AUTHORITY_SET value) (decode_set c))) (\<lambda>cb.
     and_then (ok_or MissingNextBeefyStakes (Option.bind (get_raw lib NEXT_BEEFY_STAKES_ID value) (decode_stakes c))) (\<lambda>ns.
     and_then (ok_or MissingNextAuthoritySet (Option.bind (get_raw lib NEXT_BEEFY_AUTHORITY_SET value) (decode_set c))) (\<lambda>nb.
     Inr \<lparr> info_current_stakes = cs, info_current_authority_set = cb, info_next_stakes = ns, info_next_authority_set = nb \<rparr>))))"

section \<open>Proofs of authorities: relay/src/authorities.rs\<close>

datatype 'h proof_node = ProofLeaf 'h | ProofNode "'h proof_node list"

record ('bid, 'p, 'h) relay_lib =
  relay_payload :: "'p payload_lib"
  relay_codec :: "('bid, 'h) beefy_codec"
  raw_public :: "'bid \<Rightarrow> bytes"
  keccak_256 :: "bytes \<Rightarrow> 'h"
  hash_bytes :: "'h \<Rightarrow> bytes"
  tree_root :: "'h list \<Rightarrow> 'h option"
  ordered_proof_tree :: "'h list \<Rightarrow> nat list \<Rightarrow> 'h proof_node"

record 'p beefy_signed_commitment =
  bc_payload :: 'p
  bc_block_number :: u32
  bc_validator_set_id :: u64
  bc_signatures :: "bytes option list"

record 'bid validator_set =
  vs_validators :: "'bid list"
  vs_id :: u64

type_synonym ('p, 'bid) verify_signatures = "'p beefy_signed_commitment \<Rightarrow> 'bid validator_set \<Rightarrow> (u32, unit) result"

record 'h authorities_proof =
  proof_root :: 'h
  proof_total_leaves :: u32
  proof_tree :: "'h proof_node"

definition prep_leaf_hash :: "('bid, 'p, 'h) relay_lib \<Rightarrow> 'bid \<times> u64 \<Rightarrow> 'h" where
  "prep_leaf_hash lib beefy_stake = keccak_256 lib (raw_public lib (fst beefy_stake) @ u64_le_bytes (snd beefy_stake))"

definition prep_merkle_leaves :: "('bid, 'p, 'h) relay_lib \<Rightarrow> ('bid \<times> u64) list \<Rightarrow> 'h list" where
  "prep_merkle_leaves lib beefy_stakes = map (prep_leaf_hash lib) beefy_stakes"

definition collect_signature_indices ::
  "('p, 'bid) verify_signatures \<Rightarrow> 'p beefy_signed_commitment \<Rightarrow> 'bid validator_set \<Rightarrow> (relay_error, nat list) result" where
  "collect_signature_indices verify sc vset =
     and_then (map_err (NoMatchingSignature (bc_block_number sc)) (verify sc vset)) (\<lambda>_.
     Inr (List.map_filter (\<lambda>(index, sig). map_option (\<lambda>_. index) sig) (enumerate 0 (bc_signatures sc))))"

definition authorities_proof_try_new ::
  "('bid, 'p, 'h) relay_lib \<Rightarrow> ('p, 'bid) verify_signatures \<Rightarrow> 'p beefy_signed_commitment \<Rightarrow> 'bid validator_set \<Rightarrow>
   (relay_error, 'h authorities_proof) result" where
  "authorities_proof_try_new lib verify sc vset =
     and_then (collect_signature_indices verify sc vset) (\<lambda>sig_indices.
     and_then (stakes_info_try_from (relay_payload lib) (relay_codec lib) (bc_payload sc)) (\<lambda>stakes_info.
     let keccak_hashes = prep_merkle_leaves lib (info_current_stakes stakes_info) in
     and_then (ok_or InvalidAuthoritiesProofCreation (tree_root lib keccak_hashes)) (\<lambda>root.
     Inr \<lparr> proof_root = root, proof_total_leaves = of_nat (length (vs_validators vset)),
           proof_tree = ordered_proof_tree lib keccak_hashes sig_indices \<rparr>)))"

section \<open>Encoding for Cardano: relay/src/cardano\_encoding.rs\<close>

datatype relay_plutus =
    PlConstr u64 "relay_plutus list"
  | PlBytes bytes
  | PlInt int
  | PlArray "relay_plutus list"

definition TAG :: u64 where "TAG = 121"

record vote =
  vote_signature :: bytes
  vote_authority_index :: nat
  vote_public_key :: bytes

record commitment_payload =
  cp_id :: bytes
  cp_data :: bytes

record commitment =
  com_payloads :: "commitment_payload list"
  com_block_number :: nat
  com_validator_set_id :: nat

record signed_commitment =
  sc_commitment :: commitment
  sc_votes :: "vote list"

record 'h relay_chain_proof =
  rcp_signed_commitment :: signed_commitment
  rcp_proof :: "'h authorities_proof"

text \<open>A cast of a \<^verbatim>\<open>usize\<close> to \<^verbatim>\<open>i64\<close>, which wraps.\<close>

definition as_i64 :: "nat \<Rightarrow> int" where
  "as_i64 n = sint (of_nat n :: 64 word)"

definition vote_to_plutus_data :: "vote \<Rightarrow> relay_plutus" where
  "vote_to_plutus_data v =
     PlConstr TAG [PlBytes (vote_signature v), PlInt (as_i64 (vote_authority_index v)), PlBytes (vote_public_key v)]"

definition payload_to_plutus_data :: "commitment_payload \<Rightarrow> relay_plutus" where
  "payload_to_plutus_data p = PlConstr TAG [PlBytes (cp_id p), PlBytes (cp_data p)]"

definition commitment_to_plutus_data :: "commitment \<Rightarrow> relay_plutus" where
  "commitment_to_plutus_data com =
     PlConstr TAG [PlArray (map payload_to_plutus_data (com_payloads com)), PlInt (as_i64 (com_block_number com)),
       PlInt (as_i64 (com_validator_set_id com))]"

definition signed_commitment_to_plutus_data :: "signed_commitment \<Rightarrow> relay_plutus" where
  "signed_commitment_to_plutus_data sc =
     PlConstr TAG [commitment_to_plutus_data (sc_commitment sc), PlArray (map vote_to_plutus_data (sc_votes sc))]"

fun proof_node_to_plutus_data :: "('h \<Rightarrow> bytes) \<Rightarrow> 'h proof_node \<Rightarrow> relay_plutus" where
  "proof_node_to_plutus_data hb (ProofLeaf hash) = PlBytes (hb hash)"
| "proof_node_to_plutus_data hb (ProofNode nodes) = PlArray (map (proof_node_to_plutus_data hb) nodes)"

definition authorities_proof_to_plutus_data :: "('h \<Rightarrow> bytes) \<Rightarrow> 'h authorities_proof \<Rightarrow> relay_plutus" where
  "authorities_proof_to_plutus_data hb p =
     PlConstr TAG [PlBytes (hb (proof_root p)), PlInt (sint (ucast (proof_total_leaves p) :: 64 word)),
       proof_node_to_plutus_data hb (proof_tree p)]"

definition relay_chain_proof_to_plutus_data :: "('h \<Rightarrow> bytes) \<Rightarrow> 'h relay_chain_proof \<Rightarrow> relay_plutus" where
  "relay_chain_proof_to_plutus_data hb p =
     PlConstr TAG [signed_commitment_to_plutus_data (rcp_signed_commitment p), authorities_proof_to_plutus_data hb (rcp_proof p)]"

definition from_signed_commitment_and_validators ::
  "('bid, 'p, 'h) relay_lib \<Rightarrow> 'p beefy_signed_commitment \<Rightarrow> 'bid list \<Rightarrow> signed_commitment" where
  "from_signed_commitment_and_validators lib sc validators =
     \<lparr> sc_commitment = \<lparr>
         com_payloads = map (\<lambda>data. \<lparr> cp_id = mmr_root_id (relay_payload lib), cp_data = data \<rparr>)
           (get_all_raw (relay_payload lib) (mmr_root_id (relay_payload lib)) (bc_payload sc)),
         com_block_number = unat (bc_block_number sc), com_validator_set_id = unat (bc_validator_set_id sc) \<rparr>,
       sc_votes = List.map_filter (\<lambda>((i, sig), pk).
           map_option (\<lambda>sig. \<lparr> vote_signature = butlast sig, vote_authority_index = i, vote_public_key = raw_public lib pk \<rparr>) sig)
         (zip (enumerate 0 (bc_signatures sc)) validators) \<rparr>"

definition relay_generate ::
  "('bid, 'p, 'h) relay_lib \<Rightarrow> ('p, 'bid) verify_signatures \<Rightarrow> 'p beefy_signed_commitment \<Rightarrow>
   'bid validator_set \<Rightarrow> (relay_error, 'h relay_chain_proof) result" where
  "relay_generate lib verify sc vset =
     and_then (authorities_proof_try_new lib verify sc vset) (\<lambda>prf.
     Inr \<lparr> rcp_signed_commitment = from_signed_commitment_and_validators lib sc (vs_validators vset),
           rcp_proof = prf \<rparr>)"

section \<open>The relayer: relay/src/relayer.rs\<close>

primrec convert_validators :: "(bytes \<Rightarrow> 'bid option) \<Rightarrow> bytes list \<Rightarrow> 'bid list outcome" where
  "convert_validators public_from_slice [] = Returns []"
| "convert_validators public_from_slice (v # vs) =
     outcome_bind (expect ''failed to convert to Beefy Public'' (ok_or () (public_from_slice v))) (\<lambda>b.
     outcome_bind (convert_validators public_from_slice vs) (\<lambda>bs. Returns (b # bs)))"

definition into_non_metadata :: "(bytes \<Rightarrow> 'bid option) \<Rightarrow> bytes list \<times> u64 \<Rightarrow> 'bid validator_set outcome" where
  "into_non_metadata public_from_slice v =
     outcome_bind (convert_validators public_from_slice (fst v)) (\<lambda>validators.
     if validators = [] then Panics ''cannot create from empty validators''
     else Returns \<lparr> vs_validators = validators, vs_id = snd v \<rparr>)"

definition choose_params ::
  "u32 option \<Rightarrow> (u32 \<Rightarrow> 'bh option) \<Rightarrow> 'p beefy_signed_commitment \<Rightarrow> u32 option \<times> 'bh option" where
  "choose_params best_block get_block_hash sc =
     (best_block, case best_block of None \<Rightarrow> get_block_hash (bc_block_number sc) | Some _ \<Rightarrow> None)"

definition get_beefy_validator_set ::
  "(bytes \<Rightarrow> 'bid option) \<Rightarrow> ('bh option \<Rightarrow> (relay_error, (bytes list \<times> u64) option) result) \<Rightarrow> 'bh option \<Rightarrow>
   (relay_error, 'bid validator_set) result outcome" where
  "get_beefy_validator_set public_from_slice runtime_api at_block_hash =
     (case runtime_api at_block_hash of
        Inl e \<Rightarrow> Returns (Inl e)
      | Inr None \<Rightarrow> Returns (Inl EmptyValidatorSet)
      | Inr (Some v) \<Rightarrow> outcome_bind (into_non_metadata public_from_slice v) (\<lambda>vset. Returns (Inr vset)))"

record ('bid, 'p, 'bh) relay_node =
  decode_justification :: "bytes \<Rightarrow> 'p beefy_signed_commitment option"
  best_block_number :: "u32 option"
  block_hash_of :: "u32 \<Rightarrow> 'bh option"
  validator_set_api :: "'bh option \<Rightarrow> (relay_error, (bytes list \<times> u64) option) result"
  public_from_slice :: "bytes \<Rightarrow> 'bid option"

definition handle_justification_stream_data ::
  "('bid, 'p, 'h) relay_lib \<Rightarrow> ('p, 'bid) verify_signatures \<Rightarrow> ('bid, 'p, 'bh) relay_node \<Rightarrow> bytes \<Rightarrow>
   (relay_error, relay_plutus) result outcome" where
  "handle_justification_stream_data lib verify node justification =
     (case decode_justification node justification of
        None \<Rightarrow> Returns (Inl CodecError)
      | Some sc \<Rightarrow>
          outcome_bind (get_beefy_validator_set (public_from_slice node) (validator_set_api node)
              (snd (choose_params (best_block_number node) (block_hash_of node) sc))) (\<lambda>r.
          Returns (and_then r (\<lambda>vset.
            map_ok (relay_chain_proof_to_plutus_data (hash_bytes lib)) (relay_generate lib verify sc vset)))))"

text \<open>The subscription: proofs are displayed until an item or its handling fails.\<close>

fun run_relay_by_subscription ::
  "('bid, 'p, 'h) relay_lib \<Rightarrow> ('p, 'bid) verify_signatures \<Rightarrow>
   ((relay_error, bytes) result \<times> ('bid, 'p, 'bh) relay_node) list \<Rightarrow> relay_plutus list \<Rightarrow>
   (relay_plutus list \<times> (relay_error, unit) result) outcome" where
  "run_relay_by_subscription lib verify [] shown = Returns (shown, Inr ())"
| "run_relay_by_subscription lib verify ((Inl e, node) # items) shown = Returns (shown, Inl e)"
| "run_relay_by_subscription lib verify ((Inr j, node) # items) shown =
     outcome_bind (handle_justification_stream_data lib verify node j) (\<lambda>r.
     case r of
       Inl e \<Rightarrow> Returns (shown, Inl e)
     | Inr p \<Rightarrow> run_relay_by_subscription lib verify items (shown @ [p]))"

definition merkle_agree :: "('bid, 'p, 'h) relay_lib \<Rightarrow> ('xid, 'bid, 'h) beefy_env \<Rightarrow> bool" where
  "merkle_agree lib env \<longleftrightarrow> (\<forall>b. raw_public lib b = authority_to_merkle_leaf env b) \<and>
     (\<forall>xs. xs \<noteq> [] \<longrightarrow> tree_root lib (map (keccak_256 lib) xs) = Some (merkle_root env xs))"

text \<open>Signatures are verified one per validator.\<close>

definition verify_law :: "('p, 'bid) verify_signatures \<Rightarrow> bool" where
  "verify_law verify \<longleftrightarrow>
     (\<forall>sc vset. verify sc vset = Inr () \<longrightarrow> length (bc_signatures sc) = length (vs_validators vset))"

text \<open>
  The situation of a justification for a block of state \<^verbatim>\<open>st\<close>: its payload is the one the node provides for that
  block, the runtime of the queried block has the same validators, and the signatures verify.
\<close>

definition justification_for ::
  "('bid, 'p, 'h) relay_lib \<Rightarrow> ('p, 'bid) verify_signatures \<Rightarrow> ('bid, 'p, 'bh) relay_node \<Rightarrow> ('xid, 'bid, 'h) beefy_env \<Rightarrow>
   'h option \<Rightarrow> ('xid, 'bid, 'k, 'epoch, 'h) beefy_state \<Rightarrow> bytes \<Rightarrow> 'p beefy_signed_commitment \<Rightarrow> bool" where
  "justification_for lib verify node env root st j sc \<longleftrightarrow>
     decode_justification node j = Some sc \<and>
     provider_payload (relay_payload lib) (relay_codec lib) root (runtime_stakes_api env root st) = Some (bc_payload sc) \<and>
     beefy_validators st \<noteq> [] \<and>
     (\<forall>b \<in> set (beefy_validators st). public_from_slice node (raw_public lib b) = Some b) \<and>
     validator_set_api node (snd (choose_params (best_block_number node) (block_hash_of node) sc)) =
       Inr (Some (map (raw_public lib) (beefy_validators st), validator_set_id st)) \<and>
     verify sc \<lparr> vs_validators = beefy_validators st, vs_id = validator_set_id st \<rparr> = Inr ()"

definition relay_laws :: "('bid, 'p, 'h) relay_lib \<Rightarrow> ('p, 'bid) verify_signatures \<Rightarrow> ('xid, 'bid, 'h) beefy_env \<Rightarrow> bool" where
  "relay_laws lib verify env \<longleftrightarrow>
     payload_laws (relay_payload lib) \<and> codec_laws (relay_codec lib) \<and> merkle_agree lib env \<and> verify_law verify"

text \<open>Fields of type \<^verbatim>\<open>usize\<close> have 64 bits.\<close>

definition usize_fields :: "'h relay_chain_proof \<Rightarrow> bool" where
  "usize_fields p \<longleftrightarrow>
     com_block_number (sc_commitment (rcp_signed_commitment p)) < 2 ^ 64 \<and>
     com_validator_set_id (sc_commitment (rcp_signed_commitment p)) < 2 ^ 64 \<and>
     list_all (\<lambda>v. vote_authority_index v < 2 ^ 64) (sc_votes (rcp_signed_commitment p))"

section \<open>An example: a relay of two validators\<close>

definition demo_payload_lib :: "(bytes \<times> bytes) list payload_lib" where
  "demo_payload_lib = \<lparr>
     mmr_root_id = [109, 104],
     from_single_entry = (\<lambda>i v. [(i, v)]),
     push_raw = (\<lambda>i v p. p @ [(i, v)]),
     get_raw = (\<lambda>i p. map_of p i),
     get_all_raw = (\<lambda>i p. map snd (filter (\<lambda>e. fst e = i) p)) \<rparr>"

definition demo_u64_decode :: "bytes \<Rightarrow> u64" where
  "demo_u64_decode bs = of_nat (horner_sum unat (2 ^ 8) (take 8 bs))"

fun demo_stakes_decode :: "bytes \<Rightarrow> (byte \<times> u64) list option" where
  "demo_stakes_decode [] = Some []"
| "demo_stakes_decode (b # bs) =
     (if length bs < 8 then None
      else map_option (\<lambda>rest. (b, demo_u64_decode bs) # rest) (demo_stakes_decode (drop 8 bs)))"

definition demo_codec :: "(byte, bytes) beefy_codec" where
  "demo_codec = \<lparr>
     encode_root = id,
     encode_stakes = (\<lambda>xs. concat (map (\<lambda>(b, s). b # u64_le_bytes s) xs)),
     decode_stakes = demo_stakes_decode,
     encode_set = (\<lambda>s. u64_le_bytes (set_id s) @ u64_le_bytes (ucast (set_len s)) @ keyset_commitment s),
     decode_set = (\<lambda>bs. Some \<lparr> set_id = demo_u64_decode bs, set_len = ucast (demo_u64_decode (drop 8 bs)),
       keyset_commitment = drop 16 bs \<rparr>) \<rparr>"

definition demo_relay_lib :: "(byte, (bytes \<times> bytes) list, bytes) relay_lib" where
  "demo_relay_lib = \<lparr> relay_payload = demo_payload_lib, relay_codec = demo_codec, raw_public = (\<lambda>b. [b]), keccak_256 = id,
     hash_bytes = id, tree_root = (\<lambda>hs. if hs = [] then None else Some (concat hs)),
     ordered_proof_tree = (\<lambda>hs ixs. ProofNode (map (\<lambda>i. ProofLeaf (hs ! i)) ixs)) \<rparr>"

definition demo_verify :: "((bytes \<times> bytes) list, byte) verify_signatures" where
  "demo_verify sc vset = (if length (bc_signatures sc) = length (vs_validators vset) then Inr () else Inl 0)"

definition demo_beefy_env :: "(byte, byte, bytes) beefy_env" where
  "demo_beefy_env = \<lparr> xchain_public_to_beefy = id, authority_to_merkle_leaf = (\<lambda>b. [b]), merkle_root = concat,
     zero_commitment = [] \<rparr>"

definition demo_beefy_state :: "bool \<Rightarrow> (byte, byte, unit, nat, bytes) beefy_state" where
  "demo_beefy_state has_next = \<lparr>
     beefy_committees = \<lparr> current_committee = \<lparr> committee_epoch = 1, committee = [Permissioned 7 (), Permissioned 8 ()] \<rparr>,
       next_committee = (if has_next then Some \<lparr> committee_epoch = 2, committee = [Permissioned 7 ()] \<rparr> else None) \<rparr>,
     beefy_validators = [7, 8], beefy_next_validators = [7], validator_set_id = 3,
     beefy_authorities = \<lparr> set_id = 3, set_len = 2, keyset_commitment = [] \<rparr>,
     beefy_next_authorities = \<lparr> set_id = 4, set_len = 1, keyset_commitment = [] \<rparr> \<rparr>"

definition demo_commitment :: "bool \<Rightarrow> (bytes \<times> bytes) list beefy_signed_commitment" where
  "demo_commitment has_next = \<lparr>
     bc_payload = (case provider_payload demo_payload_lib demo_codec (Some [42])
         (runtime_stakes_api demo_beefy_env (Some [42]) (demo_beefy_state has_next)) of Some p \<Rightarrow> p | None \<Rightarrow> []),
     bc_block_number = 10, bc_validator_set_id = 3, bc_signatures = [None, Some [1, 2, 0]] \<rparr>"

definition demo_relay_node :: "bool \<Rightarrow> (byte, (bytes \<times> bytes) list, unit) relay_node" where
  "demo_relay_node has_next = \<lparr>
     decode_justification = (\<lambda>_. Some (demo_commitment has_next)),
     best_block_number = Some 11, block_hash_of = (\<lambda>_. None),
     validator_set_api = (\<lambda>_. Inr (Some ([[7], [8]], 3))),
     public_from_slice = (\<lambda>bs. case bs of [b] \<Rightarrow> Some b | _ \<Rightarrow> None) \<rparr>"

section \<open>Lemmas\<close>

lemma payload_ids [simp]:
  "CURRENT_BEEFY_AUTHORITY_SET \<noteq> CURRENT_BEEFY_STAKES_ID" "NEXT_BEEFY_STAKES_ID \<noteq> CURRENT_BEEFY_STAKES_ID"
  "NEXT_BEEFY_AUTHORITY_SET \<noteq> CURRENT_BEEFY_STAKES_ID" "NEXT_BEEFY_STAKES_ID \<noteq> CURRENT_BEEFY_AUTHORITY_SET"
  "NEXT_BEEFY_AUTHORITY_SET \<noteq> CURRENT_BEEFY_AUTHORITY_SET" "NEXT_BEEFY_AUTHORITY_SET \<noteq> NEXT_BEEFY_STAKES_ID"
  by (simp_all add: CURRENT_BEEFY_STAKES_ID_def CURRENT_BEEFY_AUTHORITY_SET_def NEXT_BEEFY_STAKES_ID_def
      NEXT_BEEFY_AUTHORITY_SET_def)

lemmas payload_ids_sym [simp] = payload_ids [symmetric]

lemma payload_simps:
  assumes "payload_laws lib"
  shows "get_raw lib j (from_single_entry lib i v) = (if j = i then Some v else None)"
    "get_raw lib i p = None \<Longrightarrow> get_raw lib j (push_raw lib i v p) = (if j = i then Some v else get_raw lib j p)"
    "get_all_raw lib i (from_single_entry lib i v) = [v]"
    "j \<noteq> i \<Longrightarrow> get_all_raw lib j (push_raw lib i v p) = get_all_raw lib j p"
  using assms unfolding payload_laws_def by blast+

lemma mmr_root_id_distinct:
  assumes "payload_laws lib"
  shows "mmr_root_id lib \<noteq> CURRENT_BEEFY_STAKES_ID" "mmr_root_id lib \<noteq> CURRENT_BEEFY_AUTHORITY_SET"
    "mmr_root_id lib \<noteq> NEXT_BEEFY_STAKES_ID" "mmr_root_id lib \<noteq> NEXT_BEEFY_AUTHORITY_SET"
proof -
  have "mmr_root_id lib \<notin> {CURRENT_BEEFY_STAKES_ID, CURRENT_BEEFY_AUTHORITY_SET, NEXT_BEEFY_STAKES_ID, NEXT_BEEFY_AUTHORITY_SET}"
    using assms unfolding payload_laws_def by (elim conjE)
  then show "mmr_root_id lib \<noteq> CURRENT_BEEFY_STAKES_ID" "mmr_root_id lib \<noteq> CURRENT_BEEFY_AUTHORITY_SET"
    "mmr_root_id lib \<noteq> NEXT_BEEFY_STAKES_ID" "mmr_root_id lib \<noteq> NEXT_BEEFY_AUTHORITY_SET"
    by simp_all
qed

lemma current_stakes_eq: "current_beefy_stakes env None st = map (\<lambda>v. (v, 1)) (beefy_validators st)"
  by (simp add: current_beefy_stakes_def compute_beefy_stakes_def compute_beefy_stakes_loop_eq)

lemma next_stakes_None: "snd (next_beefy_stakes env vs st) = None \<longleftrightarrow> next_committee (beefy_committees st) = None"
  by (auto simp: next_beefy_stakes_def Let_def split: option.split)

lemma relay_votes:
  assumes "length (bc_signatures sc) = length validators"
  shows "sc_votes (from_signed_commitment_and_validators lib sc validators) =
    map (\<lambda>i. \<lparr> vote_signature = butlast (the (bc_signatures sc ! i)), vote_authority_index = i,
                vote_public_key = raw_public lib (validators ! i) \<rparr>)
      (filter (\<lambda>i. bc_signatures sc ! i \<noteq> None) [0..<length validators])"
proof -
  have "zip (enumerate 0 (bc_signatures sc)) validators =
      map (\<lambda>i. ((i, bc_signatures sc ! i), validators ! i)) [0..<length validators]"
    using assms by (intro nth_equalityI) (simp_all add: nth_enumerate_eq)
  then show ?thesis
    by (simp add: from_signed_commitment_and_validators_def map_filter_def filter_map comp_def option.map_sel)
qed

lemma signature_indices:
  "List.map_filter (\<lambda>(index, sig). map_option (\<lambda>_. index) sig) (enumerate 0 sigs) = filter (\<lambda>i. sigs ! i \<noteq> None) [0..<length sigs]"
proof -
  have "enumerate 0 sigs = map (\<lambda>i. (i, sigs ! i)) [0..<length sigs]"
    by (intro nth_equalityI) (simp_all add: nth_enumerate_eq)
  then show ?thesis by (simp add: map_filter_def filter_map comp_def) (rule map_idI, auto)
qed


lemma convert_validators_raw:
  "(\<forall>b \<in> set bs. from (raw b) = Some b) \<Longrightarrow> convert_validators from (map raw bs) = Returns bs"
  by (induction bs) simp_all

lemma validator_set_of_node:
  assumes "justification_for lib verify node env root st j sc"
  shows "get_beefy_validator_set (public_from_slice node) (validator_set_api node)
      (snd (choose_params (best_block_number node) (block_hash_of node) sc)) =
    Returns (Inr \<lparr> vs_validators = beefy_validators st, vs_id = validator_set_id st \<rparr>)"
  using assms
  by (simp add: justification_for_def get_beefy_validator_set_def into_non_metadata_def convert_validators_raw)

lemma provided_payload_entries:
  assumes "payload_laws lib" and "provider_payload lib c digest_root (runtime_stakes_api env root st) = Some p"
  shows "get_raw lib CURRENT_BEEFY_STAKES_ID p = Some (encode_stakes c (current_beefy_stakes env None st))"
    and "get_raw lib CURRENT_BEEFY_AUTHORITY_SET p =
      Some (encode_set c (compute_current_authority_set env (current_beefy_stakes env None st) st))"
    and "get_raw lib NEXT_BEEFY_STAKES_ID p = map_option (encode_stakes c) (snd (next_beefy_stakes env None st))"
    and "get_raw lib NEXT_BEEFY_AUTHORITY_SET p =
      map_option (\<lambda>stakes. encode_set c (compute_next_authority_set env stakes st)) (snd (next_beefy_stakes env None st))"
    and "get_all_raw lib (mmr_root_id lib) p =
      map (encode_root c) (case digest_root of Some r \<Rightarrow> [r] | None \<Rightarrow> (case root of Some r \<Rightarrow> [r] | None \<Rightarrow> []))"
  using assms(2)
  by (auto simp: provider_payload_def runtime_stakes_api_def mmr_root_from_digest_or_runtime_def payload_simps [OF assms(1)]
      mmr_root_id_distinct [OF assms(1)] mmr_root_id_distinct [OF assms(1), symmetric]
      split: option.splits Option.bind_splits)

lemma stakes_of_provided_payload:
  assumes "payload_laws lib" "codec_laws c" and "provider_payload lib c digest_root (runtime_stakes_api env root st) = Some p"
  shows "stakes_info_try_from lib c p =
    (case snd (next_beefy_stakes env None st) of
       None \<Rightarrow> Inl MissingNextBeefyStakes
     | Some ns \<Rightarrow> Inr \<lparr> info_current_stakes = current_beefy_stakes env None st,
         info_current_authority_set = compute_current_authority_set env (current_beefy_stakes env None st) st,
         info_next_stakes = ns, info_next_authority_set = compute_next_authority_set env ns st \<rparr>)"
  using assms(2)
  by (simp add: stakes_info_try_from_def provided_payload_entries [OF assms(1,3)] codec_laws_def split: option.split)

lemma authority_root:
  assumes "merkle_agree lib env" "beefy_validators st \<noteq> []"
  shows "tree_root lib (prep_merkle_leaves lib (current_beefy_stakes env None st)) =
    Some (keyset_commitment (compute_current_authority_set env (current_beefy_stakes env None st) st))"
proof -
  let ?xs = "map (\<lambda>b. authority_to_merkle_leaf env b @ u64_le_bytes 1) (beefy_validators st)"
  have "prep_merkle_leaves lib (current_beefy_stakes env None st) = map (keccak_256 lib) ?xs"
    using assms(1) by (simp add: prep_merkle_leaves_def prep_leaf_hash_def current_stakes_eq merkle_agree_def)
  moreover have "tree_root lib (map (keccak_256 lib) ?xs) = Some (merkle_root env ?xs)"
    using assms unfolding merkle_agree_def by (metis list.map_disc_iff)
  ultimately show ?thesis
    by (simp add: compute_current_authority_set_def compute_authority_set_def current_stakes_eq comp_def)
qed

lemma relay_generate_provided:
  assumes "relay_laws lib verify env" "justification_for lib verify node env root st j sc"
  shows "relay_generate lib verify sc \<lparr> vs_validators = beefy_validators st, vs_id = validator_set_id st \<rparr> =
    (if next_committee (beefy_committees st) = None then Inl MissingNextBeefyStakes
     else Inr \<lparr> rcp_signed_commitment = from_signed_commitment_and_validators lib sc (beefy_validators st),
       rcp_proof = \<lparr>
         proof_root = keyset_commitment (compute_current_authority_set env (current_beefy_stakes env None st) st),
         proof_total_leaves = of_nat (length (beefy_validators st)),
         proof_tree = ordered_proof_tree lib (prep_merkle_leaves lib (current_beefy_stakes env None st))
           (filter (\<lambda>i. bc_signatures sc ! i \<noteq> None) [0..<length (beefy_validators st)]) \<rparr> \<rparr>)"
proof -
  note asm = assms [unfolded relay_laws_def justification_for_def]
  have len: "length (bc_signatures sc) = length (beefy_validators st)"
    using asm unfolding verify_law_def by (metis validator_set.select_convs(1))
  have info: "stakes_info_try_from (relay_payload lib) (relay_codec lib) (bc_payload sc) =
    (case snd (next_beefy_stakes env None st) of
       None \<Rightarrow> Inl MissingNextBeefyStakes
     | Some ns \<Rightarrow> Inr \<lparr> info_current_stakes = current_beefy_stakes env None st,
         info_current_authority_set = compute_current_authority_set env (current_beefy_stakes env None st) st,
         info_next_stakes = ns, info_next_authority_set = compute_next_authority_set env ns st \<rparr>)"
    by (rule stakes_of_provided_payload [where digest_root = root and root = root]) (use asm in blast)+
  have root: "tree_root lib (prep_merkle_leaves lib (current_beefy_stakes env None st)) =
    Some (keyset_commitment (compute_current_authority_set env (current_beefy_stakes env None st) st))"
    by (rule authority_root) (use asm in blast)+
  show ?thesis
  proof (cases "snd (next_beefy_stakes env None st)")
    case None
    then have "next_committee (beefy_committees st) = None" by (simp only: next_stakes_None)
    with None asm show ?thesis
      by (simp add: relay_generate_def authorities_proof_try_new_def collect_signature_indices_def info)
  next
    case (Some ns)
    then have "next_committee (beefy_committees st) \<noteq> None" using next_stakes_None [of env None st] by simp
    with Some asm show ?thesis
      by (simp add: relay_generate_def authorities_proof_try_new_def collect_signature_indices_def info root
          signature_indices len Let_def)
  qed
qed

lemma u64_byte: "unat (ucast (drop_bit (8 * i) (w :: u64)) :: byte) = unat w div 256 ^ i mod 256"
proof -
  have "unat w mod 18446744073709551616 = unat w" using unat_bound [of w] by simp
  moreover have "(256 :: nat) ^ i = 2 ^ (8 * i)" by (simp add: power_mult)
  ultimately show ?thesis
    by (simp add: unsigned_ucast_eq take_bit_eq_mod unsigned_drop_bit_eq flip: drop_bit_eq_div)
qed

lemma length_u64_le_bytes [simp]: "length (u64_le_bytes w) = 8"
  by (simp add: u64_le_bytes_def)

lemma demo_u64_roundtrip [simp]: "demo_u64_decode (u64_le_bytes w @ rest) = w"
proof -
  have "horner_sum unat (2 ^ 8) (u64_le_bytes w) = (\<Sum>i<8. (unat w div 256 ^ i mod 256) * 256 ^ i)"
    unfolding u64_le_bytes_def by (simp add: horner_sum_eq_sum u64_byte lessThan_atLeast0)
  also have "\<dots> = unat w" using base_256_digits [of "unat w" 8] unat_bound [of w] by simp
  finally show ?thesis by (simp add: demo_u64_decode_def)
qed

lemma ucast_u64_u32 [simp]: "(ucast (ucast (w :: u32) :: u64) :: u32) = w"
  by transfer simp

lemma demo_payload_laws: "payload_laws demo_payload_lib"
proof -
  have "map_of p i = None \<longrightarrow> map_of (p @ [(i, v)]) j = (if j = i then Some v else map_of p j)"
    for p :: "(bytes \<times> bytes) list" and i j v
    by (induction p) auto
  moreover have "map_of p j = None \<longleftrightarrow> map snd (filter (\<lambda>e. fst e = j) p) = []" for p :: "(bytes \<times> bytes) list" and j
    by (induction p) auto
  ultimately show ?thesis
    by (simp add: payload_laws_def demo_payload_lib_def CURRENT_BEEFY_STAKES_ID_def CURRENT_BEEFY_AUTHORITY_SET_def
        NEXT_BEEFY_STAKES_ID_def NEXT_BEEFY_AUTHORITY_SET_def del: map_of_append)
qed

lemma demo_codec_laws: "codec_laws demo_codec"
proof -
  have "demo_stakes_decode (concat (map (\<lambda>(b, s). b # u64_le_bytes s) xs)) = Some xs" for xs
    by (induction xs) auto
  then show ?thesis by (simp add: codec_laws_def demo_codec_def)
qed

lemma demo_relay_laws: "relay_laws demo_relay_lib demo_verify demo_beefy_env"
  by (simp add: relay_laws_def demo_relay_lib_def demo_payload_laws demo_codec_laws merkle_agree_def demo_beefy_env_def
      verify_law_def demo_verify_def)

lemma provider_payload_total:
  "\<exists>p. provider_payload lib c (Some r) (runtime_stakes_api env root st) = Some p"
  by (simp add: provider_payload_def runtime_stakes_api_def mmr_root_from_digest_or_runtime_def split: option.split)

lemma demo_justification_for:
  "justification_for demo_relay_lib demo_verify (demo_relay_node n) demo_beefy_env (Some [42]) (demo_beefy_state n) j
     (demo_commitment n)"
proof -
  obtain p where "provider_payload demo_payload_lib demo_codec (Some [42])
      (runtime_stakes_api demo_beefy_env (Some [42]) (demo_beefy_state n)) = Some p"
    by (rule exE [OF provider_payload_total])
  then show ?thesis
    by (simp add: justification_for_def demo_relay_node_def demo_commitment_def demo_relay_lib_def demo_verify_def)
      (simp add: demo_beefy_state_def)
qed

text \<open>Encoding loses nothing.\<close>

lemma as_i64_inj: "as_i64 m = as_i64 n \<Longrightarrow> m < 2 ^ 64 \<Longrightarrow> n < 2 ^ 64 \<Longrightarrow> m = n"
proof -
  assume "as_i64 m = as_i64 n" and m: "m < 2 ^ 64" and n: "n < 2 ^ 64"
  then have "(of_nat m :: u64) = of_nat n" unfolding as_i64_def by (intro signed_word_eqI)
  then have "unat (of_nat m :: u64) = unat (of_nat n :: u64)" by (rule arg_cong)
  with m n show "m = n" by (simp add: unat_of_nat)
qed

lemma proof_node_inj:
  assumes "inj hb"
  shows "proof_node_to_plutus_data hb a = proof_node_to_plutus_data hb b \<Longrightarrow> a = b"
proof (induction a arbitrary: b)
  case (ProofLeaf h)
  then show ?case by (cases b) (auto dest: injD [OF assms])
next
  case (ProofNode ns)
  show ?case
  proof (cases b)
    case (ProofNode ms)
    with ProofNode.prems have "map (proof_node_to_plutus_data hb) ns = map (proof_node_to_plutus_data hb) ms" by simp
    then have "ns = ms" by (rule list.inj_map_strong [rotated]) (rule ProofNode.IH)
    with ProofNode show ?thesis by simp
  qed (use ProofNode.prems in simp)
qed

lemma payload_to_plutus_inj: "payload_to_plutus_data a = payload_to_plutus_data b \<Longrightarrow> a = b"
  by (simp add: payload_to_plutus_data_def commitment_payload.equality)

lemma commitment_to_plutus_inj:
  assumes "commitment_to_plutus_data a = commitment_to_plutus_data b"
    and "com_block_number a < 2 ^ 64" "com_block_number b < 2 ^ 64"
    and "com_validator_set_id a < 2 ^ 64" "com_validator_set_id b < 2 ^ 64"
  shows "a = b"
proof (rule commitment.equality)
  have "map payload_to_plutus_data (com_payloads a) = map payload_to_plutus_data (com_payloads b)"
    using assms(1) by (simp add: commitment_to_plutus_data_def)
  then show "com_payloads a = com_payloads b" by (rule list.inj_map_strong [rotated]) (rule payload_to_plutus_inj)
qed (use assms in \<open>auto simp: commitment_to_plutus_data_def dest: as_i64_inj\<close>)

lemma votes_to_plutus_inj:
  assumes "map vote_to_plutus_data a = map vote_to_plutus_data b"
    and "list_all (\<lambda>v. vote_authority_index v < 2 ^ 64) a" "list_all (\<lambda>v. vote_authority_index v < 2 ^ 64) b"
  shows "a = b"
  by (rule list.inj_map_strong [OF _ assms(1)])
    (use assms(2,3) in \<open>auto simp: list_all_iff vote_to_plutus_data_def intro: vote.equality dest: as_i64_inj\<close>)

lemma authorities_proof_inj:
  assumes "authorities_proof_to_plutus_data hb a = authorities_proof_to_plutus_data hb b" "inj hb"
  shows "a = b"
proof (rule authorities_proof.equality)
  have "(ucast (proof_total_leaves a) :: u64) = ucast (proof_total_leaves b)"
    using assms(1) by (auto simp: authorities_proof_to_plutus_data_def intro: signed_word_eqI)
  then show "proof_total_leaves a = proof_total_leaves b" by (metis ucast_u64_u32)
qed (use assms in \<open>auto simp: authorities_proof_to_plutus_data_def dest: injD proof_node_inj\<close>)

section \<open>Properties\<close>

text \<open>
  C38: what the relay publishes for a justification is a proof against the authority set the runtime
  committed to.  When the block has a next committee, the relay succeeds; the Merkle root of its proof is
  the keyset commitment of the runtime's current authority set and its number of leaves is the length of
  that set; the proof tree is built over the leaves of the validators for exactly the indices that signed;
  there is one vote per signature, in order, and the public key and index of each vote hash to the leaf at
  that index; and the commitment carries the MMR root of the block and nothing else.
\<close>
theorem relay_proof_commits_to_authority_set:
  assumes "relay_laws lib verify env" "justification_for lib verify node env (Some r) st j sc"
    and "next_committee (beefy_committees st) \<noteq> None"
  shows "\<exists>p. handle_justification_stream_data lib verify node j =
        Returns (Inr (relay_chain_proof_to_plutus_data (hash_bytes lib) p)) \<and>
    (let stakes = current_beefy_stakes env None st; votes = sc_votes (rcp_signed_commitment p);
         leaves = prep_merkle_leaves lib stakes in
     proof_root (rcp_proof p) = keyset_commitment (compute_current_authority_set env stakes st) \<and>
     proof_total_leaves (rcp_proof p) = set_len (compute_current_authority_set env stakes st) \<and>
     proof_tree (rcp_proof p) = ordered_proof_tree lib leaves (map vote_authority_index votes) \<and>
     map vote_authority_index votes = filter (\<lambda>i. bc_signatures sc ! i \<noteq> None) [0..<length (bc_signatures sc)] \<and>
     (\<forall>v \<in> set votes. vote_authority_index v < length leaves \<and>
        leaves ! vote_authority_index v = keccak_256 lib (vote_public_key v @ u64_le_bytes 1) \<and>
        bc_signatures sc ! vote_authority_index v \<noteq> None \<and>
        vote_signature v = butlast (the (bc_signatures sc ! vote_authority_index v))) \<and>
     com_payloads (sc_commitment (rcp_signed_commitment p)) =
       [\<lparr> cp_id = mmr_root_id (relay_payload lib), cp_data = encode_root (relay_codec lib) r \<rparr>])"
proof -
  note asm = assms(1,2) [unfolded relay_laws_def justification_for_def]
  have len: "length (bc_signatures sc) = length (beefy_validators st)"
    using asm unfolding verify_law_def by (metis validator_set.select_convs(1))
  have pl: "get_all_raw (relay_payload lib) (mmr_root_id (relay_payload lib)) (bc_payload sc) = [encode_root (relay_codec lib) r]"
    using provided_payload_entries(5) [of "relay_payload lib" "relay_codec lib" "Some r" env "Some r" st "bc_payload sc"] asm
    by simp
  let ?p = "\<lparr> rcp_signed_commitment = from_signed_commitment_and_validators lib sc (beefy_validators st),
       rcp_proof = \<lparr>
         proof_root = keyset_commitment (compute_current_authority_set env (current_beefy_stakes env None st) st),
         proof_total_leaves = of_nat (length (beefy_validators st)),
         proof_tree = ordered_proof_tree lib (prep_merkle_leaves lib (current_beefy_stakes env None st))
           (filter (\<lambda>i. bc_signatures sc ! i \<noteq> None) [0..<length (beefy_validators st)]) \<rparr> \<rparr>"
  have "handle_justification_stream_data lib verify node j =
      Returns (Inr (relay_chain_proof_to_plutus_data (hash_bytes lib) ?p))"
    using asm assms(3)
    by (simp add: handle_justification_stream_data_def validator_set_of_node [OF assms(2)]
        relay_generate_provided [OF assms(1,2)] del: not_None_eq)
  moreover have "map vote_authority_index (sc_votes (rcp_signed_commitment ?p)) =
      filter (\<lambda>i. bc_signatures sc ! i \<noteq> None) [0..<length (bc_signatures sc)]"
    by (simp add: relay_votes len comp_def)
  moreover have "proof_total_leaves (rcp_proof ?p) =
      set_len (compute_current_authority_set env (current_beefy_stakes env None st) st)"
    by (simp add: compute_current_authority_set_def compute_authority_set_def current_stakes_eq)
  moreover have "\<forall>v \<in> set (sc_votes (rcp_signed_commitment ?p)).
      vote_authority_index v < length (beefy_validators st) \<and>
      prep_merkle_leaves lib (current_beefy_stakes env None st) ! vote_authority_index v =
        keccak_256 lib (vote_public_key v @ u64_le_bytes 1) \<and>
      bc_signatures sc ! vote_authority_index v \<noteq> None \<and>
      vote_signature v = butlast (the (bc_signatures sc ! vote_authority_index v))"
    by (auto simp: relay_votes len prep_merkle_leaves_def prep_leaf_hash_def current_stakes_eq)
  moreover have "com_payloads (sc_commitment (rcp_signed_commitment ?p)) =
      [\<lparr> cp_id = mmr_root_id (relay_payload lib), cp_data = encode_root (relay_codec lib) r \<rparr>]"
    by (simp add: from_signed_commitment_and_validators_def pl)
  moreover have "length (prep_merkle_leaves lib (current_beefy_stakes env None st)) = length (beefy_validators st)"
    by (simp add: prep_merkle_leaves_def current_stakes_eq)
  ultimately show ?thesis
    unfolding Let_def by (intro exI [of _ ?p] conjI) (simp_all only: relay_chain_proof.simps authorities_proof.simps len)
qed

theorem relay_proof_commits_to_authority_set_witness:
  "relay_laws demo_relay_lib demo_verify demo_beefy_env \<and>
   justification_for demo_relay_lib demo_verify (demo_relay_node True) demo_beefy_env (Some [42]) (demo_beefy_state True) []
     (demo_commitment True) \<and>
   (\<exists>p. handle_justification_stream_data demo_relay_lib demo_verify (demo_relay_node True) [] =
      Returns (Inr (relay_chain_proof_to_plutus_data (hash_bytes demo_relay_lib) p)) \<and>
    map vote_authority_index (sc_votes (rcp_signed_commitment p)) = [1])"
proof -
  have "next_committee (beefy_committees (demo_beefy_state True)) \<noteq> None" by (simp add: demo_beefy_state_def)
  from relay_proof_commits_to_authority_set [OF demo_relay_laws demo_justification_for [of True "[]"] this]
  obtain p where "handle_justification_stream_data demo_relay_lib demo_verify (demo_relay_node True) [] =
      Returns (Inr (relay_chain_proof_to_plutus_data (hash_bytes demo_relay_lib) p))"
    and votes: "map vote_authority_index (sc_votes (rcp_signed_commitment p)) =
      filter (\<lambda>i. bc_signatures (demo_commitment True) ! i \<noteq> None) [0..<length (bc_signatures (demo_commitment True))]"
    unfolding Let_def by (elim exE conjE)
  moreover from votes have "map vote_authority_index (sc_votes (rcp_signed_commitment p)) = [1]"
    by (simp add: demo_commitment_def upt_rec)
  ultimately show ?thesis using demo_relay_laws demo_justification_for [of True "[]"] by (intro conjI exI [of _ p])
qed

text \<open>
  C39: a justification of a block without a next committee, for which the node leaves the next stakes out
  of the payload, stops the relay with \<^verbatim>\<open>MissingNextBeefyStakes\<close>, whatever justifications follow.
\<close>
theorem relay_stops_without_next_committee:
  assumes "relay_laws lib verify env" "justification_for lib verify node env root st j sc"
    and "next_committee (beefy_committees st) = None"
  shows "run_relay_by_subscription lib verify ((Inr j, node) # items) shown = Returns (shown, Inl MissingNextBeefyStakes)"
  using assms(3) assms(2) [unfolded justification_for_def]
  by (simp add: handle_justification_stream_data_def validator_set_of_node [OF assms(2)] relay_generate_provided [OF assms(1,2)])

theorem relay_stops_without_next_committee_witness:
  "relay_laws demo_relay_lib demo_verify demo_beefy_env \<and>
   justification_for demo_relay_lib demo_verify (demo_relay_node False) demo_beefy_env (Some [42]) (demo_beefy_state False) []
     (demo_commitment False) \<and>
   run_relay_by_subscription demo_relay_lib demo_verify [(Inr [], demo_relay_node False), (Inr [], demo_relay_node True)] [] =
     Returns ([], Inl MissingNextBeefyStakes)"
proof -
  have "next_committee (beefy_committees (demo_beefy_state False)) = None" by (simp add: demo_beefy_state_def)
  from relay_stops_without_next_committee [OF demo_relay_laws demo_justification_for [of False "[]"] this]
  show ?thesis using demo_relay_laws demo_justification_for [of False "[]"] by blast
qed

text \<open>
  C40: the encoding for Cardano is injective.  Two proofs whose \<^verbatim>\<open>usize\<close> fields have 64 bits and whose plutus
  data agree are the same proof, the casts to \<^verbatim>\<open>i64\<close> and the nested proof tree included.
\<close>
theorem relay_encoding_injective:
  assumes "inj hb" "usize_fields p" "usize_fields q"
  shows "relay_chain_proof_to_plutus_data hb p = relay_chain_proof_to_plutus_data hb q \<longleftrightarrow> p = q"
proof
  assume eq: "relay_chain_proof_to_plutus_data hb p = relay_chain_proof_to_plutus_data hb q"
  show "p = q"
  proof (rule relay_chain_proof.equality)
    have eqs: "signed_commitment_to_plutus_data (rcp_signed_commitment p) =
        signed_commitment_to_plutus_data (rcp_signed_commitment q)"
      "authorities_proof_to_plutus_data hb (rcp_proof p) = authorities_proof_to_plutus_data hb (rcp_proof q)"
      using eq by (simp_all add: relay_chain_proof_to_plutus_data_def)
    show "rcp_signed_commitment p = rcp_signed_commitment q"
      by (rule signed_commitment.equality)
        (use eqs(1) assms(2,3) in \<open>auto simp: signed_commitment_to_plutus_data_def usize_fields_def
          intro: commitment_to_plutus_inj votes_to_plutus_inj\<close>)
    show "rcp_proof p = rcp_proof q" by (rule authorities_proof_inj [OF eqs(2) assms(1)])
  qed simp
qed simp

theorem relay_encoding_injective_witness:
  "let proof_of = (\<lambda>i. \<lparr> rcp_signed_commitment = \<lparr>
         sc_commitment = \<lparr> com_payloads = [], com_block_number = 10, com_validator_set_id = 3 \<rparr>,
         sc_votes = [\<lparr> vote_signature = [1, 2], vote_authority_index = i, vote_public_key = [8] \<rparr>] \<rparr>,
       rcp_proof = \<lparr> proof_root = [5], proof_total_leaves = 2, proof_tree = ProofNode [ProofLeaf [5 :: byte]] \<rparr> \<rparr>) in
   usize_fields (proof_of 0) \<and> usize_fields (proof_of 1) \<and>
   relay_chain_proof_to_plutus_data id (proof_of 0) \<noteq> relay_chain_proof_to_plutus_data id (proof_of 1)"
  unfolding Let_def by (subst relay_encoding_injective) (simp_all add: usize_fields_def)

end
