(* ===== verification/Ledger_Errors.thy ===== *)
theory Ledger_Errors
  imports Node_Prelude
begin

text \<open>
  The errors of the ledger bridge, \<^verbatim>\<open>ledger/src/versions/common/types.rs\<close>, and the byte each of
  them becomes in \<^verbatim>\<open>InvalidTransaction::Custom\<close>.  A wallet only sees this byte, so two errors with
  the same byte could not be told apart.
\<close>

section \<open>Errors\<close>

datatype invalid_error =
    Ie_EffectsMismatch | Ie_ContractAlreadyDeployed | Ie_ContractNotPresent | Ie_Zswap
  | Ie_Transcript | Ie_InsufficientClaimable | Ie_VerifierKeyNotFound
  | Ie_VerifierKeyAlreadyPresent | Ie_ReplayCounterMismatch | Ie_ReplayProtectionViolation
  | Ie_BalanceCheckOutOfBounds | Ie_InputNotInUtxos | Ie_DustDoubleSpend
  | Ie_DustDeregistrationNotRegistered | Ie_GenerationInfoAlreadyPresent | Ie_InvariantViolation
  | Ie_RewardTooSmall | Ie_UnknownError

datatype system_transaction_error =
    Ste_IllegalPayout | Ste_InsufficientTreasuryFunds | Ste_CommitmentAlreadyPresent
  | Ste_UnknownError | Ste_ReplayProtectionFailure | Ste_IllegalReserveDistribution
  | Ste_GenerationInfoAlreadyPresent | Ste_InvalidBasisPoints | Ste_InvariantViolation
  | Ste_TreasuryDisabled

datatype (plugins only: code size) malformed_error =
    Me_VerifierKeyNotSet | Me_TransactionTooLarge | Me_VerifierKeyTooLarge
  | Me_VerifierKeyNotPresent | Me_ContractNotPresent | Me_InvalidProof
  | Me_BindingCommitmentOpeningInvalid | Me_NotNormalized | Me_FallibleWithoutCheckpoint
  | Me_ClaimReceiveFailed | Me_ClaimSpendFailed | Me_ClaimNullifierFailed | Me_ClaimCallFailed
  | Me_InvalidSchnorrProof | Me_UnclaimedCoinCom | Me_UnclaimedNullifier | Me_Unbalanced
  | Me_Zswap | Me_BuiltinDecode | Me_GuaranteedLimit | Me_MergingContracts | Me_CantMergeTypes
  | Me_ClaimOverflow | Me_ClaimCoinMismatch | Me_KeyNotInCommittee
  | Me_InvalidCommitteeSignature | Me_ThresholdMissed | Me_TooManyZswapEntries
  | Me_BalanceCheckOverspend | Me_InvalidNetworkId | Me_IllegallyDeclaredGuaranteed
  | Me_FeeCalculation | Me_InvalidDustRegistrationSignature | Me_InvalidDustSpendProof
  | Me_OutOfDustValidityWindow | Me_MultipleDustRegistrationsForKey
  | Me_InsufficientDustForRegistrationFee | Me_MalformedContractDeploy
  | Me_IntentSignatureVerificationFailure | Me_IntentSignatureKeyMismatch
  | Me_IntentSegmentIdCollision | Me_IntentAtGuaranteedSegmentId | Me_UnsupportedProofVersion
  | Me_GuaranteedTranscriptVersion | Me_FallibleTranscriptVersion
  | Me_TransactionApplicationError | Me_BalanceCheckOutOfBounds
  | Me_BalanceCheckConversionFailure | Me_PedersenCheckFailure | Me_EffectsCheckFailure
  | Me_DisjointCheckFailure | Me_SequencingCheckFailure | Me_InputsNotSorted
  | Me_OutputsNotSorted | Me_DuplicateInputs | Me_InputsSignaturesLengthMismatch
  | Me_UnknownError

datatype deserialization_error =
    De_NetworkId | De_Transaction | De_LedgerState | De_ContractAddress | De_PublicKey
  | De_TypedArenaKey | De_VersionedArenaKey | De_UserAddress | De_SystemTransaction
  | De_DustPublicKey | De_CNightGeneratesDustActionType | De_CNightGeneratesDustEvent

datatype serialization_error =
    Se_TransactionIdentifier | Se_ZswapState | Se_LedgerState | Se_LedgerParameters
  | Se_ContractAddress | Se_ContractState | Se_ContractStateToJson | Se_UnknownType
  | Se_MerkleTreeDigest | Se_TypedArenaKey | Se_VersionedArenaKey | Se_CNightGeneratesDustEvent
  | Se_SystemTransaction | Se_ArenaHash

datatype transaction_error =
    TxInvalid invalid_error
  | TxMalformed malformed_error
  | TxSystemTransaction system_transaction_error

datatype ledger_api_error =
    LDeserialization deserialization_error
  | LSerialization serialization_error
  | LTransaction transaction_error
  | LLedgerCacheError
  | LNoLedgerState
  | LLedgerStateScaleDecodingError
  | LContractCallCostError
  | LBlockLimitExceededError
  | LFeeCalculationError
  | LHostApiError
  | LGetTransactionContextError

section \<open>Codes\<close>

primrec deserialization_code :: "deserialization_error \<Rightarrow> byte" where
  "deserialization_code De_NetworkId = 0"
| "deserialization_code De_Transaction = 1"
| "deserialization_code De_LedgerState = 2"
| "deserialization_code De_ContractAddress = 3"
| "deserialization_code De_PublicKey = 4"
| "deserialization_code De_TypedArenaKey = 7"
| "deserialization_code De_VersionedArenaKey = 5"
| "deserialization_code De_UserAddress = 6"
| "deserialization_code De_SystemTransaction = 8"
| "deserialization_code De_DustPublicKey = 9"
| "deserialization_code De_CNightGeneratesDustActionType = 10"
| "deserialization_code De_CNightGeneratesDustEvent = 11"

primrec serialization_code :: "serialization_error \<Rightarrow> byte" where
  "serialization_code Se_TransactionIdentifier = 50"
| "serialization_code Se_ZswapState = 56"
| "serialization_code Se_LedgerState = 51"
| "serialization_code Se_LedgerParameters = 52"
| "serialization_code Se_ContractAddress = 53"
| "serialization_code Se_ContractState = 54"
| "serialization_code Se_ContractStateToJson = 55"
| "serialization_code Se_UnknownType = 57"
| "serialization_code Se_MerkleTreeDigest = 58"
| "serialization_code Se_TypedArenaKey = 60"
| "serialization_code Se_VersionedArenaKey = 59"
| "serialization_code Se_CNightGeneratesDustEvent = 61"
| "serialization_code Se_SystemTransaction = 62"
| "serialization_code Se_ArenaHash = 63"

primrec invalid_code :: "invalid_error \<Rightarrow> byte" where
  "invalid_code Ie_EffectsMismatch = 100"
| "invalid_code Ie_ContractAlreadyDeployed = 101"
| "invalid_code Ie_ContractNotPresent = 102"
| "invalid_code Ie_Zswap = 103"
| "invalid_code Ie_Transcript = 104"
| "invalid_code Ie_InsufficientClaimable = 105"
| "invalid_code Ie_VerifierKeyNotFound = 106"
| "invalid_code Ie_VerifierKeyAlreadyPresent = 107"
| "invalid_code Ie_ReplayCounterMismatch = 108"
| "invalid_code Ie_ReplayProtectionViolation = 193"
| "invalid_code Ie_BalanceCheckOutOfBounds = 194"
| "invalid_code Ie_InputNotInUtxos = 195"
| "invalid_code Ie_DustDoubleSpend = 196"
| "invalid_code Ie_DustDeregistrationNotRegistered = 197"
| "invalid_code Ie_GenerationInfoAlreadyPresent = 198"
| "invalid_code Ie_InvariantViolation = 199"
| "invalid_code Ie_RewardTooSmall = 200"
| "invalid_code Ie_UnknownError = 109"

primrec malformed_code :: "malformed_error \<Rightarrow> byte" where
  "malformed_code Me_VerifierKeyNotSet = 110"
| "malformed_code Me_TransactionTooLarge = 111"
| "malformed_code Me_VerifierKeyTooLarge = 112"
| "malformed_code Me_VerifierKeyNotPresent = 113"
| "malformed_code Me_ContractNotPresent = 114"
| "malformed_code Me_InvalidProof = 115"
| "malformed_code Me_BindingCommitmentOpeningInvalid = 116"
| "malformed_code Me_NotNormalized = 117"
| "malformed_code Me_FallibleWithoutCheckpoint = 118"
| "malformed_code Me_ClaimReceiveFailed = 119"
| "malformed_code Me_ClaimSpendFailed = 120"
| "malformed_code Me_ClaimNullifierFailed = 121"
| "malformed_code Me_ClaimCallFailed = 122"
| "malformed_code Me_InvalidSchnorrProof = 123"
| "malformed_code Me_UnclaimedCoinCom = 124"
| "malformed_code Me_UnclaimedNullifier = 125"
| "malformed_code Me_Unbalanced = 126"
| "malformed_code Me_Zswap = 127"
| "malformed_code Me_BuiltinDecode = 128"
| "malformed_code Me_GuaranteedLimit = 129"
| "malformed_code Me_MergingContracts = 130"
| "malformed_code Me_CantMergeTypes = 131"
| "malformed_code Me_ClaimOverflow = 132"
| "malformed_code Me_ClaimCoinMismatch = 133"
| "malformed_code Me_KeyNotInCommittee = 134"
| "malformed_code Me_InvalidCommitteeSignature = 135"
| "malformed_code Me_ThresholdMissed = 136"
| "malformed_code Me_TooManyZswapEntries = 137"
| "malformed_code Me_BalanceCheckOverspend = 138"
| "malformed_code Me_InvalidNetworkId = 166"
| "malformed_code Me_IllegallyDeclaredGuaranteed = 167"
| "malformed_code Me_FeeCalculation = 168"
| "malformed_code Me_InvalidDustRegistrationSignature = 169"
| "malformed_code Me_InvalidDustSpendProof = 170"
| "malformed_code Me_OutOfDustValidityWindow = 171"
| "malformed_code Me_MultipleDustRegistrationsForKey = 172"
| "malformed_code Me_InsufficientDustForRegistrationFee = 173"
| "malformed_code Me_MalformedContractDeploy = 174"
| "malformed_code Me_IntentSignatureVerificationFailure = 175"
| "malformed_code Me_IntentSignatureKeyMismatch = 176"
| "malformed_code Me_IntentSegmentIdCollision = 177"
| "malformed_code Me_IntentAtGuaranteedSegmentId = 178"
| "malformed_code Me_UnsupportedProofVersion = 179"
| "malformed_code Me_GuaranteedTranscriptVersion = 180"
| "malformed_code Me_FallibleTranscriptVersion = 181"
| "malformed_code Me_TransactionApplicationError = 182"
| "malformed_code Me_BalanceCheckOutOfBounds = 183"
| "malformed_code Me_BalanceCheckConversionFailure = 184"
| "malformed_code Me_PedersenCheckFailure = 185"
| "malformed_code Me_EffectsCheckFailure = 186"
| "malformed_code Me_DisjointCheckFailure = 187"
| "malformed_code Me_SequencingCheckFailure = 188"
| "malformed_code Me_InputsNotSorted = 189"
| "malformed_code Me_OutputsNotSorted = 190"
| "malformed_code Me_DuplicateInputs = 191"
| "malformed_code Me_InputsSignaturesLengthMismatch = 192"
| "malformed_code Me_UnknownError = 139"

primrec system_transaction_code :: "system_transaction_error \<Rightarrow> byte" where
  "system_transaction_code Ste_IllegalPayout = 201"
| "system_transaction_code Ste_InsufficientTreasuryFunds = 202"
| "system_transaction_code Ste_CommitmentAlreadyPresent = 203"
| "system_transaction_code Ste_UnknownError = 204"
| "system_transaction_code Ste_ReplayProtectionFailure = 205"
| "system_transaction_code Ste_IllegalReserveDistribution = 206"
| "system_transaction_code Ste_GenerationInfoAlreadyPresent = 207"
| "system_transaction_code Ste_InvalidBasisPoints = 208"
| "system_transaction_code Ste_InvariantViolation = 209"
| "system_transaction_code Ste_TreasuryDisabled = 210"

primrec transaction_code :: "transaction_error \<Rightarrow> byte" where
  "transaction_code (TxInvalid e) = invalid_code e"
| "transaction_code (TxMalformed e) = malformed_code e"
| "transaction_code (TxSystemTransaction e) = system_transaction_code e"

primrec ledger_api_error_code :: "ledger_api_error \<Rightarrow> byte" where
  "ledger_api_error_code (LDeserialization e) = deserialization_code e"
| "ledger_api_error_code (LSerialization e) = serialization_code e"
| "ledger_api_error_code (LTransaction e) = transaction_code e"
| "ledger_api_error_code LLedgerCacheError = 150"
| "ledger_api_error_code LNoLedgerState = 151"
| "ledger_api_error_code LLedgerStateScaleDecodingError = 152"
| "ledger_api_error_code LContractCallCostError = 153"
| "ledger_api_error_code LBlockLimitExceededError = 154"
| "ledger_api_error_code LFeeCalculationError = 155"
| "ledger_api_error_code LGetTransactionContextError = 165"
| "ledger_api_error_code LHostApiError = 255"

section \<open>Enumerations\<close>

definition all_deserialization :: "deserialization_error list" where
  "all_deserialization = [
     De_NetworkId, De_Transaction, De_LedgerState, De_ContractAddress, De_PublicKey,
     De_TypedArenaKey, De_VersionedArenaKey, De_UserAddress, De_SystemTransaction,
     De_DustPublicKey, De_CNightGeneratesDustActionType, De_CNightGeneratesDustEvent]"

definition all_serialization :: "serialization_error list" where
  "all_serialization = [
     Se_TransactionIdentifier, Se_ZswapState, Se_LedgerState, Se_LedgerParameters,
     Se_ContractAddress, Se_ContractState, Se_ContractStateToJson, Se_UnknownType,
     Se_MerkleTreeDigest, Se_TypedArenaKey, Se_VersionedArenaKey, Se_CNightGeneratesDustEvent,
     Se_SystemTransaction, Se_ArenaHash]"

definition all_invalid :: "invalid_error list" where
  "all_invalid = [
     Ie_EffectsMismatch, Ie_ContractAlreadyDeployed, Ie_ContractNotPresent, Ie_Zswap,
     Ie_Transcript, Ie_InsufficientClaimable, Ie_VerifierKeyNotFound,
     Ie_VerifierKeyAlreadyPresent, Ie_ReplayCounterMismatch, Ie_ReplayProtectionViolation,
     Ie_BalanceCheckOutOfBounds, Ie_InputNotInUtxos, Ie_DustDoubleSpend,
     Ie_DustDeregistrationNotRegistered, Ie_GenerationInfoAlreadyPresent,
     Ie_InvariantViolation, Ie_RewardTooSmall, Ie_UnknownError]"

definition all_malformed :: "malformed_error list" where
  "all_malformed = [
     Me_VerifierKeyNotSet, Me_TransactionTooLarge, Me_VerifierKeyTooLarge,
     Me_VerifierKeyNotPresent, Me_ContractNotPresent, Me_InvalidProof,
     Me_BindingCommitmentOpeningInvalid, Me_NotNormalized, Me_FallibleWithoutCheckpoint,
     Me_ClaimReceiveFailed, Me_ClaimSpendFailed, Me_ClaimNullifierFailed, Me_ClaimCallFailed,
     Me_InvalidSchnorrProof, Me_UnclaimedCoinCom, Me_UnclaimedNullifier, Me_Unbalanced,
     Me_Zswap, Me_BuiltinDecode, Me_GuaranteedLimit, Me_MergingContracts, Me_CantMergeTypes,
     Me_ClaimOverflow, Me_ClaimCoinMismatch, Me_KeyNotInCommittee,
     Me_InvalidCommitteeSignature, Me_ThresholdMissed, Me_TooManyZswapEntries,
     Me_BalanceCheckOverspend, Me_InvalidNetworkId, Me_IllegallyDeclaredGuaranteed,
     Me_FeeCalculation, Me_InvalidDustRegistrationSignature, Me_InvalidDustSpendProof,
     Me_OutOfDustValidityWindow, Me_MultipleDustRegistrationsForKey,
     Me_InsufficientDustForRegistrationFee, Me_MalformedContractDeploy,
     Me_IntentSignatureVerificationFailure, Me_IntentSignatureKeyMismatch,
     Me_IntentSegmentIdCollision, Me_IntentAtGuaranteedSegmentId, Me_UnsupportedProofVersion,
     Me_GuaranteedTranscriptVersion, Me_FallibleTranscriptVersion,
     Me_TransactionApplicationError, Me_BalanceCheckOutOfBounds,
     Me_BalanceCheckConversionFailure, Me_PedersenCheckFailure, Me_EffectsCheckFailure,
     Me_DisjointCheckFailure, Me_SequencingCheckFailure, Me_InputsNotSorted,
     Me_OutputsNotSorted, Me_DuplicateInputs, Me_InputsSignaturesLengthMismatch,
     Me_UnknownError]"

definition all_system_transaction :: "system_transaction_error list" where
  "all_system_transaction = [
     Ste_IllegalPayout, Ste_InsufficientTreasuryFunds, Ste_CommitmentAlreadyPresent,
     Ste_UnknownError, Ste_ReplayProtectionFailure, Ste_IllegalReserveDistribution,
     Ste_GenerationInfoAlreadyPresent, Ste_InvalidBasisPoints, Ste_InvariantViolation,
     Ste_TreasuryDisabled]"

definition all_errors :: "ledger_api_error list" where
  "all_errors = map LDeserialization all_deserialization @ map LSerialization all_serialization @
     map (LTransaction \<circ> TxInvalid) all_invalid @ map (LTransaction \<circ> TxMalformed) all_malformed @
     map (LTransaction \<circ> TxSystemTransaction) all_system_transaction @
     [LLedgerCacheError, LNoLedgerState, LLedgerStateScaleDecodingError, LContractCallCostError,
      LBlockLimitExceededError, LFeeCalculationError, LHostApiError, LGetTransactionContextError]"

section \<open>Lemmas\<close>

lemma mem_all_deserialization [simp]: "e \<in> set all_deserialization"
  by (cases e) (simp_all add: all_deserialization_def)

lemma mem_all_serialization [simp]: "e \<in> set all_serialization"
  by (cases e) (simp_all add: all_serialization_def)

lemma mem_all_invalid [simp]: "e \<in> set all_invalid"
  by (cases e) (simp_all add: all_invalid_def)

lemma mem_all_malformed [simp]: "e \<in> set all_malformed"
  by (cases e) (simp_all add: all_malformed_def)

lemma mem_all_system_transaction [simp]: "e \<in> set all_system_transaction"
  by (cases e) (simp_all add: all_system_transaction_def)

lemma mem_all_errors: "e \<in> set all_errors"
proof (cases e)
  case (LTransaction t)
  then show ?thesis by (cases t) (simp_all add: all_errors_def)
qed (simp_all add: all_errors_def)

lemma codes_distinct: "distinct (map (unat \<circ> ledger_api_error_code) all_errors)"
  by (simp add: all_errors_def all_deserialization_def all_serialization_def all_invalid_def
      all_malformed_def all_system_transaction_def)

lemma ledger_api_error_code_eqD: "ledger_api_error_code d = ledger_api_error_code e \<Longrightarrow> d = e"
proof -
  assume eq: "ledger_api_error_code d = ledger_api_error_code e"
  have "set all_errors = UNIV" by (auto simp: mem_all_errors)
  then have "inj (unat \<circ> ledger_api_error_code)"
    using codes_distinct unfolding distinct_map by metis
  from injD [OF this, of d e] eq show "d = e" by simp
qed

section \<open>Properties\<close>

text \<open>
  No two ledger errors share a byte: the error code of \<^verbatim>\<open>InvalidTransaction::Custom\<close>
  determines the error.
\<close>
theorem ledger_error_codes_unique: "inj ledger_api_error_code"
  by (rule injI) (rule ledger_api_error_code_eqD)

end
