(* ===== verification/Ledger_Types.thy ===== *)
theory Ledger_Types
  imports Ledger_Errors
begin

text \<open>
  The types that cross the boundary between the runtime and the ledger bridge:
  \<^verbatim>\<open>ledger/src/common/types.rs\<close> and \<^verbatim>\<open>BlockContext\<close>.  A hash is a list of 32 bytes.
\<close>

section \<open>Blocks and hashes\<close>

type_synonym segment_id = u16

record block_context =
  tblock :: u64
  tblock_err :: u32
  parent_block_hash :: bytes
  last_block_time :: u64

definition default_block_context :: block_context where
  "default_block_context =
     \<lparr> tblock = 0, tblock_err = 0, parent_block_hash = replicate 32 0, last_block_time = 0 \<rparr>"

text \<open>
  The context of the ledger library, with the hash as an array: the conversion gives the bytes
  back as the error when there are not 32 of them.
\<close>

record ledger_block_context =
  lc_tblock :: u64
  lc_tblock_err :: u32
  lc_parent_block_hash :: bytes
  lc_last_block_time :: u64

definition ledger_context_try_from :: "block_context \<Rightarrow> (bytes, ledger_block_context) result" where
  "ledger_context_try_from c =
     (if length (parent_block_hash c) = 32
      then Inr \<lparr> lc_tblock = tblock c, lc_tblock_err = tblock_err c,
             lc_parent_block_hash = parent_block_hash c, lc_last_block_time = last_block_time c \<rparr>
      else Inl (parent_block_hash c))"

definition block_context_from :: "ledger_block_context \<Rightarrow> block_context" where
  "block_context_from c =
     \<lparr> tblock = lc_tblock c, tblock_err = lc_tblock_err c,
       parent_block_hash = lc_parent_block_hash c, last_block_time = lc_last_block_time c \<rparr>"

text \<open>A 16 byte hash is extended to 32 bytes with zeros.\<close>

definition wrapped_hash_from :: "bytes \<Rightarrow> bytes" where
  "wrapped_hash_from h = h @ replicate 16 0"

section \<open>Results of the bridge\<close>

record utxo_info =
  ui_address :: bytes
  ui_token_type :: bytes
  ui_intent_hash :: bytes
  ui_value :: u128
  ui_output_no :: u32

record transaction_applied =
  ta_state_root :: bytes
  ta_tx_hash :: bytes
  ta_all_applied :: bool
  ta_call_addresses :: "bytes list"
  ta_deploy_addresses :: "bytes list"
  ta_maintain_addresses :: "bytes list"
  ta_claim_rewards :: "u128 list"
  ta_unshielded_created :: "utxo_info list"
  ta_unshielded_spent :: "utxo_info list"

record system_transaction_applied =
  sta_state_root :: bytes
  sta_tx_hash :: bytes
  sta_tx_type :: string

datatype op = OpCall bytes bytes | OpDeploy bytes | OpMaintain bytes | OpClaimRewards u128

record decoded_tx =
  dt_hash :: bytes
  dt_operations :: "op list"
  dt_identifiers :: "bytes list"
  dt_has_fallible_coins :: bool
  dt_has_guaranteed_coins :: bool

section \<open>Transaction details\<close>

record coins_details =
  inputs_num :: u32
  outputs_num :: u32
  transients_num :: u32

record maintain_updates_details =
  replace_authority_num :: u32
  verifier_key_remove_num :: u32
  verifier_key_insert_num :: u32

record contract_calls_details =
  calls_gas_cost :: u64
  calls_num :: u32
  deploys_num :: u32
  maintain_updates :: maintain_updates_details

definition default_calls_details :: contract_calls_details where
  "default_calls_details = \<lparr> calls_gas_cost = 0, calls_num = 0, deploys_num = 0,
     maintain_updates = \<lparr> replace_authority_num = 0, verifier_key_remove_num = 0, verifier_key_insert_num = 0 \<rparr> \<rparr>"

definition inc_calls :: "contract_calls_details \<Rightarrow> contract_calls_details" where
  "inc_calls cd = cd\<lparr> calls_num := saturating_add (calls_num cd) 1 \<rparr>"

definition inc_deploys :: "contract_calls_details \<Rightarrow> contract_calls_details" where
  "inc_deploys cd = cd\<lparr> deploys_num := saturating_add (deploys_num cd) 1 \<rparr>"

definition inc_replace_authority :: "contract_calls_details \<Rightarrow> contract_calls_details" where
  "inc_replace_authority cd = cd\<lparr> maintain_updates := (maintain_updates cd)
     \<lparr> replace_authority_num := saturating_add (replace_authority_num (maintain_updates cd)) 1 \<rparr> \<rparr>"

definition inc_verifier_key_remove :: "contract_calls_details \<Rightarrow> contract_calls_details" where
  "inc_verifier_key_remove cd = cd\<lparr> maintain_updates := (maintain_updates cd)
     \<lparr> verifier_key_remove_num := saturating_add (verifier_key_remove_num (maintain_updates cd)) 1 \<rparr> \<rparr>"

definition inc_verifier_key_insert :: "contract_calls_details \<Rightarrow> contract_calls_details" where
  "inc_verifier_key_insert cd = cd\<lparr> maintain_updates := (maintain_updates cd)
     \<lparr> verifier_key_insert_num := saturating_add (verifier_key_insert_num (maintain_updates cd)) 1 \<rparr> \<rparr>"

datatype transaction_details =
    TdStandard coins_details coins_details contract_calls_details
  | TdClaimRewards

fun details_type :: "transaction_details \<Rightarrow> string" where
  "details_type (TdStandard g f c) = ''standard''"
| "details_type TdClaimRewards = ''claim_rewards''"

fun gas_cost_from :: "transaction_details \<Rightarrow> u64" where
  "gas_cost_from (TdStandard g f c) = calls_gas_cost c"
| "gas_cost_from TdClaimRewards = 0"

record benchmark_components =
  num_guaranteed_inputs :: u32
  num_guaranteed_outputs :: u32
  num_guaranteed_transients :: u32
  num_fallible_inputs :: u32
  num_fallible_outputs :: u32
  num_fallible_transients :: u32
  num_contracts_deploy :: u32
  num_contract_replace_auth :: u32
  num_contract_key_remove :: u32
  num_contract_key_insert :: u32
  num_contract_operations :: u32

fun benchmark_components_from :: "transaction_details \<Rightarrow> (string, benchmark_components) result" where
  "benchmark_components_from (TdStandard g f c) = Inr
     \<lparr> num_guaranteed_inputs = inputs_num g, num_guaranteed_outputs = outputs_num g,
       num_guaranteed_transients = transients_num g, num_fallible_inputs = inputs_num f,
       num_fallible_outputs = outputs_num f, num_fallible_transients = transients_num f,
       num_contracts_deploy = deploys_num c,
       num_contract_replace_auth = replace_authority_num (maintain_updates c),
       num_contract_key_remove = verifier_key_remove_num (maintain_updates c),
       num_contract_key_insert = verifier_key_insert_num (maintain_updates c),
       num_contract_operations = calls_num c \<rparr>"
| "benchmark_components_from TdClaimRewards =
     Inl ''Not possible to convert `BenchmarkComponents` from `TransactionDetails`''"

section \<open>Lemmas\<close>

lemma ledger_context_Inr_iff:
  "ledger_context_try_from c = Inr d \<longleftrightarrow> length (parent_block_hash c) = 32 \<and> c = block_context_from d"
  by (cases d) (auto simp: ledger_context_try_from_def block_context_from_def)

lemma ledger_context_roundtrip:
  "length (lc_parent_block_hash d) = 32 \<Longrightarrow> ledger_context_try_from (block_context_from d) = Inr d"
  by (simp add: ledger_context_Inr_iff, simp add: block_context_from_def)

end
