(* ===== verification/Ledger_Transaction.thy ===== *)
theory Ledger_Transaction
  imports Ledger_Types
begin

text \<open>
  What the bridge reads off a transaction, \<^verbatim>\<open>ledger/src/versions/common/api/transaction.rs\<close>: its
  contract operations and its unshielded UTXOs per segment, with the check of these UTXOs against
  the ledger state.  A transaction of the ledger library is opaque: its two variants are those the
  code matches on, and the accessors the code calls are the fields of \<^verbatim>\<open>tx_lib\<close>.
\<close>

section \<open>Transactions of the ledger library\<close>

record utxo =
  utxo_value :: u128
  utxo_owner :: bytes
  utxo_type :: bytes
  utxo_intent_hash :: bytes
  utxo_output_no :: u32

record utxo_output =
  out_owner :: bytes
  out_type :: bytes
  out_value :: u128

datatype single_update = ReplaceAuthority | VerifierKeyInsert | VerifierKeyRemove

datatype ('addr, 'deploy) contract_action =
    is_ActionCall: ActionCall 'addr bytes
  | is_ActionDeploy: ActionDeploy 'deploy
  | ActionMaintain 'addr "single_update list"

datatype 'std inner_tx = TxStandard 'std | TxClaimRewards u128

record ('std, 'intent, 'spend, 'addr, 'deploy, 'tid) tx_lib =
  transaction_hash :: "'std inner_tx \<Rightarrow> bytes"
  tx_identifiers :: "'std inner_tx \<Rightarrow> 'tid list"
  tx_segments :: "'std \<Rightarrow> segment_id list"
  tx_intents :: "'std \<Rightarrow> (segment_id \<times> 'intent) list"
  intent_hash :: "'intent \<Rightarrow> segment_id \<Rightarrow> bytes"
  guaranteed_outputs :: "'intent \<Rightarrow> utxo_output list"
  guaranteed_inputs :: "'intent \<Rightarrow> 'spend list"
  fallible_outputs :: "'intent \<Rightarrow> utxo_output list"
  fallible_inputs :: "'intent \<Rightarrow> 'spend list"
  utxo_from_spend :: "'spend \<Rightarrow> utxo"
  tx_actions :: "'std \<Rightarrow> (segment_id \<times> ('addr, 'deploy) contract_action) list"
  deploy_address :: "'deploy \<Rightarrow> 'addr"
  guaranteed_coins_present :: "'std \<Rightarrow> bool"
  fallible_coins_count :: "'std \<Rightarrow> nat"
  guaranteed_coin_counts :: "'std \<Rightarrow> nat \<times> nat \<times> nat"
  fallible_coin_counts :: "'std \<Rightarrow> nat \<times> nat \<times> nat"
  serialize_address :: "'addr \<Rightarrow> bytes option"
  serialize_identifier :: "'tid \<Rightarrow> bytes option"

section \<open>Ordered maps\<close>

text \<open>
  \<^verbatim>\<open>BTreeMap<K, Vec<V>>\<close> as the list of its entries in the order of the keys;
  \<^verbatim>\<open>btree_extend\<close> is \<^verbatim>\<open>entry(k).or_default().extend(vs)\<close>.
\<close>

fun btree_extend :: "'k::linorder \<Rightarrow> 'v list \<Rightarrow> ('k \<times> 'v list) list \<Rightarrow> ('k \<times> 'v list) list" where
  "btree_extend k vs [] = [(k, vs)]"
| "btree_extend k vs ((k', ws) # m) =
     (if k < k' then (k, vs) # (k', ws) # m
      else if k = k' then (k', ws @ vs) # m
      else (k', ws) # btree_extend k vs m)"

definition btree_remove :: "'k \<Rightarrow> ('k \<times> 'v) list \<Rightarrow> ('k \<times> 'v) list" where
  "btree_remove k m = filter (\<lambda>e. fst e \<noteq> k) m"

definition btree_get :: "('k \<times> 'v list) list \<Rightarrow> 'k \<Rightarrow> 'v list" where
  "btree_get m k = (case map_of m k of Some vs \<Rightarrow> vs | None \<Rightarrow> [])"

definition btree_ok :: "('k::linorder \<times> 'v) list \<Rightarrow> bool" where
  "btree_ok m \<longleftrightarrow> sorted_wrt (<) (map fst m)"

definition btree_keys :: "('k \<times> 'v) list \<Rightarrow> 'k set" where
  "btree_keys m = fst ` set m"

primrec try_fold :: "('a \<Rightarrow> 's \<Rightarrow> ('e, 's) result) \<Rightarrow> 'a list \<Rightarrow> 's \<Rightarrow> ('e, 's) result" where
  "try_fold f [] s = Inr s"
| "try_fold f (x # xs) s = and_then (f x s) (try_fold f xs)"

section \<open>Unshielded UTXOs\<close>

record utxos_by_segment =
  us_outputs :: "(segment_id \<times> utxo_info list) list"
  us_inputs :: "(segment_id \<times> utxo_info list) list"

definition no_utxos :: utxos_by_segment where
  "no_utxos = \<lparr> us_outputs = [], us_inputs = [] \<rparr>"

definition utxo_info_from_output :: "utxo_output \<Rightarrow> bytes \<Rightarrow> u32 \<Rightarrow> utxo_info" where
  "utxo_info_from_output out h n =
     \<lparr> ui_address = out_owner out, ui_token_type = out_type out, ui_intent_hash = h,
       ui_value = out_value out, ui_output_no = n \<rparr>"

definition from_utxo_spend ::
  "('std, 'intent, 'spend, 'addr, 'deploy, 'tid) tx_lib \<Rightarrow> 'spend \<Rightarrow> utxo_info" where
  "from_utxo_spend lib spend =
     (let utxo = utxo_from_spend lib spend in
      \<lparr> ui_address = utxo_owner utxo, ui_token_type = utxo_type utxo, ui_intent_hash = utxo_intent_hash utxo,
        ui_value = utxo_value utxo, ui_output_no = utxo_output_no utxo \<rparr>)"

definition u32_try_from :: "nat \<Rightarrow> (unit, u32) result" where
  "u32_try_from n = (if n < 2 ^ 32 then Inr (of_nat n) else Inl ())"

definition utxos_info_from_output :: "utxo_output list \<Rightarrow> bytes \<Rightarrow> (unit, utxo_info list) result" where
  "utxos_info_from_output outputs h =
     try_map (\<lambda>(n, out). map_ok (utxo_info_from_output out h) (u32_try_from n)) (enumerate 0 outputs)"

definition utxos_info_from_inputs ::
  "('std, 'intent, 'spend, 'addr, 'deploy, 'tid) tx_lib \<Rightarrow> 'spend list \<Rightarrow> utxo_info list" where
  "utxos_info_from_inputs lib inputs = map (from_utxo_spend lib) inputs"

definition update_segment ::
  "segment_id \<Rightarrow> utxo_info list \<Rightarrow> (segment_id \<times> utxo_info list) list \<Rightarrow> (segment_id \<times> utxo_info list) list" where
  "update_segment seg infos m = (if infos = [] then m else btree_extend seg infos m)"

definition add_intent ::
  "('std, 'intent, 'spend, 'addr, 'deploy, 'tid) tx_lib \<Rightarrow> segment_id \<Rightarrow> 'intent \<Rightarrow>
   utxos_by_segment \<Rightarrow> (unit, utxos_by_segment) result" where
  "add_intent lib seg intent u =
     (let outs = (if seg = 0 then guaranteed_outputs lib intent else fallible_outputs lib intent);
          ins = (if seg = 0 then guaranteed_inputs lib intent else fallible_inputs lib intent) in
      and_then (utxos_info_from_output outs (intent_hash lib intent seg)) (\<lambda>outputs_info.
      Inr \<lparr> us_outputs = update_segment seg outputs_info (us_outputs u),
            us_inputs = update_segment seg (utxos_info_from_inputs lib ins) (us_inputs u) \<rparr>))"

definition add_segment ::
  "('std, 'intent, 'spend, 'addr, 'deploy, 'tid) tx_lib \<Rightarrow> 'std \<Rightarrow> segment_id \<Rightarrow>
   utxos_by_segment \<Rightarrow> (unit, utxos_by_segment) result" where
  "add_segment lib tx seg u =
     (if seg = 0 then try_fold (add_intent lib seg) (map snd (tx_intents lib tx)) u
      else case map_of (tx_intents lib tx) seg of
             Some intent \<Rightarrow> add_intent lib seg intent u
           | None \<Rightarrow> Inr u)"

definition unshielded_utxos ::
  "('std, 'intent, 'spend, 'addr, 'deploy, 'tid) tx_lib \<Rightarrow> 'std inner_tx \<Rightarrow> utxos_by_segment" where
  "unshielded_utxos lib tx =
     (case tx of
        TxStandard std \<Rightarrow>
          (case try_fold (add_segment lib std) (tx_segments lib std) no_utxos of
             Inr u \<Rightarrow> u
           | Inl _ \<Rightarrow> no_utxos)
      | TxClaimRewards _ \<Rightarrow> no_utxos)"

definition remove_failed_segments ::
  "(segment_id \<times> ('i, unit) result) list \<Rightarrow> utxos_by_segment \<Rightarrow> utxos_by_segment" where
  "remove_failed_segments segments u =
     fold (\<lambda>(seg, r) u. if is_ok r then u
        else \<lparr> us_outputs = btree_remove seg (us_outputs u), us_inputs = btree_remove seg (us_inputs u) \<rparr>)
       segments u"

definition all_outputs :: "utxos_by_segment \<Rightarrow> utxo_info list" where
  "all_outputs u = concat (map snd (us_outputs u))"

definition all_inputs :: "utxos_by_segment \<Rightarrow> utxo_info list" where
  "all_inputs u = concat (map snd (us_inputs u))"

definition utxo_of_info :: "utxo_info \<Rightarrow> utxo" where
  "utxo_of_info i =
     \<lparr> utxo_value = ui_value i, utxo_owner = ui_address i, utxo_type = ui_token_type i,
       utxo_intent_hash = ui_intent_hash i, utxo_output_no = ui_output_no i \<rparr>"

text \<open>Sizes are \<^verbatim>\<open>usize\<close>, 64 bits wide; the sum saturates.\<close>

definition check_utxos_response_integrity ::
  "nat \<Rightarrow> utxo fset \<Rightarrow> utxos_by_segment \<Rightarrow> (ledger_api_error, utxo_info list \<times> utxo_info list) result" where
  "check_utxos_response_integrity initial_utxos_size ledger_utxos u =
     (if \<exists>i\<in>set (all_outputs u). utxo_of_info i |\<notin>| ledger_utxos then Inl LHostApiError
      else if \<exists>i\<in>set (all_inputs u). utxo_of_info i |\<in>| ledger_utxos then Inl LHostApiError
      else if fcard ledger_utxos \<noteq>
          min (initial_utxos_size + length (all_outputs u)) (2 ^ 64 - 1) - length (all_inputs u)
      then Inl LHostApiError
      else Inr (all_outputs u, all_inputs u))"

section \<open>Operations\<close>

datatype 'addr operation =
    OperationCall 'addr bytes
  | OperationDeploy 'addr
  | OperationMaintain 'addr
  | OperationClaimRewards u128

fun operation_of ::
  "('std, 'intent, 'spend, 'addr, 'deploy, 'tid) tx_lib \<Rightarrow> ('addr, 'deploy) contract_action \<Rightarrow> 'addr operation" where
  "operation_of lib (ActionCall address entry_point) = OperationCall address entry_point"
| "operation_of lib (ActionDeploy deploy) = OperationDeploy (deploy_address lib deploy)"
| "operation_of lib (ActionMaintain address updates) = OperationMaintain address"

fun calls_and_deploys ::
  "('std, 'intent, 'spend, 'addr, 'deploy, 'tid) tx_lib \<Rightarrow> segment_id list option \<Rightarrow> 'std inner_tx \<Rightarrow>
   'addr operation list" where
  "calls_and_deploys lib filter_segments (TxStandard tx) =
     (let filtered = (case filter_segments of Some segs \<Rightarrow> segs | None \<Rightarrow> []) in
      map (operation_of lib \<circ> snd) (filter (\<lambda>(seg, _). seg \<notin> set filtered) (tx_actions lib tx)))"
| "calls_and_deploys lib filter_segments (TxClaimRewards v) = [OperationClaimRewards v]"

fun has_guaranteed_coins :: "('std, 'intent, 'spend, 'addr, 'deploy, 'tid) tx_lib \<Rightarrow> 'std inner_tx \<Rightarrow> bool" where
  "has_guaranteed_coins lib (TxStandard tx) = guaranteed_coins_present lib tx"
| "has_guaranteed_coins lib (TxClaimRewards v) = False"

fun has_fallible_coins :: "('std, 'intent, 'spend, 'addr, 'deploy, 'tid) tx_lib \<Rightarrow> 'std inner_tx \<Rightarrow> bool" where
  "has_fallible_coins lib (TxStandard tx) = (0 < fallible_coins_count lib tx)"
| "has_fallible_coins lib (TxClaimRewards v) = False"

section \<open>Transaction details\<close>

fun count_update :: "single_update \<Rightarrow> contract_calls_details \<Rightarrow> contract_calls_details" where
  "count_update ReplaceAuthority cd = inc_replace_authority cd"
| "count_update VerifierKeyInsert cd = inc_verifier_key_insert cd"
| "count_update VerifierKeyRemove cd = inc_verifier_key_remove cd"

fun count_action :: "('addr, 'deploy) contract_action \<Rightarrow> contract_calls_details \<Rightarrow> contract_calls_details" where
  "count_action (ActionCall address entry_point) cd = inc_calls cd"
| "count_action (ActionDeploy deploy) cd = inc_deploys cd"
| "count_action (ActionMaintain address updates) cd = fold count_update updates cd"

definition coins_details_new :: "nat \<times> nat \<times> nat \<Rightarrow> coins_details" where
  "coins_details_new c =
     (case c of (i, out, t) \<Rightarrow> \<lparr> inputs_num = of_nat i, outputs_num = of_nat out, transients_num = of_nat t \<rparr>)"

fun get_transaction_details ::
  "('std, 'intent, 'spend, 'addr, 'deploy, 'tid) tx_lib \<Rightarrow> 'std inner_tx \<Rightarrow> u64 \<Rightarrow> transaction_details" where
  "get_transaction_details lib (TxStandard tx) gas_cost =
     TdStandard (coins_details_new (guaranteed_coin_counts lib tx)) (coins_details_new (fallible_coin_counts lib tx))
       ((fold (count_action \<circ> snd) (tx_actions lib tx) default_calls_details)\<lparr> calls_gas_cost := gas_cost \<rparr>)"
| "get_transaction_details lib (TxClaimRewards v) gas_cost = TdClaimRewards"

text \<open>The contribution of a segment, in the order its intents are visited.\<close>

definition segment_intents ::
  "('std, 'intent, 'spend, 'addr, 'deploy, 'tid) tx_lib \<Rightarrow> 'std \<Rightarrow> segment_id \<Rightarrow> 'intent list" where
  "segment_intents lib tx seg =
     (if seg = 0 then map snd (tx_intents lib tx)
      else case map_of (tx_intents lib tx) seg of Some intent \<Rightarrow> [intent] | None \<Rightarrow> [])"

definition phase_outputs ::
  "('std, 'intent, 'spend, 'addr, 'deploy, 'tid) tx_lib \<Rightarrow> segment_id \<Rightarrow> 'intent \<Rightarrow> utxo_output list" where
  "phase_outputs lib seg intent =
     (if seg = 0 then guaranteed_outputs lib intent else fallible_outputs lib intent)"

definition intent_created ::
  "('std, 'intent, 'spend, 'addr, 'deploy, 'tid) tx_lib \<Rightarrow> segment_id \<Rightarrow> 'intent \<Rightarrow> utxo_info list" where
  "intent_created lib seg intent =
     map (\<lambda>(n, out). utxo_info_from_output out (intent_hash lib intent seg) (of_nat n))
       (enumerate 0 (phase_outputs lib seg intent))"

definition intent_spent ::
  "('std, 'intent, 'spend, 'addr, 'deploy, 'tid) tx_lib \<Rightarrow> segment_id \<Rightarrow> 'intent \<Rightarrow> utxo_info list" where
  "intent_spent lib seg intent =
     map (from_utxo_spend lib) (if seg = 0 then guaranteed_inputs lib intent else fallible_inputs lib intent)"

definition segment_created ::
  "('std, 'intent, 'spend, 'addr, 'deploy, 'tid) tx_lib \<Rightarrow> 'std \<Rightarrow> segment_id \<Rightarrow> utxo_info list" where
  "segment_created lib tx seg = concat (map (intent_created lib seg) (segment_intents lib tx seg))"

definition segment_spent ::
  "('std, 'intent, 'spend, 'addr, 'deploy, 'tid) tx_lib \<Rightarrow> 'std \<Rightarrow> segment_id \<Rightarrow> utxo_info list" where
  "segment_spent lib tx seg = concat (map (intent_spent lib seg) (segment_intents lib tx seg))"

definition outputs_fit :: "('std, 'intent, 'spend, 'addr, 'deploy, 'tid) tx_lib \<Rightarrow> 'std \<Rightarrow> bool" where
  "outputs_fit lib tx \<longleftrightarrow> list_all (\<lambda>seg. list_all (\<lambda>intent. length (phase_outputs lib seg intent) \<le> 2 ^ 32)
     (segment_intents lib tx seg)) (tx_segments lib tx)"

definition failed :: "(segment_id \<times> ('i, unit) result) list \<Rightarrow> segment_id \<Rightarrow> bool" where
  "failed segments seg \<longleftrightarrow> list_ex (\<lambda>(s, r). s = seg \<and> \<not> is_ok r) segments"

text \<open>
  Transactions for examples: a transaction is the list of its segments, an intent the number of
  outputs of each of its phases; it spends nothing, and it calls the contract of its segment.
\<close>

definition demo_tx_lib :: "((segment_id \<times> nat) list, nat, utxo, bytes, bytes, nat) tx_lib" where
  "demo_tx_lib = \<lparr>
     transaction_hash = (\<lambda>tx. [1]), tx_identifiers = (\<lambda>tx. []),
     tx_segments = (\<lambda>std. map fst std), tx_intents = (\<lambda>std. std), intent_hash = (\<lambda>i seg. [of_nat i]),
     guaranteed_outputs = (\<lambda>i. replicate i \<lparr> out_owner = [7], out_type = [8], out_value = 5 \<rparr>),
     guaranteed_inputs = (\<lambda>i. []),
     fallible_outputs = (\<lambda>i. replicate i \<lparr> out_owner = [7], out_type = [8], out_value = 6 \<rparr>),
     fallible_inputs = (\<lambda>i. []), utxo_from_spend = (\<lambda>u. u),
     tx_actions = (\<lambda>std. map (\<lambda>(seg, i). (seg, ActionCall [of_nat i] [9])) std), deploy_address = (\<lambda>d. d),
     guaranteed_coins_present = (\<lambda>std. False), fallible_coins_count = (\<lambda>std. 0),
     guaranteed_coin_counts = (\<lambda>std. (0, 0, 0)), fallible_coin_counts = (\<lambda>std. (0, 0, 0)),
     serialize_address = Some, serialize_identifier = (\<lambda>i. Some []) \<rparr>"

section \<open>Lemmas on ordered maps\<close>

lemma btree_keys_simps [simp]: "btree_keys [] = {}" "btree_keys ((k, v) # m) = insert k (btree_keys m)"
  by (simp_all add: btree_keys_def)

lemma btree_ok_Nil [simp]: "btree_ok []"
  by (simp add: btree_ok_def)

lemma btree_ok_Cons: "btree_ok ((k, v) # m) \<longleftrightarrow> (\<forall>k'\<in>btree_keys m. k < k') \<and> btree_ok m"
  by (simp add: btree_ok_def btree_keys_def)

lemma btree_get_Nil [simp]: "btree_get [] k = []"
  by (simp add: btree_get_def)

lemma btree_get_Cons: "btree_get ((k, v) # m) k' = (if k = k' then v else btree_get m k')"
  by (simp add: btree_get_def)

lemma btree_get_absent: "k \<notin> btree_keys m \<Longrightarrow> btree_get m k = []"
  by (induction m) (auto simp: btree_get_Cons)

lemma keys_btree_extend [simp]: "btree_keys (btree_extend k vs m) = insert k (btree_keys m)"
  by (induction k vs m rule: btree_extend.induct) auto

lemma btree_ok_extend: "btree_ok m \<Longrightarrow> btree_ok (btree_extend k vs m)"
  by (induction k vs m rule: btree_extend.induct) (auto simp: btree_ok_Cons)

lemma btree_get_extend:
  "btree_ok m \<Longrightarrow> btree_get (btree_extend k vs m) k' = (if k' = k then btree_get m k @ vs else btree_get m k')"
proof (induction k vs m rule: btree_extend.induct)
  case (2 k vs k0 ws m)
  then show ?case
    by (auto simp: btree_get_Cons btree_ok_Cons intro!: btree_get_absent)
qed (simp add: btree_get_Cons)

lemma btree_ok_remove: "btree_ok m \<Longrightarrow> btree_ok (btree_remove k m)"
  by (simp add: btree_ok_def btree_remove_def sorted_wrt_map sorted_wrt_filter)

lemma btree_get_remove: "btree_get (btree_remove k m) k' = (if k' = k then [] else btree_get m k')"
  by (induction m) (auto simp: btree_remove_def btree_get_Cons)

lemma keys_btree_remove: "btree_keys (btree_remove k m) \<subseteq> btree_keys m"
  by (auto simp: btree_remove_def btree_keys_def)

lemma btree_flatten:
  "btree_ok m \<Longrightarrow> sorted_wrt (<) ks \<Longrightarrow> btree_keys m \<subseteq> set ks \<Longrightarrow>
     concat (map snd m) = concat (map (btree_get m) ks)"
proof (induction ks arbitrary: m)
  case (Cons k ks)
  show ?case
  proof (cases m)
    case Nil
    then show ?thesis by simp
  next
    case (Cons e m')
    obtain k0 v where e: "e = (k0, v)" by (cases e)
    show ?thesis
    proof (cases "k0 = k")
      case True
      have ok: "btree_ok m'" "btree_keys m' \<subseteq> set ks"
        using Cons.prems Cons e True by (auto simp: btree_ok_Cons)
      have "map (btree_get m) ks = map (btree_get m') ks"
        using Cons.prems(2) Cons e True by (auto simp: btree_get_Cons)
      moreover have "concat (map snd m') = concat (map (btree_get m') ks)"
        using Cons.IH ok Cons.prems(2) by simp
      moreover have "btree_get m k = v" "concat (map snd m) = v @ concat (map snd m')"
        using Cons e True by (simp_all add: btree_get_Cons)
      ultimately show ?thesis by (simp only: list.map concat.simps)
    next
      case False
      then have "k < k0" using Cons.prems(2,3) Cons e by auto
      with Cons.prems(1) Cons e have "k \<notin> btree_keys m" by (auto simp: btree_ok_Cons)
      then have "btree_get m k = []" "btree_keys m \<subseteq> set ks"
        using Cons.prems(3) by (auto intro: btree_get_absent)
      with Cons.IH [of m] Cons.prems show ?thesis by simp
    qed
  qed
qed (simp add: btree_keys_def)

lemma sorted_wrt_sort: "distinct ks \<Longrightarrow> sorted_wrt (<) (sort ks)"
  by (simp add: strict_sorted_iff)

lemma try_fold_append: "try_fold f (xs @ ys) s = and_then (try_fold f xs s) (try_fold f ys)"
proof (induction xs arbitrary: s)
  case (Cons x xs)
  then show ?case by (cases "f x s") auto
qed simp

section \<open>Lemmas on the UTXOs of a transaction\<close>

definition utxos_ok :: "utxos_by_segment \<Rightarrow> bool" where
  "utxos_ok u \<longleftrightarrow> btree_ok (us_outputs u) \<and> btree_ok (us_inputs u)"

lemma utxos_ok_empty [simp]: "utxos_ok no_utxos"
  by (simp add: utxos_ok_def no_utxos_def)

lemma get_no_utxos [simp]: "us_outputs no_utxos = []" "us_inputs no_utxos = []"
  by (simp_all add: no_utxos_def)

lemma enumerate_bound: "(n, x) \<in> set (enumerate 0 xs) \<Longrightarrow> n < length xs"
  by (simp add: in_set_enumerate_eq)

lemma try_map_ok: "(\<And>x. x \<in> set xs \<Longrightarrow> f x = Inr (g x)) \<Longrightarrow> try_map f xs = Inr (map g xs)"
  by (simp add: try_map_Inr_iff list_all2_conv_all_nth)

lemma utxos_info_fit:
  assumes "length outs \<le> 2 ^ 32"
  shows "utxos_info_from_output outs h = Inr (map (\<lambda>(n, out). utxo_info_from_output out h (of_nat n)) (enumerate 0 outs))"
  unfolding utxos_info_from_output_def
proof (rule try_map_ok)
  fix p assume "p \<in> set (enumerate 0 outs)"
  moreover obtain n out where p: "p = (n, out)" by (cases p)
  ultimately have "(n, out) \<in> set (enumerate 0 outs)" by simp
  then have "n < length outs" by (rule enumerate_bound)
  with assms p show "(\<lambda>(n, out). map_ok (utxo_info_from_output out h) (u32_try_from n)) p =
      Inr ((\<lambda>(n, out). utxo_info_from_output out h (of_nat n)) p)"
    by (simp add: u32_try_from_def)
qed

lemma keys_update_segment: "btree_keys (update_segment seg infos m) \<subseteq> insert seg (btree_keys m)"
  by (auto simp: update_segment_def)

lemma btree_ok_update: "btree_ok m \<Longrightarrow> btree_ok (update_segment seg infos m)"
  by (simp add: update_segment_def btree_ok_extend)

lemma btree_get_update:
  "btree_ok m \<Longrightarrow> btree_get (update_segment seg infos m) k = btree_get m k @ (if k = seg then infos else [])"
  by (simp add: update_segment_def btree_get_extend)

lemma add_intent_fit:
  assumes "length (phase_outputs lib seg intent) \<le> 2 ^ 32"
  shows "add_intent lib seg intent u =
    Inr \<lparr> us_outputs = update_segment seg (intent_created lib seg intent) (us_outputs u),
          us_inputs = update_segment seg (intent_spent lib seg intent) (us_inputs u) \<rparr>"
  using utxos_info_fit [OF assms, of "intent_hash lib intent seg"]
  by (simp add: add_intent_def phase_outputs_def intent_created_def intent_spent_def utxos_info_from_inputs_def
      split: if_splits)

text \<open>What a run of the loop adds to the two maps.\<close>

definition extends ::
  "segment_id set \<Rightarrow> (segment_id \<Rightarrow> utxo_info list) \<Rightarrow> (segment_id \<Rightarrow> utxo_info list) \<Rightarrow>
   utxos_by_segment \<Rightarrow> utxos_by_segment \<Rightarrow> bool" where
  "extends segs outs ins u u' \<longleftrightarrow> utxos_ok u' \<and>
     btree_keys (us_outputs u') \<subseteq> segs \<union> btree_keys (us_outputs u) \<and>
     btree_keys (us_inputs u') \<subseteq> segs \<union> btree_keys (us_inputs u) \<and>
     (\<forall>k. btree_get (us_outputs u') k = btree_get (us_outputs u) k @ outs k) \<and>
     (\<forall>k. btree_get (us_inputs u') k = btree_get (us_inputs u) k @ ins k)"

lemma extends_trans:
  assumes "extends A f g u v" and "extends B f' g' v w"
  shows "extends (A \<union> B) (\<lambda>k. f k @ f' k) (\<lambda>k. g k @ g' k) u w"
proof -
  have "btree_keys (us_outputs w) \<subseteq> A \<union> B \<union> btree_keys (us_outputs u)"
    "btree_keys (us_inputs w) \<subseteq> A \<union> B \<union> btree_keys (us_inputs u)"
    using assms unfolding extends_def by blast+
  with assms show ?thesis by (simp add: extends_def)
qed

lemma add_intents_extends:
  assumes "utxos_ok u" and "list_all (\<lambda>intent. length (phase_outputs lib seg intent) \<le> 2 ^ 32) intents"
  shows "\<exists>u'. try_fold (add_intent lib seg) intents u = Inr u' \<and>
    extends {seg} (\<lambda>k. if k = seg then concat (map (intent_created lib seg) intents) else [])
      (\<lambda>k. if k = seg then concat (map (intent_spent lib seg) intents) else []) u u'"
  using assms
proof (induction intents arbitrary: u)
  case Nil
  then show ?case by (auto simp: extends_def)
next
  case (Cons intent intents)
  let ?v = "\<lparr> us_outputs = update_segment seg (intent_created lib seg intent) (us_outputs u),
              us_inputs = update_segment seg (intent_spent lib seg intent) (us_inputs u) \<rparr>"
  have v: "extends {seg} (\<lambda>k. if k = seg then intent_created lib seg intent else [])
      (\<lambda>k. if k = seg then intent_spent lib seg intent else []) u ?v"
    using Cons.prems(1) keys_update_segment [of seg]
    by (simp add: extends_def utxos_ok_def btree_ok_update btree_get_update)
  then have "utxos_ok ?v" by (simp add: extends_def)
  with Cons obtain w where w: "try_fold (add_intent lib seg) intents ?v = Inr w"
    "extends {seg} (\<lambda>k. if k = seg then concat (map (intent_created lib seg) intents) else [])
       (\<lambda>k. if k = seg then concat (map (intent_spent lib seg) intents) else []) ?v w"
    by auto
  have "add_intent lib seg intent u = Inr ?v" using Cons.prems(2) by (simp add: add_intent_fit)
  with w(1) extends_trans [OF v w(2)] show ?case by (simp add: extends_def)
qed

lemma add_segment_intents:
  "add_segment lib tx seg u = try_fold (add_intent lib seg) (segment_intents lib tx seg) u"
proof (cases "seg = 0")
  case False
  show ?thesis
  proof (cases "map_of (tx_intents lib tx) seg")
    case (Some intent)
    with False show ?thesis
      by (cases "add_intent lib seg intent u") (simp_all add: add_segment_def segment_intents_def)
  qed (simp add: False add_segment_def segment_intents_def)
qed (simp add: add_segment_def segment_intents_def)

lemma add_segments_extends:
  assumes "utxos_ok u" and "distinct segs"
    and "list_all (\<lambda>seg. list_all (\<lambda>intent. length (phase_outputs lib seg intent) \<le> 2 ^ 32)
      (segment_intents lib tx seg)) segs"
  shows "\<exists>u'. try_fold (add_segment lib tx) segs u = Inr u' \<and>
    extends (set segs) (\<lambda>k. if k \<in> set segs then segment_created lib tx k else [])
      (\<lambda>k. if k \<in> set segs then segment_spent lib tx k else []) u u'"
  using assms
proof (induction segs arbitrary: u)
  case Nil
  then show ?case by (simp add: extends_def)
next
  case (Cons seg segs)
  obtain v where v: "add_segment lib tx seg u = Inr v"
    "extends {seg} (\<lambda>k. if k = seg then segment_created lib tx seg else [])
       (\<lambda>k. if k = seg then segment_spent lib tx seg else []) u v"
    using add_intents_extends [of u lib seg "segment_intents lib tx seg"] Cons.prems
    unfolding add_segment_intents segment_created_def segment_spent_def by auto
  then have "utxos_ok v" by (simp add: extends_def)
  with Cons obtain w where w: "try_fold (add_segment lib tx) segs v = Inr w"
    "extends (set segs) (\<lambda>k. if k \<in> set segs then segment_created lib tx k else [])
       (\<lambda>k. if k \<in> set segs then segment_spent lib tx k else []) v w"
    by auto
  have "(\<lambda>k. (if k = seg then f seg else []) @ (if k \<in> set segs then f k else [])) =
      (\<lambda>k. if k \<in> set (seg # segs) then f k else [])" for f :: "segment_id \<Rightarrow> utxo_info list"
    using Cons.prems(2) by auto
  with v(1) w(1) extends_trans [OF v(2) w(2)] show ?case by simp
qed

lemma unshielded_utxos_extends:
  assumes "distinct (tx_segments lib tx)" and "outputs_fit lib tx"
  shows "extends (set (tx_segments lib tx))
      (\<lambda>k. if k \<in> set (tx_segments lib tx) then segment_created lib tx k else [])
      (\<lambda>k. if k \<in> set (tx_segments lib tx) then segment_spent lib tx k else [])
      no_utxos (unshielded_utxos lib (TxStandard tx))"
  using add_segments_extends [of no_utxos "tx_segments lib tx" lib tx] assms
  by (auto simp: outputs_fit_def unshielded_utxos_def)

lemma failed_Cons: "failed ((s, r) # segments) seg \<longleftrightarrow> (s = seg \<and> \<not> is_ok r) \<or> failed segments seg"
  by (simp add: failed_def)

lemma remove_failed_gets:
  assumes "utxos_ok u"
  shows "utxos_ok (remove_failed_segments segments u) \<and>
    btree_keys (us_outputs (remove_failed_segments segments u)) \<subseteq> btree_keys (us_outputs u) \<and>
    btree_keys (us_inputs (remove_failed_segments segments u)) \<subseteq> btree_keys (us_inputs u) \<and>
    (\<forall>k. btree_get (us_outputs (remove_failed_segments segments u)) k =
       (if failed segments k then [] else btree_get (us_outputs u) k)) \<and>
    (\<forall>k. btree_get (us_inputs (remove_failed_segments segments u)) k =
       (if failed segments k then [] else btree_get (us_inputs u) k))"
  using assms
proof (induction segments arbitrary: u)
  case Nil
  then show ?case by (simp add: remove_failed_segments_def failed_def)
next
  case (Cons p segments)
  obtain s r where p: "p = (s, r)" by (cases p)
  show ?case
  proof (cases "is_ok r")
    case True
    then have "remove_failed_segments (p # segments) u = remove_failed_segments segments u"
      by (simp add: remove_failed_segments_def p)
    with Cons True show ?thesis by (simp add: p failed_Cons)
  next
    case False
    define v where "v = \<lparr> us_outputs = btree_remove s (us_outputs u), us_inputs = btree_remove s (us_inputs u) \<rparr>"
    have eq: "remove_failed_segments (p # segments) u = remove_failed_segments segments v"
      using False by (simp add: remove_failed_segments_def p v_def)
    have keys: "btree_keys (us_outputs v) \<subseteq> btree_keys (us_outputs u)" "btree_keys (us_inputs v) \<subseteq> btree_keys (us_inputs u)"
      by (simp_all add: v_def keys_btree_remove)
    have gets: "btree_get (us_outputs v) k = (if k = s then [] else btree_get (us_outputs u) k)"
      "btree_get (us_inputs v) k = (if k = s then [] else btree_get (us_inputs u) k)" for k
      by (simp_all add: v_def btree_get_remove)
    have "utxos_ok v" using Cons.prems by (simp add: v_def utxos_ok_def btree_ok_remove)
    from Cons.IH [OF this] keys False show ?thesis
      unfolding eq by (auto simp: p failed_Cons gets)
  qed
qed

lemma concat_map_guard:
  "concat (map (\<lambda>k. if P k then [] else f k) ks) = concat (map f (filter (\<lambda>k. \<not> P k) ks))"
  by (induction ks) auto

lemma utxos_after_failures:
  assumes "distinct (tx_segments lib tx)" and "outputs_fit lib tx"
  shows "all_outputs (remove_failed_segments segments (unshielded_utxos lib (TxStandard tx))) =
      concat (map (segment_created lib tx) (filter (\<lambda>seg. \<not> failed segments seg) (sort (tx_segments lib tx))))"
    and "all_inputs (remove_failed_segments segments (unshielded_utxos lib (TxStandard tx))) =
      concat (map (segment_spent lib tx) (filter (\<lambda>seg. \<not> failed segments seg) (sort (tx_segments lib tx))))"
proof -
  let ?u = "unshielded_utxos lib (TxStandard tx)" and ?segs = "tx_segments lib tx"
  let ?v = "remove_failed_segments segments ?u"
  note u = unshielded_utxos_extends [OF assms]
  then have ok: "utxos_ok ?u" by (simp add: extends_def)
  note v = remove_failed_gets [OF ok, of segments]
  have sorted: "sorted_wrt (<) (sort ?segs)" by (rule sorted_wrt_sort [OF assms(1)])
  have keys: "btree_keys (us_outputs ?v) \<subseteq> set (sort ?segs)" "btree_keys (us_inputs ?v) \<subseteq> set (sort ?segs)"
    using u v by (auto simp: extends_def)
  have "map (btree_get (us_outputs ?v)) (sort ?segs) =
      map (\<lambda>k. if failed segments k then [] else segment_created lib tx k) (sort ?segs)"
    using u v by (auto simp: extends_def)
  moreover have "concat (map snd (us_outputs ?v)) = concat (map (btree_get (us_outputs ?v)) (sort ?segs))"
    using v sorted keys(1) by (intro btree_flatten) (simp_all add: utxos_ok_def)
  ultimately show
    "all_outputs ?v = concat (map (segment_created lib tx) (filter (\<lambda>seg. \<not> failed segments seg) (sort ?segs)))"
    by (simp only: all_outputs_def concat_map_guard)
  have "map (btree_get (us_inputs ?v)) (sort ?segs) =
      map (\<lambda>k. if failed segments k then [] else segment_spent lib tx k) (sort ?segs)"
    using u v by (auto simp: extends_def)
  moreover have "concat (map snd (us_inputs ?v)) = concat (map (btree_get (us_inputs ?v)) (sort ?segs))"
    using v sorted keys(2) by (intro btree_flatten) (simp_all add: utxos_ok_def)
  ultimately show
    "all_inputs ?v = concat (map (segment_spent lib tx) (filter (\<lambda>seg. \<not> failed segments seg) (sort ?segs)))"
    by (simp only: all_inputs_def concat_map_guard)
qed

lemma integrity_okD:
  assumes "check_utxos_response_integrity n final u = Inr (created, spent)"
  shows "created = all_outputs u" "spent = all_inputs u"
    "fset_of_list (map utxo_of_info created) |\<subseteq>| final"
    "fset_of_list (map utxo_of_info spent) |\<inter>| final = {||}"
    "fcard final = min (n + length created) (2 ^ 64 - 1) - length spent"
  using assms
  by (auto simp: check_utxos_response_integrity_def fset_of_list_elem split: if_splits)

text \<open>Counting with finite sets: a set reached from another by reported and unreported changes.\<close>

lemma card_unreported:
  assumes "finite U" "finite F" and "C \<subseteq> F" "C \<inter> U = {}" "S \<subseteq> U" "S \<inter> F = {}"
    and "card F + card S = card U + card C"
  shows "card (F - U - C) = card (U - F - S)"
proof -
  have fin: "finite C" "finite S" using assms finite_subset by blast+
  have sub: "C \<subseteq> F - U" "S \<subseteq> U - F" using assms by auto
  have "card F = card (F \<inter> U) + card (F - U)" using assms(2) card_Int_Diff by blast
  moreover have "card (F - U) = card (F - U - C) + card C"
    using card_Diff_subset [OF fin(1) sub(1)] card_mono [OF _ sub(1)] assms(2) by simp
  moreover have "card U = card (F \<inter> U) + card (U - F)" using card_Int_Diff [OF assms(1), of F] by (simp add: Int_commute)
  moreover have "card (U - F) = card (U - F - S) + card S"
    using card_Diff_subset [OF fin(2) sub(2)] card_mono [OF _ sub(2)] assms(1) by simp
  ultimately show ?thesis using assms(7) by linarith
qed

lemma count_update_frame [simp]:
  "calls_num (count_update u cd) = calls_num cd" "deploys_num (count_update u cd) = deploys_num cd"
  by (cases u; simp add: inc_replace_authority_def inc_verifier_key_insert_def inc_verifier_key_remove_def)+

lemma fold_count_update_frame [simp]:
  "calls_num (fold count_update us cd) = calls_num cd" "deploys_num (fold count_update us cd) = deploys_num cd"
  by (induction us arbitrary: cd) simp_all

lemma unat_u32_max: "unat (n :: u32) \<le> 2 ^ 32 - 1"
  using unat_bound [of n] by simp

lemma count_actions:
  "unat (calls_num (fold (count_action \<circ> snd) xs cd)) =
      min (unat (calls_num cd) + length (filter is_ActionCall (map snd xs))) (2 ^ 32 - 1) \<and>
   unat (deploys_num (fold (count_action \<circ> snd) xs cd)) =
      min (unat (deploys_num cd) + length (filter is_ActionDeploy (map snd xs))) (2 ^ 32 - 1)"
proof (induction xs arbitrary: cd)
  case Nil
  then show ?case using unat_u32_max [of "calls_num cd"] unat_u32_max [of "deploys_num cd"] by simp
next
  case (Cons x xs)
  then show ?case
    by (cases "snd x") (auto simp: inc_calls_def inc_deploys_def unat_saturating_add min_def)
qed

section \<open>Properties\<close>

text \<open>
  C34: the unshielded UTXOs a transaction reports.  Whatever the order in which the ledger library
  lists the segments of a transaction, and with the segments that failed removed, the UTXOs
  reported as created are those of the remaining segments in increasing order of the segment, and
  so are the UTXOs reported as spent: two nodes report the same lists.
\<close>
theorem utxos_reported_in_segment_order:
  assumes "distinct (tx_segments lib tx)" and "outputs_fit lib tx"
  shows "all_outputs (remove_failed_segments segments (unshielded_utxos lib (TxStandard tx))) =
      concat (map (segment_created lib tx) (filter (\<lambda>seg. \<not> failed segments seg) (sort (tx_segments lib tx)))) \<and>
    all_inputs (remove_failed_segments segments (unshielded_utxos lib (TxStandard tx))) =
      concat (map (segment_spent lib tx) (filter (\<lambda>seg. \<not> failed segments seg) (sort (tx_segments lib tx))))"
  by (intro conjI utxos_after_failures assms)

theorem utxos_reported_in_segment_order_witness:
  "map ui_value (all_outputs (remove_failed_segments [(2, Inr ()), (1, Inl ())]
     (unshielded_utxos demo_tx_lib (TxStandard [(2, 1), (1, 1), (0, 0)])))) = [5, 5, 6]"
proof -
  let ?tx = "[(2, 1), (1, 1), (0, 0)] :: (segment_id \<times> nat) list"
  have "outputs_fit demo_tx_lib ?tx"
    by (simp add: outputs_fit_def phase_outputs_def segment_intents_def demo_tx_lib_def)
  then have "all_outputs (remove_failed_segments [(2, Inr ()), (1, Inl ())] (unshielded_utxos demo_tx_lib (TxStandard ?tx))) =
      concat (map (segment_created demo_tx_lib ?tx)
        (filter (\<lambda>seg. \<not> failed [(2, Inr ()), (1, Inl ())] seg) (sort (tx_segments demo_tx_lib ?tx))))"
    using utxos_reported_in_segment_order [of demo_tx_lib ?tx "[(2, Inr ()), (1, Inl ())]"]
    by (simp add: demo_tx_lib_def)
  then show ?thesis
    by (simp add: demo_tx_lib_def segment_created_def segment_intents_def intent_created_def phase_outputs_def
        failed_def utxo_info_from_output_def)
qed

text \<open>
  What the integrity check of the reported UTXOs establishes.  If the created UTXOs are new and
  the spent ones were in the ledger, none of them reported twice, then after a successful check
  the created ones are in the ledger, the spent ones are not, and the ledger has as many
  unreported additions as unreported removals.  It does not establish that there are none.
\<close>
theorem integrity_balances_unreported:
  assumes "check_utxos_response_integrity (fcard initial) final u = Inr (created, spent)"
    and "distinct (map utxo_of_info created)" "distinct (map utxo_of_info spent)"
    and "fset_of_list (map utxo_of_info created) |\<inter>| initial = {||}"
    and "fset_of_list (map utxo_of_info spent) |\<subseteq>| initial"
    and "fcard initial + length created < 2 ^ 64"
  shows "fset_of_list (map utxo_of_info created) |\<subseteq>| final \<and>
    fset_of_list (map utxo_of_info spent) |\<inter>| final = {||} \<and>
    fcard (final |-| initial |-| fset_of_list (map utxo_of_info created)) =
    fcard (initial |-| final |-| fset_of_list (map utxo_of_info spent))"
proof -
  let ?C = "set (map utxo_of_info created)" and ?S = "set (map utxo_of_info spent)"
  note ok = integrity_okD [OF assms(1)]
  have cards: "card ?C = length created" "card ?S = length spent"
    using distinct_card [OF assms(2)] distinct_card [OF assms(3)] by simp_all
  have sub: "?S \<subseteq> fset initial" using assms(5) by (metis fset_of_list.rep_eq less_eq_fset.rep_eq)
  then have "length spent \<le> fcard initial"
    using card_mono [OF finite_fset sub] cards by (simp add: fcard.rep_eq)
  then have "card (fset final) + card ?S = card (fset initial) + card ?C"
    using ok(5) assms(6) cards by (simp add: fcard.rep_eq)
  moreover have "?C \<subseteq> fset final" "?S \<inter> fset final = {}" "?C \<inter> fset initial = {}"
    using ok(3,4) assms(4) by (metis fset_of_list.rep_eq less_eq_fset.rep_eq inf_fset.rep_eq bot_fset.rep_eq)+
  ultimately have "card (fset final - fset initial - ?C) = card (fset initial - fset final - ?S)"
    using sub by (intro card_unreported) simp_all
  with ok(3,4) show ?thesis by (simp add: fcard.rep_eq fset_of_list.rep_eq)
qed

theorem integrity_balances_unreported_witness:
  "\<exists>initial final u created spent.
     check_utxos_response_integrity (fcard initial) final u = Inr (created, spent) \<and> length created = 1 \<and>
     fcard (final |-| initial |-| fset_of_list (map utxo_of_info created)) = 1 \<and>
     fcard (initial |-| final |-| fset_of_list (map utxo_of_info spent)) = 1"
proof -
  let ?i = "\<lambda>n. \<lparr> ui_address = [], ui_token_type = [], ui_intent_hash = [], ui_value = 1, ui_output_no = n \<rparr>"
  let ?u = "\<lparr> us_outputs = [(1, [?i 0])], us_inputs = [] \<rparr>"
  let ?initial = "{|utxo_of_info (?i 1)|}" and ?final = "{|utxo_of_info (?i 0), utxo_of_info (?i 2)|}"
  have check: "check_utxos_response_integrity (fcard ?initial) ?final ?u = Inr ([?i 0], [])"
    by (simp add: check_utxos_response_integrity_def all_outputs_def all_inputs_def fcard.rep_eq utxo_of_info_def)
  have "fcard (?final |-| ?initial |-| fset_of_list (map utxo_of_info [?i 0])) =
      fcard (?initial |-| ?final |-| fset_of_list (map utxo_of_info []))"
    using integrity_balances_unreported [OF check] by (simp add: fcard.rep_eq utxo_of_info_def)
  moreover have "fcard (?initial |-| ?final |-| fset_of_list (map utxo_of_info [])) = 1"
    by (simp add: utxo_of_info_def fcard.rep_eq)
  ultimately show ?thesis using check
    by (intro exI [of _ ?initial] exI [of _ ?final] exI [of _ ?u] exI [of _ "[?i 0]"] exI [of _ "[]"]) simp
qed

text \<open>
  The details of a transaction count its contract actions.  The number of calls and of deploys
  is that of the transaction, up to the largest 32-bit number, where the counters stay; the gas
  cost of the details is the one computed for the transaction.
\<close>
theorem details_count_actions:
  "\<exists>g f c. get_transaction_details lib (TxStandard tx) gas = TdStandard g f c \<and> calls_gas_cost c = gas \<and>
     unat (calls_num c) = min (length (filter is_ActionCall (map snd (tx_actions lib tx)))) (2 ^ 32 - 1) \<and>
     unat (deploys_num c) = min (length (filter is_ActionDeploy (map snd (tx_actions lib tx)))) (2 ^ 32 - 1)"
  using count_actions [of "tx_actions lib tx" default_calls_details]
  by (simp add: default_calls_details_def)

end
