(* ===== verification/Ledger_Conversions.thy ===== *)
theory Ledger_Conversions
  imports Ledger_Errors
begin

text \<open>
  How the errors of the ledger library become errors of the bridge,
  \<^verbatim>\<open>ledger/src/versions/common/conversions.rs\<close>.  The variants of the library's errors are those the
  code matches on, without their payload; \<^verbatim>\<open>Other\<close> stands for every variant the code does not name.
\<close>

section \<open>Errors of the ledger library\<close>

datatype (plugins only: code size) transaction_invalid =
    Ti_EffectsMismatch | Ti_ContractAlreadyDeployed | Ti_ContractNotPresent | Ti_Zswap
  | Ti_Transcript | Ti_InsufficientClaimable | Ti_VerifierKeyNotFound
  | Ti_VerifierKeyAlreadyPresent | Ti_ReplayCounterMismatch | Ti_ReplayProtectionViolation
  | Ti_BalanceCheckOutOfBounds | Ti_InputNotInUtxos | Ti_DustDoubleSpend
  | Ti_DustDeregistrationNotRegistered | Ti_GenerationInfoAlreadyPresent
  | Ti_InvariantViolation | Ti_RewardTooSmall | Ti_Other

datatype (plugins only: code size) ledger_system_error =
    Lste_IllegalPayout | Lste_InsufficientTreasuryFunds | Lste_CommitmentAlreadyPresent
  | Lste_ReplayProtectionFailure | Lste_IllegalReserveDistribution
  | Lste_GenerationInfoAlreadyPresent | Lste_InvalidBasisPoints | Lste_InvariantViolation
  | Lste_TreasuryDisabled

datatype (plugins only: code size) malformed_transaction =
    Mt_VerifierKeyNotSet | Mt_TransactionTooLarge | Mt_VerifierKeyTooLarge
  | Mt_VerifierKeyNotPresent | Mt_ContractNotPresent | Mt_InvalidProof
  | Mt_BindingCommitmentOpeningInvalid | Mt_NotNormalized | Mt_FallibleWithoutCheckpoint
  | Mt_ClaimReceiveFailed | Mt_ClaimSpendFailed | Mt_ClaimNullifierFailed
  | Mt_InvalidSchnorrProof | Mt_UnclaimedCoinCom | Mt_UnclaimedNullifier | Mt_Unbalanced
  | Mt_Zswap | Mt_BuiltinDecode | Mt_CantMergeTypes | Mt_ClaimOverflow | Mt_ClaimCoinMismatch
  | Mt_KeyNotInCommittee | Mt_InvalidCommitteeSignature | Mt_ThresholdMissed
  | Mt_TooManyZswapEntries | Mt_BalanceCheckOverspend | Mt_InvalidNetworkId
  | Mt_IllegallyDeclaredGuaranteed | Mt_FeeCalculation | Mt_InvalidDustRegistrationSignature
  | Mt_InvalidDustSpendProof | Mt_OutOfDustValidityWindow | Mt_MultipleDustRegistrationsForKey
  | Mt_InsufficientDustForRegistrationFee | Mt_MalformedContractDeploy
  | Mt_IntentSignatureVerificationFailure | Mt_IntentSignatureKeyMismatch
  | Mt_IntentSegmentIdCollision | Mt_IntentAtGuaranteedSegmentId | Mt_UnsupportedProofVersion
  | Mt_GuaranteedTranscriptVersion | Mt_FallibleTranscriptVersion
  | Mt_TransactionApplicationError | Mt_BalanceCheckOutOfBounds
  | Mt_BalanceCheckConversionFailure | Mt_PedersenCheckFailure | Mt_EffectsCheckFailure
  | Mt_DisjointCheckFailure | Mt_SequencingCheckFailure | Mt_InputsNotSorted
  | Mt_OutputsNotSorted | Mt_DuplicateInputs | Mt_InputsSignaturesLengthMismatch | Mt_Other

section \<open>Conversions\<close>

primrec invalid_error_from :: "transaction_invalid \<Rightarrow> invalid_error" where
  "invalid_error_from Ti_EffectsMismatch = Ie_EffectsMismatch"
| "invalid_error_from Ti_ContractAlreadyDeployed = Ie_ContractAlreadyDeployed"
| "invalid_error_from Ti_ContractNotPresent = Ie_ContractNotPresent"
| "invalid_error_from Ti_Zswap = Ie_Zswap"
| "invalid_error_from Ti_Transcript = Ie_Transcript"
| "invalid_error_from Ti_InsufficientClaimable = Ie_InsufficientClaimable"
| "invalid_error_from Ti_VerifierKeyNotFound = Ie_VerifierKeyNotFound"
| "invalid_error_from Ti_VerifierKeyAlreadyPresent = Ie_VerifierKeyAlreadyPresent"
| "invalid_error_from Ti_ReplayCounterMismatch = Ie_ReplayCounterMismatch"
| "invalid_error_from Ti_ReplayProtectionViolation = Ie_ReplayProtectionViolation"
| "invalid_error_from Ti_BalanceCheckOutOfBounds = Ie_BalanceCheckOutOfBounds"
| "invalid_error_from Ti_InputNotInUtxos = Ie_InputNotInUtxos"
| "invalid_error_from Ti_DustDoubleSpend = Ie_DustDoubleSpend"
| "invalid_error_from Ti_DustDeregistrationNotRegistered = Ie_DustDeregistrationNotRegistered"
| "invalid_error_from Ti_GenerationInfoAlreadyPresent = Ie_GenerationInfoAlreadyPresent"
| "invalid_error_from Ti_InvariantViolation = Ie_InvariantViolation"
| "invalid_error_from Ti_RewardTooSmall = Ie_RewardTooSmall"
| "invalid_error_from Ti_Other = Ie_UnknownError"

primrec system_error_from :: "ledger_system_error \<Rightarrow> system_transaction_error" where
  "system_error_from Lste_IllegalPayout = Ste_IllegalPayout"
| "system_error_from Lste_InsufficientTreasuryFunds = Ste_InsufficientTreasuryFunds"
| "system_error_from Lste_CommitmentAlreadyPresent = Ste_CommitmentAlreadyPresent"
| "system_error_from Lste_ReplayProtectionFailure = Ste_ReplayProtectionFailure"
| "system_error_from Lste_IllegalReserveDistribution = Ste_IllegalReserveDistribution"
| "system_error_from Lste_GenerationInfoAlreadyPresent = Ste_GenerationInfoAlreadyPresent"
| "system_error_from Lste_InvalidBasisPoints = Ste_InvalidBasisPoints"
| "system_error_from Lste_InvariantViolation = Ste_InvariantViolation"
| "system_error_from Lste_TreasuryDisabled = Ste_TreasuryDisabled"

primrec malformed_error_from :: "malformed_transaction \<Rightarrow> malformed_error" where
  "malformed_error_from Mt_VerifierKeyNotSet = Me_VerifierKeyNotSet"
| "malformed_error_from Mt_TransactionTooLarge = Me_TransactionTooLarge"
| "malformed_error_from Mt_VerifierKeyTooLarge = Me_VerifierKeyTooLarge"
| "malformed_error_from Mt_VerifierKeyNotPresent = Me_VerifierKeyNotPresent"
| "malformed_error_from Mt_ContractNotPresent = Me_ContractNotPresent"
| "malformed_error_from Mt_InvalidProof = Me_InvalidProof"
| "malformed_error_from Mt_BindingCommitmentOpeningInvalid = Me_BindingCommitmentOpeningInvalid"
| "malformed_error_from Mt_NotNormalized = Me_NotNormalized"
| "malformed_error_from Mt_FallibleWithoutCheckpoint = Me_FallibleWithoutCheckpoint"
| "malformed_error_from Mt_ClaimReceiveFailed = Me_ClaimReceiveFailed"
| "malformed_error_from Mt_ClaimSpendFailed = Me_ClaimSpendFailed"
| "malformed_error_from Mt_ClaimNullifierFailed = Me_ClaimNullifierFailed"
| "malformed_error_from Mt_InvalidSchnorrProof = Me_InvalidSchnorrProof"
| "malformed_error_from Mt_UnclaimedCoinCom = Me_UnclaimedCoinCom"
| "malformed_error_from Mt_UnclaimedNullifier = Me_UnclaimedNullifier"
| "malformed_error_from Mt_Unbalanced = Me_Unbalanced"
| "malformed_error_from Mt_Zswap = Me_Zswap"
| "malformed_error_from Mt_BuiltinDecode = Me_BuiltinDecode"
| "malformed_error_from Mt_CantMergeTypes = Me_CantMergeTypes"
| "malformed_error_from Mt_ClaimOverflow = Me_ClaimOverflow"
| "malformed_error_from Mt_ClaimCoinMismatch = Me_ClaimCoinMismatch"
| "malformed_error_from Mt_KeyNotInCommittee = Me_KeyNotInCommittee"
| "malformed_error_from Mt_InvalidCommitteeSignature = Me_InvalidCommitteeSignature"
| "malformed_error_from Mt_ThresholdMissed = Me_ThresholdMissed"
| "malformed_error_from Mt_TooManyZswapEntries = Me_TooManyZswapEntries"
| "malformed_error_from Mt_BalanceCheckOverspend = Me_BalanceCheckOverspend"
| "malformed_error_from Mt_InvalidNetworkId = Me_InvalidNetworkId"
| "malformed_error_from Mt_IllegallyDeclaredGuaranteed = Me_IllegallyDeclaredGuaranteed"
| "malformed_error_from Mt_FeeCalculation = Me_FeeCalculation"
| "malformed_error_from Mt_InvalidDustRegistrationSignature = Me_InvalidDustRegistrationSignature"
| "malformed_error_from Mt_InvalidDustSpendProof = Me_InvalidDustSpendProof"
| "malformed_error_from Mt_OutOfDustValidityWindow = Me_OutOfDustValidityWindow"
| "malformed_error_from Mt_MultipleDustRegistrationsForKey = Me_MultipleDustRegistrationsForKey"
| "malformed_error_from Mt_InsufficientDustForRegistrationFee = Me_InsufficientDustForRegistrationFee"
| "malformed_error_from Mt_MalformedContractDeploy = Me_MalformedContractDeploy"
| "malformed_error_from Mt_IntentSignatureVerificationFailure = Me_IntentSignatureVerificationFailure"
| "malformed_error_from Mt_IntentSignatureKeyMismatch = Me_IntentSignatureKeyMismatch"
| "malformed_error_from Mt_IntentSegmentIdCollision = Me_IntentSegmentIdCollision"
| "malformed_error_from Mt_IntentAtGuaranteedSegmentId = Me_IntentAtGuaranteedSegmentId"
| "malformed_error_from Mt_UnsupportedProofVersion = Me_UnsupportedProofVersion"
| "malformed_error_from Mt_GuaranteedTranscriptVersion = Me_GuaranteedTranscriptVersion"
| "malformed_error_from Mt_FallibleTranscriptVersion = Me_FallibleTranscriptVersion"
| "malformed_error_from Mt_TransactionApplicationError = Me_TransactionApplicationError"
| "malformed_error_from Mt_BalanceCheckOutOfBounds = Me_BalanceCheckOutOfBounds"
| "malformed_error_from Mt_BalanceCheckConversionFailure = Me_BalanceCheckConversionFailure"
| "malformed_error_from Mt_PedersenCheckFailure = Me_PedersenCheckFailure"
| "malformed_error_from Mt_EffectsCheckFailure = Me_EffectsCheckFailure"
| "malformed_error_from Mt_DisjointCheckFailure = Me_DisjointCheckFailure"
| "malformed_error_from Mt_SequencingCheckFailure = Me_SequencingCheckFailure"
| "malformed_error_from Mt_InputsNotSorted = Me_InputsNotSorted"
| "malformed_error_from Mt_OutputsNotSorted = Me_OutputsNotSorted"
| "malformed_error_from Mt_DuplicateInputs = Me_DuplicateInputs"
| "malformed_error_from Mt_InputsSignaturesLengthMismatch = Me_InputsSignaturesLengthMismatch"
| "malformed_error_from Mt_Other = Me_UnknownError"

section \<open>Lemmas\<close>

definition all_malformed_transaction :: "malformed_transaction list" where
  "all_malformed_transaction =
    [Mt_VerifierKeyNotSet, Mt_TransactionTooLarge, Mt_VerifierKeyTooLarge,
     Mt_VerifierKeyNotPresent, Mt_ContractNotPresent, Mt_InvalidProof,
     Mt_BindingCommitmentOpeningInvalid, Mt_NotNormalized, Mt_FallibleWithoutCheckpoint,
     Mt_ClaimReceiveFailed, Mt_ClaimSpendFailed, Mt_ClaimNullifierFailed,
     Mt_InvalidSchnorrProof, Mt_UnclaimedCoinCom, Mt_UnclaimedNullifier, Mt_Unbalanced,
     Mt_Zswap, Mt_BuiltinDecode, Mt_CantMergeTypes, Mt_ClaimOverflow, Mt_ClaimCoinMismatch,
     Mt_KeyNotInCommittee, Mt_InvalidCommitteeSignature, Mt_ThresholdMissed,
     Mt_TooManyZswapEntries, Mt_BalanceCheckOverspend, Mt_InvalidNetworkId,
     Mt_IllegallyDeclaredGuaranteed, Mt_FeeCalculation, Mt_InvalidDustRegistrationSignature,
     Mt_InvalidDustSpendProof, Mt_OutOfDustValidityWindow, Mt_MultipleDustRegistrationsForKey,
     Mt_InsufficientDustForRegistrationFee, Mt_MalformedContractDeploy,
     Mt_IntentSignatureVerificationFailure, Mt_IntentSignatureKeyMismatch,
     Mt_IntentSegmentIdCollision, Mt_IntentAtGuaranteedSegmentId, Mt_UnsupportedProofVersion,
     Mt_GuaranteedTranscriptVersion, Mt_FallibleTranscriptVersion,
     Mt_TransactionApplicationError, Mt_BalanceCheckOutOfBounds,
     Mt_BalanceCheckConversionFailure, Mt_PedersenCheckFailure, Mt_EffectsCheckFailure,
     Mt_DisjointCheckFailure, Mt_SequencingCheckFailure, Mt_InputsNotSorted,
     Mt_OutputsNotSorted, Mt_DuplicateInputs, Mt_InputsSignaturesLengthMismatch, Mt_Other]"

lemma mem_all_malformed_transaction: "m \<in> set all_malformed_transaction"
  by (cases m) (simp_all add: all_malformed_transaction_def)

lemma malformed_codes_distinct: "distinct (map (unat \<circ> malformed_code \<circ> malformed_error_from) all_malformed_transaction)"
  by code_simp

lemma malformed_error_from_inj:
  assumes "malformed_error_from a = malformed_error_from b"
  shows "a = b"
proof -
  have "inj_on (unat \<circ> malformed_code \<circ> malformed_error_from) (set all_malformed_transaction)"
    using malformed_codes_distinct unfolding distinct_map by blast
  from inj_onD [OF this] assms show ?thesis by (simp add: mem_all_malformed_transaction)
qed

lemma invalid_error_from_inj: "invalid_error_from a = invalid_error_from b \<Longrightarrow> a = b"
  by (cases a; cases b; simp)

lemma system_error_from_inj: "system_error_from a = system_error_from b \<Longrightarrow> a = b"
  by (cases a; cases b; simp)

end
