(* ===== verification/Ledger_Cost.thy ===== *)
theory Ledger_Cost
  imports Node_Prelude
begin

text \<open>
  Costs of the ledger in its five dimensions: \<^verbatim>\<open>clamp_and_normalize\<close> and
  \<^verbatim>\<open>compute_overall_fullness\<close> of \<^verbatim>\<open>ledger/helpers/src/versions/common/mod.rs\<close>, and
  \<^verbatim>\<open>scale_normalized_cost\<close> of \<^verbatim>\<open>ledger/src/versions/common/mod.rs\<close>, which turns a cost into a
  weight.  The fixed point numbers of the ledger library are any linear order \<^verbatim>\<open>'fp\<close>; its
  \<^verbatim>\<open>normalize\<close> and \<^verbatim>\<open>into_atomic_units\<close> are parameters.
\<close>

section \<open>Definitions\<close>

record synthetic_cost =
  sc_read_time :: u64
  sc_compute_time :: u64
  sc_block_usage :: u64
  sc_bytes_written :: u64
  sc_bytes_churned :: u64

record 'fp normalized_cost =
  nc_read_time :: 'fp
  nc_compute_time :: 'fp
  nc_block_usage :: 'fp
  nc_bytes_written :: 'fp
  nc_bytes_churned :: 'fp

type_synonym 'fp normalize = "synthetic_cost \<Rightarrow> synthetic_cost \<Rightarrow> 'fp normalized_cost option"

definition cost_zero :: synthetic_cost where
  "cost_zero = \<lparr> sc_read_time = 0, sc_compute_time = 0, sc_block_usage = 0, sc_bytes_written = 0,
     sc_bytes_churned = 0 \<rparr>"

definition cost_min :: "synthetic_cost \<Rightarrow> synthetic_cost \<Rightarrow> synthetic_cost" where
  "cost_min cost limits =
     \<lparr> sc_read_time = min (sc_read_time cost) (sc_read_time limits),
       sc_compute_time = min (sc_compute_time cost) (sc_compute_time limits),
       sc_block_usage = min (sc_block_usage cost) (sc_block_usage limits),
       sc_bytes_written = min (sc_bytes_written cost) (sc_bytes_written limits),
       sc_bytes_churned = min (sc_bytes_churned cost) (sc_bytes_churned limits) \<rparr>"

definition clamp_and_normalize ::
  "'fp normalize \<Rightarrow> synthetic_cost \<Rightarrow> synthetic_cost \<Rightarrow> 'fp normalized_cost outcome" where
  "clamp_and_normalize norm cost limits =
     expect ''clamped cost should always normalize successfully'' (ok_or () (norm (cost_min cost limits) limits))"

definition compute_overall_fullness :: "'fp::linorder normalized_cost \<Rightarrow> 'fp" where
  "compute_overall_fullness n =
     max (max (max (nc_read_time n) (nc_compute_time n)) (nc_block_usage n))
         (max (nc_bytes_written n) (nc_bytes_churned n))"

definition scale_normalized_cost ::
  "('fp::linorder \<Rightarrow> u128 \<Rightarrow> u128) \<Rightarrow> 'fp normalized_cost \<Rightarrow> u64 \<Rightarrow> u64" where
  "scale_normalized_cost into_atomic_units n max_weight =
     (let max_fp = fold max [nc_compute_time n, nc_block_usage n, nc_bytes_written n, nc_bytes_churned n]
            (nc_read_time n) in
      ucast (min (into_atomic_units max_fp (ucast max_weight)) (ucast max_weight)))"

text \<open>
  \<^verbatim>\<open>SyntheticCost::normalize\<close> returns \<^verbatim>\<open>None\<close> when a dimension exceeds its limit, and only then.
\<close>

definition cost_within :: "synthetic_cost \<Rightarrow> synthetic_cost \<Rightarrow> bool" where
  "cost_within cost limits \<longleftrightarrow>
     sc_read_time cost \<le> sc_read_time limits \<and> sc_compute_time cost \<le> sc_compute_time limits \<and>
     sc_block_usage cost \<le> sc_block_usage limits \<and> sc_bytes_written cost \<le> sc_bytes_written limits \<and>
     sc_bytes_churned cost \<le> sc_bytes_churned limits"

definition normalize_within_limits :: "'fp normalize \<Rightarrow> bool" where
  "normalize_within_limits norm \<longleftrightarrow> (\<forall>cost limits. norm cost limits = None \<longleftrightarrow> \<not> cost_within cost limits)"

text \<open>An instance for examples: the dimensions themselves, as numbers.\<close>

definition demo_normalize :: "nat normalize" where
  "demo_normalize cost limits =
     (if cost_within cost limits
      then Some \<lparr> nc_read_time = unat (sc_read_time cost), nc_compute_time = unat (sc_compute_time cost),
        nc_block_usage = unat (sc_block_usage cost), nc_bytes_written = unat (sc_bytes_written cost),
        nc_bytes_churned = unat (sc_bytes_churned cost) \<rparr>
      else None)"

section \<open>Lemmas\<close>

lemma cost_min_within [simp]: "cost_within (cost_min cost limits) limits"
  by (simp add: cost_within_def cost_min_def)

lemma cost_min_id: "cost_within cost limits \<Longrightarrow> cost_min cost limits = cost"
  by (simp add: cost_within_def cost_min_def min_absorb1)

lemma demo_normalize_law: "normalize_within_limits demo_normalize"
  by (simp add: normalize_within_limits_def demo_normalize_def)

lemma clamp_returns:
  "normalize_within_limits norm \<Longrightarrow> \<exists>n. clamp_and_normalize norm cost limits = Returns n"
  by (cases "norm (cost_min cost limits) limits")
    (auto simp: normalize_within_limits_def clamp_and_normalize_def)

lemma ucast_u64_u128_le: "(x :: u128) \<le> ucast (w :: u64) \<Longrightarrow> unat (ucast x :: u64) = unat x \<and> unat x \<le> unat w"
proof -
  assume le: "x \<le> ucast w"
  have "unat (ucast w :: u128) = unat w"
    using unat_bound [of w] by (simp add: unsigned_ucast_eq take_bit_nat_eq_self)
  with le have "unat x \<le> unat w" by (simp add: word_le_nat_alt)
  with unat_bound [of w] show ?thesis by (simp add: unsigned_ucast_eq take_bit_nat_eq_self)
qed

lemma unat_scale:
  "unat (scale_normalized_cost units n w) =
     min (unat (units (compute_overall_fullness n) (ucast w))) (unat w)"
proof -
  let ?x = "units (compute_overall_fullness n) (ucast w)"
  have fp: "fold max [nc_compute_time n, nc_block_usage n, nc_bytes_written n, nc_bytes_churned n] (nc_read_time n) =
      compute_overall_fullness n"
    by (simp add: compute_overall_fullness_def max.commute max.left_commute)
  have w: "unat (ucast w :: u128) = unat w"
    using unat_bound [of w] by (simp add: unsigned_ucast_eq take_bit_nat_eq_self)
  have "unat (min ?x (ucast w)) = min (unat ?x) (unat w)"
    by (simp add: min_def word_le_nat_alt w)
  with ucast_u64_u128_le [of "min ?x (ucast w)" w] show ?thesis
    by (simp only: scale_normalized_cost_def Let_def fp) simp
qed

section \<open>Properties\<close>

text \<open>
  Closing a block never panics on a full block.  If the ledger normalizes every cost within its
  limits, \<^verbatim>\<open>clamp_and_normalize\<close> returns, with the normalized cost itself for a block within the
  limits, and with that of the clamped cost for one beyond them.
\<close>
theorem clamp_and_normalize_total:
  assumes "normalize_within_limits norm"
  shows "\<exists>n. clamp_and_normalize norm cost limits = Returns n \<and> norm (cost_min cost limits) limits = Some n \<and>
    (if cost_within cost limits then norm cost limits = Some n else norm cost limits = None)"
proof -
  obtain n where "clamp_and_normalize norm cost limits = Returns n" using clamp_returns [OF assms] by blast
  then show ?thesis
    using assms by (auto simp: clamp_and_normalize_def cost_min_id normalize_within_limits_def)
qed

theorem clamp_and_normalize_total_witness:
  "\<exists>n. clamp_and_normalize demo_normalize (cost_zero\<lparr> sc_block_usage := 401 \<rparr>) (cost_zero\<lparr> sc_block_usage := 400 \<rparr>) = Returns n \<and>
     nc_block_usage n = 400"
  using clamp_and_normalize_total [OF demo_normalize_law, of "cost_zero\<lparr> sc_block_usage := 401 \<rparr>" "cost_zero\<lparr> sc_block_usage := 400 \<rparr>"]
  by (auto simp: demo_normalize_def cost_min_def cost_zero_def cost_within_def)

text \<open>
  The weight of a transaction never exceeds the weight of a block, and grows with its fullest
  dimension, if the conversion of fixed point numbers is monotone.
\<close>
theorem scaled_cost_bounds:
  assumes "\<And>a b. a \<le> b \<Longrightarrow> units a (ucast max_weight) \<le> units b (ucast max_weight)"
  shows "scale_normalized_cost units n max_weight \<le> max_weight \<and>
    (compute_overall_fullness n \<le> compute_overall_fullness m \<longrightarrow>
       scale_normalized_cost units n max_weight \<le> scale_normalized_cost units m max_weight)"
  using assms [of "compute_overall_fullness n" "compute_overall_fullness m"]
  by (auto simp: word_le_nat_alt unat_scale min_def)

theorem scaled_cost_bounds_witness:
  "scale_normalized_cost (\<lambda>(a :: nat) w. of_nat (min a 1000)) \<lparr> nc_read_time = 500, nc_compute_time = 0,
     nc_block_usage = 0, nc_bytes_written = 0, nc_bytes_churned = 0 \<rparr> 100 \<le> 100"
  using scaled_cost_bounds [of "\<lambda>a w. of_nat (min a 1000)" 100
      "\<lparr> nc_read_time = 500, nc_compute_time = 0, nc_block_usage = 0, nc_bytes_written = 0, nc_bytes_churned = 0 \<rparr>"
      "\<lparr> nc_read_time = 600, nc_compute_time = 0, nc_block_usage = 0, nc_bytes_written = 0, nc_bytes_churned = 0 \<rparr>"]
  by (simp add: word_le_nat_alt unsigned_of_nat take_bit_nat_eq_self)

end
