(* ===== verification/Utxo_Ordering.thy ===== *)
theory Utxo_Ordering
  imports Ledger_Types
begin

text \<open>
  The override of the order of unshielded UTXOs, \<^verbatim>\<open>ledger/src/versions/common/utxo_ordering_override.rs\<close>.
  Old blocks listed the UTXOs of a transaction in the order of a hash map; a file with the original
  order lets a node reproduce them.  The file, its JSON and hexadecimal decoding are parameters.
\<close>

section \<open>Definitions\<close>

record utxo_ordering =
  uo_created :: "(bytes \<times> u32) list"
  uo_spent :: "(bytes \<times> u32) list"

record utxo_entry =
  ue_intent_hash :: string
  ue_output_index :: u32

record tx_override =
  to_tx_hash :: string
  to_block_height :: u64
  to_created :: "utxo_entry list"
  to_spent :: "utxo_entry list"

record override_env =
  hex_decode :: "string \<Rightarrow> bytes option"
  read_to_string :: "string \<Rightarrow> string option"
  parse_overrides :: "string \<Rightarrow> tx_override list option"

text \<open>The two \<^verbatim>\<open>OnceLock\<close> cells: a cell keeps the first value it is given.\<close>

record override_cells =
  NETWORK_ID :: "string option"
  OVERRIDES :: "(bytes \<rightharpoonup> utxo_ordering) option"

definition set_network_id :: "string \<Rightarrow> override_cells \<Rightarrow> override_cells" where
  "set_network_id net c = (case NETWORK_ID c of None \<Rightarrow> c\<lparr> NETWORK_ID := Some net \<rparr> | Some _ \<Rightarrow> c)"

definition parse_hash :: "override_env \<Rightarrow> string \<Rightarrow> bytes" where
  "parse_hash env hex_str =
     (case hex_decode env hex_str of
        Some bs \<Rightarrow> take 32 bs @ replicate (32 - length bs) 0
      | None \<Rightarrow> replicate 32 0)"

definition parse_entry :: "override_env \<Rightarrow> utxo_entry \<Rightarrow> bytes \<times> u32" where
  "parse_entry env e = (parse_hash env (ue_intent_hash e), ue_output_index e)"

definition insert_override ::
  "override_env \<Rightarrow> tx_override \<Rightarrow> (bytes \<rightharpoonup> utxo_ordering) \<Rightarrow> (bytes \<rightharpoonup> utxo_ordering)" where
  "insert_override env tx m = m(parse_hash env (to_tx_hash tx) \<mapsto>
     \<lparr> uo_created = map (parse_entry env) (to_created tx), uo_spent = map (parse_entry env) (to_spent tx) \<rparr>)"

definition load_overrides :: "override_env \<Rightarrow> override_cells \<Rightarrow> (bytes \<rightharpoonup> utxo_ordering)" where
  "load_overrides env c =
     (let net = (case NETWORK_ID c of Some n \<Rightarrow> n | None \<Rightarrow> []) in
      if net \<notin> {''preview'', ''preprod'', ''qanet''} then Map.empty
      else case read_to_string env (''res/utxo-ordering-override-'' @ net @ ''.json'') of
             None \<Rightarrow> Map.empty
           | Some json \<Rightarrow>
               (case parse_overrides env json of
                  None \<Rightarrow> Map.empty
                | Some entries \<Rightarrow> fold (insert_override env) entries Map.empty))"

definition get_override ::
  "override_env \<Rightarrow> bytes \<Rightarrow> override_cells \<Rightarrow> override_cells \<times> utxo_ordering option" where
  "get_override env tx_hash c =
     (case OVERRIDES c of
        Some m \<Rightarrow> (c, m tx_hash)
      | None \<Rightarrow> (let m = load_overrides env c in (c\<lparr> OVERRIDES := Some m \<rparr>, m tx_hash)))"

primrec iter_position :: "('a \<Rightarrow> bool) \<Rightarrow> 'a list \<Rightarrow> nat option" where
  "iter_position P [] = None"
| "iter_position P (x # xs) = (if P x then Some 0 else map_option Suc (iter_position P xs))"

text \<open>\<^verbatim>\<open>Vec::swap_remove\<close>: the last element takes the place of the removed one.\<close>

definition swap_remove :: "nat \<Rightarrow> 'a list \<Rightarrow> 'a list" where
  "swap_remove i xs = (if Suc i = length xs then butlast xs else (butlast xs)[i := last xs])"

definition utxo_key :: "utxo_info \<Rightarrow> bytes \<times> u32" where
  "utxo_key u = (ui_intent_hash u, ui_output_no u)"

text \<open>The loop of \<^verbatim>\<open>reorder\<close>; on a missing entry it returns with what is left of the vector.\<close>

fun reorder_loop ::
  "utxo_info list \<Rightarrow> (bytes \<times> u32) list \<Rightarrow> utxo_info list \<Rightarrow> utxo_info list" where
  "reorder_loop utxos [] reordered = reordered"
| "reorder_loop utxos ((intent_hash, output_no) # expected) reordered =
     (case iter_position (\<lambda>u. ui_intent_hash u = intent_hash \<and> ui_output_no u = output_no) utxos of
        Some pos \<Rightarrow> reorder_loop (swap_remove pos utxos) expected (reordered @ [utxos ! pos])
      | None \<Rightarrow> utxos)"

definition reorder :: "utxo_info list \<Rightarrow> (bytes \<times> u32) list \<Rightarrow> utxo_info list" where
  "reorder utxos expected =
     (if expected = [] \<or> length utxos \<noteq> length expected then utxos else reorder_loop utxos expected [])"

definition ordering_apply ::
  "utxo_ordering \<Rightarrow> utxo_info list \<Rightarrow> nat \<Rightarrow> utxo_info list \<Rightarrow> nat \<Rightarrow> utxo_info list \<times> utxo_info list" where
  "ordering_apply ord outputs output_segments inputs input_segments =
     (if output_segments > 1 then reorder outputs (uo_created ord) else outputs,
      if input_segments > 1 then reorder inputs (uo_spent ord) else inputs)"

definition demo_utxo_info :: "byte \<Rightarrow> u32 \<Rightarrow> utxo_info" where
  "demo_utxo_info h n = \<lparr> ui_address = [], ui_token_type = [], ui_intent_hash = [h], ui_value = 100, ui_output_no = n \<rparr>"

section \<open>Lemmas\<close>

lemma iter_position_SomeD: "iter_position P xs = Some i \<Longrightarrow> i < length xs \<and> P (xs ! i)"
  by (induction xs arbitrary: i) (auto split: if_splits)

lemma iter_position_None_iff: "iter_position P xs = None \<longleftrightarrow> (\<forall>x\<in>set xs. \<not> P x)"
  by (induction xs) auto

lemma mset_swap_remove:
  assumes "i < length xs"
  shows "mset xs = add_mset (xs ! i) (mset (swap_remove i xs))"
proof (cases xs rule: rev_cases)
  case (snoc ys y)
  show ?thesis
  proof (cases "i = length ys")
    case False
    with assms snoc have "i < length ys" by simp
    with snoc show ?thesis
      by (simp add: swap_remove_def nth_append mset_update add_mset_commute)
  qed (simp add: snoc swap_remove_def)
qed (use assms in simp)

lemma length_swap_remove: "i < length xs \<Longrightarrow> Suc (length (swap_remove i xs)) = length xs"
  by (metis mset_swap_remove size_add_mset size_mset)

lemma reorder_loop_matches:
  "mset (map utxo_key utxos) = mset expected \<Longrightarrow>
     map utxo_key (reorder_loop utxos expected acc) = map utxo_key acc @ expected \<and>
     mset (reorder_loop utxos expected acc) = mset acc + mset utxos"
proof (induction utxos expected acc rule: reorder_loop.induct)
  case (2 utxos h n expected acc)
  let ?P = "\<lambda>u. ui_intent_hash u = h \<and> ui_output_no u = n"
  have "(h, n) \<in> set (map utxo_key utxos)" using 2(2) by (metis list.set_intros(1) mset_eq_setD)
  then have "iter_position ?P utxos \<noteq> None" by (auto simp: iter_position_None_iff utxo_key_def)
  then obtain pos where pos: "iter_position ?P utxos = Some pos" by blast
  then have lt: "pos < length utxos" and key: "utxo_key (utxos ! pos) = (h, n)"
    by (auto dest: iter_position_SomeD simp: utxo_key_def)
  note split = mset_swap_remove [OF lt]
  from 2(2) split key have "mset (map utxo_key (swap_remove pos utxos)) = mset expected" by simp
  with 2(1) [OF pos] pos key split show ?case by simp
qed simp

lemma reorder_loop_missing:
  assumes "length utxos = length expected" and "mset (map utxo_key utxos) \<noteq> mset expected"
  shows "\<exists>n < length expected. mset (map utxo_key (reorder_loop utxos expected acc)) + mset (take n expected) =
       mset (map utxo_key utxos) \<and> expected ! n \<notin> set (map utxo_key (reorder_loop utxos expected acc))"
  using assms
proof (induction utxos expected acc rule: reorder_loop.induct)
  case (2 utxos h n expected acc)
  let ?P = "\<lambda>u. ui_intent_hash u = h \<and> ui_output_no u = n"
  show ?case
  proof (cases "iter_position ?P utxos")
    case None
    then have "(h, n) \<notin> set (map utxo_key utxos)" by (auto simp: iter_position_None_iff utxo_key_def)
    with None show ?thesis by (intro exI [of _ 0]) simp
  next
    case (Some pos)
    then have lt: "pos < length utxos" and key: "utxo_key (utxos ! pos) = (h, n)"
      by (auto dest: iter_position_SomeD simp: utxo_key_def)
    note split = mset_swap_remove [OF lt]
    have "length (swap_remove pos utxos) = length expected"
      using length_swap_remove [OF lt] 2(2) by simp
    moreover have "mset (map utxo_key (swap_remove pos utxos)) \<noteq> mset expected"
      using 2(3) split key by simp
    ultimately obtain i where "i < length expected"
      "mset (map utxo_key (reorder_loop (swap_remove pos utxos) expected (acc @ [utxos ! pos]))) + mset (take i expected) =
         mset (map utxo_key (swap_remove pos utxos))"
      "expected ! i \<notin> set (map utxo_key (reorder_loop (swap_remove pos utxos) expected (acc @ [utxos ! pos])))"
      using 2(1) [OF Some] by blast
    with Some split key show ?thesis by (intro exI [of _ "Suc i"]) simp
  qed
qed simp

lemma parse_hash_length: "length (parse_hash env s) = 32"
  by (auto simp: parse_hash_def min_def split: option.splits)

lemma get_override_stable:
  "get_override env h c = (c', r) \<Longrightarrow> get_override env' h (set_network_id net c') = (set_network_id net c', r)"
  by (auto simp: get_override_def set_network_id_def Let_def split: option.splits)

section \<open>Properties\<close>

text \<open>
  C35: what the override does to a list of UTXOs of the same length.  When the override names
  exactly the UTXOs of the list, the result is these UTXOs in the order of the override.  Otherwise
  the reordering stops at the first entry it cannot find, and the UTXOs it had matched until then
  are lost: the result has the keys of the list without those of the entries before it.
\<close>
theorem reorder_outcome:
  assumes "expected \<noteq> []" and "length utxos = length expected"
  shows "if mset (map utxo_key utxos) = mset expected
    then map utxo_key (reorder utxos expected) = expected \<and> mset (reorder utxos expected) = mset utxos
    else \<exists>n < length expected.
      mset (map utxo_key (reorder utxos expected)) + mset (take n expected) = mset (map utxo_key utxos) \<and>
      expected ! n \<notin> set (map utxo_key (reorder utxos expected))"
  using assms reorder_loop_matches [of utxos expected "[]"] reorder_loop_missing [of utxos expected "[]"]
  by (simp add: reorder_def)

theorem reorder_outcome_witness:
  "map utxo_key (reorder [demo_utxo_info 1 0, demo_utxo_info 2 0, demo_utxo_info 3 0] [([3], 0), ([1], 0), ([2], 0)]) =
     [([3], 0), ([1], 0), ([2], 0)] \<and>
   (\<exists>n < 2. mset (map utxo_key (reorder [demo_utxo_info 1 0, demo_utxo_info 2 0] [([2], 0), ([3], 0)])) +
      mset (take n [([2], 0), ([3], 0)]) = mset [([1], 0), ([2], 0)]) \<and>
   reorder [demo_utxo_info 1 0, demo_utxo_info 2 0] [([2], 0), ([3], 0)] = [demo_utxo_info 1 0]"
  using reorder_outcome [of "[([3], 0), ([1], 0), ([2], 0)]" "[demo_utxo_info 1 0, demo_utxo_info 2 0, demo_utxo_info 3 0]"]
    reorder_outcome [of "[([2], 0), ([3], 0)]" "[demo_utxo_info 1 0, demo_utxo_info 2 0]"]
  by (simp add: demo_utxo_info_def utxo_key_def reorder_def swap_remove_def add_mset_commute)
    (auto simp: numeral_2_eq_2)

end
