(* ===== verification/Ledger_Bridge.thy ===== *)
theory Ledger_Bridge
  imports Ledger_Transaction Ledger_Conversions Ledger_Cost Utxo_Ordering
begin

text \<open>
  The bridge between the runtime and the ledger library, \<^verbatim>\<open>ledger/src/versions/common/mod.rs\<close> and
  \<^verbatim>\<open>api/ledger.rs\<close>: it loads a ledger by its key, applies and validates transactions, and stores
  the ledger that results.  Two caches avoid the verification of a transaction that was verified
  before.  The ledger library is the record \<^verbatim>\<open>ledger_lib\<close>; storage is a map from the keys of the
  arena to the ledgers that were persisted.  Metrics and logging are left out.
\<close>

section \<open>The ledger library\<close>

record 'st ledger =
  l_state :: 'st
  l_block_fullness :: synthetic_cost

type_synonym 'st tx_context = "'st \<times> ledger_block_context"

datatype transaction_result =
    TrSuccess
  | TrPartialSuccess "(segment_id \<times> (transaction_invalid, unit) result) list"
  | TrFailure transaction_invalid

datatype claim_kind = Reward | CardanoBridge

datatype system_tx_kind =
    OverwriteParameters | DistributeNight claim_kind | PayBlockRewardsToTreasury
  | PayFromTreasuryShielded | PayFromTreasuryUnshielded | DistributeReserve
  | CNightGeneratesDustUpdate | OtherSystemTx

record ('st, 'std, 'vt, 'sys, 'key, 'fp) ledger_lib =
  deserialize_tx :: "bytes \<Rightarrow> 'std inner_tx option"
  deserialize_system_tx :: "bytes \<Rightarrow> 'sys option"
  deserialize_key :: "bytes \<Rightarrow> 'key option"
  serialize_key :: "'key \<Rightarrow> bytes option"
  typed_key :: "'st ledger \<Rightarrow> 'key"
  twox128 :: "bytes \<Rightarrow> bytes"
  state_hash :: "'st \<Rightarrow> bytes"
  state_network_id :: "'st \<Rightarrow> string"
  state_utxos :: "'st \<Rightarrow> utxo fset"
  block_limits :: "'st \<Rightarrow> synthetic_cost"
  tx_cost :: "'std inner_tx \<Rightarrow> 'st \<Rightarrow> synthetic_cost option"
  well_formed :: "'std inner_tx \<Rightarrow> 'st \<Rightarrow> u64 \<Rightarrow> (malformed_transaction, 'vt) result"
  state_apply :: "'st \<Rightarrow> 'vt \<Rightarrow> 'st tx_context \<Rightarrow> 'st \<times> transaction_result"
  state_post_block_update :: "'st \<Rightarrow> u64 \<Rightarrow> 'fp normalized_cost \<Rightarrow> 'fp \<Rightarrow> 'st option"
  system_cost :: "'sys \<Rightarrow> 'st \<Rightarrow> synthetic_cost"
  state_apply_system_tx :: "'st \<Rightarrow> 'sys \<Rightarrow> u64 \<Rightarrow> (ledger_system_error, 'st) result"
  system_transaction_hash :: "'sys \<Rightarrow> bytes"
  system_kind :: "'sys \<Rightarrow> system_tx_kind"
  cost_add :: "synthetic_cost \<Rightarrow> synthetic_cost \<Rightarrow> synthetic_cost"
  cost_normalize :: "'fp normalize"
  into_atomic_units :: "'fp \<Rightarrow> u128 \<Rightarrow> u128"

section \<open>Storage and caches\<close>

text \<open>
  A value of the strict cache is type erased; \<^verbatim>\<open>None\<close> is a value of another type, on which the
  downcast fails.  Entries may be evicted at any time.
\<close>

record ('st, 'vt, 'key) bridge =
  arena :: "'key \<rightharpoonup> 'st ledger"
  strict_cache :: "bytes \<times> bytes \<rightharpoonup> 'vt option"
  soft_cache :: "bytes \<rightharpoonup> (ledger_api_error, unit) result"
  cells :: override_cells

definition tagged_deserialize :: "deserialization_error \<Rightarrow> 'a option \<Rightarrow> (ledger_api_error, 'a) result" where
  "tagged_deserialize err r = ok_or (LDeserialization err) r"

definition tagged_serialize :: "serialization_error \<Rightarrow> 'a option \<Rightarrow> (ledger_api_error, 'a) result" where
  "tagged_serialize err r = ok_or (LSerialization err) r"

definition get_ledger ::
  "('st, 'std, 'vt, 'sys, 'key, 'fp) ledger_lib \<Rightarrow> bytes \<Rightarrow> ('st, 'vt, 'key) bridge \<Rightarrow>
   (ledger_api_error, 'st ledger) result" where
  "get_ledger lib state_key b =
     and_then (tagged_deserialize De_TypedArenaKey (deserialize_key lib state_key)) (\<lambda>key.
     ok_or LNoLedgerState (arena b key))"

definition persist ::
  "('st, 'std, 'vt, 'sys, 'key, 'fp) ledger_lib \<Rightarrow> 'st ledger \<Rightarrow> ('st, 'vt, 'key) bridge \<Rightarrow>
   ('st, 'vt, 'key) bridge" where
  "persist lib l b = b\<lparr> arena := (arena b)(typed_key lib l \<mapsto> l) \<rparr>"

definition ledger_new :: "'st \<Rightarrow> 'st ledger" where
  "ledger_new st = \<lparr> l_state = st, l_block_fullness = cost_zero \<rparr>"

section \<open>The ledger of the bridge\<close>

definition get_transaction_context ::
  "'st ledger \<Rightarrow> block_context \<Rightarrow> (ledger_api_error, 'st tx_context) result" where
  "get_transaction_context l ctx =
     and_then (map_err (\<lambda>_. LGetTransactionContextError) (ledger_context_try_from ctx)) (\<lambda>c.
     Inr (l_state l, c))"

datatype applied_stage =
    AllApplied
  | PartialSuccess "(segment_id \<times> (transaction_invalid, unit) result) list"

definition apply_verified_transaction ::
  "('st, 'std, 'vt, 'sys, 'key, 'fp) ledger_lib \<Rightarrow> 'st ledger \<Rightarrow> 'std inner_tx \<Rightarrow> 'vt \<Rightarrow> 'st tx_context \<Rightarrow>
   (ledger_api_error, 'st ledger \<times> applied_stage) result" where
  "apply_verified_transaction lib l tx vt ctx =
     and_then (ok_or LFeeCalculationError (tx_cost lib tx (l_state l))) (\<lambda>cost.
       let (next_state, result) = state_apply lib (l_state l) vt ctx;
           new = \<lparr> l_state = next_state, l_block_fullness = cost_add lib cost (l_block_fullness l) \<rparr> in
       case result of
         TrSuccess \<Rightarrow> Inr (new, AllApplied)
       | TrPartialSuccess segments \<Rightarrow> Inr (new, PartialSuccess (sort_key fst segments))
       | TrFailure reason \<Rightarrow> Inl (LTransaction (TxInvalid (invalid_error_from reason))))"

definition ledger_post_block_update ::
  "('st, 'std, 'vt, 'sys, 'key, 'fp::linorder) ledger_lib \<Rightarrow> 'st ledger \<Rightarrow> block_context \<Rightarrow>
   (ledger_api_error, 'st ledger) result outcome" where
  "ledger_post_block_update lib l ctx =
     outcome_bind (clamp_and_normalize (cost_normalize lib) (l_block_fullness l) (block_limits lib (l_state l))) (\<lambda>n.
     Returns (and_then (ok_or LBlockLimitExceededError
         (state_post_block_update lib (l_state l) (tblock ctx) n (compute_overall_fullness n)))
       (\<lambda>next_state. Inr (ledger_new next_state))))"

definition ledger_apply_system_tx ::
  "('st, 'std, 'vt, 'sys, 'key, 'fp) ledger_lib \<Rightarrow> 'st ledger \<Rightarrow> 'sys \<Rightarrow> u64 \<Rightarrow>
   (ledger_api_error, 'st ledger) result" where
  "ledger_apply_system_tx lib l tx time =
     (let cost = system_cost lib tx (l_state l) in
      and_then (map_err (\<lambda>e. LTransaction (TxSystemTransaction (system_error_from e)))
          (state_apply_system_tx lib (l_state l) tx time)) (\<lambda>next_state.
      Inr \<lparr> l_state = next_state, l_block_fullness = cost_add lib cost (l_block_fullness l) \<rparr>))"

section \<open>Verification of transactions\<close>

definition tx_validation_cache_key ::
  "('st, 'std, 'vt, 'sys, 'key, 'fp) ledger_lib \<Rightarrow> u32 \<Rightarrow> bytes \<Rightarrow> bytes" where
  "tx_validation_cache_key lib runtime_version tx_serialized =
     wrapped_hash_from (twox128 lib (u32_le_bytes runtime_version @ tx_serialized))"

definition insert_strict ::
  "bytes \<times> bytes \<Rightarrow> 'vt \<Rightarrow> ('st, 'vt, 'key) bridge \<Rightarrow> ('st, 'vt, 'key) bridge" where
  "insert_strict k vt b = b\<lparr> strict_cache := (strict_cache b)(k \<mapsto> Some vt) \<rparr>"

definition verify_transaction ::
  "('st, 'std, 'vt, 'sys, 'key, 'fp) ledger_lib \<Rightarrow> 'st ledger \<Rightarrow> 'std inner_tx \<Rightarrow> block_context \<Rightarrow>
   (ledger_api_error, 'vt) result" where
  "verify_transaction lib l tx ctx =
     and_then (get_transaction_context l ctx) (\<lambda>c.
     map_err (\<lambda>e. LTransaction (TxMalformed (malformed_error_from e)))
       (well_formed lib tx (fst c) (lc_tblock (snd c))))"

definition get_verified_transaction ::
  "('st, 'std, 'vt, 'sys, 'key, 'fp) ledger_lib \<Rightarrow> 'st ledger \<Rightarrow> 'std inner_tx \<Rightarrow> block_context \<Rightarrow> bytes \<Rightarrow>
   (('st, 'vt, 'key) bridge, ledger_api_error, 'vt) dispatchable" where
  "get_verified_transaction lib l tx ctx tx_hash b =
     (let strict_key = (state_hash lib (l_state l), tx_hash) in
      case strict_cache b strict_key of
        Some (Some vt) \<Rightarrow> (b, Inr vt)
      | _ \<Rightarrow>
          (case verify_transaction lib l tx ctx of
             Inl e \<Rightarrow> (b, Inl e)
           | Inr vt \<Rightarrow> (insert_strict strict_key vt b, Inr vt)))"

definition dry_run ::
  "('st, 'std, 'vt, 'sys, 'key, 'fp) ledger_lib \<Rightarrow> 'st ledger \<Rightarrow> 'vt \<Rightarrow> block_context \<Rightarrow>
   (ledger_api_error, unit) result" where
  "dry_run lib l vt ctx =
     and_then (get_transaction_context l ctx) (\<lambda>c.
     case snd (state_apply lib (l_state l) vt c) of
       TrFailure reason \<Rightarrow> Inl (LTransaction (TxInvalid (invalid_error_from reason)))
     | _ \<Rightarrow> Inr ())"

definition do_validate_transaction ::
  "('st, 'std, 'vt, 'sys, 'key, 'fp) ledger_lib \<Rightarrow> 'st ledger \<Rightarrow> 'std inner_tx \<Rightarrow> block_context \<Rightarrow> bytes \<Rightarrow>
   (('st, 'vt, 'key) bridge, ledger_api_error, bool) dispatchable" where
  "do_validate_transaction lib l tx ctx tx_hash b =
     (case soft_cache b tx_hash of
        Some cached \<Rightarrow> (b, map_ok (\<lambda>_. True) cached)
      | None \<Rightarrow>
          st_bind (get_verified_transaction lib l tx ctx tx_hash) (\<lambda>vt.
          st_bind (st_lift (dry_run lib l vt ctx)) (\<lambda>_.
          st_bind (st_modify (\<lambda>b. b\<lparr> soft_cache := (soft_cache b)(tx_hash \<mapsto> Inr ()) \<rparr>)) (\<lambda>_.
          st_lift (Inr False)))) b)"

definition do_validate_guaranteed_execution ::
  "('st, 'std, 'vt, 'sys, 'key, 'fp) ledger_lib \<Rightarrow> 'st ledger \<Rightarrow> 'std inner_tx \<Rightarrow> block_context \<Rightarrow> bytes \<Rightarrow>
   (('st, 'vt, 'key) bridge, ledger_api_error, bool) dispatchable" where
  "do_validate_guaranteed_execution lib l tx ctx tx_hash =
     st_bind (st_modify (\<lambda>b. b\<lparr> soft_cache := (soft_cache b)(tx_hash := None) \<rparr>)) (\<lambda>_.
     st_bind (st_gets (\<lambda>b. Inr (strict_cache b (state_hash lib (l_state l), tx_hash) \<noteq> None))) (\<lambda>was_cached.
     st_bind (get_verified_transaction lib l tx ctx tx_hash) (\<lambda>vt.
     st_bind (st_lift (dry_run lib l vt ctx)) (\<lambda>_.
     st_lift (Inr was_cached)))))"

section \<open>Host functions that change the ledger\<close>

definition failed_segments :: "applied_stage \<Rightarrow> segment_id list option" where
  "failed_segments stage =
     (case stage of PartialSuccess segments \<Rightarrow> Some (map fst segments) | AllApplied \<Rightarrow> None)"

definition remaining_utxos :: "applied_stage \<Rightarrow> utxos_by_segment \<Rightarrow> utxos_by_segment" where
  "remaining_utxos stage u =
     (case stage of PartialSuccess segments \<Rightarrow> remove_failed_segments segments u | AllApplied \<Rightarrow> u)"

definition reported_operations ::
  "('std, 'intent, 'spend, 'addr, 'deploy, 'tid) tx_lib \<Rightarrow> bool \<Rightarrow> applied_stage \<Rightarrow> 'std inner_tx \<Rightarrow>
   'addr operation list" where
  "reported_operations txl should_skip_failed_segments stage tx =
     calls_and_deploys txl (if should_skip_failed_segments then failed_segments stage else None) tx"

definition override_order ::
  "override_env \<Rightarrow> bytes \<Rightarrow> utxo_info list \<Rightarrow> nat \<Rightarrow> utxo_info list \<Rightarrow> nat \<Rightarrow>
   (('st, 'vt, 'key) bridge, ledger_api_error, utxo_info list \<times> utxo_info list) dispatchable" where
  "override_order env tx_hash outputs output_segments inputs input_segments b =
     (let (c, ord) = get_override env tx_hash (cells b) in
      (b\<lparr> cells := c \<rparr>,
       Inr (case ord of
              Some ovr \<Rightarrow> ordering_apply ovr outputs output_segments inputs input_segments
            | None \<Rightarrow> (outputs, inputs))))"

fun push_operation ::
  "('std, 'intent, 'spend, 'addr, 'deploy, 'tid) tx_lib \<Rightarrow> 'addr operation \<Rightarrow> transaction_applied \<Rightarrow>
   (ledger_api_error, transaction_applied) result" where
  "push_operation txl (OperationCall address entry_point) ev =
     and_then (tagged_serialize Se_ContractAddress (serialize_address txl address)) (\<lambda>a.
     Inr (ev\<lparr> ta_call_addresses := ta_call_addresses ev @ [a] \<rparr>))"
| "push_operation txl (OperationDeploy address) ev =
     and_then (tagged_serialize Se_ContractAddress (serialize_address txl address)) (\<lambda>a.
     Inr (ev\<lparr> ta_deploy_addresses := ta_deploy_addresses ev @ [a] \<rparr>))"
| "push_operation txl (OperationMaintain address) ev =
     and_then (tagged_serialize Se_ContractAddress (serialize_address txl address)) (\<lambda>a.
     Inr (ev\<lparr> ta_maintain_addresses := ta_maintain_addresses ev @ [a] \<rparr>))"
| "push_operation txl (OperationClaimRewards v) ev = Inr (ev\<lparr> ta_claim_rewards := ta_claim_rewards ev @ [v] \<rparr>)"

definition applied_event ::
  "('st, 'std, 'vt, 'sys, 'key, 'fp) ledger_lib \<Rightarrow> ('std, 'intent, 'spend, 'addr, 'deploy, 'tid) tx_lib \<Rightarrow>
   'st ledger \<Rightarrow> bytes \<Rightarrow> applied_stage \<Rightarrow> utxo_info list \<Rightarrow> utxo_info list \<Rightarrow> 'addr operation list \<Rightarrow>
   (ledger_api_error, transaction_applied) result" where
  "applied_event lib txl new_ledger tx_hash stage outputs inputs operations =
     and_then (tagged_serialize Se_TypedArenaKey (serialize_key lib (typed_key lib new_ledger))) (\<lambda>root.
     try_fold (push_operation txl) operations
       \<lparr> ta_state_root = root, ta_tx_hash = tx_hash, ta_all_applied = (stage = AllApplied),
         ta_call_addresses = [], ta_deploy_addresses = [], ta_maintain_addresses = [],
         ta_claim_rewards = [], ta_unshielded_created = outputs, ta_unshielded_spent = inputs \<rparr>)"

definition apply_and_report ::
  "('st, 'std, 'vt, 'sys, 'key, 'fp) ledger_lib \<Rightarrow> ('std, 'intent, 'spend, 'addr, 'deploy, 'tid) tx_lib \<Rightarrow>
   override_env \<Rightarrow> bool \<Rightarrow> 'st ledger \<Rightarrow> 'std inner_tx \<Rightarrow> 'vt \<Rightarrow> block_context \<Rightarrow>
   (('st, 'vt, 'key) bridge, ledger_api_error, transaction_applied) dispatchable" where
  "apply_and_report lib txl env should_skip_failed_segments ledger tx vt ctx =
     st_bind (st_lift (get_transaction_context ledger ctx)) (\<lambda>tx_ctx.
     st_bind (st_lift (apply_verified_transaction lib ledger tx vt tx_ctx)) (\<lambda>(new_ledger, stage).
     let utxos = remaining_utxos stage (unshielded_utxos txl tx);
         operations = reported_operations txl should_skip_failed_segments stage tx in
     st_bind (st_lift (check_utxos_response_integrity (fcard (state_utxos lib (l_state ledger)))
         (state_utxos lib (l_state new_ledger)) utxos)) (\<lambda>(outputs, inputs).
     st_bind (override_order env (transaction_hash txl tx) outputs (length (us_outputs utxos))
         inputs (length (us_inputs utxos))) (\<lambda>(outputs, inputs).
     st_bind (st_lift (applied_event lib txl new_ledger (transaction_hash txl tx) stage outputs inputs operations)) (\<lambda>event.
     st_bind (st_modify (persist lib new_ledger)) (\<lambda>_.
     st_lift (Inr event)))))))"

definition apply_transaction ::
  "('st, 'std, 'vt, 'sys, 'key, 'fp) ledger_lib \<Rightarrow> ('std, 'intent, 'spend, 'addr, 'deploy, 'tid) tx_lib \<Rightarrow>
   override_env \<Rightarrow> bool \<Rightarrow> bytes \<Rightarrow> bytes \<Rightarrow> block_context \<Rightarrow> u32 \<Rightarrow>
   (('st, 'vt, 'key) bridge, ledger_api_error, transaction_applied) dispatchable" where
  "apply_transaction lib txl env should_skip_failed_segments state_key tx_serialized ctx runtime_version =
     st_bind (st_lift (tagged_deserialize De_Transaction (deserialize_tx lib tx_serialized))) (\<lambda>tx.
     st_bind (st_gets (get_ledger lib state_key)) (\<lambda>ledger.
     st_bind (st_modify (\<lambda>b. b\<lparr> cells := set_network_id (state_network_id lib (l_state ledger)) (cells b) \<rparr>)) (\<lambda>_.
     st_bind (get_verified_transaction lib ledger tx ctx (tx_validation_cache_key lib runtime_version tx_serialized)) (\<lambda>vt.
     apply_and_report lib txl env should_skip_failed_segments ledger tx vt ctx))))"

fun get_system_tx_type :: "system_tx_kind \<Rightarrow> string" where
  "get_system_tx_type OverwriteParameters = ''overwrite_parameters''"
| "get_system_tx_type (DistributeNight Reward) = ''distribute_night_reward''"
| "get_system_tx_type (DistributeNight CardanoBridge) = ''distribute_night_cardano_bridge''"
| "get_system_tx_type PayBlockRewardsToTreasury = ''pay_block_rewards_to_treasury''"
| "get_system_tx_type PayFromTreasuryShielded = ''pay_from_treasury_shielded''"
| "get_system_tx_type PayFromTreasuryUnshielded = ''pay_from_treasury_unshielded''"
| "get_system_tx_type DistributeReserve = ''distribute_reserve''"
| "get_system_tx_type CNightGeneratesDustUpdate = ''cnight_generates_dust_update''"
| "get_system_tx_type OtherSystemTx = ''unknown''"

definition apply_system_transaction ::
  "('st, 'std, 'vt, 'sys, 'key, 'fp) ledger_lib \<Rightarrow> bytes \<Rightarrow> bytes \<Rightarrow> block_context \<Rightarrow>
   (('st, 'vt, 'key) bridge, ledger_api_error, system_transaction_applied) dispatchable" where
  "apply_system_transaction lib state_key tx_serialized ctx =
     st_bind (st_lift (tagged_deserialize De_SystemTransaction (deserialize_system_tx lib tx_serialized))) (\<lambda>tx.
     st_bind (st_gets (get_ledger lib state_key)) (\<lambda>ledger.
     st_bind (st_lift (ledger_apply_system_tx lib ledger tx (tblock ctx))) (\<lambda>new_ledger.
     st_bind (st_lift (tagged_serialize Se_TypedArenaKey (serialize_key lib (typed_key lib new_ledger)))) (\<lambda>root.
     st_bind (st_modify (persist lib new_ledger)) (\<lambda>_.
     st_lift (Inr \<lparr> sta_state_root = root, sta_tx_hash = system_transaction_hash lib tx,
       sta_tx_type = get_system_tx_type (system_kind lib tx) \<rparr>))))))"

definition post_block_update ::
  "('st, 'std, 'vt, 'sys, 'key, 'fp::linorder) ledger_lib \<Rightarrow> bytes \<Rightarrow> block_context \<Rightarrow> ('st, 'vt, 'key) bridge \<Rightarrow>
   (('st, 'vt, 'key) bridge \<times> (ledger_api_error, bytes) result) outcome" where
  "post_block_update lib state_key ctx b =
     (case get_ledger lib state_key b of
        Inl e \<Rightarrow> Returns (b, Inl e)
      | Inr ledger \<Rightarrow>
          outcome_bind (ledger_post_block_update lib ledger ctx) (\<lambda>r.
          Returns (st_bind (st_lift (map_err (\<lambda>_. LNoLedgerState) r)) (\<lambda>new_ledger.
            st_bind (st_lift (tagged_serialize Se_TypedArenaKey (serialize_key lib (typed_key lib new_ledger)))) (\<lambda>root.
            st_bind (st_modify (persist lib new_ledger)) (\<lambda>_.
            st_lift (Inr root)))) b)))"

section \<open>Host functions that validate\<close>

definition bridge_transaction_cost ::
  "('st, 'std, 'vt, 'sys, 'key, 'fp::linorder) ledger_lib \<Rightarrow> bytes \<Rightarrow> bytes \<Rightarrow> u64 \<Rightarrow> ('st, 'vt, 'key) bridge \<Rightarrow>
   (ledger_api_error, u64) result" where
  "bridge_transaction_cost lib state_key tx_serialized max_weight b =
     and_then (tagged_deserialize De_Transaction (deserialize_tx lib tx_serialized)) (\<lambda>tx.
     and_then (get_ledger lib state_key b) (\<lambda>ledger.
     and_then (ok_or LFeeCalculationError (tx_cost lib tx (l_state ledger))) (\<lambda>cost.
     and_then (ok_or LBlockLimitExceededError (cost_normalize lib cost (block_limits lib (l_state ledger)))) (\<lambda>n.
     Inr (scale_normalized_cost (into_atomic_units lib) n max_weight)))))"

definition validate_transaction ::
  "('st, 'std, 'vt, 'sys, 'key, 'fp::linorder) ledger_lib \<Rightarrow> ('std, 'intent, 'spend, 'addr, 'deploy, 'tid) tx_lib \<Rightarrow>
   bytes \<Rightarrow> bytes \<Rightarrow> block_context \<Rightarrow> u32 \<Rightarrow> u64 \<Rightarrow> bool \<Rightarrow>
   (('st, 'vt, 'key) bridge, ledger_api_error, bytes \<times> transaction_details option) dispatchable" where
  "validate_transaction lib txl state_key tx_serialized ctx runtime_version max_weight get_tx_details =
     st_bind (st_lift (tagged_deserialize De_Transaction (deserialize_tx lib tx_serialized))) (\<lambda>tx.
     st_bind (st_gets (get_ledger lib state_key)) (\<lambda>ledger.
     let cache_key = tx_validation_cache_key lib runtime_version tx_serialized in
     st_bind (do_validate_transaction lib ledger tx ctx cache_key) (\<lambda>was_cached.
     if get_tx_details
     then st_bind (st_gets (bridge_transaction_cost lib state_key tx_serialized max_weight)) (\<lambda>gas_cost.
       st_lift (Inr (cache_key, Some (get_transaction_details txl tx gas_cost))))
     else st_lift (Inr (cache_key, None)))))"

definition validate_guaranteed_execution ::
  "('st, 'std, 'vt, 'sys, 'key, 'fp) ledger_lib \<Rightarrow> bytes \<Rightarrow> bytes \<Rightarrow> block_context \<Rightarrow> u32 \<Rightarrow>
   (('st, 'vt, 'key) bridge, ledger_api_error, unit) dispatchable" where
  "validate_guaranteed_execution lib state_key tx_serialized ctx runtime_version =
     st_bind (st_lift (tagged_deserialize De_Transaction (deserialize_tx lib tx_serialized))) (\<lambda>tx.
     st_bind (st_gets (get_ledger lib state_key)) (\<lambda>ledger.
     st_bind (do_validate_guaranteed_execution lib ledger tx ctx (tx_validation_cache_key lib runtime_version tx_serialized)) (\<lambda>_.
     st_lift (Inr ()))))"

definition is_governance_allowed_system_tx :: "('st, 'std, 'vt, 'sys, 'key, 'fp) ledger_lib \<Rightarrow> bytes \<Rightarrow> bool" where
  "is_governance_allowed_system_tx lib tx_serialized =
     (case deserialize_system_tx lib tx_serialized of
        None \<Rightarrow> False
      | Some tx \<Rightarrow> system_kind lib tx = OverwriteParameters)"

fun decode_operation ::
  "('std, 'intent, 'spend, 'addr, 'deploy, 'tid) tx_lib \<Rightarrow> 'addr operation \<Rightarrow> (ledger_api_error, op) result" where
  "decode_operation txl (OperationCall address entry_point) =
     map_ok (\<lambda>a. OpCall a entry_point) (tagged_serialize Se_ContractAddress (serialize_address txl address))"
| "decode_operation txl (OperationDeploy address) =
     map_ok OpDeploy (tagged_serialize Se_ContractAddress (serialize_address txl address))"
| "decode_operation txl (OperationMaintain address) =
     map_ok OpMaintain (tagged_serialize Se_ContractAddress (serialize_address txl address))"
| "decode_operation txl (OperationClaimRewards v) = Inr (OpClaimRewards v)"

definition get_decoded_transaction ::
  "('st, 'std, 'vt, 'sys, 'key, 'fp) ledger_lib \<Rightarrow> ('std, 'intent, 'spend, 'addr, 'deploy, 'tid) tx_lib \<Rightarrow>
   bytes \<Rightarrow> (ledger_api_error, decoded_tx) result" where
  "get_decoded_transaction lib txl tx_serialized =
     and_then (tagged_deserialize De_Transaction (deserialize_tx lib tx_serialized)) (\<lambda>tx.
     and_then (try_map (decode_operation txl) (calls_and_deploys txl None tx)) (\<lambda>operations.
     and_then (try_map (\<lambda>i. tagged_serialize Se_TransactionIdentifier (serialize_identifier txl i))
         (tx_identifiers txl tx)) (\<lambda>identifiers.
     Inr \<lparr> dt_hash = transaction_hash txl tx, dt_operations = operations, dt_identifiers = identifiers,
           dt_has_fallible_coins = has_fallible_coins txl tx,
           dt_has_guaranteed_coins = has_guaranteed_coins txl tx \<rparr>)))"

end
