(* ===== verification/Bridge_Facts.thy ===== *)
theory Bridge_Facts
  imports Ledger_Bridge
begin

text \<open>
  What the host functions of the bridge keep of its state: the arena only changes when a call
  succeeds, and the caches only hold what a verification produced.  The calls a node makes, with
  evictions between them, are the relation \<^verbatim>\<open>bridge_step\<close>.
\<close>

section \<open>Calls and evictions\<close>

inductive bridge_step ::
  "('st, 'std, 'vt, 'sys, 'key, 'fp::linorder) ledger_lib \<Rightarrow> ('std, 'intent, 'spend, 'addr, 'deploy, 'tid) tx_lib \<Rightarrow>
   override_env \<Rightarrow> ('st, 'vt, 'key) bridge \<Rightarrow> ('st, 'vt, 'key) bridge \<Rightarrow> bool"
  for lib txl env where
  step_apply: "apply_transaction lib txl env skip key tx ctx v b = (b', r) \<Longrightarrow> bridge_step lib txl env b b'"
| step_system: "apply_system_transaction lib key tx ctx b = (b', r) \<Longrightarrow> bridge_step lib txl env b b'"
| step_post: "post_block_update lib key ctx b = Returns (b', r) \<Longrightarrow> bridge_step lib txl env b b'"
| step_validate: "validate_transaction lib txl key tx ctx v w d b = (b', r) \<Longrightarrow> bridge_step lib txl env b b'"
| step_guaranteed: "validate_guaranteed_execution lib key tx ctx v b = (b', r) \<Longrightarrow> bridge_step lib txl env b b'"
| step_evict_strict: "bridge_step lib txl env b (b\<lparr> strict_cache := (strict_cache b)(k := None) \<rparr>)"
| step_evict_soft: "bridge_step lib txl env b (b\<lparr> soft_cache := (soft_cache b)(h := None) \<rparr>)"

definition fresh_bridge :: "('key \<rightharpoonup> 'st ledger) \<Rightarrow> ('st, 'vt, 'key) bridge" where
  "fresh_bridge stored =
     \<lparr> arena = stored, strict_cache = Map.empty, soft_cache = Map.empty,
       cells = \<lparr> NETWORK_ID = None, OVERRIDES = None \<rparr> \<rparr>"

definition verified_entry ::
  "('st, 'std, 'vt, 'sys, 'key, 'fp) ledger_lib \<Rightarrow> bytes \<Rightarrow> bytes \<Rightarrow> 'vt \<Rightarrow> bool" where
  "verified_entry lib sh th vt \<longleftrightarrow>
     (\<exists>st tx tx_serialized v time. state_hash lib st = sh \<and> tx_validation_cache_key lib v tx_serialized = th \<and>
        deserialize_tx lib tx_serialized = Some tx \<and> well_formed lib tx st time = Inr vt)"

definition executes ::
  "('st, 'std, 'vt, 'sys, 'key, 'fp) ledger_lib \<Rightarrow> bytes \<Rightarrow> bool" where
  "executes lib th \<longleftrightarrow>
     (\<exists>l ctx vt. dry_run lib l vt ctx = Inr () \<and> verified_entry lib (state_hash lib (l_state l)) th vt)"

definition cache_inv :: "('st, 'std, 'vt, 'sys, 'key, 'fp) ledger_lib \<Rightarrow> ('st, 'vt, 'key) bridge \<Rightarrow> bool" where
  "cache_inv lib b \<longleftrightarrow>
     (\<forall>sh th vt. strict_cache b (sh, th) = Some (Some vt) \<longrightarrow> verified_entry lib sh th vt) \<and>
     (\<forall>th r. soft_cache b th = Some r \<longrightarrow> r = Inr () \<and> executes lib th)"

definition arena_inv :: "('st, 'std, 'vt, 'sys, 'key, 'fp) ledger_lib \<Rightarrow> ('st, 'vt, 'key) bridge \<Rightarrow> bool" where
  "arena_inv lib b \<longleftrightarrow> (\<forall>k l. arena b k = Some l \<longrightarrow> typed_key lib l = k)"

definition key_roundtrip :: "('st, 'std, 'vt, 'sys, 'key, 'fp) ledger_lib \<Rightarrow> bool" where
  "key_roundtrip lib \<longleftrightarrow> (\<forall>k bs. serialize_key lib k = Some bs \<longrightarrow> deserialize_key lib bs = Some k)"

inductive_simps bridge_step_simps: "bridge_step lib txl env b b'"

section \<open>Elimination\<close>

lemma get_ledger_Inr_iff:
  "get_ledger lib key b = Inr l \<longleftrightarrow> (\<exists>k. deserialize_key lib key = Some k \<and> arena b k = Some l)"
  by (auto simp: get_ledger_def tagged_deserialize_def)

lemma get_verified_cases:
  assumes "get_verified_transaction lib l tx ctx h b = (b', r)"
  obtains (hit) vt where "strict_cache b (state_hash lib (l_state l), h) = Some (Some vt)" "b' = b" "r = Inr vt"
  | (verified) vt where "verify_transaction lib l tx ctx = Inr vt"
      "b' = insert_strict (state_hash lib (l_state l), h) vt b" "r = Inr vt"
  | (rejected) e where "verify_transaction lib l tx ctx = Inl e" "b' = b" "r = Inl e"
  using assms by (auto simp: get_verified_transaction_def Let_def split: option.splits sum.splits)

lemma get_verified_again:
  assumes "get_verified_transaction lib l tx ctx h b = (b', Inr vt)"
  shows "get_verified_transaction lib l tx' ctx' h b' = (b', Inr vt)"
  using assms
  by (rule get_verified_cases) (simp_all add: get_verified_transaction_def insert_strict_def)

lemma get_verified_frame:
  assumes "get_verified_transaction lib l tx ctx h b = (b', r)"
  shows "arena b' = arena b \<and> soft_cache b' = soft_cache b \<and> cells b' = cells b"
  using assms by (rule get_verified_cases) (simp_all add: insert_strict_def)

lemma verify_transaction_InrD:
  "verify_transaction lib l tx ctx = Inr vt \<Longrightarrow> \<exists>time. well_formed lib tx (l_state l) time = Inr vt"
  by (auto simp: verify_transaction_def get_transaction_context_def)

lemma get_verified_cache_inv:
  assumes "get_verified_transaction lib l tx ctx h b = (b', r)" and "cache_inv lib b"
    and "h = tx_validation_cache_key lib v bs" "deserialize_tx lib bs = Some tx"
  shows "cache_inv lib b' \<and> (\<forall>vt. r = Inr vt \<longrightarrow> verified_entry lib (state_hash lib (l_state l)) h vt)"
  using assms(1)
proof (cases rule: get_verified_cases)
  case (verified vt)
  from verify_transaction_InrD [OF verified(1)] obtain time where "well_formed lib tx (l_state l) time = Inr vt" ..
  then have "verified_entry lib (state_hash lib (l_state l)) h vt"
    using assms(3,4) by (auto simp: verified_entry_def)
  with verified assms(2) show ?thesis by (auto simp: cache_inv_def insert_strict_def)
qed (use assms(2) in \<open>auto simp: cache_inv_def\<close>)

lemma dry_run_InrD:
  assumes "dry_run lib l vt ctx = Inr u"
  shows "\<exists>c. get_transaction_context l ctx = Inr c \<and> (\<forall>reason. snd (state_apply lib (l_state l) vt c) \<noteq> TrFailure reason)"
  using assms by (cases "get_transaction_context l ctx") (auto simp: dry_run_def split: transaction_result.split_asm)

lemma do_validate_cache_inv:
  assumes "do_validate_transaction lib l tx ctx h b = (b', r)" and "cache_inv lib b"
    and "h = tx_validation_cache_key lib v bs" "deserialize_tx lib bs = Some tx"
  shows "cache_inv lib b'"
proof (cases "soft_cache b h")
  case None
  obtain b1 q where gv: "get_verified_transaction lib l tx ctx h b = (b1, q)"
    by (cases "get_verified_transaction lib l tx ctx h b")
  note inv = get_verified_cache_inv [OF gv assms(2-4)]
  show ?thesis
  proof (cases q)
    case (Inl e)
    with assms(1) None gv inv show ?thesis by (simp add: do_validate_transaction_def st_bind_def)
  next
    case (Inr vt)
    show ?thesis
    proof (cases "dry_run lib l vt ctx")
      case (Inl e)
      with assms(1) None gv inv Inr show ?thesis
        by (simp add: do_validate_transaction_def st_bind_def st_lift_def)
    next
      case (Inr u)
      then have "executes lib h" using inv \<open>q = Inr vt\<close> by (auto simp: executes_def)
      moreover have "b' = b1\<lparr> soft_cache := (soft_cache b1)(h \<mapsto> Inr ()) \<rparr>"
        using assms(1) None gv Inr \<open>q = Inr vt\<close>
        by (simp add: do_validate_transaction_def st_bind_def st_lift_def st_modify_def)
      ultimately show ?thesis using inv by (simp add: cache_inv_def)
    qed
  qed
next
  case (Some r')
  with assms(1,2) show ?thesis by (simp add: do_validate_transaction_def)
qed

lemma do_guaranteed_cases:
  assumes "do_validate_guaranteed_execution lib l tx ctx h b = (b', r)"
  obtains q where "get_verified_transaction lib l tx ctx h (b\<lparr> soft_cache := (soft_cache b)(h := None) \<rparr>) = (b', q)"
    "\<forall>e. q = Inl e \<longrightarrow> r = Inl e"
    "\<forall>vt. q = Inr vt \<longrightarrow> is_ok r = (dry_run lib l vt ctx = Inr ())"
proof -
  let ?b = "b\<lparr> soft_cache := (soft_cache b)(h := None) \<rparr>"
  obtain b1 q where gv: "get_verified_transaction lib l tx ctx h ?b = (b1, q)"
    by (cases "get_verified_transaction lib l tx ctx h ?b")
  show thesis
  proof (cases q)
    case (Inl e)
    with assms gv show thesis
      by (intro that [of q]) (auto simp: do_validate_guaranteed_execution_def st_bind_def st_lift_def st_modify_def st_gets_def)
  next
    case (Inr vt)
    with assms gv show thesis
      by (cases "dry_run lib l vt ctx"; intro that [of q])
        (auto simp: do_validate_guaranteed_execution_def st_bind_def st_lift_def st_modify_def st_gets_def)
  qed
qed

lemma do_guaranteed_cache_inv:
  assumes "do_validate_guaranteed_execution lib l tx ctx h b = (b', r)" and "cache_inv lib b"
    and "h = tx_validation_cache_key lib v bs" "deserialize_tx lib bs = Some tx"
  shows "cache_inv lib b'"
proof -
  have "cache_inv lib (b\<lparr> soft_cache := (soft_cache b)(h := None) \<rparr>)" using assms(2) by (simp add: cache_inv_def)
  moreover from assms(1) obtain q where
    "get_verified_transaction lib l tx ctx h (b\<lparr> soft_cache := (soft_cache b)(h := None) \<rparr>) = (b', q)"
    by (rule do_guaranteed_cases)
  ultimately show ?thesis using get_verified_cache_inv assms(3,4) by blast
qed

section \<open>Applying transactions\<close>

lemma push_operations_frame:
  "try_fold (push_operation txl) ops ev = Inr ev' \<Longrightarrow>
     ta_state_root ev' = ta_state_root ev \<and> ta_tx_hash ev' = ta_tx_hash ev \<and>
     ta_all_applied ev' = ta_all_applied ev \<and> ta_unshielded_created ev' = ta_unshielded_created ev \<and>
     ta_unshielded_spent ev' = ta_unshielded_spent ev"
proof (induction ops arbitrary: ev)
  case (Cons x ops)
  then obtain ev1 where push: "push_operation txl x ev = Inr ev1" and rest: "try_fold (push_operation txl) ops ev1 = Inr ev'"
    by auto
  from push have "ta_state_root ev1 = ta_state_root ev \<and> ta_tx_hash ev1 = ta_tx_hash ev \<and>
     ta_all_applied ev1 = ta_all_applied ev \<and> ta_unshielded_created ev1 = ta_unshielded_created ev \<and>
     ta_unshielded_spent ev1 = ta_unshielded_spent ev" by (cases x) auto
  with Cons.IH [OF rest] show ?case by simp
qed simp

lemma applied_event_root:
  "applied_event lib txl new h stage outs ins ops = Inr ev \<Longrightarrow>
     serialize_key lib (typed_key lib new) = Some (ta_state_root ev)"
  by (auto simp: applied_event_def tagged_serialize_def dest: push_operations_frame)

lemma override_order_cells:
  "override_order env h outs n ins m b = (b', r) \<Longrightarrow> \<exists>c p. b' = b\<lparr> cells := c \<rparr> \<and> r = Inr p"
  by (auto simp: override_order_def split: prod.splits)

lemma get_transaction_context_state: "get_transaction_context l ctx = Inr c \<Longrightarrow> fst c = l_state l"
  by (auto simp: get_transaction_context_def)

lemma apply_and_report_errD:
  "apply_and_report lib txl env skip l tx vt ctx b = (b', Inl e) \<Longrightarrow> \<exists>c. b' = b\<lparr> cells := c \<rparr>"
  by (auto simp: apply_and_report_def st_bind_Inl_iff Let_def dest!: override_order_cells)
    (metis bridge.surjective bridge.update_convs(4))+

lemma apply_and_report_okE:
  assumes "apply_and_report lib txl env skip l tx vt ctx b = (b', Inr ev)"
  obtains lc new stage c where "get_transaction_context l ctx = Inr lc"
    "apply_verified_transaction lib l tx vt lc = Inr (new, stage)"
    "b' = persist lib new (b\<lparr> cells := c \<rparr>)"
    "serialize_key lib (typed_key lib new) = Some (ta_state_root ev)"
  using assms
  by (auto simp: apply_and_report_def Let_def dest!: override_order_cells dest: applied_event_root)

lemma apply_transaction_okE:
  assumes "apply_transaction lib txl env skip key tx_bytes ctx v b = (b', Inr ev)"
  obtains tx l vt b1 lc new stage c c' where "deserialize_tx lib tx_bytes = Some tx" "get_ledger lib key b = Inr l"
    "get_verified_transaction lib l tx ctx (tx_validation_cache_key lib v tx_bytes) (b\<lparr> cells := c' \<rparr>) = (b1, Inr vt)"
    "get_transaction_context l ctx = Inr lc" "apply_verified_transaction lib l tx vt lc = Inr (new, stage)"
    "b' = persist lib new (b1\<lparr> cells := c \<rparr>)"
    "serialize_key lib (typed_key lib new) = Some (ta_state_root ev)"
  using assms
  by (auto simp: apply_transaction_def tagged_deserialize_def elim!: apply_and_report_okE)

lemma apply_transaction_errD:
  assumes "apply_transaction lib txl env skip key tx_bytes ctx v b = (b', Inl e)"
  shows "arena b' = arena b"
  using assms
  by (auto simp: apply_transaction_def st_bind_Inl_iff dest!: apply_and_report_errD get_verified_frame)

lemma arena_updates [simp]:
  "arena (persist lib l b) = (arena b)(typed_key lib l \<mapsto> l)"
  by (simp add: persist_def)

lemma cache_inv_softD: "cache_inv lib b \<Longrightarrow> soft_cache b h = Some r \<Longrightarrow> r = Inr () \<and> executes lib h"
  unfolding cache_inv_def by blast

lemma cache_inv_frame:
  "strict_cache b' = strict_cache b \<Longrightarrow> soft_cache b' = soft_cache b \<Longrightarrow> cache_inv lib b' \<longleftrightarrow> cache_inv lib b"
  by (simp add: cache_inv_def)

lemma cache_inv_updates [simp]:
  "cache_inv lib (b\<lparr> cells := c \<rparr>) \<longleftrightarrow> cache_inv lib b" "cache_inv lib (persist lib l b) \<longleftrightarrow> cache_inv lib b"
  by (simp_all add: cache_inv_def persist_def)

lemma apply_and_report_cache_inv:
  "apply_and_report lib txl env skip l tx vt ctx b = (b', r) \<Longrightarrow> cache_inv lib b' \<longleftrightarrow> cache_inv lib b"
  by (cases r) (auto dest!: apply_and_report_errD elim!: apply_and_report_okE)

lemma apply_transaction_ok_arena:
  assumes "apply_transaction lib txl env skip key tx_bytes ctx v b = (b', Inr ev)"
  shows "\<exists>l. arena b' = (arena b)(typed_key lib l \<mapsto> l)"
proof -
  from assms obtain l tx vt b1 new c c' where
    "get_verified_transaction lib l tx ctx (tx_validation_cache_key lib v tx_bytes) (b\<lparr> cells := c' \<rparr>) = (b1, Inr vt)"
    and b': "b' = persist lib new (b1\<lparr> cells := c \<rparr>)"
    by (rule apply_transaction_okE)
  from get_verified_frame [OF this(1)] b' have "arena b' = (arena b)(typed_key lib new \<mapsto> new)" by simp
  then show ?thesis ..
qed

lemma apply_transaction_cache_inv:
  assumes "apply_transaction lib txl env skip key tx_bytes ctx v b = (b', r)" and "cache_inv lib b"
  shows "cache_inv lib b'"
proof (cases "deserialize_tx lib tx_bytes")
  case None
  with assms show ?thesis by (simp add: apply_transaction_def tagged_deserialize_def st_bind_def st_lift_def)
next
  case (Some tx)
  show ?thesis
  proof (cases "get_ledger lib key b")
    case (Inl e)
    with assms Some show ?thesis
      by (simp add: apply_transaction_def tagged_deserialize_def st_bind_def st_lift_def st_gets_def)
  next
    case (Inr l)
    let ?b = "b\<lparr> cells := set_network_id (state_network_id lib (l_state l)) (cells b) \<rparr>"
    obtain b1 q where gv: "get_verified_transaction lib l tx ctx (tx_validation_cache_key lib v tx_bytes) ?b = (b1, q)"
      by (cases "get_verified_transaction lib l tx ctx (tx_validation_cache_key lib v tx_bytes) ?b")
    then have "cache_inv lib b1" using get_verified_cache_inv [OF gv] assms(2) Some by auto
    moreover have "b' = b1 \<or> (\<exists>vt. apply_and_report lib txl env skip l tx vt ctx b1 = (b', r))"
      using assms(1) Some Inr gv
      by (cases q) (auto simp: apply_transaction_def tagged_deserialize_def st_bind_def st_lift_def st_gets_def st_modify_def)
    ultimately show ?thesis by (auto dest: apply_and_report_cache_inv)
  qed
qed

lemma apply_system_transaction_okE:
  assumes "apply_system_transaction lib key tx_bytes ctx b = (b', Inr ev)"
  obtains tx l new where "deserialize_system_tx lib tx_bytes = Some tx" "get_ledger lib key b = Inr l"
    "ledger_apply_system_tx lib l tx (tblock ctx) = Inr new" "b' = persist lib new b"
    "serialize_key lib (typed_key lib new) = Some (sta_state_root ev)"
  using assms by (auto simp: apply_system_transaction_def tagged_deserialize_def tagged_serialize_def)

lemma apply_system_transaction_errD:
  "apply_system_transaction lib key tx_bytes ctx b = (b', Inl e) \<Longrightarrow> b' = b"
  by (auto simp: apply_system_transaction_def st_bind_Inl_iff)

lemma post_block_update_okE:
  assumes "post_block_update lib key ctx b = Returns (b', Inr root)"
  obtains l new where "get_ledger lib key b = Inr l" "ledger_post_block_update lib l ctx = Returns (Inr new)"
    "b' = persist lib new b" "serialize_key lib (typed_key lib new) = Some root"
  using assms by (auto simp: post_block_update_def tagged_serialize_def split: sum.splits)

lemma post_block_update_errD:
  "post_block_update lib key ctx b = Returns (b', Inl e) \<Longrightarrow> b' = b"
  by (auto simp: post_block_update_def st_bind_Inl_iff split: sum.splits)

section \<open>Validation\<close>

lemma validate_transaction_cases:
  assumes "validate_transaction lib txl key tx_bytes ctx v w d b = (b', r)"
  obtains (unread) "b' = b" "\<not> is_ok r"
  | (read) tx l q where "deserialize_tx lib tx_bytes = Some tx" "get_ledger lib key b = Inr l"
      "do_validate_transaction lib l tx ctx (tx_validation_cache_key lib v tx_bytes) b = (b', q)"
      "is_ok r \<Longrightarrow> is_ok q"
proof (cases "deserialize_tx lib tx_bytes")
  case None
  with assms unread show thesis
    by (auto simp: validate_transaction_def tagged_deserialize_def st_bind_def st_lift_def)
next
  case (Some tx)
  show thesis
  proof (cases "get_ledger lib key b")
    case (Inl e)
    with assms Some unread show thesis
      by (auto simp: validate_transaction_def tagged_deserialize_def st_bind_def st_lift_def st_gets_def)
  next
    case (Inr l)
    obtain b1 q where dv: "do_validate_transaction lib l tx ctx (tx_validation_cache_key lib v tx_bytes) b = (b1, q)"
      by (cases "do_validate_transaction lib l tx ctx (tx_validation_cache_key lib v tx_bytes) b")
    then have "b' = b1 \<and> (is_ok r \<longrightarrow> is_ok q)"
      using assms Some Inr
      by (cases q) (auto simp: validate_transaction_def tagged_deserialize_def st_bind_def st_lift_def st_gets_def Let_def
        split: if_splits sum.splits)
    with read [OF Some Inr, of q] dv show thesis by simp
  qed
qed

lemma validate_guaranteed_cases:
  assumes "validate_guaranteed_execution lib key tx_bytes ctx v b = (b', r)"
  obtains (unread) "b' = b" "\<not> is_ok r"
  | (read) tx l q where "deserialize_tx lib tx_bytes = Some tx" "get_ledger lib key b = Inr l"
      "do_validate_guaranteed_execution lib l tx ctx (tx_validation_cache_key lib v tx_bytes) b = (b', q)"
      "is_ok r \<longleftrightarrow> is_ok q"
proof (cases "deserialize_tx lib tx_bytes")
  case None
  with assms unread show thesis
    by (auto simp: validate_guaranteed_execution_def tagged_deserialize_def st_bind_def st_lift_def)
next
  case (Some tx)
  show thesis
  proof (cases "get_ledger lib key b")
    case (Inl e)
    with assms Some unread show thesis
      by (auto simp: validate_guaranteed_execution_def tagged_deserialize_def st_bind_def st_lift_def st_gets_def)
  next
    case (Inr l)
    obtain b1 q where dv: "do_validate_guaranteed_execution lib l tx ctx (tx_validation_cache_key lib v tx_bytes) b = (b1, q)"
      by (cases "do_validate_guaranteed_execution lib l tx ctx (tx_validation_cache_key lib v tx_bytes) b")
    then have "b' = b1 \<and> (is_ok r \<longleftrightarrow> is_ok q)"
      using assms Some Inr
      by (cases q) (auto simp: validate_guaranteed_execution_def tagged_deserialize_def st_bind_def st_lift_def st_gets_def)
    with read [OF Some Inr, of q] dv show thesis by simp
  qed
qed

lemma do_validate_frame: "do_validate_transaction lib l tx ctx h b = (b', r) \<Longrightarrow> arena b' = arena b"
  by (cases r) (auto simp: do_validate_transaction_def st_bind_Inl_iff dest!: get_verified_frame split: option.splits)

lemma do_guaranteed_frame: "do_validate_guaranteed_execution lib l tx ctx h b = (b', r) \<Longrightarrow> arena b' = arena b"
  by (auto elim!: do_guaranteed_cases dest!: get_verified_frame)

lemma validate_transaction_frame:
  "validate_transaction lib txl key tx ctx v w d b = (b', r) \<Longrightarrow> arena b' = arena b"
  by (auto elim!: validate_transaction_cases dest: do_validate_frame)

lemma validate_guaranteed_frame:
  "validate_guaranteed_execution lib key tx ctx v b = (b', r) \<Longrightarrow> arena b' = arena b"
  by (auto elim!: validate_guaranteed_cases dest: do_guaranteed_frame)

section \<open>Invariants\<close>

lemma bridge_step_cache_inv: "bridge_step lib txl env b b' \<Longrightarrow> cache_inv lib b \<Longrightarrow> cache_inv lib b'"
proof (induction rule: bridge_step.induct)
  case (step_apply skip key tx ctx v b b' r)
  then show ?case by (auto dest: apply_transaction_cache_inv)
next
  case (step_system key tx ctx b b' r)
  then show ?case by (cases r) (auto dest: apply_system_transaction_errD elim!: apply_system_transaction_okE)
next
  case (step_post key ctx b b' r)
  then show ?case by (cases r) (auto dest: post_block_update_errD elim!: post_block_update_okE)
next
  case (step_validate key tx ctx v w d b b' r)
  then show ?case by (auto elim!: validate_transaction_cases dest: do_validate_cache_inv)
next
  case (step_guaranteed key tx ctx v b b' r)
  then show ?case by (auto elim!: validate_guaranteed_cases dest: do_guaranteed_cache_inv)
qed (auto simp: cache_inv_def)

lemma reachable_cache_inv:
  "(bridge_step lib txl env)\<^sup>*\<^sup>* (fresh_bridge stored) b \<Longrightarrow> cache_inv lib b"
proof (induction rule: rtranclp_induct)
  case base
  then show ?case by (simp add: cache_inv_def fresh_bridge_def)
qed (rule bridge_step_cache_inv)

lemma arena_inv_persist: "arena_inv lib b \<Longrightarrow> arena_inv lib (persist lib l b)"
  by (simp add: arena_inv_def persist_def)

lemma arena_le_persist:
  assumes "inj (typed_key lib)" and "arena_inv lib b"
  shows "arena b \<subseteq>\<^sub>m (arena b)(typed_key lib l \<mapsto> l)"
  using assms by (auto simp: arena_inv_def map_le_def dest: injD)

lemma bridge_step_arena:
  assumes "bridge_step lib txl env b b'"
  shows "arena b' = arena b \<or> (\<exists>l. arena b' = (arena b)(typed_key lib l \<mapsto> l))"
  using assms
proof (induction rule: bridge_step.induct)
  case (step_apply skip key tx ctx v b b' r)
  then show ?case
    by (cases r) (blast dest: apply_transaction_errD apply_transaction_ok_arena)+
next
  case (step_system key tx ctx b b' r)
  then show ?case by (cases r) (auto dest: apply_system_transaction_errD elim!: apply_system_transaction_okE)
next
  case (step_post key ctx b b' r)
  then show ?case by (cases r) (auto dest: post_block_update_errD elim!: post_block_update_okE)
qed (auto dest: validate_transaction_frame validate_guaranteed_frame)

end
