(* ===== verification/Bridge_Properties.thy ===== *)
theory Bridge_Properties
  imports Bridge_Facts
begin

text \<open>
  What a node can rely on when it calls the bridge: a state that was stored stays loadable, an
  applied transaction leads to the state the ledger computed, and validation before a block
  predicts what happens in it.
\<close>

section \<open>A ledger for examples\<close>

text \<open>
  A state is a list of bytes, every transaction adds one.  A transaction of two segments succeeds
  in the first of them only.
\<close>

definition demo_ledger_lib ::
  "(bytes, (segment_id \<times> nat) list, (segment_id \<times> nat) list inner_tx, bytes, bytes ledger, nat) ledger_lib" where
  "demo_ledger_lib = \<lparr>
     deserialize_tx = (\<lambda>bs. if bs = [] then None else Some (TxStandard (map (\<lambda>x. (ucast x, 0)) bs))),
     deserialize_system_tx = Some,
     deserialize_key = (\<lambda>bs. Some (ledger_new bs)),
     serialize_key = (\<lambda>l. if l_block_fullness l = cost_zero then Some (l_state l) else None),
     typed_key = (\<lambda>l. l), twox128 = (\<lambda>bs. bs), state_hash = (\<lambda>st. st), state_network_id = (\<lambda>st. ''undeployed''),
     state_utxos = (\<lambda>st. {||}), block_limits = (\<lambda>st. cost_zero), tx_cost = (\<lambda>tx st. Some cost_zero),
     well_formed = (\<lambda>tx st time. Inr tx),
     state_apply = (\<lambda>st vt c. (1 # st, case vt of
         TxStandard [s] \<Rightarrow> TrSuccess
       | TxStandard _ \<Rightarrow> TrPartialSuccess [(2, Inl Ti_Zswap), (1, Inr ())]
       | TxClaimRewards _ \<Rightarrow> TrFailure Ti_RewardTooSmall)),
     state_post_block_update = (\<lambda>st time n f. Some (0 # st)), system_cost = (\<lambda>tx st. cost_zero),
     state_apply_system_tx = (\<lambda>st tx time. Inr (2 # st)), system_transaction_hash = (\<lambda>tx. tx),
     system_kind = (\<lambda>tx. OverwriteParameters), cost_add = (\<lambda>a b. b), cost_normalize = demo_normalize,
     into_atomic_units = (\<lambda>n w. of_nat n) \<rparr>"

definition demo_override_env :: override_env where
  "demo_override_env = \<lparr> hex_decode = (\<lambda>s. None), read_to_string = (\<lambda>s. None), parse_overrides = (\<lambda>s. None) \<rparr>"

definition demo_bridge :: "(bytes, (segment_id \<times> nat) list inner_tx, bytes ledger) bridge" where
  "demo_bridge = fresh_bridge [ledger_new [5] \<mapsto> ledger_new [5]]"

definition demo_apply ::
  "bytes \<Rightarrow> bytes \<Rightarrow> ((bytes, (segment_id \<times> nat) list inner_tx, bytes ledger) bridge, ledger_api_error, transaction_applied) dispatchable" where
  "demo_apply key tx = apply_transaction demo_ledger_lib demo_tx_lib demo_override_env True key tx default_block_context 1"

lemma demo_key_roundtrip: "key_roundtrip demo_ledger_lib"
  by (auto simp: key_roundtrip_def demo_ledger_lib_def ledger_new_def split: if_splits)

lemma demo_typed_key_inj: "inj (typed_key demo_ledger_lib)"
  by (simp add: demo_ledger_lib_def inj_def)

lemma demo_apply_runs:
  "\<exists>b' ev. demo_apply [5] [1] demo_bridge = (b', Inr ev) \<and> ta_state_root ev = [1, 5] \<and> ta_call_addresses ev = [[0]]"
  by (simp add: demo_apply_def apply_transaction_def apply_and_report_def st_bind_def st_lift_def st_gets_def st_modify_def
      tagged_deserialize_def tagged_serialize_def demo_ledger_lib_def demo_bridge_def fresh_bridge_def get_ledger_def
      get_verified_transaction_def verify_transaction_def get_transaction_context_def ledger_context_try_from_def
      default_block_context_def apply_verified_transaction_def ledger_new_def remaining_utxos_def unshielded_utxos_def
      demo_tx_lib_def add_segment_def add_intent_def utxos_info_from_output_def utxos_info_from_inputs_def update_segment_def
      no_utxos_def check_utxos_response_integrity_def all_outputs_def all_inputs_def override_order_def get_override_def
      load_overrides_def set_network_id_def insert_strict_def reported_operations_def failed_segments_def
      applied_event_def Let_def fcard.rep_eq)

definition demo_costly_lib ::
  "(bytes, (segment_id \<times> nat) list, (segment_id \<times> nat) list inner_tx, bytes, bytes ledger, nat) ledger_lib" where
  "demo_costly_lib = demo_ledger_lib\<lparr> tx_cost := (\<lambda>tx st. None) \<rparr>"

lemmas demo_bridge_defs =
  st_bind_def st_lift_def st_gets_def st_modify_def tagged_deserialize_def demo_ledger_lib_def demo_bridge_def
  fresh_bridge_def get_ledger_def get_verified_transaction_def verify_transaction_def get_transaction_context_def
  ledger_context_try_from_def default_block_context_def ledger_new_def insert_strict_def dry_run_def

lemma demo_costly_runs:
  "\<exists>b1 b2. validate_guaranteed_execution demo_costly_lib [5] [1] default_block_context 1 demo_bridge = (b1, Inr ()) \<and>
     apply_transaction demo_costly_lib demo_tx_lib demo_override_env True [5] [1] default_block_context 1 b1 =
       (b2, Inl LFeeCalculationError)"
  by (simp add: demo_bridge_defs demo_costly_lib_def validate_guaranteed_execution_def do_validate_guaranteed_execution_def
      apply_transaction_def apply_and_report_def apply_verified_transaction_def tx_validation_cache_key_def)

lemma demo_validate_runs:
  "\<exists>b' h. validate_transaction demo_ledger_lib demo_tx_lib [5] [1] default_block_context 1 100 False demo_bridge = (b', Inr (h, None))"
  by (simp add: demo_bridge_defs validate_transaction_def do_validate_transaction_def Let_def)

section \<open>Lemmas\<close>

lemma apply_verified_InrD:
  assumes "apply_verified_transaction lib l tx vt lc = Inr (new, stage)"
  shows "\<exists>cost. tx_cost lib tx (l_state l) = Some cost \<and>
    new = \<lparr> l_state = fst (state_apply lib (l_state l) vt lc), l_block_fullness = cost_add lib cost (l_block_fullness l) \<rparr>"
  using assms
  by (cases "tx_cost lib tx (l_state l)"; cases "state_apply lib (l_state l) vt lc";
      cases "snd (state_apply lib (l_state l) vt lc)")
    (auto simp: apply_verified_transaction_def)

lemma stored_loads:
  assumes "key_roundtrip lib" and "serialize_key lib (typed_key lib l) = Some root"
  shows "get_ledger lib root (persist lib l b) = Inr l"
  using assms by (auto simp: key_roundtrip_def get_ledger_Inr_iff)

lemma arena_stays:
  assumes "(bridge_step lib txl env)\<^sup>*\<^sup>* b b'" and "inj (typed_key lib)" and "arena_inv lib b"
  shows "arena_inv lib b' \<and> arena b \<subseteq>\<^sub>m arena b'"
  using assms(1)
proof (induction rule: rtranclp_induct)
  case base
  then show ?case using assms(3) by simp
next
  case (step c d)
  from step.IH have inv: "arena_inv lib c" and le: "arena b \<subseteq>\<^sub>m arena c" by auto
  from bridge_step_arena [OF step.hyps(2)] show ?case
  proof (elim disjE exE)
    assume "arena d = arena c"
    with inv le show ?thesis by (simp add: arena_inv_def)
  next
    fix l assume d: "arena d = (arena c)(typed_key lib l \<mapsto> l)"
    have "arena b \<subseteq>\<^sub>m arena d" unfolding d by (rule map_le_trans [OF le arena_le_persist [OF assms(2) inv]])
    moreover have "arena_inv lib d" using d inv by (simp add: arena_inv_def)
    ultimately show ?thesis by blast
  qed
qed

lemma post_block_update_returns:
  assumes "normalize_within_limits (cost_normalize lib)"
  shows "\<exists>b' r. post_block_update lib key ctx b = Returns (b', r)"
proof (cases "get_ledger lib key b")
  case (Inl e)
  then show ?thesis by (simp add: post_block_update_def)
next
  case (Inr l)
  obtain q where "ledger_post_block_update lib l ctx = Returns q"
    using clamp_returns [OF assms, of "l_block_fullness l" "block_limits lib (l_state l)"]
    by (auto simp: ledger_post_block_update_def)
  with Inr obtain p where "post_block_update lib key ctx b = Returns p" by (simp add: post_block_update_def)
  then show ?thesis by (cases p) simp
qed

lemma apply_and_report_after_dry_run:
  assumes "dry_run lib l vt ctx = Inr ()"
    and "apply_and_report lib txl env skip l tx vt ctx b = (b', Inl e)"
  shows "e \<in> {LFeeCalculationError, LHostApiError} \<union> range LSerialization"
proof -
  obtain lc where lc: "get_transaction_context l ctx = Inr lc"
    "\<And>reason. snd (state_apply lib (l_state l) vt lc) \<noteq> TrFailure reason"
    using dry_run_InrD [OF assms(1)] by blast
  have verified: "apply_verified_transaction lib l tx vt lc = Inl d \<Longrightarrow> d = LFeeCalculationError" for d
    using lc(2)
    by (cases "tx_cost lib tx (l_state l)"; cases "state_apply lib (l_state l) vt lc";
        cases "snd (state_apply lib (l_state l) vt lc)")
      (auto simp: apply_verified_transaction_def)
  have pushed: "try_fold (push_operation txl) ops ev = Inl d \<Longrightarrow> d \<in> range LSerialization" for ops ev d
  proof (induction ops arbitrary: ev)
    case (Cons x ops)
    then show ?case
      by (cases x) (auto simp: and_then_Inl_iff tagged_serialize_def)
  qed simp
  from assms(2) lc(1) show ?thesis
    by (auto simp: apply_and_report_def st_bind_Inl_iff Let_def applied_event_def and_then_Inl_iff tagged_serialize_def
        check_utxos_response_integrity_def dest!: verified pushed override_order_cells split: if_splits)
qed

section \<open>Properties\<close>

text \<open>
  C4: an applied transaction is stored.  After a successful \<^verbatim>\<open>apply_transaction\<close>, the returned state
  root loads the ledger that the library computed from the loaded one: with a transaction that
  the library verified under this cache key and state hash, under the context of the block, and
  with its cost added to the fullness of the block.
\<close>
theorem applied_state_is_stored:
  assumes "key_roundtrip lib" and "(bridge_step lib txl env)\<^sup>*\<^sup>* (fresh_bridge stored) b"
    and "apply_transaction lib txl env skip key tx_bytes ctx v b = (b', Inr ev)"
  shows "\<exists>tx l vt lc cost. deserialize_tx lib tx_bytes = Some tx \<and> get_ledger lib key b = Inr l \<and>
    verified_entry lib (state_hash lib (l_state l)) (tx_validation_cache_key lib v tx_bytes) vt \<and>
    get_transaction_context l ctx = Inr lc \<and> tx_cost lib tx (l_state l) = Some cost \<and>
    get_ledger lib (ta_state_root ev) b' = Inr \<lparr> l_state = fst (state_apply lib (l_state l) vt lc),
      l_block_fullness = cost_add lib cost (l_block_fullness l) \<rparr>"
proof -
  from assms(3) obtain tx l vt b1 lc new stage c c' where
    step: "deserialize_tx lib tx_bytes = Some tx" "get_ledger lib key b = Inr l"
    "get_verified_transaction lib l tx ctx (tx_validation_cache_key lib v tx_bytes) (b\<lparr> cells := c' \<rparr>) = (b1, Inr vt)"
    "get_transaction_context l ctx = Inr lc" "apply_verified_transaction lib l tx vt lc = Inr (new, stage)"
    "b' = persist lib new (b1\<lparr> cells := c \<rparr>)" "serialize_key lib (typed_key lib new) = Some (ta_state_root ev)"
    by (rule apply_transaction_okE)
  have "cache_inv lib (b\<lparr> cells := c' \<rparr>)" using reachable_cache_inv [OF assms(2)] by simp
  from get_verified_cache_inv [OF step(3) this refl step(1)]
  have "verified_entry lib (state_hash lib (l_state l)) (tx_validation_cache_key lib v tx_bytes) vt" by simp
  moreover from apply_verified_InrD [OF step(5)] obtain cost where "tx_cost lib tx (l_state l) = Some cost"
    "new = \<lparr> l_state = fst (state_apply lib (l_state l) vt lc), l_block_fullness = cost_add lib cost (l_block_fullness l) \<rparr>"
    by blast
  moreover have "get_ledger lib (ta_state_root ev) b' = Inr new"
    using stored_loads [OF assms(1) step(7)] step(6) by simp
  ultimately show ?thesis using step(1,2,4) by blast
qed

theorem applied_state_is_stored_witness:
  "\<exists>b' ev. demo_apply [5] [1] demo_bridge = (b', Inr ev) \<and>
     get_ledger demo_ledger_lib (ta_state_root ev) b' = Inr (ledger_new [1, 5])"
proof -
  obtain b' ev where run: "demo_apply [5] [1] demo_bridge = (b', Inr ev)" using demo_apply_runs by blast
  have reach: "(bridge_step demo_ledger_lib demo_tx_lib demo_override_env)\<^sup>*\<^sup>*
      (fresh_bridge [ledger_new [5] \<mapsto> ledger_new [5]]) demo_bridge"
    by (simp add: demo_bridge_def)
  from applied_state_is_stored [OF demo_key_roundtrip reach run [unfolded demo_apply_def]]
  obtain l vt lc cost where "get_ledger demo_ledger_lib [5] demo_bridge = Inr l"
    "get_ledger demo_ledger_lib (ta_state_root ev) b' = Inr \<lparr> l_state = fst (state_apply demo_ledger_lib (l_state l) vt lc),
       l_block_fullness = cost_add demo_ledger_lib cost (l_block_fullness l) \<rparr>" by blast
  moreover from this(1) have "l = ledger_new [5]"
    by (simp add: get_ledger_Inr_iff demo_ledger_lib_def demo_bridge_def fresh_bridge_def)
  ultimately show ?thesis using run by (simp add: demo_ledger_lib_def ledger_new_def)
qed

text \<open>
  C31: a stored state is never lost.  Whatever calls of the host functions and evictions follow, a
  state root that loads a ledger keeps loading the same one, as long as no two ledgers have the
  same arena key: failed calls leave the arena alone, successful ones only add to it.
\<close>
theorem stored_states_stay_loadable:
  assumes "(bridge_step lib txl env)\<^sup>*\<^sup>* b b'" and "inj (typed_key lib)" and "arena_inv lib b"
    and "get_ledger lib key b = Inr l"
  shows "get_ledger lib key b' = Inr l"
proof -
  have "arena b \<subseteq>\<^sub>m arena b'" using arena_stays [OF assms(1-3)] by simp
  with assms(4) show ?thesis by (auto simp: get_ledger_Inr_iff dest: map_le_SomeD)
qed

theorem stored_states_stay_loadable_witness:
  "\<exists>b' ev. demo_apply [5] [1] demo_bridge = (b', Inr ev) \<and> get_ledger demo_ledger_lib [5] b' = Inr (ledger_new [5])"
proof -
  obtain b' ev where run: "demo_apply [5] [1] demo_bridge = (b', Inr ev)" using demo_apply_runs by blast
  have reach: "(bridge_step demo_ledger_lib demo_tx_lib demo_override_env)\<^sup>*\<^sup>* demo_bridge b'"
    by (rule r_into_rtranclp, rule step_apply [OF run [unfolded demo_apply_def]])
  have inv: "arena_inv demo_ledger_lib demo_bridge"
    by (simp add: arena_inv_def demo_ledger_lib_def demo_bridge_def fresh_bridge_def)
  have load: "get_ledger demo_ledger_lib [5] demo_bridge = Inr (ledger_new [5])"
    by (simp add: get_ledger_Inr_iff demo_ledger_lib_def demo_bridge_def fresh_bridge_def)
  have "get_ledger demo_ledger_lib [5] b' = Inr (ledger_new [5])"
    by (rule stored_states_stay_loadable [OF reach demo_typed_key_inj inv load])
  with run show ?thesis by blast
qed

text \<open>
  C7: the check before a block predicts the block.  If \<^verbatim>\<open>validate_guaranteed_execution\<close> accepts a
  transaction, then applying it to the same ledger, in the same context and version, never fails
  because of the transaction: it succeeds, or the cost cannot be computed, the reported UTXOs do
  not match the ledger, or a result cannot be serialized.
\<close>
theorem guaranteed_execution_predicts_apply:
  assumes "validate_guaranteed_execution lib key tx_bytes ctx v b = (b1, Inr ())"
    and "apply_transaction lib txl env skip key tx_bytes ctx v b1 = (b2, Inl e)"
  shows "e \<in> {LFeeCalculationError, LHostApiError} \<union> range LSerialization"
proof -
  let ?h = "tx_validation_cache_key lib v tx_bytes"
  from assms(1) obtain tx l q where read: "deserialize_tx lib tx_bytes = Some tx" "get_ledger lib key b = Inr l"
    "do_validate_guaranteed_execution lib l tx ctx ?h b = (b1, q)" "is_ok q"
    by (rule validate_guaranteed_cases) simp_all
  from read(3) obtain p where p: "get_verified_transaction lib l tx ctx ?h (b\<lparr> soft_cache := (soft_cache b)(?h := None) \<rparr>) = (b1, p)"
    and "\<forall>d. p = Inl d \<longrightarrow> q = Inl d" "\<forall>vt. p = Inr vt \<longrightarrow> is_ok q = (dry_run lib l vt ctx = Inr ())"
    by (rule do_guaranteed_cases)
  with read(4) obtain vt where vt: "p = Inr vt" "dry_run lib l vt ctx = Inr ()" by (cases p) auto
  have l1: "get_ledger lib key b1 = Inr l"
    using read(2) get_verified_frame [OF p] by (simp add: get_ledger_Inr_iff)
  let ?b1 = "b1\<lparr> cells := set_network_id (state_network_id lib (l_state l)) (cells b1) \<rparr>"
  have "strict_cache b1 (state_hash lib (l_state l), ?h) = Some (Some vt)"
    using p vt(1) by (auto elim!: get_verified_cases simp: insert_strict_def)
  then have "get_verified_transaction lib l tx ctx ?h ?b1 = (?b1, Inr vt)"
    by (simp add: get_verified_transaction_def)
  with assms(2) read(1) l1 have "apply_and_report lib txl env skip l tx vt ctx ?b1 = (b2, Inl e)"
    by (simp add: apply_transaction_def st_bind_def st_lift_def st_gets_def st_modify_def tagged_deserialize_def)
  from apply_and_report_after_dry_run [OF vt(2) this] show ?thesis .
qed

theorem guaranteed_execution_predicts_apply_witness:
  "\<exists>b1 b2. validate_guaranteed_execution demo_costly_lib [5] [1] default_block_context 1 demo_bridge = (b1, Inr ()) \<and>
     apply_transaction demo_costly_lib demo_tx_lib demo_override_env True [5] [1] default_block_context 1 b1 =
       (b2, Inl LFeeCalculationError) \<and>
     LFeeCalculationError \<in> {LFeeCalculationError, LHostApiError} \<union> range LSerialization"
proof -
  obtain b1 b2 where run: "validate_guaranteed_execution demo_costly_lib [5] [1] default_block_context 1 demo_bridge = (b1, Inr ())"
    "apply_transaction demo_costly_lib demo_tx_lib demo_override_env True [5] [1] default_block_context 1 b1 =
       (b2, Inl LFeeCalculationError)"
    using demo_costly_runs by blast
  from guaranteed_execution_predicts_apply [OF run] run show ?thesis by blast
qed

text \<open>
  C30: the pool accepts no transaction that was not verified.  When \<^verbatim>\<open>validate_transaction\<close> answers
  with a hash, possibly from its caches, a transaction with this cache key was verified against a
  ledger state, and its guaranteed part executed there.
\<close>
theorem pool_acceptance_was_verified:
  assumes "(bridge_step lib txl env)\<^sup>*\<^sup>* (fresh_bridge stored) b"
    and "validate_transaction lib txl key tx_bytes ctx v w d b = (b', Inr (h, details))"
  shows "h = tx_validation_cache_key lib v tx_bytes \<and> executes lib h"
proof -
  let ?h = "tx_validation_cache_key lib v tx_bytes"
  note inv = reachable_cache_inv [OF assms(1)]
  from assms(2) obtain tx l q where read: "deserialize_tx lib tx_bytes = Some tx"
    "do_validate_transaction lib l tx ctx ?h b = (b', q)" "is_ok q"
    by (rule validate_transaction_cases) simp_all
  have "soft_cache b' ?h = Some (Inr ())"
  proof (cases "soft_cache b ?h")
    case None
    with read(2,3) show ?thesis
      by (auto simp: is_ok_iff do_validate_transaction_def)
  next
    case (Some r)
    then have "r = Inr ()" using cache_inv_softD [OF inv] by blast
    with Some read(2) show ?thesis by (simp add: do_validate_transaction_def)
  qed
  from cache_inv_softD [OF do_validate_cache_inv [OF read(2) inv refl read(1)] this] have "executes lib ?h" ..
  moreover have "h = ?h" using assms(2) by (auto simp: validate_transaction_def Let_def split: if_splits)
  ultimately show ?thesis by simp
qed

theorem pool_acceptance_was_verified_witness:
  "executes demo_ledger_lib (tx_validation_cache_key demo_ledger_lib 1 [1])"
proof -
  obtain b' h where run:
    "validate_transaction demo_ledger_lib demo_tx_lib [5] [1] default_block_context 1 100 False demo_bridge = (b', Inr (h, None))"
    using demo_validate_runs by blast
  have reach: "(bridge_step demo_ledger_lib demo_tx_lib demo_override_env)\<^sup>*\<^sup>*
      (fresh_bridge [ledger_new [5] \<mapsto> ledger_new [5]]) demo_bridge"
    by (simp add: demo_bridge_def)
  have "h = tx_validation_cache_key demo_ledger_lib 1 [1] \<and> executes demo_ledger_lib h"
    by (rule pool_acceptance_was_verified [OF reach run])
  then show ?thesis by (elim conjE) (rule subst)
qed

text \<open>
  C32: closing a block.  With a library that normalizes costs within its limits, \<^verbatim>\<open>post_block_update\<close>
  never panics; if it succeeds, the returned root loads the updated state with an empty block, if
  it fails, nothing has changed.
\<close>
theorem block_closing:
  assumes "key_roundtrip lib" and "normalize_within_limits (cost_normalize lib)"
  shows "\<exists>b' r. post_block_update lib key ctx b = Returns (b', r) \<and>
    (case r of
       Inl e \<Rightarrow> b' = b
     | Inr root \<Rightarrow> \<exists>l n st. get_ledger lib key b = Inr l \<and>
         clamp_and_normalize (cost_normalize lib) (l_block_fullness l) (block_limits lib (l_state l)) = Returns n \<and>
         state_post_block_update lib (l_state l) (tblock ctx) n (compute_overall_fullness n) = Some st \<and>
         get_ledger lib root b' = Inr (ledger_new st))"
proof -
  obtain b' r where run: "post_block_update lib key ctx b = Returns (b', r)"
    using post_block_update_returns [OF assms(2)] by blast
  show ?thesis
  proof (cases r)
    case (Inl e)
    with run show ?thesis using post_block_update_errD by fastforce
  next
    case (Inr root)
    with run obtain l new where l: "get_ledger lib key b = Inr l" "ledger_post_block_update lib l ctx = Returns (Inr new)"
      "b' = persist lib new b" "serialize_key lib (typed_key lib new) = Some root"
      by (auto elim: post_block_update_okE)
    from l(2) obtain n st where
      "clamp_and_normalize (cost_normalize lib) (l_block_fullness l) (block_limits lib (l_state l)) = Returns n"
      "state_post_block_update lib (l_state l) (tblock ctx) n (compute_overall_fullness n) = Some st" "new = ledger_new st"
      by (auto simp: ledger_post_block_update_def)
    moreover have "get_ledger lib root b' = Inr new" using stored_loads [OF assms(1) l(4)] l(3) by simp
    ultimately show ?thesis using run l(1) Inr by auto
  qed
qed

theorem block_closing_witness:
  "\<exists>b' root. post_block_update demo_ledger_lib [5] default_block_context demo_bridge = Returns (b', Inr root) \<and>
     get_ledger demo_ledger_lib root b' = Inr (ledger_new [0, 5])"
proof -
  have "normalize_within_limits (cost_normalize demo_ledger_lib)" using demo_normalize_law by (simp add: demo_ledger_lib_def)
  from block_closing [OF demo_key_roundtrip this, of "[5]" default_block_context demo_bridge]
  show ?thesis
    by (auto simp: demo_bridge_defs post_block_update_def ledger_post_block_update_def tagged_serialize_def
        clamp_and_normalize_def demo_normalize_def cost_min_def cost_zero_def cost_within_def persist_def)
qed

text \<open>
  C33: a transaction that succeeds in part hides operations of its successful segments.  The host
  function of the current version skips failed segments by the list of all segments the ledger
  reports a result for; so the operations of a segment that succeeded are not reported either.
\<close>
theorem partial_success_hides_operations:
  assumes "\<And>seg action. (seg, action) \<in> set (tx_actions txl tx) \<Longrightarrow> seg \<in> fst ` set segments"
  shows "reported_operations txl True (PartialSuccess segments) (TxStandard tx) = []"
  using assms by (auto simp: reported_operations_def failed_segments_def filter_empty_conv)

theorem partial_success_hides_operations_witness:
  "reported_operations demo_tx_lib True (PartialSuccess [(1, Inr ()), (2, Inl Ti_Zswap)]) (TxStandard [(1, 3), (2, 4)]) = [] \<and>
   calls_and_deploys demo_tx_lib (Some [2]) (TxStandard [(1, 3), (2, 4)]) = [OperationCall [3] [9]]"
  using partial_success_hides_operations [of demo_tx_lib "[(1, 3), (2, 4)]" "[(1, Inr ()), (2, Inl Ti_Zswap)]"]
  by (auto simp: demo_tx_lib_def)

end
