(* ===== verification/Bridge_Queries.thy ===== *)
theory Bridge_Queries
  imports Bridge_Facts
begin

text \<open>
  The host functions of the bridge that only read the ledger, the construction of the dust events
  and their system transaction, and the initial allocation of a ledger
  (\<^verbatim>\<open>ledger/src/versions/common/mod.rs\<close>, \<^verbatim>\<open>storage.rs\<close>).
\<close>

section \<open>Reading the ledger\<close>

record ('st, 'addr, 'cs, 'zs, 'digest, 'params) query_lib =
  deserialize_address :: "bytes \<Rightarrow> 'addr option"
  contract_at :: "'st \<Rightarrow> 'addr \<Rightarrow> 'cs option"
  serialize_contract_state :: "'cs \<Rightarrow> bytes option"
  coin_coms :: "'st \<Rightarrow> 'zs"
  coin_coms_filter :: "'st \<Rightarrow> 'addr \<Rightarrow> 'zs"
  serialize_zswap_state :: "'zs \<Rightarrow> bytes option"
  rehash_root :: "'zs \<Rightarrow> 'digest option"
  serialize_digest :: "'digest \<Rightarrow> bytes option"
  serialize_state_key :: "'st \<Rightarrow> bytes option"
  unclaimed_block_rewards :: "'st \<Rightarrow> bytes \<Rightarrow> u128 option"
  state_parameters :: "'st \<Rightarrow> 'params"
  serialize_parameters :: "'params \<Rightarrow> bytes option"

definition do_get_contract_state ::
  "('st, 'std, 'vt, 'sys, 'key, 'fp) ledger_lib \<Rightarrow> ('st, 'addr, 'cs, 'zs, 'digest, 'params) query_lib \<Rightarrow>
   bytes \<Rightarrow> bytes \<Rightarrow> ('cs \<Rightarrow> (ledger_api_error, bytes) result) \<Rightarrow> ('st, 'vt, 'key) bridge \<Rightarrow>
   (ledger_api_error, bytes) result" where
  "do_get_contract_state lib ql state_key contract_address f b =
     and_then (tagged_deserialize De_ContractAddress (deserialize_address ql contract_address)) (\<lambda>addr.
     and_then (get_ledger lib state_key b) (\<lambda>ledger.
     case contract_at ql (l_state ledger) addr of None \<Rightarrow> Inr [] | Some cs \<Rightarrow> f cs))"

definition bridge_contract_state ::
  "('st, 'std, 'vt, 'sys, 'key, 'fp) ledger_lib \<Rightarrow> ('st, 'addr, 'cs, 'zs, 'digest, 'params) query_lib \<Rightarrow>
   bytes \<Rightarrow> bytes \<Rightarrow> ('st, 'vt, 'key) bridge \<Rightarrow> (ledger_api_error, bytes) result" where
  "bridge_contract_state lib ql state_key contract_address =
     do_get_contract_state lib ql state_key contract_address
       (\<lambda>cs. tagged_serialize Se_ContractState (serialize_contract_state ql cs))"

definition get_zswap_state ::
  "('st, 'addr, 'cs, 'zs, 'digest, 'params) query_lib \<Rightarrow> 'st ledger \<Rightarrow> 'addr option \<Rightarrow> 'zs" where
  "get_zswap_state ql ledger maybe_contract_address =
     (case maybe_contract_address of
        Some addr \<Rightarrow> coin_coms_filter ql (l_state ledger) addr
      | None \<Rightarrow> coin_coms ql (l_state ledger))"

definition bridge_zswap_chain_state ::
  "('st, 'std, 'vt, 'sys, 'key, 'fp) ledger_lib \<Rightarrow> ('st, 'addr, 'cs, 'zs, 'digest, 'params) query_lib \<Rightarrow>
   bytes \<Rightarrow> bytes \<Rightarrow> ('st, 'vt, 'key) bridge \<Rightarrow> (ledger_api_error, bytes) result" where
  "bridge_zswap_chain_state lib ql state_key contract_address b =
     and_then (tagged_deserialize De_ContractAddress (deserialize_address ql contract_address)) (\<lambda>addr.
     and_then (get_ledger lib state_key b) (\<lambda>ledger.
     tagged_serialize Se_ZswapState (serialize_zswap_state ql (get_zswap_state ql ledger (Some addr)))))"

definition bridge_zswap_state_root ::
  "('st, 'std, 'vt, 'sys, 'key, 'fp) ledger_lib \<Rightarrow> ('st, 'addr, 'cs, 'zs, 'digest, 'params) query_lib \<Rightarrow>
   bytes \<Rightarrow> ('st, 'vt, 'key) bridge \<Rightarrow> (ledger_api_error, bytes) result outcome" where
  "bridge_zswap_state_root lib ql state_key b =
     (case get_ledger lib state_key b of
        Inl e \<Rightarrow> Returns (Inl e)
      | Inr ledger \<Rightarrow>
          outcome_bind (expect ''unwrap'' (ok_or () (rehash_root ql (get_zswap_state ql ledger None)))) (\<lambda>root.
          Returns (tagged_serialize Se_MerkleTreeDigest (serialize_digest ql root))))"

definition bridge_ledger_state_root ::
  "('st, 'std, 'vt, 'sys, 'key, 'fp) ledger_lib \<Rightarrow> ('st, 'addr, 'cs, 'zs, 'digest, 'params) query_lib \<Rightarrow>
   bytes \<Rightarrow> ('st, 'vt, 'key) bridge \<Rightarrow> (ledger_api_error, bytes) result" where
  "bridge_ledger_state_root lib ql state_key b =
     and_then (get_ledger lib state_key b) (\<lambda>ledger.
     tagged_serialize Se_TypedArenaKey (serialize_state_key ql (l_state ledger)))"

definition night_address :: "bytes \<Rightarrow> (ledger_api_error, bytes) result" where
  "night_address bs = (if length bs = 32 then Inr bs else Inl (LDeserialization De_UserAddress))"

definition bridge_unclaimed_amount ::
  "('st, 'std, 'vt, 'sys, 'key, 'fp) ledger_lib \<Rightarrow> ('st, 'addr, 'cs, 'zs, 'digest, 'params) query_lib \<Rightarrow>
   bytes \<Rightarrow> bytes \<Rightarrow> ('st, 'vt, 'key) bridge \<Rightarrow> (ledger_api_error, u128) result" where
  "bridge_unclaimed_amount lib ql state_key beneficiary b =
     and_then (night_address beneficiary) (\<lambda>night_addr.
     and_then (get_ledger lib state_key b) (\<lambda>ledger.
     Inr (case unclaimed_block_rewards ql (l_state ledger) night_addr of Some n \<Rightarrow> n | None \<Rightarrow> 0)))"

definition bridge_ledger_parameters ::
  "('st, 'std, 'vt, 'sys, 'key, 'fp) ledger_lib \<Rightarrow> ('st, 'addr, 'cs, 'zs, 'digest, 'params) query_lib \<Rightarrow>
   bytes \<Rightarrow> ('st, 'vt, 'key) bridge \<Rightarrow> (ledger_api_error, bytes) result" where
  "bridge_ledger_parameters lib ql state_key b =
     and_then (get_ledger lib state_key b) (\<lambda>ledger.
     tagged_serialize Se_LedgerParameters (serialize_parameters ql (state_parameters ql (l_state ledger))))"

section \<open>Dust events\<close>

datatype dust_action = DustCreate | DustDestroy

record 'owner dust_event =
  de_value :: u128
  de_owner :: 'owner
  de_time :: u64
  de_action :: dust_action
  de_nonce :: bytes

record 'owner dust_lib =
  deserialize_dust_public_key :: "bytes \<Rightarrow> 'owner option"
  serialize_dust_event :: "'owner dust_event \<Rightarrow> bytes option"
  deserialize_dust_event :: "bytes \<Rightarrow> 'owner dust_event option"
  serialize_dust_update :: "'owner dust_event list \<Rightarrow> bytes option"

definition dust_action_of :: "byte \<Rightarrow> (ledger_api_error, dust_action) result" where
  "dust_action_of action =
     (if action = 0 then Inr DustCreate else if action = 1 then Inr DustDestroy
      else Inl (LDeserialization De_CNightGeneratesDustActionType))"

definition construct_cnight_generates_dust_event ::
  "'owner dust_lib \<Rightarrow> u128 \<Rightarrow> bytes \<Rightarrow> u64 \<Rightarrow> byte \<Rightarrow> bytes \<Rightarrow> (ledger_api_error, bytes) result" where
  "construct_cnight_generates_dust_event dl value owner time action nonce =
     and_then (tagged_deserialize De_DustPublicKey (deserialize_dust_public_key dl owner)) (\<lambda>key.
     and_then (dust_action_of action) (\<lambda>act.
     tagged_serialize Se_CNightGeneratesDustEvent (serialize_dust_event dl
       \<lparr> de_value = value, de_owner = key, de_time = time, de_action = act, de_nonce = nonce \<rparr>)))"

definition construct_cnight_generates_dust_system_tx ::
  "'owner dust_lib \<Rightarrow> bytes list \<Rightarrow> (ledger_api_error, bytes) result" where
  "construct_cnight_generates_dust_system_tx dl events =
     and_then (try_map (\<lambda>e. tagged_deserialize De_CNightGeneratesDustEvent (deserialize_dust_event dl e)) events) (\<lambda>evs.
     tagged_serialize Se_SystemTransaction (serialize_dust_update dl evs))"

section \<open>Initial allocation\<close>

definition alloc_with_initial_state ::
  "('st, 'std, 'vt, 'sys, 'key, 'fp) ledger_lib \<Rightarrow> (bytes \<Rightarrow> 'st option) \<Rightarrow> bytes \<Rightarrow> ('st, 'vt, 'key) bridge \<Rightarrow>
   (('st, 'vt, 'key) bridge \<times> bytes) outcome" where
  "alloc_with_initial_state lib deserialize_state initial_state b =
     outcome_bind (expect ''failed to deserialize ledger genesis state'' (ok_or () (deserialize_state initial_state))) (\<lambda>st.
     let ledger = ledger_new st in
     outcome_bind (expect ''unwrap'' (ok_or () (serialize_key lib (typed_key lib ledger)))) (\<lambda>bytes.
     Returns (persist lib ledger b, bytes)))"

section \<open>Lemmas\<close>

lemma dust_action_ok: "action \<in> {0, 1} \<Longrightarrow> \<exists>act. dust_action_of action = Inr act"
  by (auto simp: dust_action_of_def)

lemma night_address_Inr_iff [simp]: "night_address bs = Inr a \<longleftrightarrow> a = bs \<and> length bs = 32"
  by (auto simp: night_address_def)

text \<open>The system transaction of events that were built is the transaction of their contents.\<close>

lemma dust_events_encode:
  assumes roundtrip: "\<And>ev bs. serialize_dust_event dl ev = Some bs \<Longrightarrow> deserialize_dust_event dl bs = Some ev"
    and "list_all2 (\<lambda>ev bs. serialize_dust_event dl ev = Some bs) evs events"
  shows "construct_cnight_generates_dust_system_tx dl events =
    tagged_serialize Se_SystemTransaction (serialize_dust_update dl evs)"
proof -
  have "list_all2 (\<lambda>bs ev. tagged_deserialize De_CNightGeneratesDustEvent (deserialize_dust_event dl bs) = Inr ev) events evs"
    using assms by (auto simp: list_all2_conv_all_nth tagged_deserialize_def)
  then have "try_map (\<lambda>e. tagged_deserialize De_CNightGeneratesDustEvent (deserialize_dust_event dl e)) events = Inr evs"
    by (simp add: try_map_Inr_iff)
  then show ?thesis by (simp add: construct_cnight_generates_dust_system_tx_def)
qed

lemma allocated_state_loads:
  assumes "key_roundtrip lib" and "alloc_with_initial_state lib deserialize_state initial_state b = Returns (b', key)"
  shows "\<exists>st. deserialize_state initial_state = Some st \<and> get_ledger lib key b' = Inr (ledger_new st)"
  using assms by (auto simp: alloc_with_initial_state_def Let_def key_roundtrip_def get_ledger_Inr_iff)

end
