(* ===== verification/Midnight_Pallet.thy ===== *)
theory Midnight_Pallet
  imports Ledger_Types System_Tx_Executor
begin

text \<open>
  The pallets \<^verbatim>\<open>pallets/midnight\<close> and \<^verbatim>\<open>pallets/midnight-system\<close>.  The first keeps the key of the
  current ledger state, applies user transactions to it and closes each block; the second applies
  system transactions, from governance or from the cNIGHT observation.

  The ledger itself is reached through host functions (\<^verbatim>\<open>LedgerApi\<close>), here the record
  \<^verbatim>\<open>ledger_api\<close>: their results are a parameter, what the pallets do with each result is
  modelled.  Ledger storage initialisation and flushing are effects outside the chain state.
\<close>

section \<open>Types\<close>

record ledger_api =
  api_apply_transaction ::
    "bytes \<Rightarrow> bytes \<Rightarrow> block_context \<Rightarrow> u32 \<Rightarrow> (ledger_api_error, transaction_applied) result"
  api_apply_system_transaction ::
    "bytes \<Rightarrow> bytes \<Rightarrow> block_context \<Rightarrow> u32 \<Rightarrow> (ledger_api_error, system_transaction_applied) result"
  api_validate_transaction ::
    "bytes \<Rightarrow> bytes \<Rightarrow> block_context \<Rightarrow> u32 \<Rightarrow> u64 \<Rightarrow> (ledger_api_error, bytes) result"
  api_validate_guaranteed_execution ::
    "bytes \<Rightarrow> bytes \<Rightarrow> block_context \<Rightarrow> u32 \<Rightarrow> (ledger_api_error, unit) result"
  api_post_block_update :: "bytes \<Rightarrow> block_context \<Rightarrow> (ledger_api_error, bytes) result"
  api_get_transaction_cost ::
    "bytes \<Rightarrow> bytes \<Rightarrow> block_context \<Rightarrow> u64 \<Rightarrow> (ledger_api_error, u64) result"
  api_is_governance_allowed_system_tx :: "bytes \<Rightarrow> bool"
  api_get_contract_state :: "bytes \<Rightarrow> bytes \<Rightarrow> (ledger_api_error, bytes) result"
  api_get_zswap_chain_state :: "bytes \<Rightarrow> bytes \<Rightarrow> (ledger_api_error, bytes) result"
  api_get_unclaimed_amount :: "bytes \<Rightarrow> bytes \<Rightarrow> (ledger_api_error, u128) result"
  api_get_ledger_parameters :: "bytes \<Rightarrow> (ledger_api_error, bytes) result"
  api_get_zswap_state_root :: "bytes \<Rightarrow> (ledger_api_error, bytes) result"
  api_get_ledger_state_root :: "bytes \<Rightarrow> (ledger_api_error, bytes) result"

datatype mn_event =
    ContractCall bytes bytes
  | ContractDeploy bytes bytes
  | TxApplied bytes
  | ContractMaintain bytes bytes
  | PayoutMinted u128 bytes
  | ClaimRewards bytes u128
  | UnshieldedTokens "utxo_info list" "utxo_info list"
  | TxPartialSuccess bytes
  | SystemTransactionApplied bytes bytes

datatype mn_error =
    NewStateOutOfBounds
  | MnDeserialization deserialization_error
  | MnSerialization serialization_error
  | MnTransaction transaction_error
  | MnLedgerCacheError
  | MnNoLedgerState
  | MnLedgerStateScaleDecodingError
  | MnContractCallCostError
  | MnBlockLimitExceededError
  | MnFeeCalculationError
  | MnHostApiError
  | NetworkIdNotString
  | MnGetTransactionContextError

datatype mns_error = SystemLedgerApiError ledger_api_error | SystemTransactionNotAllowedForGovernance

primrec mn_error_from :: "ledger_api_error \<Rightarrow> mn_error" where
  "mn_error_from (LDeserialization e) = MnDeserialization e"
| "mn_error_from (LSerialization e) = MnSerialization e"
| "mn_error_from (LTransaction e) = MnTransaction e"
| "mn_error_from LLedgerCacheError = MnLedgerCacheError"
| "mn_error_from LNoLedgerState = MnNoLedgerState"
| "mn_error_from LLedgerStateScaleDecodingError = MnLedgerStateScaleDecodingError"
| "mn_error_from LContractCallCostError = MnContractCallCostError"
| "mn_error_from LBlockLimitExceededError = MnBlockLimitExceededError"
| "mn_error_from LFeeCalculationError = MnFeeCalculationError"
| "mn_error_from LHostApiError = MnHostApiError"
| "mn_error_from LGetTransactionContextError = MnGetTransactionContextError"

section \<open>Storage\<close>

definition state_key_length :: nat where "state_key_length = 1065"
definition max_network_id_length :: nat where "max_network_id_length = 64"

record weight =
  ref_time :: u64
  proof_size :: u64

definition weight_add :: "weight \<Rightarrow> weight \<Rightarrow> weight" where
  "weight_add a b = \<lparr> ref_time = ref_time a + ref_time b, proof_size = proof_size a + proof_size b \<rparr>"

definition EXTRA_WEIGHT_TX_SIZE :: weight where
  "EXTRA_WEIGHT_TX_SIZE = \<lparr> ref_time = 20000000000, proof_size = 0 \<rparr>"

record mn_config =
  slot_duration :: u64
  max_block_ref_time :: u64
  spec_version :: u32

record mn_state =
  state_key :: "bytes option"
  parent_timestamp :: u64
  network_id :: "bytes option"
  tx_size_weight :: weight
  on_initialize_weight :: weight
  on_runtime_upgrade_weight :: weight
  max_skipped_slots :: "8 word"
  system_tx_weight :: weight
  now_ms :: u64
  parent_hash :: bytes
  mn_events :: "mn_event list"

definition mn_deposit :: "mn_event \<Rightarrow> mn_state \<Rightarrow> mn_state" where
  "mn_deposit ev s = s\<lparr> mn_events := mn_events s @ [ev] \<rparr>"

definition mn_deposit_all :: "mn_event list \<Rightarrow> mn_state \<Rightarrow> mn_state" where
  "mn_deposit_all evs s = fold mn_deposit evs s"

definition get_block_context :: "mn_state \<Rightarrow> block_context" where
  "get_block_context s =
     \<lparr> tblock = now_ms s div 1000, tblock_err = 30, parent_block_hash = parent_hash s,
       last_block_time = parent_timestamp s \<rparr>"

definition mn_empty :: "mn_state" where
  "mn_empty = \<lparr> state_key = None, parent_timestamp = 0, network_id = None,
     tx_size_weight = EXTRA_WEIGHT_TX_SIZE, on_initialize_weight = EXTRA_WEIGHT_TX_SIZE,
     on_runtime_upgrade_weight = EXTRA_WEIGHT_TX_SIZE, max_skipped_slots = 1,
     system_tx_weight = EXTRA_WEIGHT_TX_SIZE, now_ms = 0, parent_hash = replicate 32 0, mn_events = [] \<rparr>"

definition put_state_key :: "bytes \<Rightarrow> mn_state \<Rightarrow> mn_state" where
  "put_state_key k s = s\<lparr> state_key := Some k \<rparr>"

definition get_ledger_state_key :: "mn_state \<Rightarrow> bytes outcome" where
  "get_ledger_state_key s = expect ''Failed to get state key'' (ok_or () (state_key s))"

definition mut_ledger_state ::
  "(bytes \<Rightarrow> ('e, bytes \<times> 'r) result) \<Rightarrow> mn_state \<Rightarrow> (mn_state \<times> ('e, 'r) result) outcome" where
  "mut_ledger_state f s =
     outcome_bind (get_ledger_state_key s) (\<lambda>key.
       case f key of
         Inl e \<Rightarrow> Returns (s, Inl e)
       | Inr (new_key, custom_result) \<Rightarrow>
           outcome_bind (expect ''State key size out of boundaries''
               (bounded_vec_try_from state_key_length new_key))
             (\<lambda>k. Returns (put_state_key k s, Inr custom_result)))"

definition initialize_state :: "bytes \<Rightarrow> bytes \<Rightarrow> mn_state \<Rightarrow> mn_state outcome" where
  "initialize_state network key s =
     outcome_bind (expect ''Genesis state key size out of boundaries''
         (bounded_vec_try_from state_key_length key)) (\<lambda>k.
     outcome_bind (expect ''Network Id size out of boundaries''
         (bounded_vec_try_from max_network_id_length network)) (\<lambda>n.
     Returns ((put_state_key k s)\<lparr> network_id := Some n \<rparr>)))"

section \<open>Hooks\<close>

definition mn_on_initialize :: "mn_state \<Rightarrow> mn_state \<times> weight" where
  "mn_on_initialize s = (s\<lparr> parent_timestamp := now_ms s div 1000 \<rparr>, on_initialize_weight s)"

definition mn_on_finalize :: "ledger_api \<Rightarrow> mn_state \<Rightarrow> mn_state outcome" where
  "mn_on_finalize api s =
     outcome_bind (expect ''Failed to get state key'' (ok_or () (state_key s))) (\<lambda>key.
     outcome_bind (expect ''Post block update failed'' (api_post_block_update api key (get_block_context s)))
       (\<lambda>root.
     outcome_bind (expect ''State key size out of boundaries'' (bounded_vec_try_from state_key_length root))
       (\<lambda>k. Returns (put_state_key k s))))"

definition mn_on_runtime_upgrade :: "mn_state \<Rightarrow> mn_state \<times> weight" where
  "mn_on_runtime_upgrade s = (s, on_runtime_upgrade_weight s)"

section \<open>Dispatchables\<close>

definition applied_events :: "transaction_applied \<Rightarrow> mn_event list" where
  "applied_events r =
     map (ContractCall (ta_tx_hash r)) (ta_call_addresses r) @
     map (ContractDeploy (ta_tx_hash r)) (ta_deploy_addresses r) @
     map (ContractMaintain (ta_tx_hash r)) (ta_maintain_addresses r) @
     map (ClaimRewards (ta_tx_hash r)) (ta_claim_rewards r) @
     (if ta_unshielded_created r \<noteq> [] \<or> ta_unshielded_spent r \<noteq> []
      then [UnshieldedTokens (ta_unshielded_spent r) (ta_unshielded_created r)] else []) @
     [if ta_all_applied r then TxApplied (ta_tx_hash r) else TxPartialSuccess (ta_tx_hash r)]"

definition send_mn_transaction_body ::
  "ledger_api \<Rightarrow> mn_config \<Rightarrow> ('acc, 'o) raw_origin \<Rightarrow> bytes \<Rightarrow>
   (mn_state, mn_error dispatch_error, unit) dispatchable" where
  "send_mn_transaction_body api cfg origin midnight_tx s =
     (case state_key s of
        None \<Rightarrow> (s, Inl (ModuleError MnNoLedgerState))
      | Some key \<Rightarrow>
          (case api_apply_transaction api key midnight_tx (get_block_context s) (spec_version cfg) of
             Inl e \<Rightarrow> (s, Inl (ModuleError (mn_error_from e)))
           | Inr res \<Rightarrow>
               (case bounded_vec_try_from state_key_length (ta_state_root res) of
                  Inl _ \<Rightarrow> (s, Inl (ModuleError NewStateOutOfBounds))
                | Inr k \<Rightarrow> (mn_deposit_all (applied_events res) (put_state_key k s), Inr ()))))"

definition send_mn_transaction ::
  "ledger_api \<Rightarrow> mn_config \<Rightarrow> ('acc, 'o) raw_origin \<Rightarrow> bytes \<Rightarrow>
   (mn_state, mn_error dispatch_error, unit) dispatchable" where
  "send_mn_transaction api cfg origin midnight_tx =
     with_storage_layer (send_mn_transaction_body api cfg origin midnight_tx)"

definition set_tx_size_weight ::
  "('acc, 'o) raw_origin \<Rightarrow> weight \<Rightarrow> (mn_state, mn_error dispatch_error, unit) dispatchable" where
  "set_tx_size_weight origin new_weight =
     with_storage_layer (\<lambda>s.
       case ensure_root origin of
         Inl e \<Rightarrow> (s, Inl e)
       | Inr _ \<Rightarrow> (s\<lparr> tx_size_weight := new_weight \<rparr>, Inr ()))"

definition apply_system_closure ::
  "ledger_api \<Rightarrow> mn_config \<Rightarrow> bytes \<Rightarrow> block_context \<Rightarrow> bytes \<Rightarrow>
   (mns_error dispatch_error, bytes \<times> bytes) result" where
  "apply_system_closure api cfg tx ctx key =
     (case api_apply_system_transaction api key tx ctx (spec_version cfg) of
        Inl e \<Rightarrow> Inl (ModuleError (SystemLedgerApiError e))
      | Inr res \<Rightarrow> Inr (sta_state_root res, sta_tx_hash res))"

definition execute_system_transaction ::
  "ledger_api \<Rightarrow> mn_config \<Rightarrow> bytes \<Rightarrow> mn_state \<Rightarrow>
   (mn_state \<times> (mns_error dispatch_error, bytes) result) outcome" where
  "execute_system_transaction api cfg tx s =
     outcome_bind (mut_ledger_state (apply_system_closure api cfg tx (get_block_context s)) s) (\<lambda>r.
       case r of
         (s', Inl e) \<Rightarrow> Returns (s', Inl e)
       | (s', Inr hash) \<Rightarrow> Returns (mn_deposit (SystemTransactionApplied hash tx) s', Inr hash))"

text \<open>
  As the executor of another pallet: a panic stops the block, which the caller sees as a failure
  that is none of the errors of the pallet.
\<close>

datatype system_failure = SystemFailure "mns_error dispatch_error" | SystemAborted string

definition executor_dispatch ::
  "ledger_api \<Rightarrow> mn_config \<Rightarrow> bytes \<Rightarrow> (mn_state, system_failure, bytes) dispatchable" where
  "executor_dispatch api cfg tx s =
     (case execute_system_transaction api cfg tx s of
        Panics msg \<Rightarrow> (s, Inl (SystemAborted msg))
      | Returns (s', Inl e) \<Rightarrow> (s', Inl (SystemFailure e))
      | Returns (s', Inr hash) \<Rightarrow> (s', Inr hash))"

definition send_mn_system_transaction_body ::
  "ledger_api \<Rightarrow> mn_config \<Rightarrow> ('acc, 'o) raw_origin \<Rightarrow> bytes \<Rightarrow> mn_state \<Rightarrow>
   (mn_state \<times> (mns_error dispatch_error, unit) result) outcome" where
  "send_mn_system_transaction_body api cfg origin tx s =
     (case ensure_root origin of
        Inl e \<Rightarrow> Returns (s, Inl e)
      | Inr _ \<Rightarrow>
          if \<not> api_is_governance_allowed_system_tx api tx
          then Returns (s, Inl (ModuleError SystemTransactionNotAllowedForGovernance))
          else outcome_bind (mut_ledger_state (apply_system_closure api cfg tx (get_block_context s)) s) (\<lambda>r.
            case r of
              (s', Inl e) \<Rightarrow> Returns (s', Inl e)
            | (s', Inr hash) \<Rightarrow> Returns (mn_deposit (SystemTransactionApplied hash tx) s', Inr ())))"

definition send_mn_system_transaction ::
  "ledger_api \<Rightarrow> mn_config \<Rightarrow> ('acc, 'o) raw_origin \<Rightarrow> bytes \<Rightarrow> mn_state \<Rightarrow>
   (mn_state \<times> (mns_error dispatch_error, unit) result) outcome" where
  "send_mn_system_transaction api cfg origin tx s =
     outcome_bind (send_mn_system_transaction_body api cfg origin tx s) (\<lambda>r.
       Returns (with_storage_layer (\<lambda>_. r) s))"

section \<open>Transaction pool\<close>

datatype mn_call = SendMnTransaction bytes | SetTxSizeWeight weight

datatype validity_error = InvalidCustom byte

record valid_transaction =
  vt_priority :: u64
  vt_requires :: "bytes list"
  vt_provides :: "(bytes \<times> bytes) list"
  vt_longevity :: u64
  vt_propagate :: bool

definition invalid_transaction :: "byte \<Rightarrow> validity_error" where
  "invalid_transaction code = InvalidCustom code"

definition ascii :: "string \<Rightarrow> bytes" where
  "ascii cs = map (\<lambda>c. of_nat (of_char c)) cs"

definition validate_unsigned_at ::
  "ledger_api \<Rightarrow> mn_config \<Rightarrow> mn_call \<Rightarrow> block_context \<Rightarrow> mn_state \<Rightarrow>
   (validity_error, valid_transaction) result" where
  "validate_unsigned_at api cfg call ctx s =
     (case call of
        SendMnTransaction midnight_tx \<Rightarrow>
          and_then (ok_or (invalid_transaction 0) (state_key s)) (\<lambda>key.
          and_then (map_err (\<lambda>e. invalid_transaction (ledger_api_error_code e))
              (api_validate_transaction api key midnight_tx ctx (spec_version cfg) (max_block_ref_time cfg)))
            (\<lambda>tx_hash.
          Inr \<lparr> vt_priority = 0, vt_requires = [], vt_provides = [(ascii ''Midnight'', tx_hash)],
                vt_longevity = 600, vt_propagate = True \<rparr>))
      | SetTxSizeWeight _ \<Rightarrow> Inl (invalid_transaction 0))"

definition pool_block_context :: "mn_config \<Rightarrow> mn_state \<Rightarrow> block_context" where
  "pool_block_context cfg s =
     (let ctx = get_block_context s;
          slot_duration_secs = slot_duration cfg div 1000;
          skipped_slots_margin = saturating_mul slot_duration_secs (ucast (max_skipped_slots s)) in
      ctx\<lparr> tblock := saturating_add (saturating_add (tblock ctx) slot_duration_secs) skipped_slots_margin \<rparr>)"

definition validate_unsigned ::
  "ledger_api \<Rightarrow> mn_config \<Rightarrow> mn_call \<Rightarrow> mn_state \<Rightarrow> (validity_error, valid_transaction) result" where
  "validate_unsigned api cfg call s = validate_unsigned_at api cfg call (pool_block_context cfg s) s"

definition pre_dispatch ::
  "ledger_api \<Rightarrow> mn_config \<Rightarrow> mn_call \<Rightarrow> mn_state \<Rightarrow> (validity_error, unit) result" where
  "pre_dispatch api cfg call s =
     (case call of
        SendMnTransaction midnight_tx \<Rightarrow>
          and_then (ok_or (invalid_transaction 0) (state_key s)) (\<lambda>key.
          map_err (\<lambda>e. invalid_transaction (ledger_api_error_code e))
            (api_validate_guaranteed_execution api key midnight_tx (get_block_context s) (spec_version cfg)))
      | SetTxSizeWeight _ \<Rightarrow> Inl (invalid_transaction 0))"

section \<open>Queries of the runtime API\<close>

definition with_state_key ::
  "mn_state \<Rightarrow> (bytes \<Rightarrow> (ledger_api_error, 'a) result) \<Rightarrow> (ledger_api_error, 'a) result" where
  "with_state_key s f = and_then (ok_or LNoLedgerState (state_key s)) f"

definition get_contract_state where
  "get_contract_state api address s = with_state_key s (\<lambda>key. api_get_contract_state api key address)"

definition get_zswap_chain_state where
  "get_zswap_chain_state api address s = with_state_key s (\<lambda>key. api_get_zswap_chain_state api key address)"

definition get_unclaimed_amount where
  "get_unclaimed_amount api beneficiary s = with_state_key s (\<lambda>key. api_get_unclaimed_amount api key beneficiary)"

definition get_ledger_parameters where
  "get_ledger_parameters api s = with_state_key s (api_get_ledger_parameters api)"

definition get_zswap_state_root where
  "get_zswap_state_root api s = with_state_key s (api_get_zswap_state_root api)"

definition get_ledger_state_root where
  "get_ledger_state_root api s = with_state_key s (api_get_ledger_state_root api)"

definition get_network_id :: "(bytes \<Rightarrow> bool) \<Rightarrow> mn_state \<Rightarrow> bytes outcome" where
  "get_network_id is_utf8 s =
     (case network_id s of
        None \<Rightarrow> Returns []
      | Some name \<Rightarrow> if is_utf8 name then Returns name else Panics ''NetworkId is not a String'')"

definition get_transaction_cost ::
  "ledger_api \<Rightarrow> mn_config \<Rightarrow> bytes \<Rightarrow> mn_state \<Rightarrow> (ledger_api_error, u64) result" where
  "get_transaction_cost api cfg tx s =
     with_state_key s (\<lambda>key. api_get_transaction_cost api key tx (get_block_context s) (max_block_ref_time cfg))"

definition get_tx_weight :: "ledger_api \<Rightarrow> mn_config \<Rightarrow> bytes \<Rightarrow> mn_state \<Rightarrow> weight" where
  "get_tx_weight api cfg tx s =
     weight_add (case get_transaction_cost api cfg tx s of
                   Inr gas_cost \<Rightarrow> \<lparr> ref_time = gas_cost, proof_size = 0 \<rparr>
                 | Inl _ \<Rightarrow> EXTRA_WEIGHT_TX_SIZE)
                (tx_size_weight s)"

section \<open>Blocks\<close>

text \<open>
  A block: \<^verbatim>\<open>on_initialize\<close> sees the timestamp of the parent, the timestamp inherent sets the time,
  the extrinsics follow, \<^verbatim>\<open>on_finalize\<close> closes the block.  An unsigned extrinsic is executed only
  after \<^verbatim>\<open>pre_dispatch\<close> accepts it.
\<close>

datatype ('acc, 'o) mn_extrinsic =
    XTransaction bytes
  | XSystemTransaction "('acc, 'o) raw_origin" bytes
  | XSetWeight "('acc, 'o) raw_origin" weight

fun apply_extrinsic :: "ledger_api \<Rightarrow> mn_config \<Rightarrow> ('acc, 'o) mn_extrinsic \<Rightarrow> mn_state \<Rightarrow> mn_state outcome" where
  "apply_extrinsic api cfg (XTransaction tx) s =
     (case pre_dispatch api cfg (SendMnTransaction tx) s of
        Inl _ \<Rightarrow> Returns s
      | Inr _ \<Rightarrow> Returns (fst (send_mn_transaction api cfg (NoneOrigin :: (unit, unit) raw_origin) tx s)))"
| "apply_extrinsic api cfg (XSystemTransaction origin tx) s =
     outcome_bind (send_mn_system_transaction api cfg origin tx s) (\<lambda>r. Returns (fst r))"
| "apply_extrinsic api cfg (XSetWeight origin w) s = Returns (fst (set_tx_size_weight origin w s))"

fun apply_extrinsics ::
  "ledger_api \<Rightarrow> mn_config \<Rightarrow> ('acc, 'o) mn_extrinsic list \<Rightarrow> mn_state \<Rightarrow> mn_state outcome" where
  "apply_extrinsics api cfg [] s = Returns s"
| "apply_extrinsics api cfg (x # xs) s = outcome_bind (apply_extrinsic api cfg x s) (apply_extrinsics api cfg xs)"

definition execute_block ::
  "ledger_api \<Rightarrow> mn_config \<Rightarrow> u64 \<Rightarrow> bytes \<Rightarrow> ('acc, 'o) mn_extrinsic list \<Rightarrow> mn_state \<Rightarrow> mn_state outcome" where
  "execute_block api cfg time parent xs s =
     outcome_bind (apply_extrinsics api cfg xs ((fst (mn_on_initialize (s\<lparr> parent_hash := parent \<rparr>)))\<lparr> now_ms := time \<rparr>))
       (mn_on_finalize api)"

text \<open>What the chain promises: an abstract block works on the ledger key alone.\<close>

fun abs_extrinsic ::
  "ledger_api \<Rightarrow> mn_config \<Rightarrow> block_context \<Rightarrow> ('acc, 'o) mn_extrinsic \<Rightarrow> bytes \<Rightarrow> bytes" where
  "abs_extrinsic api cfg ctx (XTransaction tx) key =
     (case (api_validate_guaranteed_execution api key tx ctx (spec_version cfg),
            api_apply_transaction api key tx ctx (spec_version cfg)) of
        (Inr _, Inr r) \<Rightarrow> if length (ta_state_root r) \<le> state_key_length then ta_state_root r else key
      | _ \<Rightarrow> key)"
| "abs_extrinsic api cfg ctx (XSystemTransaction origin tx) key =
     (if origin = Root \<and> api_is_governance_allowed_system_tx api tx
      then case api_apply_system_transaction api key tx ctx (spec_version cfg) of
             Inr r \<Rightarrow> sta_state_root r
           | Inl _ \<Rightarrow> key
      else key)"
| "abs_extrinsic api cfg ctx (XSetWeight origin w) key = key"

definition abs_context :: "u64 \<Rightarrow> bytes \<Rightarrow> u64 \<Rightarrow> block_context" where
  "abs_context time parent parent_time =
     \<lparr> tblock = time div 1000, tblock_err = 30, parent_block_hash = parent,
       last_block_time = parent_time div 1000 \<rparr>"

definition mn_inv :: "mn_state \<Rightarrow> bool" where
  "mn_inv s \<longleftrightarrow> (\<forall>k. state_key s = Some k \<longrightarrow> length k \<le> state_key_length) \<and>
     (\<forall>n. network_id s = Some n \<longrightarrow> length n \<le> max_network_id_length)"

definition host_roots_fit :: "ledger_api \<Rightarrow> bool" where
  "host_roots_fit api \<longleftrightarrow>
     (\<forall>k tx c v r. api_apply_system_transaction api k tx c v = Inr r \<longrightarrow>
        length (sta_state_root r) \<le> state_key_length)"

definition host_in_bounds :: "ledger_api \<Rightarrow> bool" where
  "host_in_bounds api \<longleftrightarrow> host_roots_fit api \<and>
     (\<forall>k c. \<exists>r. api_post_block_update api k c = Inr r \<and> length r \<le> state_key_length)"

fun event_tx_hash :: "mn_event \<Rightarrow> bytes option" where
  "event_tx_hash (ContractCall h a) = Some h"
| "event_tx_hash (ContractDeploy h a) = Some h"
| "event_tx_hash (ContractMaintain h a) = Some h"
| "event_tx_hash (ClaimRewards h v) = Some h"
| "event_tx_hash (TxApplied h) = Some h"
| "event_tx_hash (TxPartialSuccess h) = Some h"
| "event_tx_hash _ = None"

fun is_completion :: "mn_event \<Rightarrow> bool" where
  "is_completion (TxApplied h) = True"
| "is_completion (TxPartialSuccess h) = True"
| "is_completion _ = False"

fun system_tx_of :: "mn_event \<Rightarrow> bytes option" where
  "system_tx_of (SystemTransactionApplied h tx) = Some tx"
| "system_tx_of _ = None"

definition applied_system_txs :: "mn_state \<Rightarrow> bytes list" where
  "applied_system_txs s = List.map_filter system_tx_of (mn_events s)"

fun run_blocks ::
  "ledger_api \<Rightarrow> mn_config \<Rightarrow> (u64 \<times> bytes \<times> ('acc, 'o) mn_extrinsic list) list \<Rightarrow> mn_state \<Rightarrow> mn_state outcome" where
  "run_blocks api cfg [] s = Returns s"
| "run_blocks api cfg ((time, parent, xs) # bs) s =
     outcome_bind (execute_block api cfg time parent xs s) (run_blocks api cfg bs)"

definition same_block :: "mn_state \<Rightarrow> mn_state \<Rightarrow> bool" where
  "same_block s s' \<longleftrightarrow> now_ms s' = now_ms s \<and> parent_hash s' = parent_hash s \<and>
     parent_timestamp s' = parent_timestamp s"

text \<open>A small ledger for examples: its key is the list of the bytes applied so far.\<close>

definition demo_api :: ledger_api where
  "demo_api = \<lparr>
     api_apply_transaction = (\<lambda>k tx c v. if tx = [] then Inl (LDeserialization De_Transaction) else
       Inr \<lparr> ta_state_root = take 1000 (tx @ k), ta_tx_hash = tx, ta_all_applied = True,
         ta_call_addresses = [[7]], ta_deploy_addresses = [], ta_maintain_addresses = [],
         ta_claim_rewards = [], ta_unshielded_created = [], ta_unshielded_spent = [] \<rparr>),
     api_apply_system_transaction = (\<lambda>k tx c v. Inr \<lparr> sta_state_root = take 1000 (tx @ k), sta_tx_hash = tx, sta_tx_type = ''demo'' \<rparr>),
     api_validate_transaction = (\<lambda>k tx c v w. if tx = [] then Inl (LDeserialization De_Transaction) else Inr tx),
     api_validate_guaranteed_execution = (\<lambda>k tx c v. Inr ()),
     api_post_block_update = (\<lambda>k c. Inr (take 1000 (255 # k))),
     api_get_transaction_cost = (\<lambda>k tx c w. Inr 5),
     api_is_governance_allowed_system_tx = (\<lambda>tx. tx \<noteq> []),
     api_get_contract_state = (\<lambda>k a. Inr []), api_get_zswap_chain_state = (\<lambda>k a. Inr []),
     api_get_unclaimed_amount = (\<lambda>k b. Inr 0), api_get_ledger_parameters = (\<lambda>k. Inr []),
     api_get_zswap_state_root = (\<lambda>k. Inr []), api_get_ledger_state_root = (\<lambda>k. Inr k) \<rparr>"

definition demo_config :: mn_config where
  "demo_config = \<lparr> slot_duration = 6000, max_block_ref_time = 1000000, spec_version = 1 \<rparr>"

definition demo_genesis_state :: mn_state where
  "demo_genesis_state = mn_empty\<lparr> state_key := Some [1], network_id := Some [2] \<rparr>"

section \<open>Lemmas\<close>

lemma mn_deposit_all_simps [simp]:
  "mn_events (mn_deposit_all evs s) = mn_events s @ evs"
  "state_key (mn_deposit_all evs s) = state_key s"
  "network_id (mn_deposit_all evs s) = network_id s"
  "now_ms (mn_deposit_all evs s) = now_ms s"
  "parent_hash (mn_deposit_all evs s) = parent_hash s"
  "parent_timestamp (mn_deposit_all evs s) = parent_timestamp s"
  unfolding mn_deposit_all_def
  by (induction evs arbitrary: s) (simp_all add: mn_deposit_def)

lemma put_state_key_simps [simp]:
  "state_key (put_state_key k s) = Some k"
  "network_id (put_state_key k s) = network_id s"
  "mn_events (put_state_key k s) = mn_events s"
  "now_ms (put_state_key k s) = now_ms s"
  "parent_hash (put_state_key k s) = parent_hash s"
  "parent_timestamp (put_state_key k s) = parent_timestamp s"
  by (simp_all add: put_state_key_def)

lemma mn_deposit_simps [simp]:
  "state_key (mn_deposit e s) = state_key s"
  "network_id (mn_deposit e s) = network_id s"
  "mn_events (mn_deposit e s) = mn_events s @ [e]"
  "now_ms (mn_deposit e s) = now_ms s"
  "parent_hash (mn_deposit e s) = parent_hash s"
  "parent_timestamp (mn_deposit e s) = parent_timestamp s"
  by (simp_all add: mn_deposit_def)

lemma get_block_context_cong:
  assumes "now_ms s' = now_ms s" "parent_hash s' = parent_hash s" "parent_timestamp s' = parent_timestamp s"
  shows "get_block_context s' = get_block_context s"
  using assms by (simp add: get_block_context_def)

interpretation send_tx: transactional "send_mn_transaction api cfg origin tx" for api cfg origin tx
  unfolding send_mn_transaction_def by (rule transactional_storage_layer)

interpretation set_weight_tx: transactional "set_tx_size_weight origin w" for origin w
  unfolding set_tx_size_weight_def by (rule transactional_storage_layer)

lemma send_mn_transaction_okE:
  assumes "send_mn_transaction api cfg origin tx s = (s', Inr u)"
  obtains key r where "state_key s = Some key"
    "api_apply_transaction api key tx (get_block_context s) (spec_version cfg) = Inr r"
    "length (ta_state_root r) \<le> state_key_length"
    "s' = mn_deposit_all (applied_events r) (put_state_key (ta_state_root r) s)"
  using assms
  by (auto simp: send_mn_transaction_def with_storage_layer_Inr_iff send_mn_transaction_body_def
      split: option.splits sum.splits)

lemma fst_send_mn_transaction:
  assumes "state_key s = Some key"
  shows "fst (send_mn_transaction api cfg origin tx s) =
    (case api_apply_transaction api key tx (get_block_context s) (spec_version cfg) of
       Inr r \<Rightarrow> if length (ta_state_root r) \<le> state_key_length
               then mn_deposit_all (applied_events r) (put_state_key (ta_state_root r) s) else s
     | Inl _ \<Rightarrow> s)"
  using assms
  by (simp add: send_mn_transaction_def with_storage_layer_def send_mn_transaction_body_def
      bounded_vec_try_from_def split: sum.split)

lemma mut_ledger_state_then_Returns:
  "outcome_bind (mut_ledger_state f s)
     (\<lambda>r. case r of (s', Inl e) \<Rightarrow> Returns (s', Inl e) | (s', Inr x) \<Rightarrow> Returns (g x s', Inr (h x))) =
   Returns (s'', r) \<longleftrightarrow>
     (\<exists>key. state_key s = Some key \<and>
        ((\<exists>e. f key = Inl e \<and> r = Inl e \<and> s'' = s) \<or>
         (\<exists>k x. f key = Inr (k, x) \<and> r = Inr (h x) \<and> length k \<le> state_key_length \<and>
            s'' = g x (put_state_key k s))))"
proof (cases "state_key s")
  case (Some key)
  show ?thesis
  proof (cases "f key")
    case (Inr p)
    obtain k x where "p = (k, x)" by (cases p)
    with Some Inr show ?thesis
      by (cases "length k \<le> state_key_length")
        (auto simp: mut_ledger_state_def get_ledger_state_key_def bounded_vec_try_from_def)
  qed (auto simp: Some mut_ledger_state_def get_ledger_state_key_def)
qed (simp add: mut_ledger_state_def get_ledger_state_key_def)

lemma apply_system_closure_cases:
  "apply_system_closure api cfg tx ctx key = Inl e \<longleftrightarrow>
     (\<exists>l. api_apply_system_transaction api key tx ctx (spec_version cfg) = Inl l \<and>
        e = ModuleError (SystemLedgerApiError l))"
  "apply_system_closure api cfg tx ctx key = Inr (k, h) \<longleftrightarrow>
     (\<exists>r. api_apply_system_transaction api key tx ctx (spec_version cfg) = Inr r \<and>
        k = sta_state_root r \<and> h = sta_tx_hash r)"
  by (auto simp: apply_system_closure_def split: sum.splits)

lemma execute_system_transaction_Returns:
  assumes "execute_system_transaction api cfg tx s = Returns (s', r)"
  obtains (err) key l where "state_key s = Some key" "s' = s" "r = Inl (ModuleError (SystemLedgerApiError l))"
      "api_apply_system_transaction api key tx (get_block_context s) (spec_version cfg) = Inl l"
  | (ok) key a where "state_key s = Some key"
      "api_apply_system_transaction api key tx (get_block_context s) (spec_version cfg) = Inr a"
      "length (sta_state_root a) \<le> state_key_length" "r = Inr (sta_tx_hash a)"
      "s' = mn_deposit (SystemTransactionApplied (sta_tx_hash a) tx) (put_state_key (sta_state_root a) s)"
  using assms
  by (auto simp: execute_system_transaction_def apply_system_closure_cases mut_ledger_state_then_Returns
      [where g = "\<lambda>hash. mn_deposit (SystemTransactionApplied hash tx)" and h = "\<lambda>hash. hash"]
      simp del: outcome_bind_Returns_iff)

lemma executor_dispatch_cases:
  assumes "executor_dispatch api cfg tx s = (s', r)"
  obtains (failed) e where "r = Inl e" "s' = s"
  | (applied) key a where "r = Inr (sta_tx_hash a)" "state_key s = Some key"
      "api_apply_system_transaction api key tx (get_block_context s) (spec_version cfg) = Inr a"
      "length (sta_state_root a) \<le> state_key_length"
      "s' = mn_deposit (SystemTransactionApplied (sta_tx_hash a) tx) (put_state_key (sta_state_root a) s)"
proof (cases "execute_system_transaction api cfg tx s")
  case (Returns p)
  obtain t q where "p = (t, q)" by (cases p)
  with Returns have run: "execute_system_transaction api cfg tx s = Returns (t, q)" by simp
  with assms have r: "(s', r) = (case q of Inl e \<Rightarrow> (t, Inl (SystemFailure e)) | Inr hash \<Rightarrow> (t, Inr hash))"
    by (simp add: executor_dispatch_def split: sum.splits)
  from run show thesis
    by (rule execute_system_transaction_Returns) (use r failed applied in auto)
next
  case (Panics msg)
  with assms failed [of "SystemAborted msg"] show thesis by (simp add: executor_dispatch_def)
qed

interpretation midnight_executor: system_tx_executor "executor_dispatch api cfg" mn_inv applied_system_txs for api cfg
proof
  fix tx s s' e
  assume "executor_dispatch api cfg tx s = (s', Inl e)"
  then show "s' = s" by (rule executor_dispatch_cases) simp_all
next
  fix tx s s' hash
  assume run: "executor_dispatch api cfg tx s = (s', Inr hash)"
  then show "applied_system_txs s' = applied_system_txs s @ [tx]"
    by (rule executor_dispatch_cases) (simp_all add: applied_system_txs_def map_filter_def)
  assume "mn_inv s"
  with run show "mn_inv s'" by (auto simp: mn_inv_def elim: executor_dispatch_cases)
qed

lemma send_mn_system_transaction_Returns:
  assumes "send_mn_system_transaction api cfg origin tx s = Returns (s', r)"
  obtains (err) e where "r = Inl e" "s' = s"
  | (ok) key a where "origin = Root" "api_is_governance_allowed_system_tx api tx" "state_key s = Some key"
      "api_apply_system_transaction api key tx (get_block_context s) (spec_version cfg) = Inr a"
      "length (sta_state_root a) \<le> state_key_length" "r = Inr ()"
      "s' = mn_deposit (SystemTransactionApplied (sta_tx_hash a) tx) (put_state_key (sta_state_root a) s)"
proof (cases r)
  case (Inl e)
  with assms show ?thesis
    by (intro err [of e]) (auto simp: send_mn_system_transaction_def with_storage_layer_Inl_iff)
next
  case (Inr u)
  with assms have "send_mn_system_transaction_body api cfg origin tx s = Returns (s', Inr ())"
    by (auto simp: send_mn_system_transaction_def with_storage_layer_Inr_iff)
  then show ?thesis
    using Inr ok
    by (auto simp: send_mn_system_transaction_body_def apply_system_closure_cases
        mut_ledger_state_then_Returns
          [where g = "\<lambda>hash. mn_deposit (SystemTransactionApplied hash tx)" and h = "\<lambda>_. ()"]
        simp del: outcome_bind_Returns_iff split: sum.split_asm if_split_asm)
qed

lemma same_block_context: "same_block s s' \<Longrightarrow> get_block_context s' = get_block_context s"
  unfolding same_block_def by (intro get_block_context_cong) auto

lemma same_block_refl [simp]: "same_block s s"
  by (simp add: same_block_def)

lemma same_block_trans: "same_block s t \<Longrightarrow> same_block t u \<Longrightarrow> same_block s u"
  by (simp add: same_block_def)

lemma same_block_updates [simp]:
  "same_block s (put_state_key k s)"
  "same_block s (mn_deposit e s) "
  "same_block s (mn_deposit_all es s)"
  "same_block s (mn_deposit e (put_state_key k s))"
  "same_block s (mn_deposit_all es (put_state_key k s))"
  "same_block s (s\<lparr> tx_size_weight := w \<rparr>)"
  by (simp_all add: same_block_def)

lemma fst_set_tx_size_weight:
  "fst (set_tx_size_weight origin w s) = (if origin = Root then s\<lparr> tx_size_weight := w \<rparr> else s)"
  by (cases origin) (simp_all add: set_tx_size_weight_def with_storage_layer_def)

lemma pre_dispatch_send:
  "pre_dispatch api cfg (SendMnTransaction tx) s = Inr u \<longleftrightarrow>
     (\<exists>key. state_key s = Some key \<and>
        api_validate_guaranteed_execution api key tx (get_block_context s) (spec_version cfg) = Inr ())"
  by (auto simp: pre_dispatch_def)

text \<open>One extrinsic: the context of the block is kept and the key follows the abstract step.\<close>

lemma apply_transaction_step:
  assumes "state_key s = Some key"
  shows "\<exists>s'. apply_extrinsic api cfg (XTransaction tx :: ('acc, 'o) mn_extrinsic) s = Returns s' \<and> same_block s s' \<and>
    network_id s' = network_id s \<and>
    state_key s' = Some (abs_extrinsic api cfg (get_block_context s) (XTransaction tx :: ('acc, 'o) mn_extrinsic) key)"
proof (cases "api_validate_guaranteed_execution api key tx (get_block_context s) (spec_version cfg)")
  case (Inl e)
  with assms show ?thesis by (simp add: pre_dispatch_def)
next
  case (Inr u)
  with assms show ?thesis
    by (auto simp: pre_dispatch_def fst_send_mn_transaction split: sum.splits)
qed

lemma apply_extrinsic_step:
  assumes "state_key s = Some key" and "apply_extrinsic api cfg x s = Returns s'"
  shows "same_block s s' \<and> network_id s' = network_id s \<and>
    state_key s' = Some (abs_extrinsic api cfg (get_block_context s) x key)"
proof (cases x)
  case (XTransaction tx)
  with apply_transaction_step [OF assms(1)] assms(2) show ?thesis by (metis outcome.inject(1))
next
  case (XSystemTransaction origin tx)
  with assms(2) obtain r where run: "send_mn_system_transaction api cfg origin tx s = Returns (s', r)"
    by auto
  show ?thesis
  proof (cases r)
    case (Inl e)
    with run have "s' = s" by (auto elim: send_mn_system_transaction_Returns)
    with run Inl assms(1) XSystemTransaction show ?thesis
      by (auto simp: send_mn_system_transaction_def send_mn_system_transaction_body_def
          with_storage_layer_Inl_iff mut_ledger_state_def get_ledger_state_key_def apply_system_closure_def
          split: if_splits sum.splits prod.splits)
  next
    case (Inr u)
    with run show ?thesis
      using assms(1) XSystemTransaction by (auto elim: send_mn_system_transaction_Returns)
  qed
next
  case (XSetWeight origin w)
  then show ?thesis
    using assms by (auto simp: fst_set_tx_size_weight)
qed

lemma apply_extrinsics_step:
  assumes "state_key s = Some key" and "apply_extrinsics api cfg xs s = Returns s'"
  shows "same_block s s' \<and> network_id s' = network_id s \<and>
    state_key s' = Some (fold (abs_extrinsic api cfg (get_block_context s)) xs key)"
  using assms
proof (induction xs arbitrary: s key)
  case (Cons x xs)
  then obtain t where first: "apply_extrinsic api cfg x s = Returns t"
    and rest: "apply_extrinsics api cfg xs t = Returns s'" by auto
  from apply_extrinsic_step [OF Cons.prems(1) first]
  have t: "same_block s t" "network_id t = network_id s"
    "state_key t = Some (abs_extrinsic api cfg (get_block_context s) x key)" by auto
  with Cons.IH [OF t(3) rest] show ?case
    by (auto simp: same_block_context intro: same_block_trans)
qed simp

lemma host_in_boundsD: "host_in_bounds api \<Longrightarrow> host_roots_fit api"
  by (simp add: host_in_bounds_def)

lemma system_transaction_returns:
  assumes "host_roots_fit api" and "state_key s \<noteq> None"
  shows "\<exists>s' r. send_mn_system_transaction api cfg origin tx s = Returns (s', r)"
proof (cases "send_mn_system_transaction_body api cfg origin tx s")
  case (Returns p)
  obtain t r where "with_storage_layer (\<lambda>_. p) s = (t, r)" by (cases "with_storage_layer (\<lambda>_. p) s")
  with Returns show ?thesis by (simp add: send_mn_system_transaction_def)
next
  case (Panics msg)
  with assms show ?thesis
    by (auto simp: send_mn_system_transaction_body_def mut_ledger_state_def get_ledger_state_key_def
        apply_system_closure_def host_roots_fit_def bounded_vec_try_from_def
        split: sum.splits if_splits prod.splits)
qed

lemma executor_never_aborts:
  assumes "host_roots_fit api" and "state_key s \<noteq> None" and "executor_dispatch api cfg tx s = (s', Inl e)"
  shows "e \<noteq> SystemAborted msg"
  using assms
  by (auto simp: executor_dispatch_def execute_system_transaction_def mut_ledger_state_def
      get_ledger_state_key_def apply_system_closure_def host_roots_fit_def bounded_vec_try_from_def
      split: sum.splits if_splits prod.splits)

lemma apply_extrinsic_returns:
  assumes "host_in_bounds api" and "state_key s \<noteq> None"
  shows "\<exists>s'. apply_extrinsic api cfg x s = Returns s'"
proof (cases x)
  case (XSystemTransaction origin tx)
  with system_transaction_returns [OF host_in_boundsD [OF assms(1)] assms(2), of cfg origin tx] show ?thesis by auto
qed (auto split: sum.splits)

lemma apply_extrinsics_returns:
  assumes "host_in_bounds api" and "state_key s \<noteq> None"
  shows "\<exists>s'. apply_extrinsics api cfg xs s = Returns s'"
  using assms(2)
proof (induction xs arbitrary: s)
  case (Cons x xs)
  then obtain t where t: "apply_extrinsic api cfg x s = Returns t"
    using apply_extrinsic_returns [OF assms(1)] by blast
  obtain key where "state_key s = Some key" using Cons.prems by auto
  with apply_extrinsic_step [OF this t] have "state_key t \<noteq> None" by simp
  with Cons.IH t show ?case by auto
qed simp

lemma block_start_simps [simp]:
  "state_key ((fst (mn_on_initialize (s\<lparr> parent_hash := p \<rparr>)))\<lparr> now_ms := t \<rparr>) = state_key s"
  "network_id ((fst (mn_on_initialize (s\<lparr> parent_hash := p \<rparr>)))\<lparr> now_ms := t \<rparr>) = network_id s"
  "get_block_context ((fst (mn_on_initialize (s\<lparr> parent_hash := p \<rparr>)))\<lparr> now_ms := t \<rparr>) = abs_context t p (now_ms s)"
  by (simp_all add: mn_on_initialize_def get_block_context_def abs_context_def)

lemma execute_block_key:
  assumes "state_key s = Some key" and "execute_block api cfg time parent xs s = Returns s'"
  shows "\<exists>root. api_post_block_update api
      (fold (abs_extrinsic api cfg (abs_context time parent (now_ms s))) xs key)
      (abs_context time parent (now_ms s)) = Inr root \<and>
    state_key s' = Some root \<and> length root \<le> state_key_length \<and> network_id s' = network_id s"
proof -
  let ?s0 = "(fst (mn_on_initialize (s\<lparr> parent_hash := parent \<rparr>)))\<lparr> now_ms := time \<rparr>"
  from assms(2) obtain t where t: "apply_extrinsics api cfg xs ?s0 = Returns t"
    and fin: "mn_on_finalize api t = Returns s'" by (auto simp: execute_block_def)
  have "state_key ?s0 = Some key" using assms(1) by simp
  from apply_extrinsics_step [OF this t] fin show ?thesis
    by (auto simp: mn_on_finalize_def dest!: same_block_context)
qed

lemma execute_block_returns:
  assumes "host_in_bounds api" and "state_key s \<noteq> None"
  shows "\<exists>s'. execute_block api cfg time parent xs s = Returns s' \<and> state_key s' \<noteq> None"
proof -
  let ?s0 = "(fst (mn_on_initialize (s\<lparr> parent_hash := parent \<rparr>)))\<lparr> now_ms := time \<rparr>"
  have s0: "state_key ?s0 \<noteq> None" using assms(2) by simp
  then obtain key where key: "state_key ?s0 = Some key" by blast
  obtain t where t: "apply_extrinsics api cfg xs ?s0 = Returns t"
    using apply_extrinsics_returns [OF assms(1) s0] by blast
  from apply_extrinsics_step [OF key t] obtain k where "state_key t = Some k" by auto
  moreover obtain r where "api_post_block_update api k (get_block_context t) = Inr r" "length r \<le> state_key_length"
    using assms(1) unfolding host_in_bounds_def by blast
  ultimately show ?thesis using t by (simp add: execute_block_def mn_on_finalize_def)
qed

lemma applied_events_shape:
  "\<exists>evs done hash spent created. applied_events a = evs @ [done] \<and>
     done \<in> {TxApplied hash, TxPartialSuccess hash} \<and>
     list_all (\<lambda>ev. \<not> is_completion ev \<and>
       (event_tx_hash ev = Some hash \<or> ev = UnshieldedTokens spent created)) evs \<and>
     length (filter (\<lambda>ev. event_tx_hash ev = None) evs) \<le> 1"
  by (rule exI [of _ "butlast (applied_events a)"], rule exI [of _ "last (applied_events a)"],
      rule exI [of _ "ta_tx_hash a"], rule exI [of _ "ta_unshielded_spent a"],
      rule exI [of _ "ta_unshielded_created a"])
    (auto simp: applied_events_def butlast_append list_all_iff filter_map comp_def)

lemma min_sum_bound: "n \<le> a + b \<Longrightarrow> n \<le> m \<Longrightarrow> n \<le> min (min a m + min b m) (m :: nat)"
  by (auto simp: min_def)

lemma demo_host: "host_in_bounds demo_api"
  by (auto simp: host_in_bounds_def host_roots_fit_def demo_api_def state_key_length_def)

lemma demo_genesis: "initialize_state [2] [1] mn_empty = Returns demo_genesis_state"
  by (simp add: initialize_state_def demo_genesis_state_def put_state_key_def bounded_vec_try_from_def
      state_key_length_def max_network_id_length_def)

section \<open>Properties\<close>

text \<open>
  C17: the chain is a ledger.  Executing a block moves the stored ledger key exactly as the
  abstract block does: each accepted transaction and each permitted system transaction is
  applied once, in order, under the one context of the block, everything else leaves the key
  alone, and the block is closed by one post block update.
\<close>
theorem block_refines_ledger:
  assumes "state_key s = Some key" and "execute_block api cfg time parent xs s = Returns s'"
  shows "map_option Inr (state_key s') =
    Some (api_post_block_update api
      (fold (abs_extrinsic api cfg (abs_context time parent (now_ms s))) xs key)
      (abs_context time parent (now_ms s)))"
  using execute_block_key [OF assms] by auto

theorem block_refines_ledger_witness:
  "\<exists>s'. execute_block demo_api demo_config 12000 [3]
      [XTransaction [9], XSystemTransaction (Root :: (nat, nat) raw_origin) [8], XTransaction []]
      demo_genesis_state = Returns s' \<and> state_key s' = Some [255, 8, 9, 1]"
proof -
  have "state_key demo_genesis_state \<noteq> None" by (simp add: demo_genesis_state_def)
  from execute_block_returns [OF demo_host this] obtain s' where
    run: "execute_block demo_api demo_config 12000 [3]
      [XTransaction [9], XSystemTransaction (Root :: (nat, nat) raw_origin) [8], XTransaction []]
      demo_genesis_state = Returns s'" by blast
  have key: "state_key demo_genesis_state = Some [1]" by (simp add: demo_genesis_state_def)
  from block_refines_ledger [OF key run] run show ?thesis
    by (auto simp: demo_api_def state_key_length_def)
qed

text \<open>
  The chain never halts.  Started from a genesis state that \<^verbatim>\<open>initialize_state\<close> accepted, and
  with a ledger whose keys fit their bound and whose post block update succeeds, every sequence
  of blocks executes without a panic, whatever extrinsics they hold.
\<close>
theorem chain_never_halts:
  assumes "host_in_bounds api" and "initialize_state network genesis_key s0 = Returns s"
  shows "\<exists>s'. run_blocks api cfg bs s = Returns s' \<and> state_key s' \<noteq> None"
proof -
  have "state_key s \<noteq> None" using assms(2) by (auto simp: initialize_state_def)
  then show ?thesis
  proof (induction bs arbitrary: s)
    case (Cons b bs)
    obtain time parent xs where b: "b = (time, parent, xs)" by (cases b)
    obtain t where "execute_block api cfg time parent xs s = Returns t" "state_key t \<noteq> None"
      using execute_block_returns [OF assms(1) Cons.prems] by blast
    with Cons.IH [of t] b show ?case by simp
  qed simp
qed

theorem chain_never_halts_witness:
  "\<exists>s'. run_blocks demo_api demo_config [(6000, [], [XTransaction [4] :: (nat, nat) mn_extrinsic]), (12000, [], [])]
     demo_genesis_state = Returns s' \<and> state_key s' \<noteq> None"
proof -
  show ?thesis by (rule chain_never_halts [OF demo_host demo_genesis])
qed



text \<open>
  What a user transaction leaves behind.  A rejected transaction changes nothing.  An
  accepted one adds events that all carry its hash, or are its unshielded transfers, and exactly
  one completion event, the last.
\<close>
theorem transaction_event_trail:
  "case send_mn_transaction api cfg origin tx s of
     (s', Inl e) \<Rightarrow> s' = s
   | (s', Inr _) \<Rightarrow> \<exists>evs done hash spent created. mn_events s' = mn_events s @ evs @ [done] \<and>
       done \<in> {TxApplied hash, TxPartialSuccess hash} \<and>
       list_all (\<lambda>ev. \<not> is_completion ev \<and>
         (event_tx_hash ev = Some hash \<or> ev = UnshieldedTokens spent created)) evs \<and>
       length (filter (\<lambda>ev. event_tx_hash ev = None) evs) \<le> 1"
proof (cases "send_mn_transaction api cfg origin tx s")
  case (Pair s' r)
  show ?thesis
  proof (cases r)
    case (Inl e)
    with Pair show ?thesis by (auto dest: send_tx.rollback)
  next
    case (Inr u)
    with Pair obtain a where ev: "mn_events s' = mn_events s @ applied_events a"
      by (auto elim: send_mn_transaction_okE)
    with applied_events_shape [of a] Pair Inr show ?thesis by fastforce
  qed
qed

text \<open>
  C19: the ledger is changed by governance only with a permitted system transaction: a call of
  \<^verbatim>\<open>send_mn_system_transaction\<close> that changes anything had the root origin and a transaction the
  ledger allows to governance, and it recorded that transaction in an event.
\<close>
theorem governance_system_transaction_only:
  assumes "send_mn_system_transaction api cfg origin tx s = Returns (s', r)" and "s' \<noteq> s"
  shows "origin = Root \<and> api_is_governance_allowed_system_tx api tx \<and> r = Inr () \<and>
    (\<exists>hash. mn_events s' = mn_events s @ [SystemTransactionApplied hash tx])"
  using assms by (auto elim!: send_mn_system_transaction_Returns)

theorem governance_system_transaction_only_witness:
  "\<exists>s' r. send_mn_system_transaction demo_api demo_config (Root :: (nat, nat) raw_origin) [8] demo_genesis_state = Returns (s', r) \<and>
     mn_events s' = [SystemTransactionApplied [8] [8]]"
proof -
  obtain s' r where run: "send_mn_system_transaction demo_api demo_config (Root :: (nat, nat) raw_origin) [8] demo_genesis_state = Returns (s', r)"
    using system_transaction_returns
      [OF host_in_boundsD [OF demo_host], of demo_genesis_state demo_config "Root :: (nat, nat) raw_origin" "[8]"]
    by (auto simp: demo_genesis_state_def)
  then have ev: "mn_events s' = [SystemTransactionApplied [8] [8]]" and "mn_events demo_genesis_state = []"
    by (auto elim!: send_mn_system_transaction_Returns
        simp: demo_genesis_state_def mn_empty_def demo_api_def send_mn_system_transaction_def
          send_mn_system_transaction_body_def mut_ledger_state_def get_ledger_state_key_def
          apply_system_closure_def with_storage_layer_def bounded_vec_try_from_def state_key_length_def)
  then have "s' \<noteq> demo_genesis_state" by auto
  from governance_system_transaction_only [OF run this] run ev show ?thesis by auto
qed

text \<open>
  The time the pool validates a transaction at is late enough.  If the slot duration is a
  whole number of seconds, the block time the pool assumes is not before the time of any block
  that is produced within \<^verbatim>\<open>MaxSkippedSlots + 1\<close> slots of the last one, so the pool does not refuse
  a transaction as coming from the future that such a block would accept.
\<close>
theorem pool_time_covers_next_blocks:
  assumes "unat (slot_duration cfg) mod 1000 = 0"
    and "unat time \<le> unat (now_ms s) + unat (slot_duration cfg) * (unat (max_skipped_slots s) + 1)"
  shows "time div 1000 \<le> tblock (pool_block_context cfg s)"
proof -
  let ?d = "unat (slot_duration cfg) div 1000" and ?k = "unat (max_skipped_slots s)"
  have d: "unat (slot_duration cfg) = 1000 * ?d"
    using assms(1) mult_div_mod_eq [of 1000 "unat (slot_duration cfg)"] by linarith
  have k: "unat (ucast (max_skipped_slots s) :: u64) = ?k"
    using unat_bound [of "max_skipped_slots s"] by (simp add: unsigned_ucast_eq take_bit_nat_eq_self)
  have "unat time div 1000 \<le> (unat (now_ms s) + 1000 * (?d * (?k + 1))) div 1000"
    using assms(2) by (intro div_le_mono) (metis d mult.assoc)
  also have "\<dots> = unat (now_ms s) div 1000 + ?d + ?d * ?k" by (simp add: algebra_simps)
  finally have goal: "unat (time div 1000) \<le> unat (now_ms s) div 1000 + ?d + ?d * ?k"
    by (simp add: unat_div)
  have lt: "unat (time div 1000) < 2 ^ LENGTH(64)" by (rule unat_bound)
  have "unat (tblock (pool_block_context cfg s)) =
      min (min (unat (now_ms s) div 1000 + ?d) (2 ^ 64 - 1) + min (?d * ?k) (2 ^ 64 - 1)) (2 ^ 64 - 1)"
    by (simp add: pool_block_context_def get_block_context_def Let_def unat_saturating_add
        unat_saturating_mul unat_div k)
  moreover have "\<dots> \<ge> unat (time div 1000)" using goal lt by (intro min_sum_bound) simp_all
  ultimately show ?thesis by (simp add: word_le_nat_alt)
qed

theorem pool_time_covers_next_blocks_witness:
  "(18000 :: u64) div 1000 \<le> tblock (pool_block_context demo_config (demo_genesis_state\<lparr> now_ms := 6000 \<rparr>))"
  by (rule pool_time_covers_next_blocks) (simp_all add: demo_config_def demo_genesis_state_def mn_empty_def)

text \<open>
  C20: a pool rejection names its cause.  When \<^verbatim>\<open>validate_unsigned\<close> refuses a Midnight transaction
  with the code of a ledger error other than the error with code 0, the ledger returned exactly
  that error.  Code 0 is not covered: it is also the code of a missing ledger state.
\<close>
theorem pool_rejection_names_ledger_error:
  assumes "validate_unsigned api cfg (SendMnTransaction tx) s = Inl (InvalidCustom (ledger_api_error_code e))"
    and "e \<noteq> LDeserialization De_NetworkId"
  shows "\<exists>key. state_key s = Some key \<and>
    api_validate_transaction api key tx (pool_block_context cfg s) (spec_version cfg) (max_block_ref_time cfg) = Inl e"
proof -
  have "ledger_api_error_code e \<noteq> 0"
    using assms(2) ledger_api_error_code_eqD [of e "LDeserialization De_NetworkId"] by auto
  with assms(1) obtain key d where "state_key s = Some key"
    and "api_validate_transaction api key tx (pool_block_context cfg s) (spec_version cfg) (max_block_ref_time cfg) = Inl d"
    and "ledger_api_error_code e = ledger_api_error_code d"
    by (fastforce simp: validate_unsigned_def validate_unsigned_at_def and_then_Inl_iff map_err_Inl_iff
        invalid_transaction_def)
  with ledger_api_error_code_eqD [of e d] show ?thesis by simp
qed

theorem pool_rejection_names_ledger_error_witness:
  "\<exists>key. state_key demo_genesis_state = Some key \<and>
    api_validate_transaction demo_api key [] (pool_block_context demo_config demo_genesis_state)
      (spec_version demo_config) (max_block_ref_time demo_config) = Inl (LDeserialization De_Transaction)"
  by (rule pool_rejection_names_ledger_error)
    (simp_all add: validate_unsigned_def validate_unsigned_at_def demo_genesis_state_def demo_api_def invalid_transaction_def)

end
