(* ===== verification/Ledger_Host.thy ===== *)
theory Ledger_Host
  imports Bridge_Properties Bridge_Queries Midnight_Pallet
begin

text \<open>
  The host functions of the current ledger version, \<^verbatim>\<open>ledger/src/host_api/ledger_8.rs\<close>, as the
  \<^verbatim>\<open>LedgerApi\<close> of the pallets, and the execution of blocks by the pallets over the bridge: the
  storage of the chain and the state of the bridge change together.
\<close>

section \<open>Host functions\<close>

text \<open>
  The results of the host functions in a state of the bridge.  A panic of a host function stops the
  block; both callers stop the block on an error as well, so it is given as an error here.
\<close>

definition panic_as_error :: "(ledger_api_error, 'a) result outcome \<Rightarrow> (ledger_api_error, 'a) result" where
  "panic_as_error r = (case r of Returns q \<Rightarrow> q | Panics _ \<Rightarrow> Inl LHostApiError)"

definition ledger8_host ::
  "('st, 'std, 'vt, 'sys, 'key, 'fp::linorder) ledger_lib \<Rightarrow> ('std, 'intent, 'spend, 'addr, 'deploy, 'tid) tx_lib \<Rightarrow>
   ('st, 'qaddr, 'cs, 'zs, 'digest, 'params) query_lib \<Rightarrow> override_env \<Rightarrow> ('st, 'vt, 'key) bridge \<Rightarrow> ledger_api" where
  "ledger8_host lib txl ql env b = \<lparr>
     api_apply_transaction = (\<lambda>key tx ctx v. snd (apply_transaction lib txl env True key tx ctx v b)),
     api_apply_system_transaction = (\<lambda>key tx ctx v. snd (apply_system_transaction lib key tx ctx b)),
     api_validate_transaction = (\<lambda>key tx ctx v w. map_ok fst (snd (validate_transaction lib txl key tx ctx v w False b))),
     api_validate_guaranteed_execution = (\<lambda>key tx ctx v. snd (validate_guaranteed_execution lib key tx ctx v b)),
     api_post_block_update = (\<lambda>key ctx. panic_as_error (outcome_bind (post_block_update lib key ctx b) (\<lambda>(b', r). Returns r))),
     api_get_transaction_cost = (\<lambda>key tx ctx w. bridge_transaction_cost lib key tx w b),
     api_is_governance_allowed_system_tx = is_governance_allowed_system_tx lib,
     api_get_contract_state = (\<lambda>key a. bridge_contract_state lib ql key a b),
     api_get_zswap_chain_state = (\<lambda>key a. bridge_zswap_chain_state lib ql key a b),
     api_get_unclaimed_amount = (\<lambda>key a. bridge_unclaimed_amount lib ql key a b),
     api_get_ledger_parameters = (\<lambda>key. bridge_ledger_parameters lib ql key b),
     api_get_zswap_state_root = (\<lambda>key. panic_as_error (bridge_zswap_state_root lib ql key b)),
     api_get_ledger_state_root = (\<lambda>key. bridge_ledger_state_root lib ql key b) \<rparr>"

section \<open>Blocks over the bridge\<close>

definition bridge_after_pre_dispatch ::
  "('st, 'std, 'vt, 'sys, 'key, 'fp) ledger_lib \<Rightarrow> mn_config \<Rightarrow> bytes \<Rightarrow> mn_state \<Rightarrow> ('st, 'vt, 'key) bridge \<Rightarrow>
   ('st, 'vt, 'key) bridge" where
  "bridge_after_pre_dispatch lib cfg tx s b =
     (case state_key s of
        None \<Rightarrow> b
      | Some key \<Rightarrow> fst (validate_guaranteed_execution lib key tx (get_block_context s) (spec_version cfg) b))"

definition bridge_after_send ::
  "('st, 'std, 'vt, 'sys, 'key, 'fp) ledger_lib \<Rightarrow> ('std, 'intent, 'spend, 'addr, 'deploy, 'tid) tx_lib \<Rightarrow>
   override_env \<Rightarrow> mn_config \<Rightarrow> bytes \<Rightarrow> mn_state \<Rightarrow> ('st, 'vt, 'key) bridge \<Rightarrow> ('st, 'vt, 'key) bridge" where
  "bridge_after_send lib txl env cfg tx s b =
     (case state_key s of
        None \<Rightarrow> b
      | Some key \<Rightarrow> fst (apply_transaction lib txl env True key tx (get_block_context s) (spec_version cfg) b))"

definition bridge_after_system ::
  "('st, 'std, 'vt, 'sys, 'key, 'fp) ledger_lib \<Rightarrow> ('acc, 'o) raw_origin \<Rightarrow> bytes \<Rightarrow> mn_state \<Rightarrow>
   ('st, 'vt, 'key) bridge \<Rightarrow> ('st, 'vt, 'key) bridge" where
  "bridge_after_system lib origin tx s b =
     (case state_key s of
        None \<Rightarrow> b
      | Some key \<Rightarrow>
          if origin = Root \<and> is_governance_allowed_system_tx lib tx
          then fst (apply_system_transaction lib key tx (get_block_context s) b) else b)"

fun node_extrinsic ::
  "('st, 'std, 'vt, 'sys, 'key, 'fp::linorder) ledger_lib \<Rightarrow> ('std, 'intent, 'spend, 'addr, 'deploy, 'tid) tx_lib \<Rightarrow>
   ('st, 'qaddr, 'cs, 'zs, 'digest, 'params) query_lib \<Rightarrow> override_env \<Rightarrow> mn_config \<Rightarrow>
   ('acc, 'o) mn_extrinsic \<Rightarrow> mn_state \<times> ('st, 'vt, 'key) bridge \<Rightarrow>
   (mn_state \<times> ('st, 'vt, 'key) bridge) outcome" where
  "node_extrinsic lib txl ql env cfg (XTransaction tx) (s, b) =
     (let b1 = bridge_after_pre_dispatch lib cfg tx s b in
      case pre_dispatch (ledger8_host lib txl ql env b) cfg (SendMnTransaction tx) s of
        Inl _ \<Rightarrow> Returns (s, b1)
      | Inr _ \<Rightarrow> Returns (fst (send_mn_transaction (ledger8_host lib txl ql env b1) cfg (NoneOrigin :: (unit, unit) raw_origin) tx s),
          bridge_after_send lib txl env cfg tx s b1))"
| "node_extrinsic lib txl ql env cfg (XSystemTransaction origin tx) (s, b) =
     outcome_bind (send_mn_system_transaction (ledger8_host lib txl ql env b) cfg origin tx s) (\<lambda>r.
     Returns (fst r, bridge_after_system lib origin tx s b))"
| "node_extrinsic lib txl ql env cfg (XSetWeight origin w) (s, b) = Returns (fst (set_tx_size_weight origin w s), b)"

fun node_extrinsics ::
  "('st, 'std, 'vt, 'sys, 'key, 'fp::linorder) ledger_lib \<Rightarrow> ('std, 'intent, 'spend, 'addr, 'deploy, 'tid) tx_lib \<Rightarrow>
   ('st, 'qaddr, 'cs, 'zs, 'digest, 'params) query_lib \<Rightarrow> override_env \<Rightarrow> mn_config \<Rightarrow>
   ('acc, 'o) mn_extrinsic list \<Rightarrow> mn_state \<times> ('st, 'vt, 'key) bridge \<Rightarrow>
   (mn_state \<times> ('st, 'vt, 'key) bridge) outcome" where
  "node_extrinsics lib txl ql env cfg [] n = Returns n"
| "node_extrinsics lib txl ql env cfg (x # xs) n =
     outcome_bind (node_extrinsic lib txl ql env cfg x n) (node_extrinsics lib txl ql env cfg xs)"

definition node_finalize ::
  "('st, 'std, 'vt, 'sys, 'key, 'fp::linorder) ledger_lib \<Rightarrow> ('std, 'intent, 'spend, 'addr, 'deploy, 'tid) tx_lib \<Rightarrow>
   ('st, 'qaddr, 'cs, 'zs, 'digest, 'params) query_lib \<Rightarrow> override_env \<Rightarrow>
   mn_state \<times> ('st, 'vt, 'key) bridge \<Rightarrow> (mn_state \<times> ('st, 'vt, 'key) bridge) outcome" where
  "node_finalize lib txl ql env n =
     (case n of (s, b) \<Rightarrow>
        outcome_bind (mn_on_finalize (ledger8_host lib txl ql env b) s) (\<lambda>s'.
        case state_key s of
          None \<Rightarrow> Returns (s', b)
        | Some key \<Rightarrow> outcome_bind (post_block_update lib key (get_block_context s) b) (\<lambda>(b', r). Returns (s', b'))))"

definition node_block ::
  "('st, 'std, 'vt, 'sys, 'key, 'fp::linorder) ledger_lib \<Rightarrow> ('std, 'intent, 'spend, 'addr, 'deploy, 'tid) tx_lib \<Rightarrow>
   ('st, 'qaddr, 'cs, 'zs, 'digest, 'params) query_lib \<Rightarrow> override_env \<Rightarrow> mn_config \<Rightarrow>
   u64 \<times> bytes \<times> ('acc, 'o) mn_extrinsic list \<Rightarrow> mn_state \<times> ('st, 'vt, 'key) bridge \<Rightarrow>
   (mn_state \<times> ('st, 'vt, 'key) bridge) outcome" where
  "node_block lib txl ql env cfg blk n =
     (case (blk, n) of ((time, parent, xs), (s, b)) \<Rightarrow>
        outcome_bind (node_extrinsics lib txl ql env cfg xs
            ((fst (mn_on_initialize (s\<lparr> parent_hash := parent \<rparr>)))\<lparr> now_ms := time \<rparr>, b))
          (node_finalize lib txl ql env))"

fun node_blocks ::
  "('st, 'std, 'vt, 'sys, 'key, 'fp::linorder) ledger_lib \<Rightarrow> ('std, 'intent, 'spend, 'addr, 'deploy, 'tid) tx_lib \<Rightarrow>
   ('st, 'qaddr, 'cs, 'zs, 'digest, 'params) query_lib \<Rightarrow> override_env \<Rightarrow> mn_config \<Rightarrow>
   (u64 \<times> bytes \<times> ('acc, 'o) mn_extrinsic list) list \<Rightarrow> mn_state \<times> ('st, 'vt, 'key) bridge \<Rightarrow>
   (mn_state \<times> ('st, 'vt, 'key) bridge) outcome" where
  "node_blocks lib txl ql env cfg [] n = Returns n"
| "node_blocks lib txl ql env cfg (blk # bs) n =
     outcome_bind (node_block lib txl ql env cfg blk n) (node_blocks lib txl ql env cfg bs)"

text \<open>
  What the chain promises on the ledgers themselves.  A transaction is applied with a verified
  transaction of its cache key; it is left out only if it cannot be verified, or if some verified
  transaction of its cache key is not accepted.  A system transaction is applied if it comes from
  governance, overwrites parameters and the library accepts it, and left out otherwise.
\<close>

definition tx_accepted ::
  "('st, 'std, 'vt, 'sys, 'key, 'fp) ledger_lib \<Rightarrow> ('std, 'intent, 'spend, 'addr, 'deploy, 'tid) tx_lib \<Rightarrow>
   block_context \<Rightarrow> 'st ledger \<Rightarrow> 'std inner_tx \<Rightarrow> 'vt \<Rightarrow> bool" where
  "tx_accepted lib txl ctx l tx vt \<longleftrightarrow>
     (\<exists>c new stage p. get_transaction_context l ctx = Inr c \<and> apply_verified_transaction lib l tx vt c = Inr (new, stage) \<and>
        check_utxos_response_integrity (fcard (state_utxos lib (l_state l))) (state_utxos lib (l_state new))
          (remaining_utxos stage (unshielded_utxos txl tx)) = Inr p)"

definition tx_acceptable ::
  "('st, 'std, 'vt, 'sys, 'key, 'fp) ledger_lib \<Rightarrow> ('std, 'intent, 'spend, 'addr, 'deploy, 'tid) tx_lib \<Rightarrow>
   u32 \<Rightarrow> block_context \<Rightarrow> bytes \<Rightarrow> 'st ledger \<Rightarrow> bool" where
  "tx_acceptable lib txl v ctx bs l \<longleftrightarrow>
     (\<exists>tx. deserialize_tx lib bs = Some tx \<and> is_ok (verify_transaction lib l tx ctx) \<and>
        (\<forall>vt. verified_entry lib (state_hash lib (l_state l)) (tx_validation_cache_key lib v bs) vt \<longrightarrow>
           tx_accepted lib txl ctx l tx vt))"

inductive ledger_step ::
  "('st, 'std, 'vt, 'sys, 'key, 'fp) ledger_lib \<Rightarrow> ('std, 'intent, 'spend, 'addr, 'deploy, 'tid) tx_lib \<Rightarrow>
   u32 \<Rightarrow> block_context \<Rightarrow> ('acc, 'o) mn_extrinsic \<Rightarrow> 'st ledger \<Rightarrow> 'st ledger \<Rightarrow> bool"
  for lib txl v ctx where
  transaction_step: "\<lbrakk> verified_entry lib (state_hash lib (l_state l)) (tx_validation_cache_key lib v bs) vt;
      deserialize_tx lib bs = Some tx; get_transaction_context l ctx = Inr c;
      apply_verified_transaction lib l tx vt c = Inr (l', stage) \<rbrakk> \<Longrightarrow> ledger_step lib txl v ctx (XTransaction bs) l l'"
| transaction_skipped: "\<not> tx_acceptable lib txl v ctx bs l \<Longrightarrow> ledger_step lib txl v ctx (XTransaction bs) l l"
| system_step: "\<lbrakk> deserialize_system_tx lib bs = Some tx; system_kind lib tx = OverwriteParameters;
      ledger_apply_system_tx lib l tx (tblock ctx) = Inr l' \<rbrakk> \<Longrightarrow> ledger_step lib txl v ctx (XSystemTransaction Root bs) l l'"
| system_skipped: "\<lbrakk> \<And>tx l'. \<lbrakk> origin = Root; deserialize_system_tx lib bs = Some tx; system_kind lib tx = OverwriteParameters \<rbrakk> \<Longrightarrow>
        ledger_apply_system_tx lib l tx (tblock ctx) \<noteq> Inr l' \<rbrakk> \<Longrightarrow>
      ledger_step lib txl v ctx (XSystemTransaction origin bs) l l"
| weight_step: "ledger_step lib txl v ctx (XSetWeight origin w) l l"

inductive ledger_run ::
  "('st, 'std, 'vt, 'sys, 'key, 'fp) ledger_lib \<Rightarrow> ('std, 'intent, 'spend, 'addr, 'deploy, 'tid) tx_lib \<Rightarrow>
   u32 \<Rightarrow> block_context \<Rightarrow> ('acc, 'o) mn_extrinsic list \<Rightarrow> 'st ledger \<Rightarrow> 'st ledger \<Rightarrow> bool"
  for lib txl v ctx where
  run_done: "ledger_run lib txl v ctx [] l l"
| run_step: "ledger_step lib txl v ctx x l l' \<Longrightarrow> ledger_run lib txl v ctx xs l' l'' \<Longrightarrow> ledger_run lib txl v ctx (x # xs) l l''"

definition ledger_closed ::
  "('st, 'std, 'vt, 'sys, 'key, 'fp::linorder) ledger_lib \<Rightarrow> block_context \<Rightarrow> 'st ledger \<Rightarrow> 'st ledger \<Rightarrow> bool" where
  "ledger_closed lib ctx l l' \<longleftrightarrow> (\<exists>n st.
     clamp_and_normalize (cost_normalize lib) (l_block_fullness l) (block_limits lib (l_state l)) = Returns n \<and>
     state_post_block_update lib (l_state l) (tblock ctx) n (compute_overall_fullness n) = Some st \<and> l' = ledger_new st)"

text \<open>
  What is asked of the ledger library: keys survive serialization and fit their bound, costs within
  the limits can be normalized, a block can be closed with any normalized fullness, and addresses
  can be serialized.
\<close>

definition ledger_lib_ok ::
  "('st, 'std, 'vt, 'sys, 'key, 'fp) ledger_lib \<Rightarrow> ('std, 'intent, 'spend, 'addr, 'deploy, 'tid) tx_lib \<Rightarrow> bool" where
  "ledger_lib_ok lib txl \<longleftrightarrow> key_roundtrip lib \<and> normalize_within_limits (cost_normalize lib) \<and>
     (\<forall>k. \<exists>bs. serialize_key lib k = Some bs \<and> length bs \<le> state_key_length) \<and>
     (\<forall>st time n f. state_post_block_update lib st time n f \<noteq> None) \<and> (\<forall>a. serialize_address txl a \<noteq> None)"

definition node_loads ::
  "('st, 'std, 'vt, 'sys, 'key, 'fp) ledger_lib \<Rightarrow> mn_state \<times> ('st, 'vt, 'key) bridge \<Rightarrow> 'st ledger \<Rightarrow> bool" where
  "node_loads lib n l \<longleftrightarrow> (\<exists>key. state_key (fst n) = Some key \<and> get_ledger lib key (snd n) = Inr l) \<and> cache_inv lib (snd n)"

text \<open>
  A small library that meets these demands: states are counted, the key of a ledger is the count.
\<close>

definition demo_node_lib ::
  "(byte, (segment_id \<times> nat) list, (segment_id \<times> nat) list inner_tx, bytes, byte, nat) ledger_lib" where
  "demo_node_lib = \<lparr>
     deserialize_tx = (\<lambda>bs. if bs = [] then None else Some (TxStandard (map (\<lambda>x. (ucast x, 0)) bs))),
     deserialize_system_tx = Some,
     deserialize_key = (\<lambda>bs. case bs of [k] \<Rightarrow> Some k | _ \<Rightarrow> None),
     serialize_key = (\<lambda>k. Some [k]),
     typed_key = l_state, twox128 = (\<lambda>bs. bs), state_hash = (\<lambda>st. [st]),
     state_network_id = (\<lambda>st. ''undeployed''),
     state_utxos = (\<lambda>st. {||}), block_limits = (\<lambda>st. cost_zero), tx_cost = (\<lambda>tx st. Some cost_zero),
     well_formed = (\<lambda>tx st time. Inr tx), state_apply = (\<lambda>st vt c. (st + 1, TrSuccess)),
     state_post_block_update = (\<lambda>st time n f. Some (st + 16)), system_cost = (\<lambda>tx st. cost_zero),
     state_apply_system_tx = (\<lambda>st tx time. Inr (st + 2)), system_transaction_hash = (\<lambda>tx. tx),
     system_kind = (\<lambda>tx. OverwriteParameters), cost_add = (\<lambda>a b. b), cost_normalize = demo_normalize,
     into_atomic_units = (\<lambda>n w. of_nat n) \<rparr>"

definition demo_query_lib :: "(byte, bytes, bytes, bytes, bytes, bytes) query_lib" where
  "demo_query_lib = \<lparr> deserialize_address = Some, contract_at = (\<lambda>st a. None), serialize_contract_state = Some,
     coin_coms = (\<lambda>st. []), coin_coms_filter = (\<lambda>st a. []), serialize_zswap_state = Some, rehash_root = Some,
     serialize_digest = Some, serialize_state_key = (\<lambda>st. Some [st]), unclaimed_block_rewards = (\<lambda>st a. None),
     state_parameters = (\<lambda>st. []), serialize_parameters = Some \<rparr>"

definition demo_chain_bridge :: "(byte, (segment_id \<times> nat) list inner_tx, byte) bridge" where
  "demo_chain_bridge = persist demo_node_lib (ledger_new 5) (fresh_bridge (\<lambda>_. None))"

definition demo_chain_state :: mn_state where
  "demo_chain_state = (put_state_key [5] mn_empty)\<lparr> network_id := Some [2] \<rparr>"

section \<open>Lemmas\<close>

lemma ledger_lib_okD:
  assumes "ledger_lib_ok lib txl"
  shows "key_roundtrip lib" "normalize_within_limits (cost_normalize lib)"
    "serialize_key lib k = Some bs \<Longrightarrow> length bs \<le> state_key_length"
    "\<exists>bs. serialize_key lib k = Some bs" "\<exists>st'. state_post_block_update lib st time n f = Some st'"
    "\<exists>as. serialize_address txl a = Some as"
proof -
  from assms have parts: "key_roundtrip lib" "normalize_within_limits (cost_normalize lib)"
    "\<forall>k. \<exists>bs. serialize_key lib k = Some bs \<and> length bs \<le> state_key_length"
    "\<forall>st time n f. state_post_block_update lib st time n f \<noteq> None" "\<forall>a. serialize_address txl a \<noteq> None"
    by (simp_all add: ledger_lib_ok_def)
  show "key_roundtrip lib" "normalize_within_limits (cost_normalize lib)" by (rule parts)+
  obtain bs' where bs': "serialize_key lib k = Some bs'" "length bs' \<le> state_key_length" using parts(3) by blast
  then show "\<exists>bs. serialize_key lib k = Some bs" by blast
  show "length bs \<le> state_key_length" if "serialize_key lib k = Some bs" using that bs' by simp
  show "\<exists>st'. state_post_block_update lib st time n f = Some st'" using parts(4) by blast
  show "\<exists>as. serialize_address txl a = Some as" using parts(5) by blast
qed

lemma host_simps [simp]:
  "api_apply_transaction (ledger8_host lib txl ql env b) key tx ctx v = snd (apply_transaction lib txl env True key tx ctx v b)"
  "api_apply_system_transaction (ledger8_host lib txl ql env b) key tx ctx v = snd (apply_system_transaction lib key tx ctx b)"
  "api_validate_guaranteed_execution (ledger8_host lib txl ql env b) key tx ctx v =
     snd (validate_guaranteed_execution lib key tx ctx v b)"
  "api_is_governance_allowed_system_tx (ledger8_host lib txl ql env b) = is_governance_allowed_system_tx lib"
  "api_post_block_update (ledger8_host lib txl ql env b) key ctx =
     panic_as_error (outcome_bind (post_block_update lib key ctx b) (\<lambda>(b', r). Returns r))"
  by (simp_all add: ledger8_host_def)

lemma host_fits:
  assumes "ledger_lib_ok lib txl"
  shows "host_roots_fit (ledger8_host lib txl' ql env b)"
  unfolding host_roots_fit_def
proof (intro allI impI)
  fix key tx ctx v r
  assume "api_apply_system_transaction (ledger8_host lib txl' ql env b) key tx ctx v = Inr r"
  then obtain b' where "apply_system_transaction lib key tx ctx b = (b', Inr r)"
    by (cases "apply_system_transaction lib key tx ctx b") simp
  then show "length (sta_state_root r) \<le> state_key_length"
    using ledger_lib_okD(3) [OF assms] by (auto elim!: apply_system_transaction_okE)
qed

lemma node_loadsI:
  "state_key s = Some key \<Longrightarrow> get_ledger lib key b = Inr l \<Longrightarrow> cache_inv lib b \<Longrightarrow> node_loads lib (s, b) l"
  by (simp add: node_loads_def)

lemma get_ledger_arena: "arena b' = arena b \<Longrightarrow> get_ledger lib key b' = get_ledger lib key b"
  by (simp add: get_ledger_def)

subsection \<open>Transactions\<close>

lemma guaranteed_keeps:
  assumes "validate_guaranteed_execution lib key tx ctx v b = (b1, r)" and "cache_inv lib b" "get_ledger lib k b = Inr l"
  shows "cache_inv lib b1" "get_ledger lib k b1 = Inr l"
proof -
  show "get_ledger lib k b1 = Inr l"
    using get_ledger_arena [OF validate_guaranteed_frame [OF assms(1)], of lib k] assms(3) by simp
  from assms(1) show "cache_inv lib b1"
  proof (cases rule: validate_guaranteed_cases)
    case unread
    with assms(2) show ?thesis by simp
  next
    case (read t l' q)
    show ?thesis by (rule do_guaranteed_cache_inv [OF read(3) assms(2) refl read(1)])
  qed
qed

lemma get_verified_accepts:
  assumes "is_ok (verify_transaction lib l tx ctx)"
  shows "\<exists>b' vt. get_verified_transaction lib l tx ctx h b = (b', Inr vt)"
  using assms by (auto simp: is_ok_iff get_verified_transaction_def Let_def split: option.split)

lemma applied_dry_run:
  assumes c: "get_transaction_context l ctx = Inr c" and app: "apply_verified_transaction lib l tx vt c = Inr p"
  shows "dry_run lib l vt ctx = Inr ()"
proof -
  obtain st r where run: "state_apply lib (l_state l) vt c = (st, r)" by (cases "state_apply lib (l_state l) vt c")
  obtain cost where cost: "tx_cost lib tx (l_state l) = Some cost"
    using app by (cases "tx_cost lib tx (l_state l)") (simp_all add: apply_verified_transaction_def)
  from app run cost c show ?thesis by (cases r) (simp_all add: apply_verified_transaction_def dry_run_def)
qed

lemma accepted_dry_run: "tx_accepted lib txl ctx l tx vt \<Longrightarrow> dry_run lib l vt ctx = Inr ()"
  unfolding tx_accepted_def by (elim exE conjE) (rule applied_dry_run)

lemma pushes_succeed:
  assumes "\<And>a. \<exists>as. serialize_address txl a = Some as"
  shows "\<exists>ev'. try_fold (push_operation txl) ops ev = Inr ev'"
proof (induction ops arbitrary: ev)
  case (Cons operation ops)
  have "\<exists>ev'. push_operation txl operation ev = Inr ev'"
  proof (cases operation)
    case (OperationCall a e) then show ?thesis using assms [of a] by (auto simp: tagged_serialize_def)
  next
    case (OperationDeploy a) then show ?thesis using assms [of a] by (auto simp: tagged_serialize_def)
  next
    case (OperationMaintain a) then show ?thesis using assms [of a] by (auto simp: tagged_serialize_def)
  qed simp
  with Cons.IH show ?case by auto
qed simp

lemma applied_event_succeeds:
  assumes "ledger_lib_ok lib txl"
  shows "\<exists>ev. applied_event lib txl new h stage outputs inputs ops = Inr ev"
proof -
  obtain bs where "serialize_key lib (typed_key lib new) = Some bs" using ledger_lib_okD(4) [OF assms] by blast
  then show ?thesis
    using pushes_succeed [OF ledger_lib_okD(6) [OF assms]] by (simp add: applied_event_def tagged_serialize_def)
qed

lemma override_order_returns: "\<exists>b' q. override_order env h outs n ins m b = (b', Inr q)"
  by (cases "get_override env h (cells b)") (simp add: override_order_def)

lemma accepted_apply_and_report:
  assumes ok: "ledger_lib_ok lib txl" and acc: "tx_accepted lib txl ctx l tx vt"
  shows "\<exists>b' ev. apply_and_report lib txl env skip l tx vt ctx b = (b', Inr ev)"
proof -
  obtain c new stage p where acc: "get_transaction_context l ctx = Inr c" "apply_verified_transaction lib l tx vt c = Inr (new, stage)"
    "check_utxos_response_integrity (fcard (state_utxos lib (l_state l))) (state_utxos lib (l_state new))
       (remaining_utxos stage (unshielded_utxos txl tx)) = Inr p"
    using acc unfolding tx_accepted_def by blast
  obtain o1 i1 where p: "p = (o1, i1)" by (cases p)
  let ?u = "remaining_utxos stage (unshielded_utxos txl tx)"
  obtain b1 o2 i2 where ord: "override_order env (transaction_hash txl tx) o1 (length (us_outputs ?u)) i1 (length (us_inputs ?u)) b =
      (b1, Inr (o2, i2))"
    using override_order_returns by (metis surj_pair)
  obtain ev where ev: "applied_event lib txl new (transaction_hash txl tx) stage o2 i2 (reported_operations txl skip stage tx) = Inr ev"
    using applied_event_succeeds [OF ok] by blast
  show ?thesis
    by (simp add: apply_and_report_def st_bind_def st_lift_def acc p ord ev st_modify_def Let_def)
qed

lemma acceptableE:
  assumes "tx_acceptable lib txl v ctx bs l" and "cache_inv lib b"
  obtains tx b' vt where "deserialize_tx lib bs = Some tx"
    "get_verified_transaction lib l tx ctx (tx_validation_cache_key lib v bs) b = (b', Inr vt)"
    "tx_accepted lib txl ctx l tx vt"
proof -
  from assms(1) obtain tx where tx: "deserialize_tx lib bs = Some tx" "is_ok (verify_transaction lib l tx ctx)"
    "\<forall>vt. verified_entry lib (state_hash lib (l_state l)) (tx_validation_cache_key lib v bs) vt \<longrightarrow> tx_accepted lib txl ctx l tx vt"
    unfolding tx_acceptable_def by blast
  obtain b' vt where gv: "get_verified_transaction lib l tx ctx (tx_validation_cache_key lib v bs) b = (b', Inr vt)"
    using get_verified_accepts [OF tx(2)] by blast
  have "verified_entry lib (state_hash lib (l_state l)) (tx_validation_cache_key lib v bs) vt"
    using get_verified_cache_inv [OF gv assms(2) refl tx(1)] by simp
  with tx(3) have "tx_accepted lib txl ctx l tx vt" by blast
  with tx(1) gv show thesis by (rule that)
qed

lemma acceptable_applied:
  assumes "ledger_lib_ok lib txl" "tx_acceptable lib txl v ctx bs l" "cache_inv lib b" "get_ledger lib key b = Inr l"
  shows "\<exists>b' ev. apply_transaction lib txl env skip key bs ctx v b = (b', Inr ev)"
proof -
  let ?b = "b\<lparr> cells := set_network_id (state_network_id lib (l_state l)) (cells b) \<rparr>"
  have "cache_inv lib ?b" using assms(3) by simp
  from acceptableE [OF assms(2) this] obtain tx b1 vt where acc: "deserialize_tx lib bs = Some tx"
    "get_verified_transaction lib l tx ctx (tx_validation_cache_key lib v bs) ?b = (b1, Inr vt)"
    "tx_accepted lib txl ctx l tx vt" .
  obtain b2 ev where "apply_and_report lib txl env skip l tx vt ctx b1 = (b2, Inr ev)"
    using accepted_apply_and_report [OF assms(1) acc(3)] by blast
  with acc(1,2) assms(4) show ?thesis
    by (simp add: apply_transaction_def st_bind_def st_lift_def st_gets_def st_modify_def tagged_deserialize_def)
qed

lemma acceptable_guaranteed:
  assumes "tx_acceptable lib txl v ctx bs l" "cache_inv lib b" "get_ledger lib key b = Inr l"
  shows "\<exists>b'. validate_guaranteed_execution lib key bs ctx v b = (b', Inr ())"
proof -
  let ?b = "b\<lparr> soft_cache := (soft_cache b)(tx_validation_cache_key lib v bs := None) \<rparr>"
  have "cache_inv lib ?b" using assms(2) by (simp add: cache_inv_def)
  from acceptableE [OF assms(1) this] obtain tx b1 vt where acc: "deserialize_tx lib bs = Some tx"
    "get_verified_transaction lib l tx ctx (tx_validation_cache_key lib v bs) ?b = (b1, Inr vt)"
    "tx_accepted lib txl ctx l tx vt" .
  with accepted_dry_run [OF acc(3)] assms(3) show ?thesis
    by (simp add: validate_guaranteed_execution_def do_validate_guaranteed_execution_def st_bind_def st_lift_def
        st_gets_def st_modify_def tagged_deserialize_def Let_def)
qed

lemma apply_transaction_ledger_step:
  assumes run: "apply_transaction lib txl env skip key tx ctx v b = (b2, Inr ev)"
    and ok: "key_roundtrip lib" and l: "get_ledger lib key b = Inr l" and inv: "cache_inv lib b"
  obtains new where "ledger_step lib txl v ctx (XTransaction tx :: ('acc, 'o) mn_extrinsic) l new" "get_ledger lib (ta_state_root ev) b2 = Inr new"
    "serialize_key lib (typed_key lib new) = Some (ta_state_root ev)"
proof (rule apply_transaction_okE [OF run])
  fix t l0 vt b1 lc new stage c c'
  assume step: "deserialize_tx lib tx = Some t" "get_ledger lib key b = Inr l0"
    "get_verified_transaction lib l0 t ctx (tx_validation_cache_key lib v tx) (b\<lparr> cells := c' \<rparr>) = (b1, Inr vt)"
    "get_transaction_context l0 ctx = Inr lc" "apply_verified_transaction lib l0 t vt lc = Inr (new, stage)"
    "b2 = persist lib new (b1\<lparr> cells := c \<rparr>)" "serialize_key lib (typed_key lib new) = Some (ta_state_root ev)"
  have l0: "l0 = l" using step(2) l by simp
  have inv': "cache_inv lib (b\<lparr> cells := c' \<rparr>)" using inv by (simp add: cache_inv_def)
  have "verified_entry lib (state_hash lib (l_state l0)) (tx_validation_cache_key lib v tx) vt"
    using get_verified_cache_inv [OF step(3) inv' refl step(1)] by simp
  from transaction_step [OF this step(1,4,5)] have "ledger_step lib txl v ctx (XTransaction tx :: ('acc, 'o) mn_extrinsic) l new" by (simp only: l0)
  moreover have "get_ledger lib (ta_state_root ev) b2 = Inr new"
    unfolding step(6) by (rule stored_loads [OF ok step(7)])
  ultimately show thesis using step(7) by (rule that)
qed

lemma transaction_extrinsic_step:
  assumes ok: "ledger_lib_ok lib txl" and key: "state_key s = Some key" and l: "get_ledger lib key b = Inr l"
    and inv: "cache_inv lib b"
  shows "\<exists>s' b' l'. node_extrinsic lib txl ql env cfg (XTransaction tx :: ('acc, 'o) mn_extrinsic) (s, b) = Returns (s', b') \<and>
    node_loads lib (s', b') l' \<and> same_block s s' \<and>
    ledger_step lib txl (spec_version cfg) (get_block_context s) (XTransaction tx :: ('acc, 'o) mn_extrinsic) l l'"
proof -
  let ?ctx = "get_block_context s" and ?v = "spec_version cfg"
  obtain b1 r1 where vg: "validate_guaranteed_execution lib key tx ?ctx ?v b = (b1, r1)"
    by (cases "validate_guaranteed_execution lib key tx ?ctx ?v b")
  note kept = guaranteed_keeps [OF vg inv l]
  have b1: "bridge_after_pre_dispatch lib cfg tx s b = b1" using key vg by (simp add: bridge_after_pre_dispatch_def)
  obtain b2 r where run: "apply_transaction lib txl env True key tx ?ctx ?v b1 = (b2, r)"
    by (cases "apply_transaction lib txl env True key tx ?ctx ?v b1")
  have inv2: "cache_inv lib b2" by (rule apply_transaction_cache_inv [OF run kept(1)])
  have b2: "bridge_after_send lib txl env cfg tx s b1 = b2" using key run by (simp add: bridge_after_send_def)
  consider (refused) e where "r1 = Inl e" | (failed) e where "r1 = Inr ()" "r = Inl e" | (applied) ev where "r1 = Inr ()" "r = Inr ev"
    by (cases r1; cases r) auto
  then show ?thesis
  proof cases
    case refused
    have "\<not> tx_acceptable lib txl ?v ?ctx tx l"
      using acceptable_guaranteed [OF _ inv l, of txl ?v ?ctx tx] vg refused by auto
    then have "ledger_step lib txl ?v ?ctx (XTransaction tx :: ('acc, 'o) mn_extrinsic) l l" by (rule transaction_skipped)
    moreover have "node_loads lib (s, b1) l" by (rule node_loadsI [OF key kept(2,1)])
    moreover have "node_extrinsic lib txl ql env cfg (XTransaction tx :: ('acc, 'o) mn_extrinsic) (s, b) = Returns (s, b1)"
      using key vg refused b1 by (simp add: pre_dispatch_def Let_def)
    ultimately show ?thesis using same_block_refl by blast
  next
    case failed
    have "\<not> tx_acceptable lib txl ?v ?ctx tx l"
      using acceptable_applied [OF ok _ kept(1,2), of ?v ?ctx tx env True] run failed by auto
    then have "ledger_step lib txl ?v ?ctx (XTransaction tx :: ('acc, 'o) mn_extrinsic) l l" by (rule transaction_skipped)
    moreover have "get_ledger lib key b2 = Inr l"
      using get_ledger_arena [OF apply_transaction_errD [OF run [unfolded failed(2)]], of lib key] kept(2) by simp
    then have "node_loads lib (s, b2) l" using key inv2 by (intro node_loadsI)
    moreover have "node_extrinsic lib txl ql env cfg (XTransaction tx :: ('acc, 'o) mn_extrinsic) (s, b) = Returns (s, b2)"
      using key vg run failed b1 b2 by (simp add: pre_dispatch_def fst_send_mn_transaction [OF key] Let_def)
    ultimately show ?thesis using same_block_refl by blast
  next
    case applied
    obtain new where new: "ledger_step lib txl ?v ?ctx (XTransaction tx :: ('acc, 'o) mn_extrinsic) l new"
      "get_ledger lib (ta_state_root ev) b2 = Inr new" "serialize_key lib (typed_key lib new) = Some (ta_state_root ev)"
      by (rule apply_transaction_ledger_step [OF run [unfolded applied(2)] ledger_lib_okD(1) [OF ok] kept(2,1)])
    let ?s = "mn_deposit_all (applied_events ev) (put_state_key (ta_state_root ev) s)"
    have "node_extrinsic lib txl ql env cfg (XTransaction tx :: ('acc, 'o) mn_extrinsic) (s, b) = Returns (?s, b2)"
      using key vg run applied b1 b2 ledger_lib_okD(3) [OF ok new(3)]
      by (simp add: pre_dispatch_def fst_send_mn_transaction [OF key] Let_def)
    moreover have "node_loads lib (?s, b2) new" by (rule node_loadsI [OF _ new(2) inv2]) simp
    moreover have "same_block s ?s" by simp
    ultimately show ?thesis using new(1) by blast
  qed
qed

subsection \<open>System transactions\<close>

lemma system_tx_outcome:
  assumes ok: "ledger_lib_ok lib txl" and allowed: "is_governance_allowed_system_tx lib tx"
    and l: "get_ledger lib key b = Inr l" and inv: "cache_inv lib b"
    and run: "apply_system_transaction lib key tx ctx b = (b', r)"
  obtains (failed) e where "r = Inl e" "b' = b"
      "ledger_step lib txl v ctx (XSystemTransaction Root tx :: ('acc, 'o) mn_extrinsic) l l"
  | (applied) ev new where "r = Inr ev" "get_ledger lib (sta_state_root ev) b' = Inr new" "cache_inv lib b'"
      "ledger_step lib txl v ctx (XSystemTransaction Root tx :: ('acc, 'o) mn_extrinsic) l new"
proof -
  from allowed obtain t where t: "deserialize_system_tx lib tx = Some t" "system_kind lib t = OverwriteParameters"
    by (auto simp: is_governance_allowed_system_tx_def split: option.splits)
  show thesis
  proof (cases "ledger_apply_system_tx lib l t (tblock ctx)")
    case (Inl e)
    have "r = Inl e \<and> b' = b"
      using run t l Inl
      by (auto simp: apply_system_transaction_def tagged_deserialize_def st_bind_def st_lift_def st_gets_def)
    moreover have "ledger_step lib txl v ctx (XSystemTransaction Root tx :: ('acc, 'o) mn_extrinsic) l l"
      using t Inl by (intro system_skipped) simp
    ultimately show thesis using failed by blast
  next
    case (Inr new)
    obtain bs where bs: "serialize_key lib (typed_key lib new) = Some bs" using ledger_lib_okD(4) [OF ok] by blast
    obtain ev where ev: "r = Inr ev" "sta_state_root ev = bs" "b' = persist lib new b"
      using run t l Inr bs
      by (auto simp: apply_system_transaction_def tagged_deserialize_def tagged_serialize_def st_bind_def st_lift_def
          st_gets_def st_modify_def)
    have "get_ledger lib (sta_state_root ev) b' = Inr new"
      unfolding ev(2,3) by (rule stored_loads [OF ledger_lib_okD(1) [OF ok] bs])
    moreover have "cache_inv lib b'" using inv by (simp add: ev(3))
    moreover have "ledger_step lib txl v ctx (XSystemTransaction Root tx :: ('acc, 'o) mn_extrinsic) l new"
      by (rule system_step [OF t Inr])
    ultimately show thesis using applied ev(1) by blast
  qed
qed

lemma system_extrinsic_step:
  assumes ok: "ledger_lib_ok lib txl" and key: "state_key s = Some key" and l: "get_ledger lib key b = Inr l"
    and inv: "cache_inv lib b"
  shows "\<exists>s' b' l'. node_extrinsic lib txl ql env cfg (XSystemTransaction origin tx :: ('acc, 'o) mn_extrinsic) (s, b) = Returns (s', b') \<and>
    node_loads lib (s', b') l' \<and> same_block s s' \<and>
    ledger_step lib txl (spec_version cfg) (get_block_context s) (XSystemTransaction origin tx) l l'"
proof -
  let ?api = "ledger8_host lib txl ql env b" and ?ctx = "get_block_context s" and ?x = "XSystemTransaction origin tx"
  obtain s' q where send: "send_mn_system_transaction ?api cfg origin tx s = Returns (s', q)"
    using system_transaction_returns [OF host_fits [OF ok]] key by blast
  then have run: "node_extrinsic lib txl ql env cfg ?x (s, b) = Returns (s', bridge_after_system lib origin tx s b)" by simp
  have "apply_extrinsic ?api cfg ?x s = Returns s'" using send by simp
  note pallet = apply_extrinsic_step [OF key this]
  show ?thesis
  proof (cases "origin = Root \<and> is_governance_allowed_system_tx lib tx")
    case True
    obtain b' r where sys: "apply_system_transaction lib key tx ?ctx b = (b', r)"
      by (cases "apply_system_transaction lib key tx ?ctx b")
    have b': "bridge_after_system lib origin tx s b = b'" using True key sys by (simp add: bridge_after_system_def)
    from True have allowed: "is_governance_allowed_system_tx lib tx" and root: "origin = Root" by auto
    show ?thesis
    proof (rule system_tx_outcome [OF ok allowed l inv sys, where v = "spec_version cfg"])
      fix e assume *: "r = Inl e" "b' = b" "ledger_step lib txl (spec_version cfg) ?ctx (XSystemTransaction Root tx :: ('acc, 'o) mn_extrinsic) l l"
      have "state_key s' = Some key" using pallet root allowed sys *(1) by simp
      then have "node_loads lib (s', b) l" by (rule node_loadsI [OF _ l inv])
      then show ?thesis using run b' *(2,3) pallet root by auto
    next
      fix ev new assume *: "r = Inr ev" "get_ledger lib (sta_state_root ev) b' = Inr new" "cache_inv lib b'"
        "ledger_step lib txl (spec_version cfg) ?ctx (XSystemTransaction Root tx :: ('acc, 'o) mn_extrinsic) l new"
      have "state_key s' = Some (sta_state_root ev)" using pallet root allowed sys *(1) by simp
      then have "node_loads lib (s', b') new" by (rule node_loadsI [OF _ *(2,3)])
      then show ?thesis using run b' *(4) pallet root by auto
    qed
  next
    case False
    have "ledger_step lib txl (spec_version cfg) ?ctx (?x :: ('acc, 'o) mn_extrinsic) l l"
      using False by (intro system_skipped) (auto simp: is_governance_allowed_system_tx_def)
    moreover have "bridge_after_system lib origin tx s b = b" using False key by (auto simp: bridge_after_system_def)
    moreover have "state_key s' = Some key" using pallet False by auto
    then have "node_loads lib (s', b) l" by (rule node_loadsI [OF _ l inv])
    ultimately show ?thesis using run pallet by auto
  qed
qed

subsection \<open>Blocks\<close>

lemma node_loadsE:
  assumes "node_loads lib n l"
  obtains s b key where "n = (s, b)" "state_key s = Some key" "get_ledger lib key b = Inr l" "cache_inv lib b"
  using assms by (cases n) (auto simp: node_loads_def)

lemma node_extrinsic_step:
  assumes ok: "ledger_lib_ok lib txl" and loads: "node_loads lib (s, b) l"
  shows "\<exists>s' b' l'. node_extrinsic lib txl ql env cfg x (s, b) = Returns (s', b') \<and> node_loads lib (s', b') l' \<and>
    same_block s s' \<and> ledger_step lib txl (spec_version cfg) (get_block_context s) x l l'"
  using loads
proof (rule node_loadsE)
  fix s0 b0 key
  assume "(s, b) = (s0, b0)" and state: "state_key s0 = Some key" "get_ledger lib key b0 = Inr l" "cache_inv lib b0"
  then have eq: "s0 = s" "b0 = b" by simp_all
  note state = state [unfolded eq]
  show ?thesis
  proof (cases x)
    case (XTransaction tx)
    show ?thesis unfolding XTransaction by (rule transaction_extrinsic_step [OF ok state])
  next
    case (XSystemTransaction origin tx)
    show ?thesis unfolding XSystemTransaction by (rule system_extrinsic_step [OF ok state])
  next
    case (XSetWeight origin w)
    let ?s = "fst (set_tx_size_weight origin w s)"
    have "same_block s ?s" "state_key ?s = Some key" using state(1) by (simp_all add: fst_set_tx_size_weight)
    moreover from this(2) have "node_loads lib (?s, b) l" by (rule node_loadsI [OF _ state(2,3)])
    ultimately show ?thesis unfolding XSetWeight by (auto intro: weight_step)
  qed
qed

lemma node_extrinsics_run:
  assumes ok: "ledger_lib_ok lib txl" and "node_loads lib (s, b) l"
  shows "\<exists>s' b' l'. node_extrinsics lib txl ql env cfg xs (s, b) = Returns (s', b') \<and> node_loads lib (s', b') l' \<and>
    same_block s s' \<and> ledger_run lib txl (spec_version cfg) (get_block_context s) xs l l'"
  using assms(2)
proof (induction xs arbitrary: s b l)
  case Nil
  then show ?case by (auto intro: run_done)
next
  case (Cons x xs)
  from node_extrinsic_step [OF ok Cons.prems] obtain s1 b1 l1 where
    first: "node_extrinsic lib txl ql env cfg x (s, b) = Returns (s1, b1)" "node_loads lib (s1, b1) l1" "same_block s s1"
      "ledger_step lib txl (spec_version cfg) (get_block_context s) x l l1" by blast
  from Cons.IH [OF first(2)] obtain s2 b2 l2 where
    rest: "node_extrinsics lib txl ql env cfg xs (s1, b1) = Returns (s2, b2)" "node_loads lib (s2, b2) l2" "same_block s1 s2"
      "ledger_run lib txl (spec_version cfg) (get_block_context s1) xs l1 l2" by blast
  have "ledger_run lib txl (spec_version cfg) (get_block_context s) (x # xs) l l2"
    using run_step [OF first(4)] rest(4) unfolding same_block_context [OF first(3)] by blast
  moreover have "node_extrinsics lib txl ql env cfg (x # xs) (s, b) = Returns (s2, b2)" using first(1) rest(1) by simp
  ultimately show ?case using rest(2) same_block_trans [OF first(3) rest(3)] by blast
qed

lemma post_block_update_closes:
  assumes ok: "ledger_lib_ok lib txl" and l: "get_ledger lib key b = Inr l" and inv: "cache_inv lib b"
  obtains b' root l' where "post_block_update lib key ctx b = Returns (b', Inr root)" "ledger_closed lib ctx l l'"
    "get_ledger lib root b' = Inr l'" "cache_inv lib b'" "length root \<le> state_key_length"
proof -
  obtain n where n: "clamp_and_normalize (cost_normalize lib) (l_block_fullness l) (block_limits lib (l_state l)) = Returns n"
    using clamp_returns [OF ledger_lib_okD(2) [OF ok]] by blast
  obtain st where st: "state_post_block_update lib (l_state l) (tblock ctx) n (compute_overall_fullness n) = Some st"
    using ledger_lib_okD(5) [OF ok] by blast
  let ?l = "ledger_new st"
  obtain root where root: "serialize_key lib (typed_key lib ?l) = Some root" using ledger_lib_okD(4) [OF ok] by blast
  show thesis
  proof (rule that)
    show "post_block_update lib key ctx b = Returns (persist lib ?l b, Inr root)"
      using l n st root
      by (simp add: post_block_update_def ledger_post_block_update_def tagged_serialize_def st_bind_def st_lift_def st_modify_def)
    show "ledger_closed lib ctx l ?l" using n st unfolding ledger_closed_def by blast
    show "get_ledger lib root (persist lib ?l b) = Inr ?l" by (rule stored_loads [OF ledger_lib_okD(1) [OF ok] root])
    show "cache_inv lib (persist lib ?l b)" using inv by simp
    show "length root \<le> state_key_length" by (rule ledger_lib_okD(3) [OF ok root])
  qed
qed

lemma node_finalize_step:
  assumes ok: "ledger_lib_ok lib txl" and loads: "node_loads lib (s, b) l"
  shows "\<exists>n l'. node_finalize lib txl ql env (s, b) = Returns n \<and> node_loads lib n l' \<and>
    ledger_closed lib (get_block_context s) l l' \<and> now_ms (fst n) = now_ms s"
  using loads
proof (rule node_loadsE)
  fix s0 b0 key
  assume "(s, b) = (s0, b0)" and state: "state_key s0 = Some key" "get_ledger lib key b0 = Inr l" "cache_inv lib b0"
  then have eq: "s0 = s" "b0 = b" by simp_all
  note state = state [unfolded eq]
  show ?thesis
  proof (rule post_block_update_closes [OF ok state(2,3), where ctx = "get_block_context s"])
    fix b' root l'
    assume closed: "post_block_update lib key (get_block_context s) b = Returns (b', Inr root)"
      "ledger_closed lib (get_block_context s) l l'" "get_ledger lib root b' = Inr l'" "cache_inv lib b'"
      "length root \<le> state_key_length"
    have "mn_on_finalize (ledger8_host lib txl ql env b) s = Returns (put_state_key root s)"
      using state(1) closed(1,5) by (simp add: mn_on_finalize_def panic_as_error_def bounded_vec_try_from_def)
    then have "node_finalize lib txl ql env (s, b) = Returns (put_state_key root s, b')"
      using state(1) closed(1) by (simp add: node_finalize_def)
    moreover have "node_loads lib (put_state_key root s, b') l'" by (rule node_loadsI [OF _ closed(3,4)]) simp
    moreover have "now_ms (fst (put_state_key root s, b')) = now_ms s" by simp
    ultimately show ?thesis using closed(2) by blast
  qed
qed

subsection \<open>Chains\<close>

lemma node_block_step:
  assumes ok: "ledger_lib_ok lib txl" and loads: "node_loads lib (s, b) l"
  shows "\<exists>n l1 l2. node_block lib txl ql env cfg (time, parent, xs) (s, b) = Returns n \<and>
    ledger_run lib txl (spec_version cfg) (abs_context time parent (now_ms s)) xs l l1 \<and>
    ledger_closed lib (abs_context time parent (now_ms s)) l1 l2 \<and> node_loads lib n l2"
proof -
  let ?s = "(fst (mn_on_initialize (s\<lparr> parent_hash := parent \<rparr>)))\<lparr> now_ms := time \<rparr>"
  have "node_loads lib (?s, b) l" using loads by (simp add: node_loads_def)
  from node_extrinsics_run [OF ok this] obtain s1 b1 l1 where
    run: "node_extrinsics lib txl ql env cfg xs (?s, b) = Returns (s1, b1)" "node_loads lib (s1, b1) l1" "same_block ?s s1"
      "ledger_run lib txl (spec_version cfg) (get_block_context ?s) xs l l1" by blast
  from node_finalize_step [OF ok run(2)] obtain n l2 where
    fin: "node_finalize lib txl ql env (s1, b1) = Returns n" "node_loads lib n l2" "ledger_closed lib (get_block_context s1) l1 l2"
    by blast
  have "node_block lib txl ql env cfg (time, parent, xs) (s, b) = Returns n"
    using run(1) fin(1) by (simp add: node_block_def)
  moreover have "get_block_context s1 = get_block_context ?s" by (rule same_block_context [OF run(3)])
  ultimately show ?thesis using run(4) fin(2,3) by (metis block_start_simps(3))
qed

lemma node_blocks_return:
  assumes ok: "ledger_lib_ok lib txl" and "node_loads lib n l"
  shows "\<exists>n' l'. node_blocks lib txl ql env cfg blocks n = Returns n' \<and> node_loads lib n' l'"
  using assms(2)
proof (induction blocks arbitrary: n l)
  case (Cons blk blocks)
  obtain time parent xs s b where eq: "blk = (time, parent, xs)" "n = (s, b)" by (cases blk; cases n)
  from node_block_step [OF ok Cons.prems [unfolded eq(2)]] obtain n1 l1 where
    "node_block lib txl ql env cfg (time, parent, xs) (s, b) = Returns n1" "node_loads lib n1 l1" by blast
  with Cons.IH [OF this(2)] show ?case by (simp add: eq)
qed auto

lemma demo_node_lib_ok: "ledger_lib_ok demo_node_lib demo_tx_lib"
  using demo_normalize_law
  by (simp add: ledger_lib_ok_def demo_node_lib_def key_roundtrip_def demo_tx_lib_def state_key_length_def)

lemma demo_node_allocates:
  "alloc_with_initial_state demo_node_lib (\<lambda>bs. Some (hd bs)) [5] (fresh_bridge (\<lambda>_. None)) = Returns (demo_chain_bridge, [5])"
  by (simp add: alloc_with_initial_state_def demo_chain_bridge_def demo_node_lib_def ledger_new_def)

lemma demo_node_initializes: "initialize_state [2] [5] mn_empty = Returns demo_chain_state"
  by (simp add: initialize_state_def demo_chain_state_def bounded_vec_try_from_def state_key_length_def max_network_id_length_def)

lemma demo_node_loads: "node_loads demo_node_lib (demo_chain_state, demo_chain_bridge) (ledger_new 5)"
  by (rule node_loadsI [of _ "[5]"])
    (simp_all add: demo_chain_state_def put_state_key_def demo_chain_bridge_def demo_node_lib_def get_ledger_def tagged_deserialize_def
      ledger_new_def, simp add: cache_inv_def fresh_bridge_def)

section \<open>Properties\<close>

text \<open>
  C1: a block executes the ledger library.  With a library that meets its demands, and from a chain
  whose state key loads a ledger, executing a block returns: the pallets and the bridge together
  take the ledger through the extrinsics in their order, under one context, each of them applied or
  left out as it must be, and then close the block; the new state key loads the closed ledger.
\<close>
theorem node_block_refines_library:
  assumes "ledger_lib_ok lib txl" and "node_loads lib (s, b) l"
  shows "\<exists>n l1 l2. node_block lib txl ql env cfg (time, parent, xs) (s, b) = Returns n \<and>
    ledger_run lib txl (spec_version cfg) (abs_context time parent (now_ms s)) xs l l1 \<and>
    ledger_closed lib (abs_context time parent (now_ms s)) l1 l2 \<and> node_loads lib n l2"
  by (rule node_block_step [OF assms])

theorem node_block_refines_library_witness:
  "\<exists>n l1 l2. node_block demo_node_lib demo_tx_lib demo_query_lib demo_override_env demo_config
      (6000, replicate 32 7, [XTransaction [1], XSystemTransaction Root [2], XTransaction []] :: (nat, nat) mn_extrinsic list)
      (demo_chain_state, demo_chain_bridge) = Returns n \<and>
    ledger_run demo_node_lib demo_tx_lib (spec_version demo_config) (abs_context 6000 (replicate 32 7) (now_ms demo_chain_state))
      [XTransaction [1], XSystemTransaction Root [2], XTransaction [] :: (nat, nat) mn_extrinsic] (ledger_new 5) l1 \<and>
    ledger_closed demo_node_lib (abs_context 6000 (replicate 32 7) (now_ms demo_chain_state)) l1 l2 \<and> node_loads demo_node_lib n l2"
  by (rule node_block_refines_library [OF demo_node_lib_ok demo_node_loads])



end
