(* ===== verification/Spec2Isabelle.thy ===== *)
theory Spec2Isabelle
  imports Federated_Authority Inherent_Providers System_Parameters Runtime_Policy Beefy_Relay Ledger_Host
begin

text \<open>
  A verification library for the Midnight node, a Substrate chain (\<^verbatim>\<open>src/\<close>) that carries the
  Midnight ledger and observes the Cardano main chain.

  \<^bold>\<open>The program and how its parts interact.\<close>  The runtime (\<^verbatim>\<open>runtime/\<close>) composes FRAME pallets
  (\<^verbatim>\<open>pallets/\<close>).  The Midnight pallet stores a state key and moves it through the host functions of
  the ledger (\<^verbatim>\<open>ledger/\<close>), which load a ledger from an arena, verify and apply transactions, and
  persist the result under a new key.  The Midnight system pallet does the same for system
  transactions, on behalf of governance and of the cNIGHT observation pallet.  Inherents carry what
  the block author observed on Cardano (\<^verbatim>\<open>primitives/mainchain-follower\<close>): token movements, from
  which the cNIGHT observation pallet derives dust events, and governance datums, from which the
  federated authority observation pallet resets the two governance bodies.  The federated authority
  pallet dispatches motions that enough bodies approved.  Transaction extensions limit what signed
  accounts can submit.  The node signs BEEFY payloads with the stakes of the validators, and the relay
  (\<^verbatim>\<open>relay/\<close>) turns the signed commitments into proofs for Cardano.

  \<^bold>\<open>Conventions\<close> (\<^verbatim>\<open>Node_Prelude\<close>).  Machine integers are words of their width, a Rust \<^verbatim>\<open>Result\<close>
  is a sum with the error on the left, a panic is \<^verbatim>\<open>Panics\<close> of the type \<^verbatim>\<open>outcome\<close>, a dispatchable is a
  function from the storage to the storage and a result; \<^verbatim>\<open>with_storage_layer\<close> discards the changes
  of a call that fails.  \<^verbatim>\<open>st_bind\<close> sequences fallible steps whose changes persist, as in the host
  functions.  The locale \<^verbatim>\<open>transactional\<close> is the contract of a dispatchable.  Names of definitions
  are those of the source; a prefix (\<^verbatim>\<open>cn_\<close>, \<^verbatim>\<open>mn_\<close>, \<^verbatim>\<open>fao_\<close>, \<^verbatim>\<open>bridge_\<close>) tells operations of the same
  name apart.

  \<^bold>\<open>Theories, the code they model, and what their lemmas show.\<close>

  \<^item> \<^verbatim>\<open>Federated_Authority\<close>: \<^verbatim>\<open>pallets/federated-authority/src/{lib,types}.rs\<close>.  The origin manager,
    the motions and their three dispatchables, and the transition system of all calls with rule
    induction for its invariant: a motion is dispatched only with approvals of every body.

  \<^item> \<^verbatim>\<open>Cnight_Primitives\<close>, \<^verbatim>\<open>Inherents\<close>, \<^verbatim>\<open>Cnight_Observation\<close>: \<^verbatim>\<open>primitives/cnight-observation\<close> and
    \<^verbatim>\<open>pallets/cnight-observation\<close>.  Positions and observed UTXOs with their orders (locale
    \<^verbatim>\<open>total_cmp\<close>), genesis, inherents (locale \<^verbatim>\<open>inherent_provider\<close>), \<^verbatim>\<open>process_tokens\<close> and its handlers:
    the registry follows the events, positions never move back, dust is attributed to the key of
    the creation.

  \<^item> \<^verbatim>\<open>Cnight_Data_Source\<close>: the queries and the decoding of
    \<^verbatim>\<open>primitives/mainchain-follower/src/{data_source,db}\<close> over db-sync tables: a window of
    observations is complete, ordered and splits no transaction.

  \<^item> \<^verbatim>\<open>Ledger_Errors\<close>, \<^verbatim>\<open>Ledger_Conversions\<close>, \<^verbatim>\<open>Ledger_Types\<close>: the error types of the ledger with their
    byte codes, the conversion of the errors of the ledger library, and the types that cross the
    host interface (\<^verbatim>\<open>ledger/src/versions/common/{types,conversions}.rs\<close>, \<^verbatim>\<open>ledger/src/common/types.rs\<close>,
    \<^verbatim>\<open>block_context/post_ledger_8.rs\<close>).

  \<^item> \<^verbatim>\<open>Ledger_Transaction\<close>, \<^verbatim>\<open>Utxo_Ordering\<close>, \<^verbatim>\<open>Ledger_Cost\<close>: the unshielded UTXOs and operations of
    a transaction (\<^verbatim>\<open>api/transaction.rs\<close>), the ordering override (\<^verbatim>\<open>utxo_ordering_override.rs\<close>), and
    the cost of blocks (\<^verbatim>\<open>ledger/helpers\<close>): what is reported, in which order, and that closing a block
    cannot panic on its cost.

  \<^item> \<^verbatim>\<open>Ledger_Bridge\<close>, \<^verbatim>\<open>Bridge_Queries\<close>, \<^verbatim>\<open>Bridge_Facts\<close>, \<^verbatim>\<open>Bridge_Properties\<close>: the host functions
    of \<^verbatim>\<open>ledger/src/versions/common/mod.rs\<close> and \<^verbatim>\<open>api/ledger.rs\<close> over the arena, the two validation
    caches and the cells of the override.  \<^verbatim>\<open>bridge_step\<close> is the transition system of all host
    calls and evictions; its invariants give that cached entries were verified and that stored
    states stay loadable.

  \<^item> \<^verbatim>\<open>System_Tx_Executor\<close>, \<^verbatim>\<open>Midnight_Pallet\<close>: \<^verbatim>\<open>pallets/midnight\<close> and \<^verbatim>\<open>pallets/midnight-system\<close>
    over an arbitrary \<^verbatim>\<open>LedgerApi\<close>, with the refinement of a block by an abstract block on keys.

  \<^item> \<^verbatim>\<open>Ledger_Host\<close>: the host functions of \<^verbatim>\<open>ledger/src/host_api/ledger_8.rs\<close> as that \<^verbatim>\<open>LedgerApi\<close>,
    and the execution of blocks by pallets and bridge together: a block refines the ledger library,
    and a node never halts.

  \<^item> \<^verbatim>\<open>Federated_Authority_Observation\<close>: \<^verbatim>\<open>pallets/federated-authority-observation\<close> with its primitives
    and the membership handlers of \<^verbatim>\<open>runtime/common/src/governance.rs\<close>.

  \<^item> \<^verbatim>\<open>Fa_Data_Source\<close>, \<^verbatim>\<open>Inherent_Providers\<close>: the query and the decoding of the governance datums
    and the inherent data providers (\<^verbatim>\<open>primitives/mainchain-follower/src/{data_source,idp}\<close>): the
    members in the latest governance datums are the members a block installs.

  \<^item> \<^verbatim>\<open>System_Parameters\<close>, \<^verbatim>\<open>Throttle\<close>, \<^verbatim>\<open>Runtime_Policy\<close>: the pallets of these names, the call filter,
    the session manager, the BEEFY stakes and the version digest of \<^verbatim>\<open>runtime/src\<close>.

  \<^item> \<^verbatim>\<open>Beefy_Relay\<close>: the payload of \<^verbatim>\<open>node/src/payload.rs\<close> and the relay from a justification to
    the encoded proof: its root is the commitment of the runtime's authority set, each vote belongs
    to the leaf at its index, and the encoding is injective.

  \<^item> This theory: the cNIGHT observation pallet over the system transaction executor of the runtime
    (locale \<^verbatim>\<open>cnight_executor\<close>), the data source with the pallet, and the inherents of both
    observation pallets together.

  \<^bold>\<open>Parameters and hypotheses.\<close>  Code outside the repository is an argument of the definitions that
  use it: FRAME's membership and collective pallets, hash functions, the Cardano address and plutus libraries,
  db-sync's tables, the file system, and the ledger library as the records \<^verbatim>\<open>ledger_lib\<close>, \<^verbatim>\<open>tx_lib\<close>
  and \<^verbatim>\<open>query_lib\<close>.  Theorems name what they ask of it: \<^verbatim>\<open>key_roundtrip\<close> (a serialized arena key is
  read back), injectivity of arena keys, \<^verbatim>\<open>normalize_within_limits\<close> (a cost within the limits can be
  normalized), \<^verbatim>\<open>host_in_bounds\<close> and \<^verbatim>\<open>ledger_lib_ok\<close> (keys fit 1065 bytes, a block can be closed),
  and \<^verbatim>\<open>relay_laws\<close> (payload entries and SCALE codecs round-trip, the Merkle trees of relay and runtime
  have the same roots, signatures are verified one per validator).
  Every such hypothesis is shown to hold for a concrete library in the witness of the theorem.

  \<^bold>\<open>Bounds and termination.\<close>  All recursive definitions are total: loops run over lists, and no
  definition needs fuel.  Lengths that the code casts to \<^verbatim>\<open>u32\<close> are cast here too; counters of 64
  bits that would have to be exceeded by the length of a list saturate as in the code.

  \<^bold>\<open>Not modelled.\<close>  Logging and metrics; the asynchronous and network parts of the node (service, RPC,
  command line, configuration), which orchestrate third party code; serialization formats, which the
  ledger library and SCALE define; the construction of transactions in \<^verbatim>\<open>ledger/helpers\<close> and the
  toolkit, which serve tools and tests; earlier host interfaces, which call the same bridge with
  other types; the eviction policy of the caches, where eviction may happen at any time.
\<close>

section \<open>The runtime: cNIGHT observation over the system transaction executor\<close>

definition node_env ::
  "(bytes \<Rightarrow> bytes) \<Rightarrow> (u128 \<Rightarrow> bytes \<Rightarrow> u64 \<Rightarrow> byte \<Rightarrow> bytes \<Rightarrow> (ledger_api_error, bytes) result) \<Rightarrow>
   (bytes list \<Rightarrow> (ledger_api_error, bytes) result) \<Rightarrow> ledger_api \<Rightarrow> mn_config \<Rightarrow>
   (mn_state, ledger_api_error, system_failure) cnight_env" where
  "node_env hash dust_event system_tx api cfg =
     \<lparr> env_hash = hash, construct_dust_event = dust_event, construct_system_tx = system_tx,
       execute_system_tx = (\<lambda>tx s. case executor_dispatch api cfg tx s of
         (s', Inl e) \<Rightarrow> (s', Inl (ModuleError (Inr e)))
       | (s', Inr h) \<Rightarrow> (s', Inr h)) \<rparr>"

definition demo_node_env :: "(mn_state, ledger_api_error, system_failure) cnight_env" where
  "demo_node_env = node_env (\<lambda>bs. bs) (\<lambda>v k t a n. Inr k) (\<lambda>evs. Inr (concat evs)) demo_api demo_config"

definition demo_node_state :: "mn_state cn_state" where
  "demo_node_state = (cn_empty demo_genesis_state)\<lparr> mappings := [[9] \<mapsto> [\<lparr> me_reward_address = [9],
     me_dust_public_key = [4], me_utxo_tx_hash = [], me_utxo_index = 0 \<rparr>]] \<rparr>"

definition demo_node_utxos :: "observed_utxo list" where
  "demo_node_utxos = [\<lparr> utxo_header = demo_header, utxo_data = AssetCreate (demo_create\<lparr> create_owner := [9] \<rparr>) \<rparr>]"

definition demo_parent :: "bytes list cn_state" where
  "demo_parent = (cn_empty [])\<lparr> validator_address := [8], cnight_identifier := (replicate 28 2, [3]),
     next_cardano_position := demo_start, cardano_tx_capacity_per_block := 2 \<rparr>"

interpretation node_executor: cnight_executor "node_env hash dust_event system_tx api cfg" mn_inv applied_system_txs
  for hash dust_event system_tx api cfg
proof
  fix tx s s' e
  assume "execute_system_tx (node_env hash dust_event system_tx api cfg) tx s = (s', Inl e)"
  then obtain d where "executor_dispatch api cfg tx s = (s', Inl d)"
    by (auto simp: node_env_def split: prod.splits sum.splits)
  then show "s' = s" by (rule midnight_executor.failed_unchanged)
next
  fix tx s s' h
  assume "execute_system_tx (node_env hash dust_event system_tx api cfg) tx s = (s', Inr h)"
  then have run: "executor_dispatch api cfg tx s = (s', Inr h)"
    by (auto simp: node_env_def split: prod.splits sum.splits)
  then show "applied_system_txs s' = applied_system_txs s @ [tx]" by (rule midnight_executor.applied_once)
  assume "mn_inv s"
  then show "mn_inv s'" using run by (rule midnight_executor.keeps_inv)
qed

lemma demo_node_rest [simp]: "cn_rest demo_node_state = demo_genesis_state"
  by (simp add: demo_node_state_def cn_empty_def)

lemma demo_node_events:
  "snd (process_utxos demo_node_env demo_node_utxos (demo_node_state\<lparr> inherent_executed_this_block := True \<rparr>)) = [[4]]"
  by (simp add: process_utxos_def demo_node_utxos_def process_utxo_def handle_create_def get_registration_def
      get_mappings_def demo_node_state_def cn_empty_def demo_create_def demo_node_env_def node_env_def Let_def)

lemma demo_node_executes: "\<exists>w. execute_system_tx demo_node_env [4] demo_genesis_state = (w, Inr [4])"
  by (simp add: demo_node_env_def node_env_def executor_dispatch_def execute_system_transaction_def
      mut_ledger_state_def get_ledger_state_key_def apply_system_closure_def demo_genesis_state_def
      demo_api_def bounded_vec_try_from_def state_key_length_def)

lemma demo_node_accepts:
  "\<exists>s' info. process_tokens demo_node_env demo_none demo_node_utxos (demo_position 2) demo_node_state = (s', Inr info)"
proof -
  let ?s1 = "demo_node_state\<lparr> inherent_executed_this_block := True \<rparr>"
  obtain s2 where p: "process_utxos demo_node_env demo_node_utxos ?s1 = (s2, [[4]])"
    using demo_node_events by (metis prod.collapse)
  have "cn_rest s2 = demo_genesis_state"
    using process_utxos_same_header [of ?s1 demo_node_env demo_node_utxos] p by (simp add: same_header_def)
  moreover have "construct_system_tx demo_node_env [[4]] = Inr [4]" by (simp add: demo_node_env_def node_env_def)
  ultimately have "snd (apply_dust_events demo_node_env (demo_position 2) [[4]] (s2\<lparr> next_cardano_position := demo_position 2 \<rparr>)) = Inr ()"
    using demo_node_executes by (auto simp: apply_dust_events_def)
  then have "is_ok (snd (process_tokens demo_node_env demo_none demo_node_utxos (demo_position 2) demo_node_state))"
    by (subst process_tokens_guarded [OF _ _ _ p])
      (simp_all add: demo_node_state_def cn_empty_def demo_node_utxos_def position_ge_key position_key_def
        demo_position_def default_position_def saturating_mul_def DEFAULT_CARDANO_TX_CAPACITY_PER_BLOCK_def
        UTXO_PER_TX_OVERESTIMATE_def word_le_nat_alt)
  then show ?thesis
    by (cases "process_tokens demo_node_env demo_none demo_node_utxos (demo_position 2) demo_node_state")
      (auto simp: is_ok_iff)
qed

section \<open>Properties that span components\<close>





lemma window_fits_pallet:
  assumes "get_utxos_up_to_capacity lib db addresses start tip (unat (cardano_tx_capacity_per_block s)) = Returns (Inr r)"
    and "2 \<le> unat (cardano_tx_capacity_per_block s)"
    and "\<And>k. length (filter (\<lambda>u. utxo_pos u = k) (observed r)) \<le> 64"
    and "\<not> inherent_executed_this_block s" and "position_ge (utxos_end r) (next_cardano_position s)"
  shows "case snd (process_tokens env (NoneOrigin :: ('acc, 'o) raw_origin) (observed r) (utxos_end r) s) of
      Inr info \<Rightarrow> True
    | Inl e \<Rightarrow> \<exists>tx w. snd (execute_system_tx env tx w) = Inl e"
proof -
  obtain s2 events where p: "process_utxos env (observed r) (s\<lparr> inherent_executed_this_block := True \<rparr>) = (s2, events)"
    by (cases "process_utxos env (observed r) (s\<lparr> inherent_executed_this_block := True \<rparr>)")
  have len: "length (observed r) \<le> unat (cardano_tx_capacity_per_block s) * 64"
    by (rule observed_length [OF assms(1,2,3)])
  have "unat (of_nat (length (observed r)) :: u32) \<le> min (unat (cardano_tx_capacity_per_block s) * 64) (2 ^ 32 - 1)"
    using len unat_bound [of "of_nat (length (observed r)) :: u32"]
    by (auto simp: unsigned_of_nat take_bit_eq_mod intro: order.trans [OF mod_less_eq_dividend])
  then have "(of_nat (length (observed r)) :: u32) \<le>
      saturating_mul (cardano_tx_capacity_per_block s) UTXO_PER_TX_OVERESTIMATE"
    by (simp add: word_le_nat_alt unat_saturating_mul UTXO_PER_TX_OVERESTIMATE_def)
  note run = process_tokens_guarded [OF assms(4,5) this p, where ?'acc = 'acc and ?'o = 'o]
  show ?thesis
  proof (cases "apply_dust_events env (utxos_end r) events (s2\<lparr> next_cardano_position := utxos_end r \<rparr>)")
    case (Pair t q)
    with run apply_dust_events_errD [of env "utxos_end r" events "s2\<lparr> next_cardano_position := utxos_end r \<rparr>" t]
    show ?thesis by (cases q) auto
  qed
qed





end
